(* ===== verification/Prelude.thy ===== *)
theory Prelude
  imports Main "HOL-Library.Word" "HOL-Library.Char_ord" "HOL-Library.List_Lexorder"
    "HOL-Library.Code_Target_Nat"
begin

text \<open>
  Shared vocabulary of the development: Rust's \<open>Result\<close> as a sum type, effectful
  functions as state transformers with an error result, a small calculus of triples for
  them, and the operations of Rust's \<open>str\<close> that the sources use. A Rust string is its
  UTF-8 byte sequence, a HOL \<open>string\<close>; \<open>len()\<close> is therefore \<open>length\<close>.
\<close>

named_theorems result_simps "evaluation of the combinators on results"
named_theorems wp_simps "weakest preconditions of the combinators"
named_theorems hoare_rules "composition rules for triples and kept assertions"

section \<open>Machine integers and bytes\<close>

type_synonym u8 = "8 word"
type_synonym u16 = "16 word"
type_synonym u32 = "32 word"
type_synonym u64 = "64 word"
type_synonym bytes = "u8 list"

lemma unat_ucast_le:
  "LENGTH('a::len) \<le> LENGTH('b::len) \<Longrightarrow> unat (ucast (w :: 'a word) :: 'b word) = unat w"
  by (simp add: unsigned_ucast_eq unsigned_take_bit_eq take_bit_nat_eq_self
      order.strict_trans2 [OF unsigned_less])

lemma unat_ucast_small:
  "unat w < 2 ^ LENGTH('b::len) \<Longrightarrow> unat (ucast (w :: 'a::len word) :: 'b word) = unat w"
  by (simp add: unsigned_ucast_eq unsigned_take_bit_eq take_bit_nat_eq_self)

lemma unat_drop_bit: "unat (drop_bit k (a :: 'a::len word)) = unat a div 2 ^ k"
  by (subst unsigned_drop_bit_eq) (simp add: drop_bit_eq_div take_bit_nat_eq_self)

lemma unat_low_byte: "unat (ucast (a :: 'a::len word) :: u8) = unat a mod 256"
  if "8 \<le> LENGTH('a)"
  using that by (simp add: unsigned_ucast_eq unsigned_take_bit_eq take_bit_eq_mod)

lemma byte_range:
  assumes "hi < (256 :: nat)"
  shows "y div 256 = q \<and> lo \<le> y mod 256 \<and> y mod 256 \<le> hi
     \<longleftrightarrow> 256 * q + lo \<le> y \<and> y \<le> 256 * q + hi"
proof -
  define d m where "d = y div 256" and "m = y mod 256"
  then have y: "y = 256 * d + m" "m < 256" by simp_all
  have "d = q" if "256 * q + lo \<le> y" "y \<le> 256 * q + hi"
    using that assms y by linarith
  then show ?thesis unfolding d_def [symmetric] m_def [symmetric] using y by auto
qed

text \<open>A port (or any \<open>u16\<close>) as a \<open>u64\<close>, and back.\<close>

lemma port_u64 [simp]:
  "ucast (ucast (p :: u16) :: u64) = p" "(ucast p :: u64) < 65536" "(ucast p :: u64) = 0 \<longleftrightarrow> p = 0"
proof -
  have "unat p < 65536" by (rule order.strict_trans2 [OF unsigned_less]) simp
  then show "ucast (ucast p :: u64) = p" "(ucast p :: u64) < 65536" "(ucast p :: u64) = 0 \<longleftrightarrow> p = 0"
    by (simp_all add: word_unat_eq_iff word_less_nat_alt unat_ucast_le unat_ucast_small)
qed

lemma u64_port_0 [simp]: "n < 65536 \<Longrightarrow> (ucast (n :: u64) :: u16) = 0 \<longleftrightarrow> n = 0"
  by (simp add: word_unat_eq_iff word_less_nat_alt unat_ucast_small)

lemma u64_port: "n < 65536 \<Longrightarrow> ucast (ucast n :: u16) = (n :: u64)"
  by (simp add: word_unat_eq_iff word_less_nat_alt unat_ucast_le unat_ucast_small)

section \<open>Results\<close>

abbreviation Ok :: "'a \<Rightarrow> 'e + 'a" where "Ok \<equiv> Inr"
abbreviation Err :: "'e \<Rightarrow> 'e + 'a" where "Err \<equiv> Inl"

text \<open>The \<open>?\<close> operator: an error returns early.\<close>

definition rbind :: "'e + 'a \<Rightarrow> ('a \<Rightarrow> 'e + 'b) \<Rightarrow> 'e + 'b" where
  "rbind r f = (case r of Inl e \<Rightarrow> Inl e | Inr a \<Rightarrow> f a)"

definition map_err :: "('e \<Rightarrow> 'f) \<Rightarrow> 'e + 'a \<Rightarrow> 'f + 'a" where
  "map_err f r = (case r of Inl e \<Rightarrow> Inl (f e) | Inr a \<Rightarrow> Inr a)"

definition ok_or :: "'e \<Rightarrow> 'a option \<Rightarrow> 'e + 'a" where
  "ok_or e x = (case x of None \<Rightarrow> Inl e | Some a \<Rightarrow> Inr a)"

text \<open>\<open>if bad { return Err(e) }\<close>\<close>

definition reject_if :: "bool \<Rightarrow> 'e \<Rightarrow> 'e + unit" where
  "reject_if bad e = (if bad then Inl e else Inr ())"

definition result_ok :: "'e + 'a \<Rightarrow> 'a option" where
  "result_ok r = (case r of Inl e \<Rightarrow> None | Inr a \<Rightarrow> Some a)"

definition is_ok :: "'e + 'a \<Rightarrow> bool" where
  "is_ok r = (case r of Inl e \<Rightarrow> False | Inr a \<Rightarrow> True)"

text \<open>\<open>iter().map(f).collect::<Result<Vec<_>, _>>()\<close>: the first error wins.\<close>

fun rtraverse :: "('a \<Rightarrow> 'e + 'b) \<Rightarrow> 'a list \<Rightarrow> 'e + 'b list" where
  "rtraverse f [] = Inr []"
| "rtraverse f (x # xs) = rbind (f x) (\<lambda>y. rbind (rtraverse f xs) (\<lambda>ys. Inr (y # ys)))"

text \<open>A \<open>for\<close> loop whose body returns early on an error.\<close>

fun rfor_each :: "('a \<Rightarrow> 'e + unit) \<Rightarrow> 'a list \<Rightarrow> 'e + unit" where
  "rfor_each f [] = Inr ()"
| "rfor_each f (x # xs) = rbind (f x) (\<lambda>_. rfor_each f xs)"

lemma rbind_simps [simp, result_simps]:
  "rbind (Inl e) f = Inl e"
  "rbind (Inr a) f = f a"
  by (simp_all add: rbind_def)

lemma map_err_simps [simp, result_simps]:
  "map_err f (Inl e) = Inl (f e)"
  "map_err f (Inr a) = Inr a"
  by (simp_all add: map_err_def)

lemma ok_or_simps [simp, result_simps]:
  "ok_or e None = Inl e"
  "ok_or e (Some a) = Inr a"
  by (simp_all add: ok_or_def)

lemma result_ok_simps [simp, result_simps]:
  "result_ok (Inl e) = None"
  "result_ok (Inr a) = Some a"
  by (simp_all add: result_ok_def)

lemma is_ok_simps [simp, result_simps]:
  "\<not> is_ok (Inl e)"
  "is_ok (Inr a)"
  by (simp_all add: is_ok_def)

lemma reject_if_Ok [simp]: "reject_if b e = Inr u \<longleftrightarrow> \<not> b"
  by (simp add: reject_if_def)

lemma reject_if_Err [simp]: "reject_if b e = Inl e' \<longleftrightarrow> b \<and> e' = e"
  by (auto simp: reject_if_def)

lemma reject_if_simps [simp, result_simps]:
  "reject_if True e = Inl e"
  "reject_if False e = Inr ()"
  by (simp_all add: reject_if_def)

lemma rbind_Ok_iff [simp]: "rbind r f = Inr b \<longleftrightarrow> (\<exists>a. r = Inr a \<and> f a = Inr b)"
  by (cases r) auto

lemma rbind_Err_iff: "rbind r f = Inl e \<longleftrightarrow> r = Inl e \<or> (\<exists>a. r = Inr a \<and> f a = Inl e)"
  by (cases r) auto

lemma map_err_Ok_iff [simp]: "map_err f r = Inr a \<longleftrightarrow> r = Inr a"
  by (cases r) auto

lemma map_err_Err_iff [simp]: "map_err f r = Inl e \<longleftrightarrow> (\<exists>e'. r = Inl e' \<and> e = f e')"
  by (cases r) auto

lemma ok_or_Ok_iff [simp]: "ok_or e x = Inr a \<longleftrightarrow> x = Some a"
  by (cases x) auto

lemma ok_or_Err_iff [simp]: "ok_or e x = Inl e' \<longleftrightarrow> x = None \<and> e' = e"
  by (cases x) auto

lemma if_Err_Ok_iff: "(if b then Inl e else r) = Inr a \<longleftrightarrow> \<not> b \<and> r = Inr a"
  by simp

lemma rbind_cong [fundef_cong]:
  "r = r' \<Longrightarrow> (\<And>a. r' = Inr a \<Longrightarrow> f a = g a) \<Longrightarrow> rbind r f = rbind r' g"
  by (cases r') auto

lemma rbind_assoc: "rbind (rbind r f) g = rbind r (\<lambda>a. rbind (f a) g)"
  by (cases r) auto

lemma rfor_each_Ok_iff [simp]: "rfor_each f xs = Inr u \<longleftrightarrow> (\<forall>x\<in>set xs. f x = Inr ())"
  by (induction xs) auto

lemma rtraverse_Ok_iff: "rtraverse f xs = Inr ys \<longleftrightarrow> list_all2 (\<lambda>x y. f x = Inr y) xs ys"
  by (induction xs arbitrary: ys) (auto simp: list_all2_Cons1)

lemma rtraverse_cong [fundef_cong]:
  "xs = ys \<Longrightarrow> (\<And>x. x \<in> set ys \<Longrightarrow> f x = g x) \<Longrightarrow> rtraverse f xs = rtraverse g ys"
  by (induction ys arbitrary: xs) auto

lemma rfor_each_cong [fundef_cong]:
  "xs = ys \<Longrightarrow> (\<And>x. x \<in> set ys \<Longrightarrow> f x = g x) \<Longrightarrow> rfor_each f xs = rfor_each g ys"
  by (induction ys arbitrary: xs) auto

section \<open>Effectful functions\<close>

text \<open>
  An effectful function of the sources takes the state it mutates and returns its
  result with the new state. The state after an error is the state at the error.
\<close>

type_synonym ('s, 'e, 'a) prog = "'s \<Rightarrow> ('e + 'a) \<times> 's"

definition sret :: "'a \<Rightarrow> ('s, 'e, 'a) prog" where
  "sret a = (\<lambda>s. (Inr a, s))"

definition sfail :: "'e \<Rightarrow> ('s, 'e, 'a) prog" where
  "sfail e = (\<lambda>s. (Inl e, s))"

definition slift :: "'e + 'a \<Rightarrow> ('s, 'e, 'a) prog" where
  "slift r = (\<lambda>s. (r, s))"

definition sbind :: "('s, 'e, 'a) prog \<Rightarrow> ('a \<Rightarrow> ('s, 'e, 'b) prog) \<Rightarrow> ('s, 'e, 'b) prog" where
  "sbind m f = (\<lambda>s. case m s of (Inl e, t) \<Rightarrow> (Inl e, t) | (Inr a, t) \<Rightarrow> f a t)"

abbreviation sseq :: "('s, 'e, 'a) prog \<Rightarrow> ('s, 'e, 'b) prog \<Rightarrow> ('s, 'e, 'b) prog" where
  "sseq m n \<equiv> sbind m (\<lambda>_. n)"

definition smodify :: "('s \<Rightarrow> 's) \<Rightarrow> ('s, 'e, unit) prog" where
  "smodify f = (\<lambda>s. (Inr (), f s))"

definition sgets :: "('s \<Rightarrow> 'a) \<Rightarrow> ('s, 'e, 'a) prog" where
  "sgets f = (\<lambda>s. (Inr (f s), s))"

definition smap_err :: "('e \<Rightarrow> 'f) \<Rightarrow> ('s, 'e, 'a) prog \<Rightarrow> ('s, 'f, 'a) prog" where
  "smap_err f m = (\<lambda>s. case m s of (r, t) \<Rightarrow> (map_err f r, t))"

text \<open>The result as a value: \<open>match m() { Ok(..) => .., Err(..) => .. }\<close> and \<open>let _ = m();\<close>\<close>

definition sattempt :: "('s, 'e, 'a) prog \<Rightarrow> ('s, 'f, 'e + 'a) prog" where
  "sattempt m = (\<lambda>s. case m s of (r, t) \<Rightarrow> (Inr r, t))"

abbreviation signore :: "('s, 'e, 'a) prog \<Rightarrow> ('s, 'f, unit) prog" where
  "signore m \<equiv> sbind (sattempt m) (\<lambda>_. sret ())"

text \<open>\<open>if let Err(error) = m() { .. return Err(..); }\<close>\<close>

definition scatch :: "('s, 'e, 'a) prog \<Rightarrow> ('e \<Rightarrow> ('s, 'f, 'a) prog) \<Rightarrow> ('s, 'f, 'a) prog" where
  "scatch m h = (\<lambda>s. case m s of (Inl e, t) \<Rightarrow> h e t | (Inr a, t) \<Rightarrow> (Inr a, t))"

fun sfor_each :: "('a \<Rightarrow> ('s, 'e, unit) prog) \<Rightarrow> 'a list \<Rightarrow> ('s, 'e, unit) prog" where
  "sfor_each f [] = sret ()"
| "sfor_each f (x # xs) = sseq (f x) (sfor_each f xs)"

text \<open>Running a function on one component of a larger state.\<close>

definition szoom :: "('s \<Rightarrow> 'w) \<Rightarrow> ('w \<Rightarrow> 's \<Rightarrow> 's) \<Rightarrow> ('w, 'e, 'a) prog \<Rightarrow> ('s, 'e, 'a) prog" where
  "szoom get put m = (\<lambda>s. case m (get s) of (r, w) \<Rightarrow> (r, put w s))"

text \<open>A guard whose \<open>drop\<close> runs when its scope ends, whatever the result.\<close>

definition sfinally :: "('s, 'e, 'a) prog \<Rightarrow> ('s \<Rightarrow> 's) \<Rightarrow> ('s, 'e, 'a) prog" where
  "sfinally m cleanup = (\<lambda>s. case m s of (r, t) \<Rightarrow> (r, cleanup t))"

lemmas prog_defs = sfinally_def sret_def sfail_def slift_def sbind_def smodify_def sgets_def smap_err_def
  sattempt_def szoom_def scatch_def

lemma sbind_sret [simp]: "sbind (sret a) f = f a"
  by (simp add: prog_defs)

lemma sbind_sfail [simp]: "sbind (sfail e) f = sfail e"
  by (simp add: prog_defs)

lemma sbind_assoc: "sbind (sbind m f) g = sbind m (\<lambda>a. sbind (f a) g)"
  by (auto simp: sbind_def fun_eq_iff split: prod.splits sum.splits)

lemma sbind_Ok_iff:
  "sbind m f s = (Inr b, t) \<longleftrightarrow> (\<exists>a u. m s = (Inr a, u) \<and> f a u = (Inr b, t))"
  by (auto simp: sbind_def split: prod.splits sum.splits)

lemma sbind_Err_iff:
  "sbind m f s = (Inl e, t) \<longleftrightarrow>
     m s = (Inl e, t) \<or> (\<exists>a u. m s = (Inr a, u) \<and> f a u = (Inl e, t))"
  by (auto simp: sbind_def split: prod.splits sum.splits)

subsection \<open>Weakest preconditions and triples\<close>

text \<open>
  \<open>wp m Q E s\<close>: from state \<open>s\<close>, a run of \<open>m\<close> that succeeds with \<open>a\<close> ends in a state with
  \<open>Q a\<close>, and one that fails with \<open>e\<close> ends in \<open>E e\<close>. The collection \<open>wp_simps\<close> computes it
  through the combinators, so that \<open>simp\<close> reduces a statement about a composed function to
  one about the primitive calls it makes.
\<close>

definition wp :: "('s, 'e, 'a) prog \<Rightarrow> ('a \<Rightarrow> 's \<Rightarrow> bool) \<Rightarrow> ('e \<Rightarrow> 's \<Rightarrow> bool) \<Rightarrow> 's \<Rightarrow> bool" where
  "wp m Q E s = (case m s of (Inl e, t) \<Rightarrow> E e t | (Inr a, t) \<Rightarrow> Q a t)"

definition hoare :: "('s \<Rightarrow> bool) \<Rightarrow> ('s, 'e, 'a) prog \<Rightarrow> ('a \<Rightarrow> 's \<Rightarrow> bool) \<Rightarrow> ('e \<Rightarrow> 's \<Rightarrow> bool) \<Rightarrow> bool" where
  "hoare P m Q E \<longleftrightarrow> (\<forall>s. P s \<longrightarrow> wp m Q E s)"

text \<open>An assertion that \<open>m\<close> never destroys, whatever its result.\<close>

definition keeps :: "('s \<Rightarrow> bool) \<Rightarrow> ('s, 'e, 'a) prog \<Rightarrow> bool" where
  "keeps P m \<longleftrightarrow> (\<forall>s. P s \<longrightarrow> P (snd (m s)))"

lemma wp_sret [wp_simps]: "wp (sret a) Q E s = Q a s"
  by (auto simp: wp_def prog_defs map_err_def split: prod.splits sum.splits)

lemma wp_sfail [wp_simps]: "wp (sfail e) Q E s = E e s"
  by (auto simp: wp_def prog_defs map_err_def split: prod.splits sum.splits)

lemma wp_slift [wp_simps]: "wp (slift r) Q E s = (case r of Inl e \<Rightarrow> E e s | Inr a \<Rightarrow> Q a s)"
  by (auto simp: wp_def prog_defs map_err_def split: prod.splits sum.splits)

lemma wp_sbind [wp_simps]: "wp (sbind m f) Q E s = wp m (\<lambda>a. wp (f a) Q E) E s"
  by (auto simp: wp_def prog_defs map_err_def split: prod.splits sum.splits)

lemma wp_smodify [wp_simps]: "wp (smodify h) Q E s = Q () (h s)"
  by (auto simp: wp_def prog_defs map_err_def split: prod.splits sum.splits)

lemma wp_sgets [wp_simps]: "wp (sgets g) Q E s = Q (g s) s"
  by (auto simp: wp_def prog_defs map_err_def split: prod.splits sum.splits)

lemma wp_smap_err [wp_simps]: "wp (smap_err k m) Q E s = wp m Q (\<lambda>e. E (k e)) s"
  by (auto simp: wp_def prog_defs map_err_def split: prod.splits sum.splits)

lemma wp_sattempt [wp_simps]: "wp (sattempt m) Q E s = wp m (\<lambda>a. Q (Inr a)) (\<lambda>e. Q (Inl e)) s"
  by (auto simp: wp_def prog_defs map_err_def split: prod.splits sum.splits)

lemma wp_scatch [wp_simps]: "wp (scatch m h) Q E s = wp m Q (\<lambda>e. wp (h e) Q E) s"
  by (auto simp: wp_def prog_defs map_err_def split: prod.splits sum.splits)

lemma wp_szoom [wp_simps]: "wp (szoom get put m) Q E s = wp m (\<lambda>a w. Q a (put w s)) (\<lambda>e w. E e (put w s)) (get s)"
  by (auto simp: wp_def prog_defs map_err_def split: prod.splits sum.splits)

lemma wp_sfinally [wp_simps]: "wp (sfinally m c) Q E s = wp m (\<lambda>a t. Q a (c t)) (\<lambda>e t. E e (c t)) s"
  by (auto simp: wp_def prog_defs map_err_def split: prod.splits sum.splits)

lemma wp_if [wp_simps]: "wp (if b then m else n) Q E s = (if b then wp m Q E s else wp n Q E s)"
  by simp

lemma wp_case_option [wp_simps]:
  "wp (case x of None \<Rightarrow> m | Some y \<Rightarrow> f y) Q E s = (case x of None \<Rightarrow> wp m Q E s | Some y \<Rightarrow> wp (f y) Q E s)"
  by (cases x) auto

lemma wp_case_sum [wp_simps]:
  "wp (case x of Inl e \<Rightarrow> f e | Inr y \<Rightarrow> g y) Q E s =
     (case x of Inl e \<Rightarrow> wp (f e) Q E s | Inr y \<Rightarrow> wp (g y) Q E s)"
  by (cases x) auto

lemma wp_case_prod [wp_simps]: "wp (case x of (a, b) \<Rightarrow> f a b) Q E s = (case x of (a, b) \<Rightarrow> wp (f a b) Q E s)"
  by (cases x) auto

lemma wp_OkD: "wp m Q E s \<Longrightarrow> m s = (Inr a, t) \<Longrightarrow> Q a t"
  by (simp add: wp_def)

lemma wp_ErrD: "wp m Q E s \<Longrightarrow> m s = (Inl e, t) \<Longrightarrow> E e t"
  by (simp add: wp_def)

lemma wpI:
  assumes "\<And>a t. m s = (Inr a, t) \<Longrightarrow> Q a t" and "\<And>e t. m s = (Inl e, t) \<Longrightarrow> E e t"
  shows "wp m Q E s"
  unfolding wp_def by (auto split: prod.splits sum.splits intro: assms)

lemma wp_trivial:
  assumes "\<And>a t. Q a t" and "\<And>e t. E e t"
  shows "wp m Q E s"
  by (rule wpI) (rule assms)+

lemma wp_mono:
  assumes "wp m Q' E' s" and "\<And>a t. Q' a t \<Longrightarrow> Q a t" and "\<And>e t. E' e t \<Longrightarrow> E e t"
  shows "wp m Q E s"
  using assms unfolding wp_def by (auto split: prod.splits sum.splits)

lemma hoareI: "(\<And>s. P s \<Longrightarrow> wp m Q E s) \<Longrightarrow> hoare P m Q E"
  by (simp add: hoare_def)

lemma hoareD: "hoare P m Q E \<Longrightarrow> P s \<Longrightarrow> wp m Q E s"
  by (simp add: hoare_def)

lemma hoare_OkD: "hoare P m Q E \<Longrightarrow> P s \<Longrightarrow> m s = (Inr a, t) \<Longrightarrow> Q a t"
  by (blast dest: hoareD wp_OkD)

lemma hoare_ErrD: "hoare P m Q E \<Longrightarrow> P s \<Longrightarrow> m s = (Inl e, t) \<Longrightarrow> E e t"
  by (blast dest: hoareD wp_ErrD)

lemma hoare_wp:
  assumes "hoare P m Q' E'" and "P s"
    and "\<And>a t. Q' a t \<Longrightarrow> Q a t" and "\<And>e t. E' e t \<Longrightarrow> E e t"
  shows "wp m Q E s"
  using hoareD [OF assms(1,2)] assms(3,4) by (rule wp_mono)

lemma hoare_sbind [hoare_rules]:
  assumes "hoare P m R E" and "\<And>a. hoare (R a) (f a) Q E"
  shows "hoare P (sbind m f) Q E"
  by (intro hoareI) (auto simp: wp_simps intro: hoare_wp [OF assms(1)] hoareD [OF assms(2)])

lemma keepsI: "(\<And>s. P s \<Longrightarrow> P (snd (m s))) \<Longrightarrow> keeps P m"
  by (simp add: keeps_def)

lemma keepsD: "keeps P m \<Longrightarrow> P s \<Longrightarrow> m s = (r, t) \<Longrightarrow> P t"
  by (metis keeps_def snd_conv)

lemma keeps_wp: "keeps P m \<Longrightarrow> P s \<Longrightarrow> (\<And>a t. P t \<Longrightarrow> Q a t) \<Longrightarrow> (\<And>e t. P t \<Longrightarrow> E e t) \<Longrightarrow> wp m Q E s"
  by (rule wpI) (blast dest: keepsD)+

lemma wp_True [simp]: "wp m (\<lambda>_ _. True) (\<lambda>_ _. True) = (\<lambda>_. True)"
  by (rule ext) (auto intro: wp_trivial)

lemma wp_snd: "wp m (\<lambda>_. P) (\<lambda>_. P) s = P (snd (m s))"
  by (cases "m s"; cases "fst (m s)") (auto simp: wp_def)

lemma keeps_iff: "keeps P m \<longleftrightarrow> (\<forall>s. P s \<longrightarrow> wp m (\<lambda>_. P) (\<lambda>_. P) s)"
  by (simp add: keeps_def wp_snd)

lemma keeps_sbind [hoare_rules]:
  assumes "keeps P m" and "\<And>a. keeps P (f a)"
  shows "keeps P (sbind m f)"
  using assms unfolding keeps_def sbind_def by (fastforce split: prod.splits sum.splits)

lemma keeps_slift_sbind:
  "(\<And>a. r = Inr a \<Longrightarrow> keeps P (f a)) \<Longrightarrow> keeps P (sbind (slift r) f)"
  by (auto simp: keeps_def prog_defs split: sum.split)

lemma keeps_basic [hoare_rules]:
  "keeps P (sret a)" "keeps P (sfail e)" "keeps P (slift r)" "keeps P (sgets g)"
  by (simp_all add: keeps_def prog_defs)

lemma keeps_smap_err [hoare_rules]: "keeps P m \<Longrightarrow> keeps P (smap_err f m)"
  unfolding keeps_def smap_err_def by (auto split: prod.splits)

lemma keeps_sattempt [hoare_rules]: "keeps P m \<Longrightarrow> keeps P (sattempt m)"
  unfolding keeps_def sattempt_def by (auto split: prod.splits)

lemma keeps_scatch [hoare_rules]:
  assumes "keeps P m" and "\<And>e. keeps P (h e)"
  shows "keeps P (scatch m h)"
  using assms unfolding keeps_def scatch_def by (fastforce split: prod.splits sum.splits)

lemma keeps_smodify [hoare_rules]: "(\<And>s. P s \<Longrightarrow> P (f s)) \<Longrightarrow> keeps P (smodify f)"
  by (simp add: keeps_def smodify_def)

lemma keeps_sfinally [hoare_rules]: "keeps P m \<Longrightarrow> (\<And>s. P s \<Longrightarrow> P (c s)) \<Longrightarrow> keeps P (sfinally m c)"
  unfolding keeps_def sfinally_def by (auto split: prod.splits)

lemma keeps_if [hoare_rules]: "(b \<Longrightarrow> keeps P m) \<Longrightarrow> (\<not> b \<Longrightarrow> keeps P n) \<Longrightarrow> keeps P (if b then m else n)"
  by simp

lemma keeps_case_option [hoare_rules]:
  "(x = None \<Longrightarrow> keeps P m) \<Longrightarrow> (\<And>y. x = Some y \<Longrightarrow> keeps P (f y)) \<Longrightarrow>
   keeps P (case x of None \<Rightarrow> m | Some y \<Rightarrow> f y)"
  by (cases x) auto

lemma keeps_case_sum [hoare_rules]:
  "(\<And>e. x = Inl e \<Longrightarrow> keeps P (f e)) \<Longrightarrow> (\<And>y. x = Inr y \<Longrightarrow> keeps P (g y)) \<Longrightarrow>
   keeps P (case x of Inl e \<Rightarrow> f e | Inr y \<Rightarrow> g y)"
  by (cases x) auto

lemma keeps_case_prod [hoare_rules]:
  "(\<And>a b. x = (a, b) \<Longrightarrow> keeps P (f a b)) \<Longrightarrow> keeps P (case x of (a, b) \<Rightarrow> f a b)"
  by (cases x) auto

lemma keeps_szoom [hoare_rules]:
  "keeps P m \<Longrightarrow> (\<And>w s. get (put w s) = w) \<Longrightarrow> keeps (\<lambda>s. P (get s)) (szoom get put m)"
  unfolding keeps_def szoom_def by (auto split: prod.splits)

lemma keeps_sfor_each [hoare_rules]:
  "(\<And>x. x \<in> set xs \<Longrightarrow> keeps P (f x)) \<Longrightarrow> keeps P (sfor_each f xs)"
  by (induction xs) (auto intro!: hoare_rules)

text \<open>When errors do not matter, only the last step of a sequence decides.\<close>

lemma wp_final:
  assumes "\<And>a t. wp (f a) Q (\<lambda>_ _. True) t"
  shows "wp (sbind m f) Q (\<lambda>_ _. True) s"
  unfolding wp_sbind by (rule wp_trivial) (simp_all add: assms)

lemma wp_guard: "(\<not> b \<Longrightarrow> wp m Q E s) \<Longrightarrow> E e s \<Longrightarrow> wp (if b then sfail e else m) Q E s"
  by (simp add: wp_simps)

lemma wp_conj:
  "wp m Q E s \<Longrightarrow> wp m Q' E' s \<Longrightarrow> wp m (\<lambda>a t. Q a t \<and> Q' a t) (\<lambda>e t. E e t \<and> E' e t) s"
  unfolding wp_def by (auto split: prod.splits sum.splits)

text \<open>
  A loop establishes a fact for each element when one iteration establishes it and no
  later iteration destroys it.
\<close>

lemma wp_sfor_each:
  assumes est: "\<And>x s. x \<in> set xs \<Longrightarrow> I s \<Longrightarrow> wp (f x) (\<lambda>_ t. I t \<and> G x t) (\<lambda>_ _. True) s"
    and pres: "\<And>x y s. x \<in> set xs \<Longrightarrow> y \<in> set xs \<Longrightarrow> I s \<Longrightarrow> G y s \<Longrightarrow> wp (f x) (\<lambda>_ t. G y t) (\<lambda>_ _. True) s"
    and "I s"
  shows "wp (sfor_each f xs) (\<lambda>_ t. I t \<and> (\<forall>x\<in>set xs. G x t)) (\<lambda>_ _. True) s"
proof -
  have "wp (sfor_each f ys) (\<lambda>_ t. I t \<and> (\<forall>x\<in>D \<union> set ys. G x t)) (\<lambda>_ _. True) s"
    if "D \<union> set ys \<subseteq> set xs" and "I s \<and> (\<forall>x\<in>D. G x s)" for D ys s
    using that
  proof (induction ys arbitrary: D s)
    case Nil
    then show ?case by (simp add: wp_simps)
  next
    case (Cons y ys)
    have "wp (f y) (\<lambda>_ t. wp (sfor_each f ys) (\<lambda>_ u. I u \<and> (\<forall>x\<in>insert y D \<union> set ys. G x u)) (\<lambda>_ _. True) t)
        (\<lambda>_ _. True) s"
    proof (rule wpI)
      fix a t
      assume run: "f y s = (Inr a, t)"
      have "I t \<and> G y t"
        using wp_OkD [OF est run] Cons.prems by simp
      moreover have "G x t" if "x \<in> D" for x
        using wp_OkD [OF pres run, of x] Cons.prems that by auto
      ultimately show "wp (sfor_each f ys) (\<lambda>_ u. I u \<and> (\<forall>x\<in>insert y D \<union> set ys. G x u)) (\<lambda>_ _. True) t"
        using Cons.prems by (intro Cons.IH) auto
    qed simp
    then show ?case by (simp add: wp_simps)
  qed
  from this [of "{}" xs s] assms(3) show ?thesis by simp
qed

end
