(* ===== verification/Rust_Strings.thy ===== *)
theory Rust_Strings
  imports Prelude
begin

text \<open>
  The part of Rust's \<open>str\<close> and integer parsing that the sources use, on UTF-8 byte
  sequences: prefixes, searching and splitting, trimming of Unicode white space, ASCII
  case, decimal numbers, lossy UTF-8 decoding. Every function is executable.
\<close>

section \<open>Prefixes, suffixes, substrings\<close>

definition starts_with :: "string \<Rightarrow> string \<Rightarrow> bool" where
  "starts_with p s \<longleftrightarrow> take (length p) s = p"

definition ends_with :: "string \<Rightarrow> string \<Rightarrow> bool" where
  "ends_with p s \<longleftrightarrow> starts_with (rev p) (rev s)"

definition strip_prefix :: "string \<Rightarrow> string \<Rightarrow> string option" where
  "strip_prefix p s = (if starts_with p s then Some (drop (length p) s) else None)"

fun contains_str :: "string \<Rightarrow> string \<Rightarrow> bool" where
  "contains_str p [] = (p = [])"
| "contains_str p (c # s) = (starts_with p (c # s) \<or> contains_str p s)"

lemma starts_with_iff: "starts_with p s \<longleftrightarrow> (\<exists>r. s = p @ r)"
  by (auto simp: starts_with_def) (metis append_take_drop_id)

lemma starts_with_append [simp]: "starts_with p (p @ r)"
  by (simp add: starts_with_def)

lemma strip_prefix_Some: "strip_prefix p s = Some r \<longleftrightarrow> s = p @ r"
  by (auto simp: strip_prefix_def starts_with_iff)

lemma ends_with_iff: "ends_with p s \<longleftrightarrow> (\<exists>r. s = r @ p)"
  by (auto simp: ends_with_def starts_with_iff) (metis rev_append rev_rev_ident)

section \<open>Splitting\<close>

text \<open>\<open>s.split(c)\<close>: always at least one part.\<close>

fun split_char :: "char \<Rightarrow> string \<Rightarrow> string list" where
  "split_char d [] = [[]]"
| "split_char d (c # s) =
     (if c = d then [] # split_char d s
      else (case split_char d s of [] \<Rightarrow> [[c]] | p # ps \<Rightarrow> (c # p) # ps))"

fun join_with :: "string \<Rightarrow> string list \<Rightarrow> string" where
  "join_with d [] = []"
| "join_with d [p] = p"
| "join_with d (p # q # ps) = p @ d @ join_with d (q # ps)"

text \<open>\<open>s.split_once(p)\<close> and \<open>s.rsplit_once(c)\<close>\<close>

fun split_once :: "string \<Rightarrow> string \<Rightarrow> (string \<times> string) option" where
  "split_once p [] = (if p = [] then Some ([], []) else None)"
| "split_once p (c # s) =
     (if starts_with p (c # s) then Some ([], drop (length p) (c # s))
      else map_option (\<lambda>(a, b). (c # a, b)) (split_once p s))"

definition rsplit_once :: "string \<Rightarrow> string \<Rightarrow> (string \<times> string) option" where
  "rsplit_once p s = map_option (\<lambda>(a, b). (rev b, rev a)) (split_once (rev p) (rev s))"

lemma split_char_not_Nil [simp]: "split_char d s \<noteq> []"
  by (induction s) (auto split: list.splits)

lemma join_split_char: "join_with [d] (split_char d s) = s"
proof (induction s)
  case (Cons c s)
  then show ?case
    by (cases "split_char d s"; cases "tl (split_char d s)") (auto split: list.splits)
qed simp

lemma split_char_parts: "p \<in> set (split_char d s) \<Longrightarrow> d \<notin> set p"
  by (induction s arbitrary: p) (auto split: list.splits if_splits)

lemma split_char_free: "d \<notin> set p \<Longrightarrow> split_char d p = [p]"
  by (induction p) auto

lemma split_char_append:
  "d \<notin> set p \<Longrightarrow> split_char d (p @ d # s) = p # split_char d s"
  by (induction p) auto

lemma split_char_join:
  "ps \<noteq> [] \<Longrightarrow> \<forall>p\<in>set ps. d \<notin> set p \<Longrightarrow> split_char d (join_with [d] ps) = ps"
  by (induction "[d]" ps rule: join_with.induct) (auto simp: split_char_free split_char_append)

lemma split_once_Some: "split_once p s = Some (a, b) \<Longrightarrow> s = a @ p @ b"
proof (induction s arbitrary: a b)
  case (Cons c s)
  show ?case
  proof (cases "starts_with p (c # s)")
    case True
    with Cons.prems show ?thesis
      by (auto simp: starts_with_iff)
  next
    case False
    with Cons show ?thesis by auto
  qed
qed (auto split: if_splits)

section \<open>ASCII classes and case\<close>

abbreviation ord_of :: "char \<Rightarrow> nat" where "ord_of c \<equiv> of_char c"

definition is_digit :: "char \<Rightarrow> bool" where
  "is_digit c \<longleftrightarrow> 48 \<le> ord_of c \<and> ord_of c \<le> 57"

definition is_upper :: "char \<Rightarrow> bool" where
  "is_upper c \<longleftrightarrow> 65 \<le> ord_of c \<and> ord_of c \<le> 90"

definition is_lower :: "char \<Rightarrow> bool" where
  "is_lower c \<longleftrightarrow> 97 \<le> ord_of c \<and> ord_of c \<le> 122"

definition is_alnum :: "char \<Rightarrow> bool" where
  "is_alnum c \<longleftrightarrow> is_digit c \<or> is_upper c \<or> is_lower c"

definition is_hex :: "char \<Rightarrow> bool" where
  "is_hex c \<longleftrightarrow> is_digit c \<or> 65 \<le> ord_of c \<and> ord_of c \<le> 70 \<or> 97 \<le> ord_of c \<and> ord_of c \<le> 102"

definition lower_char :: "char \<Rightarrow> char" where
  "lower_char c = (if is_upper c then char_of (ord_of c + 32) else c)"

definition ascii_lower :: "string \<Rightarrow> string" where
  "ascii_lower = map lower_char"

definition eq_ignore_case :: "string \<Rightarrow> string \<Rightarrow> bool" where
  "eq_ignore_case a b \<longleftrightarrow> ascii_lower a = ascii_lower b"

text \<open>\<open>chars().any(char::is_control)\<close>: U+0000-001F, U+007F and, in UTF-8, U+0080-009F.\<close>

fun has_control :: "string \<Rightarrow> bool" where
  "has_control [] = False"
| "has_control (c # s) =
     (ord_of c < 32 \<or> ord_of c = 127
      \<or> (ord_of c = 194 \<and> (case s of [] \<Rightarrow> False | d # _ \<Rightarrow> 128 \<le> ord_of d \<and> ord_of d \<le> 159))
      \<or> has_control s)"

lemma length_ascii_lower [simp]: "length (ascii_lower s) = length s"
  by (simp add: ascii_lower_def)

section \<open>White space\<close>

text \<open>The UTF-8 encodings of the characters with Unicode's \<open>White_Space\<close> property.\<close>

definition ws_encodings :: "string list" where
  "ws_encodings = map (map char_of)
     ([[9], [10], [11], [12], [13], [32], [0xC2, 0x85], [0xC2, 0xA0], [0xE1, 0x9A, 0x80],
       [0xE2, 0x80, 0x80], [0xE2, 0x80, 0x81], [0xE2, 0x80, 0x82], [0xE2, 0x80, 0x83],
       [0xE2, 0x80, 0x84], [0xE2, 0x80, 0x85], [0xE2, 0x80, 0x86], [0xE2, 0x80, 0x87],
       [0xE2, 0x80, 0x88], [0xE2, 0x80, 0x89], [0xE2, 0x80, 0x8A], [0xE2, 0x80, 0xA8],
       [0xE2, 0x80, 0xA9], [0xE2, 0x80, 0xAF], [0xE2, 0x81, 0x9F], [0xE3, 0x80, 0x80]] :: nat list list)"

definition strip_any :: "string list \<Rightarrow> string \<Rightarrow> string option" where
  "strip_any ws s = (case find (\<lambda>w. w \<noteq> [] \<and> starts_with w s) ws of
      None \<Rightarrow> None | Some w \<Rightarrow> Some (drop (length w) s))"

lemma strip_any_shorter: "strip_any ws s = Some r \<Longrightarrow> length r < length s"
  by (auto simp: strip_any_def find_Some_iff starts_with_iff split: option.splits)

function trim_front :: "string list \<Rightarrow> string \<Rightarrow> string" where
  "trim_front ws s = (case strip_any ws s of None \<Rightarrow> s | Some r \<Rightarrow> trim_front ws r)"
  by pat_completeness auto
termination
  by (relation "measure (\<lambda>(ws, s). length s)") (auto simp: strip_any_shorter)

declare trim_front.simps [simp del]

definition trim_start :: "string \<Rightarrow> string" where
  "trim_start s = trim_front ws_encodings s"

definition trim_end :: "string \<Rightarrow> string" where
  "trim_end s = rev (trim_front (map rev ws_encodings) (rev s))"

definition trim :: "string \<Rightarrow> string" where
  "trim s = trim_end (trim_start s)"

lemma trim_front_suffix: "\<exists>p. s = p @ trim_front ws s"
proof (induction ws s rule: trim_front.induct)
  case (1 ws s)
  show ?case
  proof (cases "strip_any ws s")
    case None
    then show ?thesis by (simp add: trim_front.simps [of ws s])
  next
    case (Some r)
    then obtain q where "r = q @ trim_front ws r" using 1 by blast
    moreover from Some obtain w where "s = w @ r"
      by (auto simp: strip_any_def starts_with_iff find_Some_iff split: option.splits)
    moreover from Some have "trim_front ws s = trim_front ws r"
      by (simp add: trim_front.simps [of ws s])
    ultimately show ?thesis by (metis append.assoc)
  qed
qed

lemma trim_start_suffix: "\<exists>p. s = p @ trim_start s"
  unfolding trim_start_def by (rule trim_front_suffix)

lemma trim_end_prefix: "\<exists>q. s = trim_end s @ q"
  using trim_front_suffix [of "rev s" "map rev ws_encodings"] unfolding trim_end_def
  by (metis rev_append rev_rev_ident)

lemma trim_infix: "\<exists>p q. s = p @ trim s @ q"
  using trim_start_suffix [of s] trim_end_prefix [of "trim_start s"] unfolding trim_def
  by metis

lemma length_trim_le: "length (trim s) \<le> length s"
  using trim_infix [of s] by (metis length_append le_add2 le_add1 le_trans)

lemma set_trim_subset: "set (trim s) \<subseteq> set s"
  using trim_infix [of s] by (metis Un_iff set_append subsetI)

lemma trim_front_fixpoint: "strip_any ws s = None \<Longrightarrow> trim_front ws s = s"
  by (simp add: trim_front.simps)

lemma strip_any_trim_front: "strip_any ws (trim_front ws s) = None"
proof (induction ws s rule: trim_front.induct)
  case (1 ws s)
  then show ?case by (cases "strip_any ws s") (simp_all add: trim_front.simps [of ws s])
qed

text \<open>A string whose first and last bytes are printable ASCII has nothing to trim.\<close>

lemma strip_any_None_ascii:
  assumes "\<forall>w\<in>set ws. w \<noteq> [] \<longrightarrow> hd w \<noteq> c"
  shows "strip_any ws (c # s) = None"
  using assms
  by (auto simp: strip_any_def find_None_iff starts_with_iff Cons_eq_append_conv split: option.splits)

definition graphic :: "char \<Rightarrow> bool" where
  "graphic c \<longleftrightarrow> 33 \<le> ord_of c \<and> ord_of c \<le> 126"

lemma graphic_ws: "graphic c \<Longrightarrow> w \<in> set ws_encodings \<Longrightarrow> c \<noteq> hd w \<and> c \<noteq> last w"
  by (auto simp: ws_encodings_def graphic_def)

lemma trim_start_graphic: "graphic c \<Longrightarrow> trim_start (c # s) = c # s"
  unfolding trim_start_def
  by (intro trim_front_fixpoint strip_any_None_ascii) (auto dest: graphic_ws)

lemma trim_end_graphic: "graphic c \<Longrightarrow> trim_end (s @ [c]) = s @ [c]"
  unfolding trim_end_def
  by (subst trim_front_fixpoint)
     (use graphic_ws in \<open>fastforce intro!: strip_any_None_ascii simp: hd_rev\<close>)+

lemma trim_graphic:
  assumes "s \<noteq> []" and "graphic (hd s)" and "graphic (last s)"
  shows "trim s = s"
proof -
  have "trim_start s = s" using assms trim_start_graphic [of "hd s" "tl s"] by simp
  moreover have "trim_end s = s"
    using assms trim_end_graphic [of "last s" "butlast s"] by simp
  ultimately show ?thesis by (simp add: trim_def)
qed

lemma trim_Nil [simp]: "trim [] = []"
proof -
  have "strip_any ws [] = None" for ws
    by (auto simp: strip_any_def find_None_iff starts_with_def split: option.splits)
  then show ?thesis by (simp add: trim_def trim_start_def trim_end_def trim_front_fixpoint)
qed

section \<open>Decimal numbers\<close>

definition digit_char :: "nat \<Rightarrow> char" where
  "digit_char n = char_of (48 + n)"

definition digit_val :: "char \<Rightarrow> nat" where
  "digit_val c = ord_of c - 48"

fun dec :: "nat \<Rightarrow> string" where
  "dec n = (if n < 10 then [digit_char n] else dec (n div 10) @ [digit_char (n mod 10)])"

declare dec.simps [simp del]

definition digits_value :: "string \<Rightarrow> nat" where
  "digits_value s = foldl (\<lambda>n c. 10 * n + digit_val c) 0 s"

text \<open>
  \<open>s.parse::<uN>()\<close>: an optional plus sign, at least one digit, at most the type's maximum.
\<close>

definition parse_uint :: "nat \<Rightarrow> string \<Rightarrow> nat option" where
  "parse_uint bound s =
     (let d = (case strip_prefix ''+'' s of Some r \<Rightarrow> r | None \<Rightarrow> s)
      in if d = [] \<or> \<not> list_all is_digit d then None
         else if digits_value d \<le> bound then Some (digits_value d) else None)"

lemma digit_char_digit [simp]: "n < 10 \<Longrightarrow> is_digit (digit_char n)"
  by (simp add: is_digit_def digit_char_def)

lemma digit_val_char [simp]: "n < 10 \<Longrightarrow> digit_val (digit_char n) = n"
  by (simp add: digit_val_def digit_char_def)

lemma digit_val_less: "is_digit c \<Longrightarrow> digit_val c < 10"
  by (auto simp: is_digit_def digit_val_def)

lemma dec_not_Nil [simp]: "dec n \<noteq> []"
  by (subst dec.simps) simp

lemma dec_digits: "list_all is_digit (dec n)"
proof (induction n rule: dec.induct)
  case (1 n)
  then show ?case by (cases "n < 10") (simp_all add: dec.simps [of n])
qed

lemma digits_value_snoc: "digits_value (s @ [c]) = 10 * digits_value s + digit_val c"
  by (simp add: digits_value_def)

lemma digits_value_dec [simp]: "digits_value (dec n) = n"
proof (induction n rule: dec.induct)
  case (1 n)
  show ?case
  proof (cases "n < 10")
    case True
    then show ?thesis by (simp add: dec.simps [of n] digits_value_def)
  next
    case False
    with 1 show ?thesis by (simp add: dec.simps [of n] digits_value_snoc)
  qed
qed

text \<open>The canonical form is never longer than any digit string of the same value.\<close>

lemma length_dec_digits_value:
  "d \<noteq> [] \<Longrightarrow> list_all is_digit d \<Longrightarrow> length (dec (digits_value d)) \<le> length d"
proof (induction d rule: rev_induct)
  case (snoc c d)
  then have c: "digit_val c < 10" by (auto intro: digit_val_less)
  show ?case
  proof (cases "digits_value (d @ [c]) < 10")
    case True
    then show ?thesis by (simp add: dec.simps)
  next
    case False
    with c have "d \<noteq> []" by (auto simp: digits_value_def)
    with snoc have "length (dec (digits_value d)) \<le> length d" by simp
    moreover from False c have "dec (digits_value (d @ [c])) = dec (digits_value d) @ [c']"
      if "c' = digit_char (digit_val c)" for c'
      using that by (subst dec.simps) (simp add: digits_value_snoc)
    ultimately show ?thesis by simp
  qed
qed simp

lemma is_digit_not_plus: "is_digit c \<Longrightarrow> c \<noteq> CHR ''+''"
  by (auto simp: is_digit_def)

lemma strip_plus_digits: "list_all is_digit d \<Longrightarrow> strip_prefix ''+'' d = None"
  by (cases d) (auto simp: strip_prefix_def starts_with_iff dest: is_digit_not_plus)

lemma parse_uint_dec [simp]: "n \<le> bound \<Longrightarrow> parse_uint bound (dec n) = Some n"
  by (simp add: parse_uint_def strip_plus_digits dec_digits)

lemma parse_uint_Some:
  assumes "parse_uint bound s = Some n"
  obtains d where "s = d \<or> s = ''+'' @ d" and "d \<noteq> []" and "list_all is_digit d"
    and "n = digits_value d" and "n \<le> bound"
proof -
  from assms obtain d where "strip_prefix ''+'' s = Some d \<or> d = s"
    "d \<noteq> []" "list_all is_digit d" "n = digits_value d" "n \<le> bound"
    by (auto simp: parse_uint_def Let_def split: if_splits option.splits)
  then show ?thesis by (intro that) (auto simp: strip_prefix_Some)
qed

lemma parse_uint_bound: "parse_uint bound s = Some n \<Longrightarrow> n \<le> bound"
  by (elim parse_uint_Some)

lemma parse_uint_length:
  "parse_uint bound s = Some n \<Longrightarrow> length (dec n) \<le> length s"
  by (elim parse_uint_Some) (auto dest!: length_dec_digits_value)

section \<open>Lines and fields\<close>

text \<open>\<open>s.lines()\<close>: a final newline ends the last line, and a carriage return before one goes.\<close>

definition strip_cr :: "string \<Rightarrow> string" where
  "strip_cr l = (if l \<noteq> [] \<and> last l = CHR 0x0D then butlast l else l)"

definition str_lines :: "string \<Rightarrow> string list" where
  "str_lines s =
     (let ps = split_char CHR 0x0A s
      in map strip_cr (butlast ps) @ (if last ps = [] then [] else [last ps]))"

text \<open>\<open>s.split_whitespace()\<close>, with the field read so far.\<close>

function fields_from :: "string \<Rightarrow> string \<Rightarrow> string list" where
  "fields_from acc [] = (if acc = [] then [] else [rev acc])"
| "fields_from acc (c # s) =
     (case strip_any ws_encodings (c # s) of
        Some r \<Rightarrow> (if acc = [] then [] else [rev acc]) @ fields_from [] r
      | None \<Rightarrow> fields_from (c # acc) s)"
  by pat_completeness auto
termination
  by (relation "measure (\<lambda>(acc, s). length s)") (auto dest: strip_any_shorter)

definition split_whitespace :: "string \<Rightarrow> string list" where
  "split_whitespace s = fields_from [] s"

end
