(* ===== verification/File_System.thy ===== *)
theory File_System
  imports Rust_Strings "HOL-Library.AList"
begin

text \<open>
  The part of Rust's \<open>std::io\<close> and \<open>std::fs\<close> that the service uses: error values, UTF-8
  decoding, Windows path texts, and a file system of whole files and directories. Every
  operation takes one entry of a fault script, so that a statement about a run with any
  script covers every place where the operating system may fail, and a failing write leaves
  any prefix of its data behind.
\<close>

section \<open>Errors\<close>

datatype io_error_kind =
    NotFound
  | PermissionDenied
  | AlreadyExists
  | InvalidInput
  | InvalidData
  | TimedOut
  | ConnectionRefused
  | AddrNotAvailable
  | AddrInUse
  | UnexpectedEof
  | Other

record io_error =
  io_kind :: io_error_kind
  raw_os_error :: "int option"
  io_message :: string

definition io_new :: "io_error_kind \<Rightarrow> string \<Rightarrow> io_error" where
  "io_new k m = \<lparr>io_kind = k, raw_os_error = None, io_message = m\<rparr>"

definition io_other :: "string \<Rightarrow> io_error" where
  "io_other m = io_new Other m"

lemma io_kind_new [simp]: "io_kind (io_new k m) = k" "io_kind (io_other m) = Other"
  by (simp_all add: io_new_def io_other_def)

section \<open>Bytes and text\<close>

definition byte_of :: "char \<Rightarrow> u8" where "byte_of c = of_nat (ord_of c)"
definition char_of_byte :: "u8 \<Rightarrow> char" where "char_of_byte b = char_of (unat b)"

definition as_bytes :: "string \<Rightarrow> bytes" where "as_bytes = map byte_of"

definition cont :: "u8 \<Rightarrow> bool" where "cont b \<longleftrightarrow> 0x80 \<le> b \<and> b \<le> 0xBF"

text \<open>The range of a second byte after a leading byte of a sequence of two to four.\<close>

definition second_ok :: "u8 \<Rightarrow> u8 \<Rightarrow> bool" where
  "second_ok a b \<longleftrightarrow>
     (if a = 0xE0 then 0xA0 \<le> b \<and> b \<le> 0xBF
      else if a = 0xED then 0x80 \<le> b \<and> b \<le> 0x9F
      else if a = 0xF0 then 0x90 \<le> b \<and> b \<le> 0xBF
      else if a = 0xF4 then 0x80 \<le> b \<and> b \<le> 0x8F
      else cont b)"

definition sequence_length :: "u8 \<Rightarrow> nat" where
  "sequence_length a =
     (if a < 0x80 then 1
      else if 0xC2 \<le> a \<and> a \<le> 0xDF then 2
      else if 0xE0 \<le> a \<and> a \<le> 0xEF then 3
      else if 0xF0 \<le> a \<and> a \<le> 0xF4 then 4
      else 0)"

text \<open>
  How many bytes at the front form a character, or, negated, the longest prefix of one that
  is to be replaced.
\<close>

definition utf8_chunk :: "bytes \<Rightarrow> bool \<times> nat" where
  "utf8_chunk bs =
     (case bs of
        [] \<Rightarrow> (True, 0)
      | a # r \<Rightarrow>
          let n = sequence_length a in
          if n = 0 then (False, 1)
          else if n = 1 then (True, 1)
          else if r = [] \<or> \<not> second_ok a (hd r) then (False, 1)
          else let k = length (takeWhile cont (take (n - 2) (tl r)))
            in if k = n - 2 then (True, n) else (False, 2 + k))"

function utf8_chunks :: "bytes \<Rightarrow> (bool \<times> bytes) list" where
  "utf8_chunks [] = []"
| "utf8_chunks (b # bs) =
     (case utf8_chunk (b # bs) of (ok, n) \<Rightarrow>
        (ok, take n (b # bs)) # utf8_chunks (drop (max n 1) (b # bs)))"
  by pat_completeness auto
termination by (relation "measure length") auto

text \<open>\<open>String::from_utf8_lossy\<close>: U+FFFD for each maximal invalid part; \<open>String::from_utf8\<close>.\<close>

definition from_utf8_lossy :: "bytes \<Rightarrow> string" where
  "from_utf8_lossy bs =
     concat (map (\<lambda>(ok, c). if ok then map char_of_byte c else map char_of [0xEF, 0xBF, 0xBD :: nat])
       (utf8_chunks bs))"

definition from_utf8 :: "bytes \<Rightarrow> string option" where
  "from_utf8 bs = (if list_all fst (utf8_chunks bs) then Some (map char_of_byte bs) else None)"

text \<open>\<open>Utf8Error\<close>'s text: the first invalid part, unless the input just ends too early.\<close>

definition utf8_error :: "bytes \<Rightarrow> string" where
  "utf8_error bs =
     (let valid = takeWhile fst (utf8_chunks bs);
          i = length (concat (map snd valid));
          c = snd (hd (dropWhile fst (utf8_chunks bs)))
      in if i + length c = length bs \<and> length c < sequence_length (hd c)
         then ''incomplete utf-8 byte sequence from index '' @ dec i
         else ''invalid utf-8 sequence of '' @ dec (length c) @ '' bytes from index '' @ dec i)"

lemma unat_byte_of [simp]: "unat (byte_of c) = ord_of c"
proof -
  have "ord_of c < 256" by (simp add: of_char_def integer_of_char_def)
  then show ?thesis by (simp add: byte_of_def unat_of_nat)
qed

lemma char_byte [simp]: "char_of_byte (byte_of c) = c"
  by (simp add: char_of_byte_def)

lemma map_char_as_bytes [simp]: "map char_of_byte (as_bytes s) = s"
  by (simp add: as_bytes_def comp_def)

lemma length_as_bytes [simp]: "length (as_bytes s) = length s"
  by (simp add: as_bytes_def)

lemma as_bytes_inject [simp]: "as_bytes s = as_bytes t \<longleftrightarrow> s = t"
  by (metis map_char_as_bytes)

lemma from_utf8_Some: "from_utf8 bs = Some s \<Longrightarrow> from_utf8_lossy bs = s"
proof -
  have join: "concat (map snd (utf8_chunks bs)) = bs" for bs
  proof (induction bs rule: utf8_chunks.induct)
    case (2 b bs)
    obtain ok n where chunk: "utf8_chunk (b # bs) = (ok, n)" by (cases "utf8_chunk (b # bs)")
    then have "max n 1 = n" by (auto simp: utf8_chunk_def Let_def split: if_splits)
    with chunk 2 [OF chunk [symmetric]] show ?case by simp
  qed simp
  have "list_all fst cs \<Longrightarrow>
      concat (map (\<lambda>(ok, c). if ok then map char_of_byte c else r) cs) = map char_of_byte (concat (map snd cs))"
    for cs and r :: string
    by (induction cs) auto
  then show "from_utf8 bs = Some s \<Longrightarrow> ?thesis"
    by (auto simp: from_utf8_def from_utf8_lossy_def join split: if_splits)
qed

text \<open>ASCII text is its own decoding.\<close>

lemma from_utf8_lossy_ascii: "list_all (\<lambda>b. b < 0x80) bs \<Longrightarrow> from_utf8_lossy bs = map char_of_byte bs"
proof (induction bs rule: utf8_chunks.induct)
  case (2 b bs)
  have chunk: "utf8_chunk (b # bs) = (True, 1)"
    using 2(2) by (simp add: utf8_chunk_def sequence_length_def)
  have "from_utf8_lossy bs = map char_of_byte bs"
    using 2(1) [OF chunk [symmetric]] 2(2) by simp
  with chunk show ?case by (simp add: from_utf8_lossy_def)
qed (simp add: from_utf8_lossy_def)

section \<open>Path texts\<close>

text \<open>
  Windows paths as the service forms them: a drive or a relative start, no doubled and no
  trailing separator (other than the root's).
\<close>

definition backslash :: char where "backslash = CHR 0x5C"

definition is_sep :: "char \<Rightarrow> bool" where "is_sep c \<longleftrightarrow> c = backslash \<or> c = CHR ''/''"

definition file_part :: "string \<Rightarrow> string" where
  "file_part p = rev (takeWhile (\<lambda>c. \<not> is_sep c) (rev p))"

definition dir_part :: "string \<Rightarrow> string" where
  "dir_part p = rev (dropWhile (\<lambda>c. \<not> is_sep c) (rev p))"

definition drive_only :: "string \<Rightarrow> bool" where
  "drive_only p \<longleftrightarrow> length p = 2 \<and> p ! 1 = CHR '':'' \<and> (is_upper (p ! 0) \<or> is_lower (p ! 0))"

text \<open>\<open>Path::parent\<close>, \<open>Path::file_name\<close>, \<open>Path::join\<close> with a relative path\<close>

definition path_parent :: "string \<Rightarrow> string option" where
  "path_parent p =
     (if p = [] \<or> file_part p = [] then None
      else let d = dir_part p in
        if d = [] then Some []
        else if butlast d = [] \<or> drive_only (butlast d) then Some d
        else Some (butlast d))"

definition path_file_name :: "string \<Rightarrow> string option" where
  "path_file_name p = (if file_part p \<in> {[], ''.'', ''..''} then None else Some (file_part p))"

definition path_join :: "string \<Rightarrow> string \<Rightarrow> string" where
  "path_join p q =
     (if p = [] \<or> is_sep (last p) \<or> drive_only p then p @ q else p @ backslash # q)"

text \<open>\<open>Path::is_absolute\<close>: a drive with a root, or a UNC or device prefix.\<close>

definition path_is_absolute :: "string \<Rightarrow> bool" where
  "path_is_absolute p \<longleftrightarrow>
     (3 \<le> length p \<and> drive_only (take 2 p) \<and> is_sep (p ! 2))
     \<or> (2 \<le> length p \<and> is_sep (p ! 0) \<and> is_sep (p ! 1))"

lemma dir_file_part: "dir_part p @ file_part p = p"
  unfolding dir_part_def file_part_def
  by (metis rev_append rev_rev_ident takeWhile_dropWhile_id)

lemma path_parent_shorter: "path_parent p = Some q \<Longrightarrow> length q < length p"
proof -
  assume "path_parent p = Some q"
  then have "file_part p \<noteq> []" "length q \<le> length (dir_part p)"
    by (auto simp: path_parent_def Let_def split: if_splits)
  moreover have "length p = length (dir_part p) + length (file_part p)"
    by (metis dir_file_part length_append)
  ultimately show "length q < length p" by (cases "file_part p") auto
qed

function ancestors :: "string \<Rightarrow> string list" where
  "ancestors p = p # (case path_parent p of None \<Rightarrow> [] | Some q \<Rightarrow> ancestors q)"
  by pat_completeness auto
termination by (relation "measure length") (auto simp: path_parent_shorter)

declare ancestors.simps [simp del]

lemma dir_part_append_sep:
  "is_sep c \<Longrightarrow> \<forall>d\<in>set q. \<not> is_sep d \<Longrightarrow> dir_part (p @ c # q) = p @ [c]"
  by (simp add: dir_part_def dropWhile_append)

lemma file_part_append_sep:
  "is_sep c \<Longrightarrow> \<forall>d\<in>set q. \<not> is_sep d \<Longrightarrow> file_part (p @ c # q) = q"
  by (simp add: file_part_def takeWhile_append)

section \<open>The file system\<close>

text \<open>
  Files with their bytes and the existing directories. A fault entry \<open>Some (e, n)\<close> makes an
  operation fail with \<open>e\<close> after its first \<open>n\<close> elementary effects; an exhausted script means
  that nothing fails any more. A fault is never \<open>NotFound\<close>, which is the operation's own
  report on an absent file. The counter is \<open>NEXT_TEMPORARY\<close> of \<open>windows_state.rs\<close>.
\<close>

record file_system =
  files :: "(string \<times> bytes) list"
  dirs :: "string list"
  faults :: "(io_error \<times> nat) option list"
  temp_counter :: u64
  process_id :: u32

type_synonym 'a fs_io = "(file_system, io_error, 'a) prog"

definition file_at :: "string \<Rightarrow> file_system \<Rightarrow> bytes option" where
  "file_at p s = map_of (files s) p"

definition put_file :: "string \<Rightarrow> bytes \<Rightarrow> file_system \<Rightarrow> file_system" where
  "put_file p b s = s\<lparr>files := AList.update p b (files s)\<rparr>"

definition drop_file :: "string \<Rightarrow> file_system \<Rightarrow> file_system" where
  "drop_file p s = s\<lparr>files := AList.delete p (files s)\<rparr>"

definition add_dirs :: "string list \<Rightarrow> file_system \<Rightarrow> file_system" where
  "add_dirs ds s = s\<lparr>dirs := dirs s @ ds\<rparr>"

definition fs_op :: "(nat \<Rightarrow> file_system \<Rightarrow> file_system) \<Rightarrow> 'a fs_io \<Rightarrow> 'a fs_io" where
  "fs_op partial m = (\<lambda>s. case faults s of
     [] \<Rightarrow> m s
   | None # fs \<Rightarrow> m (s\<lparr>faults := fs\<rparr>)
   | Some (e, n) # fs \<Rightarrow>
       if io_kind e = NotFound then m (s\<lparr>faults := fs\<rparr>)
       else (Err e, partial n (s\<lparr>faults := fs\<rparr>)))"

definition not_found :: io_error where
  "not_found = \<lparr>io_kind = NotFound, raw_os_error = Some 2,
     io_message = ''The system cannot find the file specified. (os error 2)''\<rparr>"

definition access_denied :: io_error where
  "access_denied = \<lparr>io_kind = PermissionDenied, raw_os_error = Some 5,
     io_message = ''Access is denied. (os error 5)''\<rparr>"

definition file_exists :: io_error where
  "file_exists = \<lparr>io_kind = AlreadyExists, raw_os_error = Some 80,
     io_message = ''The file exists. (os error 80)''\<rparr>"

text \<open>The directory a new file goes into must exist, and its name must not be a directory.\<close>

definition check_target :: "string \<Rightarrow> file_system \<Rightarrow> io_error option" where
  "check_target p s =
     (if p \<in> set (dirs s) then Some access_denied
      else case path_parent p of
          Some d \<Rightarrow> if d = [] \<or> d \<in> set (dirs s) then None else Some not_found
        | None \<Rightarrow> Some not_found)"

record metadata =
  is_regular :: bool
  file_len :: nat

definition fs_metadata :: "string \<Rightarrow> metadata fs_io" where
  "fs_metadata p = fs_op (\<lambda>_ s. s) (\<lambda>s.
     case file_at p s of
       Some b \<Rightarrow> (Ok \<lparr>is_regular = True, file_len = length b\<rparr>, s)
     | None \<Rightarrow> if p \<in> set (dirs s) then (Ok \<lparr>is_regular = False, file_len = 0\<rparr>, s)
         else (Err not_found, s))"

definition fs_is_file :: "string \<Rightarrow> (file_system, 'e, bool) prog" where
  "fs_is_file p = (\<lambda>s. case fs_metadata p s of
     (Ok m, s) \<Rightarrow> (Ok (is_regular m), s) | (Err _, s) \<Rightarrow> (Ok False, s))"

definition fs_read :: "string \<Rightarrow> bytes fs_io" where
  "fs_read p = fs_op (\<lambda>_ s. s) (\<lambda>s.
     case file_at p s of
       Some b \<Rightarrow> (Ok b, s)
     | None \<Rightarrow> (Err (if p \<in> set (dirs s) then access_denied else not_found), s))"

text \<open>\<open>File::create\<close>: opens for writing, truncating an old file.\<close>

definition fs_create :: "string \<Rightarrow> unit fs_io" where
  "fs_create p = fs_op (\<lambda>_ s. s) (\<lambda>s.
     case check_target p s of Some e \<Rightarrow> (Err e, s) | None \<Rightarrow> (Ok (), put_file p [] s))"

definition fs_create_new :: "string \<Rightarrow> unit fs_io" where
  "fs_create_new p = fs_op (\<lambda>_ s. s) (\<lambda>s.
     if file_at p s \<noteq> None then (Err file_exists, s)
     else case check_target p s of Some e \<Rightarrow> (Err e, s) | None \<Rightarrow> (Ok (), put_file p [] s))"

text \<open>\<open>OpenOptions::new().create(true).append(true).open\<close>\<close>

definition fs_open_append :: "string \<Rightarrow> unit fs_io" where
  "fs_open_append p = fs_op (\<lambda>_ s. s) (\<lambda>s.
     if file_at p s \<noteq> None then (Ok (), s)
     else case check_target p s of Some e \<Rightarrow> (Err e, s) | None \<Rightarrow> (Ok (), put_file p [] s))"

text \<open>\<open>write_all\<close> on the file just opened; a failure leaves a prefix.\<close>

definition append_file :: "string \<Rightarrow> bytes \<Rightarrow> file_system \<Rightarrow> file_system" where
  "append_file p b s = put_file p (case_option b (\<lambda>a. a @ b) (file_at p s)) s"

definition fs_write_all :: "string \<Rightarrow> bytes \<Rightarrow> unit fs_io" where
  "fs_write_all p b = fs_op (\<lambda>n. append_file p (take n b)) (\<lambda>s. (Ok (), append_file p b s))"

definition fs_sync :: "unit fs_io" where
  "fs_sync = fs_op (\<lambda>_ s. s) (sret ())"

definition fs_write :: "string \<Rightarrow> bytes \<Rightarrow> unit fs_io" where
  "fs_write p b = sseq (fs_create p) (fs_write_all p b)"

definition fs_remove_file :: "string \<Rightarrow> unit fs_io" where
  "fs_remove_file p = fs_op (\<lambda>_ s. s) (\<lambda>s.
     if file_at p s \<noteq> None then (Ok (), drop_file p s)
     else (Err (if p \<in> set (dirs s) then access_denied else not_found), s))"

text \<open>\<open>fs::rename\<close> and \<open>MoveFileExW(MOVEFILE_REPLACE_EXISTING)\<close> on files: all or nothing.\<close>

definition fs_rename :: "string \<Rightarrow> string \<Rightarrow> unit fs_io" where
  "fs_rename a b = fs_op (\<lambda>_ s. s) (\<lambda>s.
     case file_at a s of
       None \<Rightarrow> (Err not_found, s)
     | Some c \<Rightarrow>
         (case check_target b s of Some e \<Rightarrow> (Err e, s)
          | None \<Rightarrow> (Ok (), put_file b c (if a = b then s else drop_file a s))))"

definition fs_copy :: "string \<Rightarrow> string \<Rightarrow> unit fs_io" where
  "fs_copy a b = fs_op (\<lambda>n s. case file_at a s of
        None \<Rightarrow> s | Some c \<Rightarrow> if check_target b s = None then put_file b (take n c) s else s)
     (\<lambda>s. case file_at a s of
       None \<Rightarrow> (Err not_found, s)
     | Some c \<Rightarrow>
         (case check_target b s of Some e \<Rightarrow> (Err e, s) | None \<Rightarrow> (Ok (), put_file b c s)))"

definition fs_create_dir_all :: "string \<Rightarrow> unit fs_io" where
  "fs_create_dir_all p =
     (if p = [] then sret () else fs_op (\<lambda>n s. if list_ex (\<lambda>d. file_at d s \<noteq> None) (ancestors p) then s
         else add_dirs (take n (rev (ancestors p))) s)
     (\<lambda>s. if list_ex (\<lambda>d. file_at d s \<noteq> None) (ancestors p) then (Err file_exists, s)
        else (Ok (), add_dirs (filter (\<lambda>d. d \<notin> set (dirs s)) (rev (ancestors p))) s)))"

text \<open>Win32 resolves the dots of a path before it looks at the file system.\<close>

fun resolve_components :: "string list \<Rightarrow> string list \<Rightarrow> string list" where
  "resolve_components acc [] = rev acc"
| "resolve_components acc (c # cs) =
     (if c = ''.'' then resolve_components acc cs
      else if c = ''..'' then resolve_components (tl acc) cs
      else resolve_components (c # acc) cs)"

definition resolve_path :: "string \<Rightarrow> string" where
  "resolve_path p = join_with [backslash] (resolve_components [] (split_char backslash p))"

definition below :: "string \<Rightarrow> string \<Rightarrow> bool" where
  "below d p \<longleftrightarrow> p = d \<or> starts_with (d @ [backslash]) p"

definition remove_tree :: "string \<Rightarrow> file_system \<Rightarrow> file_system" where
  "remove_tree d s = s\<lparr>files := filter (\<lambda>f. \<not> below d (fst f)) (files s),
     dirs := filter (\<lambda>p. \<not> below d p) (dirs s)\<rparr>"

definition fs_remove_dir_all :: "string \<Rightarrow> unit fs_io" where
  "fs_remove_dir_all p =
     fs_op (\<lambda>n s. s\<lparr>files := take n (filter (\<lambda>f. below (resolve_path p) (fst f)) (files s))
             @ filter (\<lambda>f. \<not> below (resolve_path p) (fst f)) (files s)\<rparr>)
     (\<lambda>s. if resolve_path p \<in> set (dirs s) then (Ok (), remove_tree (resolve_path p) s)
        else (Err (if file_at (resolve_path p) s = None then not_found else io_other ''not a directory''), s))"

text \<open>\<open>fs::read_dir\<close>: the names of the direct entries.\<close>

definition child_name :: "string \<Rightarrow> string \<Rightarrow> string option" where
  "child_name d p = (case strip_prefix (d @ [backslash]) p of
      Some n \<Rightarrow> if n \<noteq> [] \<and> backslash \<notin> set n then Some n else None
    | None \<Rightarrow> None)"

definition fs_read_dir :: "string \<Rightarrow> string list fs_io" where
  "fs_read_dir d = fs_op (\<lambda>_ s. s) (\<lambda>s.
     if d \<in> set (dirs s)
     then (Ok (remdups (List.map_filter (child_name d) (dirs s @ map fst (files s)))), s)
     else (Err not_found, s))"

lemma files_update [simp]:
  "file_at q (put_file p b s) = (if q = p then Some b else file_at q s)"
  "file_at q (drop_file p s) = (if q = p then None else file_at q s)"
  "file_at q (add_dirs ds s) = file_at q s"
  "file_at q (s\<lparr>faults := fs\<rparr>) = file_at q s"
  "file_at q (s\<lparr>temp_counter := n\<rparr>) = file_at q s"
  by (simp_all add: file_at_def put_file_def drop_file_def add_dirs_def update_conv' delete_conv')

lemma dirs_update [simp]:
  "dirs (put_file p b s) = dirs s" "dirs (drop_file p s) = dirs s"
  "dirs (add_dirs ds s) = dirs s @ ds" "dirs (append_file p b s) = dirs s"
  by (simp_all add: put_file_def drop_file_def add_dirs_def append_file_def)

lemma file_at_append_file [simp]:
  "file_at q (append_file p b s) =
     (if q = p then Some (case file_at p s of None \<Rightarrow> b | Some a \<Rightarrow> a @ b) else file_at q s)"
  by (simp add: append_file_def)

lemma check_target_faults [simp]: "check_target p (s\<lparr>faults := fs\<rparr>) = check_target p s"
  by (auto simp: check_target_def split: option.splits)

text \<open>
  The rule for every operation: it may run from any rest of the script, or fail after any
  number of effects with an error of its own.
\<close>

lemma wp_fs_op:
  assumes "\<And>fs. wp m Q E (s\<lparr>faults := fs\<rparr>)"
    and "\<And>e n fs. io_kind e \<noteq> NotFound \<Longrightarrow> E e (partial n (s\<lparr>faults := fs\<rparr>))"
  shows "wp (fs_op partial m) Q E s"
proof (cases "faults s")
  case Nil
  then have "s = s\<lparr>faults := []\<rparr>" by simp
  with assms(1) [of "[]"] Nil show ?thesis by (simp add: fs_op_def wp_def)
next
  case (Cons x fs)
  show ?thesis
  proof (cases x)
    case None
    with assms(1) [of fs] Cons show ?thesis by (simp add: fs_op_def wp_def)
  next
    case (Some en)
    with assms(1) [of fs] assms(2) [of "fst en" "snd en" fs] Cons show ?thesis
      by (cases en) (auto simp: fs_op_def wp_def)
  qed
qed

lemma wp_result: "m s = (r, t) \<Longrightarrow> wp m Q E s = (case r of Inl e \<Rightarrow> E e t | Inr a \<Rightarrow> Q a t)"
  by (auto simp: wp_def split: sum.split)

section \<open>Specifications of the operations\<close>

lemma wp_rename:
  assumes "\<And>t c. file_at a s = Some c \<Longrightarrow>
      (\<And>q. file_at q t = (if q = b then Some c else if q = a then None else file_at q s)) \<Longrightarrow>
      dirs t = dirs s \<Longrightarrow> Q () t"
    and "\<And>e t. (\<And>q. file_at q t = file_at q s) \<Longrightarrow> dirs t = dirs s \<Longrightarrow>
      (io_kind e = NotFound \<Longrightarrow> file_at a s = None \<or> check_target b s \<noteq> None) \<Longrightarrow> E e t"
  shows "wp (fs_rename a b) Q E s"
  unfolding fs_rename_def
  by (rule wp_fs_op) (auto simp: wp_def split: option.splits intro!: assms)

lemma wp_metadata_file:
  assumes "file_at p s = Some c"
    and "\<And>t. (\<And>q. file_at q t = file_at q s) \<Longrightarrow> dirs t = dirs s \<Longrightarrow>
      Q \<lparr>is_regular = True, file_len = length c\<rparr> t"
    and "\<And>e t. (\<And>q. file_at q t = file_at q s) \<Longrightarrow> dirs t = dirs s \<Longrightarrow> io_kind e \<noteq> NotFound \<Longrightarrow> E e t"
  shows "wp (fs_metadata p) Q E s"
  unfolding fs_metadata_def
  by (rule wp_fs_op) (auto simp: wp_def assms(1) intro!: assms(2,3))

lemma check_target_dirs: "dirs t = dirs s \<Longrightarrow> check_target p t = check_target p s"
  by (auto simp: check_target_def split: option.splits)

lemma wp_read:
  assumes "\<And>t c. file_at p s = Some c \<Longrightarrow> (\<And>q. file_at q t = file_at q s) \<Longrightarrow> dirs t = dirs s \<Longrightarrow> Q c t"
    and "\<And>e t. (\<And>q. file_at q t = file_at q s) \<Longrightarrow> dirs t = dirs s \<Longrightarrow>
      (io_kind e = NotFound \<Longrightarrow> file_at p s = None) \<Longrightarrow> E e t"
  shows "wp (fs_read p) Q E s"
  unfolding fs_read_def
  by (rule wp_fs_op) (auto simp: wp_def split: option.splits intro!: assms)

lemma wp_sync:
  assumes "\<And>t. (\<And>q. file_at q t = file_at q s) \<Longrightarrow> dirs t = dirs s \<Longrightarrow> Q () t"
    and "\<And>e t. (\<And>q. file_at q t = file_at q s) \<Longrightarrow> dirs t = dirs s \<Longrightarrow> E e t"
  shows "wp fs_sync Q E s"
  unfolding fs_sync_def by (rule wp_fs_op) (auto simp: wp_simps intro!: assms)

lemma wp_create_dir_all:
  assumes "\<And>t. (\<And>q. file_at q t = file_at q s) \<Longrightarrow> set (dirs s) \<subseteq> set (dirs t) \<Longrightarrow>
      (p \<noteq> [] \<longrightarrow> p \<in> set (dirs t)) \<Longrightarrow> Q () t"
    and "\<And>e t. (\<And>q. file_at q t = file_at q s) \<Longrightarrow> E e t"
  shows "wp (fs_create_dir_all p) Q E s"
proof (cases "p = []")
  case True
  then show ?thesis by (simp add: fs_create_dir_all_def wp_simps assms(1))
next
  case False
  have self: "p \<in> set (ancestors p)" by (subst ancestors.simps) simp
  show ?thesis
    unfolding fs_create_dir_all_def using False self
    by simp (rule wp_fs_op, auto simp: wp_def intro!: assms)
qed

lemma wp_create:
  assumes "\<And>t. (\<And>q. file_at q t = (if q = p then Some [] else file_at q s)) \<Longrightarrow> dirs t = dirs s \<Longrightarrow> Q () t"
    and "\<And>e t. (\<And>q. file_at q t = file_at q s) \<Longrightarrow> dirs t = dirs s \<Longrightarrow> E e t"
  shows "wp (fs_create p) Q E s"
  unfolding fs_create_def
  by (rule wp_fs_op) (auto simp: wp_def split: option.splits intro!: assms)

lemma wp_write_all:
  assumes "\<And>t. (\<And>q. file_at q t = (if q = p then Some (case_option b (\<lambda>a. a @ b) (file_at p s)) else file_at q s)) \<Longrightarrow>
      dirs t = dirs s \<Longrightarrow> Q () t"
    and "\<And>e t. (\<And>q. q \<noteq> p \<Longrightarrow> file_at q t = file_at q s) \<Longrightarrow> dirs t = dirs s \<Longrightarrow> E e t"
  shows "wp (fs_write_all p b) Q E s"
  unfolding fs_write_all_def
  by (rule wp_fs_op) (auto simp: wp_def split: option.splits intro!: assms)

lemma wp_write:
  assumes "\<And>t. (\<And>q. file_at q t = (if q = p then Some b else file_at q s)) \<Longrightarrow> dirs t = dirs s \<Longrightarrow> Q () t"
    and "\<And>e t. (\<And>q. q \<noteq> p \<Longrightarrow> file_at q t = file_at q s) \<Longrightarrow> dirs t = dirs s \<Longrightarrow> E e t"
  shows "wp (fs_write p b) Q E s"
  unfolding fs_write_def wp_sbind
  by (rule wp_create; (rule wp_write_all)?) (auto intro!: assms)

lemma from_utf8_lossy_Nil [simp]: "from_utf8_lossy [] = []"
  by (simp add: from_utf8_lossy_def)

lemma wp_create_new:
  assumes "\<And>t. file_at p s = None \<Longrightarrow> (\<And>q. file_at q t = (if q = p then Some [] else file_at q s)) \<Longrightarrow>
      dirs t = dirs s \<Longrightarrow> Q () t"
    and "\<And>e t. (\<And>q. file_at q t = file_at q s) \<Longrightarrow> dirs t = dirs s \<Longrightarrow> E e t"
  shows "wp (fs_create_new p) Q E s"
  unfolding fs_create_new_def
  by (rule wp_fs_op) (auto simp: wp_def split: option.splits intro!: assms)

lemma wp_remove_file:
  assumes "\<And>t. (\<And>q. file_at q t = (if q = p then None else file_at q s)) \<Longrightarrow> dirs t = dirs s \<Longrightarrow> Q () t"
    and "\<And>e t. (\<And>q. file_at q t = file_at q s) \<Longrightarrow> dirs t = dirs s \<Longrightarrow>
      (io_kind e = NotFound \<Longrightarrow> file_at p s = None) \<Longrightarrow> E e t"
  shows "wp (fs_remove_file p) Q E s"
  unfolding fs_remove_file_def
  by (rule wp_fs_op) (auto simp: wp_def access_denied_def not_found_def intro!: assms)

end
