(* ===== verification/Log_Store.thy ===== *)
theory Log_Store
  imports File_System
begin

text \<open>
  \<open>service/src/log_store.rs\<close>: the core's log file, rotated through three numbered copies.
\<close>

definition MAX_LOG_BYTES :: nat where "MAX_LOG_BYTES = 10 * 1024 * 1024"
definition MAX_ROTATED_LOGS :: nat where "MAX_ROTATED_LOGS = 3"

definition rotated :: "string \<Rightarrow> nat \<Rightarrow> string" where
  "rotated path index = path @ ''.'' @ dec index"

definition remove_if_exists :: "string \<Rightarrow> unit fs_io" where
  "remove_if_exists path =
     scatch (fs_remove_file path) (\<lambda>e. if io_kind e = NotFound then sret () else sfail e)"

definition rename_if_exists :: "string \<Rightarrow> string \<Rightarrow> unit fs_io" where
  "rename_if_exists a b =
     scatch (fs_rename a b) (\<lambda>e. if io_kind e = NotFound then sret () else sfail e)"

definition rotate_if_needed :: "string \<Rightarrow> unit fs_io" where
  "rotate_if_needed path =
     sbind (sattempt (fs_metadata path)) (\<lambda>r. case r of
       Err e \<Rightarrow> if io_kind e = NotFound then sret () else sfail e
     | Ok m \<Rightarrow>
         if file_len m \<le> MAX_LOG_BYTES then sret ()
         else
           sseq (remove_if_exists (rotated path MAX_ROTATED_LOGS))
           (sseq (sfor_each (\<lambda>i. rename_if_exists (rotated path i) (rotated path (i + 1)))
              (rev [1..<MAX_ROTATED_LOGS]))
           (fs_rename path (rotated path 1))))"

definition tail_log :: "string \<Rightarrow> nat \<Rightarrow> string fs_io" where
  "tail_log path max_bytes =
     (if max_bytes = 0 then sret []
      else sbind (sattempt (fs_read path)) (\<lambda>r. case r of
        Err e \<Rightarrow> if io_kind e = NotFound then sret [] else sfail e
      | Ok _ \<Rightarrow>
          sbind (fs_metadata path) (\<lambda>m.
          let read_bytes = min (file_len m) max_bytes in
          sseq fs_sync
          (sbind (fs_read path) (\<lambda>bytes.
          sret (from_utf8_lossy (take read_bytes (drop (file_len m - read_bytes) bytes))))))))"

definition clear_logs :: "string \<Rightarrow> unit fs_io" where
  "clear_logs path =
     sseq (case path_parent path of Some parent \<Rightarrow> fs_create_dir_all parent | None \<Rightarrow> sret ())
     (sseq (fs_write path [])
     (sfor_each (\<lambda>i. remove_if_exists (rotated path i)) [1..<Suc MAX_ROTATED_LOGS]))"

section \<open>Specifications of the operations\<close>

lemma rotated_inject [simp]: "rotated p i = rotated p j \<longleftrightarrow> i = j"
  by (auto simp: rotated_def) (metis digits_value_dec)

lemma rotated_not_path [simp]: "rotated p i \<noteq> p" "p \<noteq> rotated p i"
  by (auto simp: rotated_def)

lemma wp_remove_if_exists:
  assumes "\<And>t. (\<And>q. file_at q t = (if q = p then None else file_at q s)) \<Longrightarrow> dirs t = dirs s \<Longrightarrow> Q () t"
    and "\<And>e t. (\<And>q. file_at q t = file_at q s) \<Longrightarrow> dirs t = dirs s \<Longrightarrow> E e t"
  shows "wp (remove_if_exists p) Q E s"
  unfolding remove_if_exists_def fs_remove_file_def wp_scatch
  by (rule wp_fs_op) (auto simp: wp_def prog_defs access_denied_def not_found_def intro!: assms)

text \<open>Moving a file that may be absent: either way the target then holds what the source held.\<close>

lemma wp_rename_if_exists:
  assumes "check_target b s = None" and "a \<noteq> b"
    and "\<And>t. (\<And>q. file_at q t = (if q = a then None
        else if q = b \<and> file_at a s \<noteq> None then file_at a s else file_at q s)) \<Longrightarrow>
      dirs t = dirs s \<Longrightarrow> Q () t"
    and "\<And>e t. (\<And>q. file_at q t = file_at q s) \<Longrightarrow> dirs t = dirs s \<Longrightarrow> E e t"
  shows "wp (rename_if_exists a b) Q E s"
  unfolding rename_if_exists_def wp_scatch
  by (rule wp_rename) (use assms in \<open>auto simp: wp_def prog_defs\<close>)

lemma rotate_outcome:
  assumes log: "file_at p s = Some c"
    and targets: "\<And>i. i \<in> {1..3} \<Longrightarrow> check_target (rotated p i) s = None"
  shows "wp (rotate_if_needed p)
     (\<lambda>_ t. if length c \<le> MAX_LOG_BYTES then (\<forall>q. file_at q t = file_at q s)
        else file_at p t = None \<and> file_at (rotated p 1) t = Some c
          \<and> file_at (rotated p 2) t = file_at (rotated p 1) s
          \<and> file_at (rotated p 3) t = file_at (rotated p 2) s
          \<and> (\<forall>q. q \<notin> insert p (rotated p ` {1..3}) \<longrightarrow> file_at q t = file_at q s))
     (\<lambda>_ t. file_at p t = Some c
        \<and> file_at (rotated p 1) s \<in> {file_at (rotated p 1) t, file_at (rotated p 2) t}) s"
proof -
  have loop: "rev [1..<MAX_ROTATED_LOGS] = [2, 1]" by (simp add: MAX_ROTATED_LOGS_def numeral_eq_Suc)
  have ct: "check_target (rotated p i) t = None" if "dirs t = dirs s" "i \<in> {1..3}" for t i
    using targets [OF that(2)] check_target_dirs [OF that(1)] by simp
  show ?thesis
    unfolding rotate_if_needed_def loop
    apply (simp only: wp_simps sfor_each.simps)
    apply (rule wp_metadata_file [OF log])
     apply (simp add: wp_simps MAX_ROTATED_LOGS_def)
     apply (intro conjI impI; (simp add: log; fail)?)
     apply (rule wp_remove_if_exists)
      apply (simp only: wp_simps)
      apply (rule wp_rename_if_exists; (simp add: ct log; fail)?)
      apply (simp only: wp_simps)
      apply (rule wp_rename_if_exists; (simp add: ct log; fail)?)
      apply (simp only: wp_simps)
      apply (rule wp_rename)
       apply (auto simp: log ct wp_simps MAX_ROTATED_LOGS_def)
    done
qed

section \<open>Properties\<close>

text \<open>
  Rotation shifts the copies by one and never loses the current log: whatever fails, on
  an error it is still in place and the newest copy is in the first or second slot.
\<close>

theorem rotation_keeps_logs:
  assumes "file_at p s = Some c"
    and "check_target (rotated p 1) s = None" "check_target (rotated p 2) s = None"
      "check_target (rotated p 3) s = None"
  shows "wp (rotate_if_needed p)
     (\<lambda>_ t. if length c \<le> 10 * 1024 * 1024 then (\<forall>q. file_at q t = file_at q s)
        else file_at p t = None \<and> file_at (rotated p 1) t = Some c
          \<and> file_at (rotated p 2) t = file_at (rotated p 1) s
          \<and> file_at (rotated p 3) t = file_at (rotated p 2) s
          \<and> (\<forall>q. q \<notin> insert p (rotated p ` {1..3}) \<longrightarrow> file_at q t = file_at q s))
     (\<lambda>_ t. file_at p t = Some c
        \<and> file_at (rotated p 1) s \<in> {file_at (rotated p 1) t, file_at (rotated p 2) t}) s"
proof -
  have "check_target (rotated p i) s = None" if "i \<in> {1..3}" for i
  proof -
    from that have "i = 1 \<or> i = 2 \<or> i = 3" by auto
    with assms(2-4) show ?thesis by auto
  qed
  from rotate_outcome [OF assms(1) this] show ?thesis by (simp add: MAX_LOG_BYTES_def)
qed

text \<open>
  A log tail is the last bytes of the current log, at most as many as asked for,
  decoded with replacement characters; an absent log is empty, and nothing is changed.
\<close>

theorem tail_reads_end:
  "wp (tail_log p n)
     (\<lambda>out t. out = (case file_at p s of None \<Rightarrow> [] | Some c \<Rightarrow> from_utf8_lossy (drop (length c - n) c))
        \<and> (\<forall>q. file_at q t = file_at q s))
     (\<lambda>_ t. \<forall>q. file_at q t = file_at q s) s"
proof (cases "n = 0")
  case True
  then show ?thesis by (simp add: tail_log_def wp_simps split: option.split)
next
  case False
  show ?thesis
    unfolding tail_log_def using False
    apply (simp only: wp_simps if_False simp_thms)
    apply (rule wp_read)
     apply (simp add: wp_simps)
     apply (rule wp_metadata_file, simp)
      apply (simp only: wp_simps Let_def)
      apply (rule wp_sync)
       apply (simp only: wp_simps)
       apply (rule wp_read)
        apply (auto simp: min_def wp_simps split: option.splits)
    done
qed

text \<open>
  Clearing the log leaves an empty current log and no rotated copy, and touches no
  other file.
\<close>

theorem clear_removes_all:
  "wp (clear_logs p)
     (\<lambda>_ t. file_at p t = Some [] \<and> (\<forall>i\<in>{1..3}. file_at (rotated p i) t = None)
        \<and> (\<forall>q. q \<notin> insert p (rotated p ` {1..3}) \<longrightarrow> file_at q t = file_at q s))
     (\<lambda>_ t. \<forall>q. q \<notin> insert p (rotated p ` {1..3}) \<longrightarrow> file_at q t = file_at q s) s"
proof -
  have loop: "[1..<Suc MAX_ROTATED_LOGS] = [1, 2, 3]"
    by (simp add: MAX_ROTATED_LOGS_def upt_rec numeral_eq_Suc)
  have range: "{1..3} = {1, 2, 3 :: nat}" by auto
  have rest: "wp (sseq (fs_write p []) (sfor_each (\<lambda>i. remove_if_exists (rotated p i)) [1, 2, 3]))
     (\<lambda>_ t. file_at p t = Some [] \<and> (\<forall>i\<in>{1, 2, 3}. file_at (rotated p i) t = None)
        \<and> (\<forall>q. q \<notin> insert p (rotated p ` {1, 2, 3}) \<longrightarrow> file_at q t = file_at q s))
     (\<lambda>_ t. \<forall>q. q \<notin> insert p (rotated p ` {1, 2, 3}) \<longrightarrow> file_at q t = file_at q s) u"
    if "\<And>q. file_at q u = file_at q s" for u
    unfolding sfor_each.simps wp_simps
    by (rule wp_write; (rule wp_remove_if_exists)?; (rule wp_remove_if_exists)?;
        (rule wp_remove_if_exists)?; simp add: that)
  show ?thesis
    unfolding clear_logs_def loop range wp_sbind [of "case_option _ _ _"]
    by (cases "path_parent p"; simp only: option.case wp_sret)
       (rule rest, simp, rule wp_create_dir_all, (rule rest, simp)+, simp)
qed

definition sample_log_system :: file_system where
  "sample_log_system = \<lparr>files = [(''x.log'', [7, 8]), (''x.log.1'', [9])], dirs = [],
     faults = [None, Some (access_denied, 0)], temp_counter = 1, process_id = 4\<rparr>"

lemma rotation_keeps_logs_witness:
  "wp (rotate_if_needed ''x.log'')
     (\<lambda>_ t. if length [7, 8 :: u8] \<le> 10 * 1024 * 1024
        then (\<forall>q. file_at q t = file_at q sample_log_system)
        else file_at ''x.log'' t = None \<and> file_at (rotated ''x.log'' 1) t = Some [7, 8]
          \<and> file_at (rotated ''x.log'' 2) t = file_at (rotated ''x.log'' 1) sample_log_system
          \<and> file_at (rotated ''x.log'' 3) t = file_at (rotated ''x.log'' 2) sample_log_system
          \<and> (\<forall>q. q \<notin> insert ''x.log'' (rotated ''x.log'' ` {1..3})
               \<longrightarrow> file_at q t = file_at q sample_log_system))
     (\<lambda>_ t. file_at ''x.log'' t = Some [7, 8]
        \<and> file_at (rotated ''x.log'' 1) sample_log_system
            \<in> {file_at (rotated ''x.log'' 1) t, file_at (rotated ''x.log'' 2) t}) sample_log_system"
  by (rule rotation_keeps_logs) code_simp+

lemma clear_removes_all_witness:
  "wp (clear_logs ''x.log'')
     (\<lambda>_ t. file_at ''x.log'' t = Some [] \<and> (\<forall>i\<in>{1..3}. file_at (rotated ''x.log'' i) t = None)
        \<and> (\<forall>q. q \<notin> insert ''x.log'' (rotated ''x.log'' ` {1..3})
             \<longrightarrow> file_at q t = file_at q sample_log_system))
     (\<lambda>_ t. \<forall>q. q \<notin> insert ''x.log'' (rotated ''x.log'' ` {1..3})
        \<longrightarrow> file_at q t = file_at q sample_log_system) sample_log_system"
  by (rule clear_removes_all)

end
