(* ===== verification/Process_Plan.thy ===== *)
theory Process_Plan
  imports File_System
begin

text \<open>
  \<open>service/src/process_plan.rs\<close>: how the core is invoked, the retry loop for an address that
  is not ready yet, and the fixed parts of the SOCKS5 exchange.
\<close>

section \<open>Invocations\<close>

datatype xray_invocation_kind = Validate_Config | Run_Config

record xray_invocation =
  inv_kind :: xray_invocation_kind
  executable :: string
  arguments :: "string list"

definition validation_invocation :: "string \<Rightarrow> string \<Rightarrow> xray_invocation" where
  "validation_invocation exe config =
     \<lparr>inv_kind = Validate_Config, executable = exe,
      arguments = [''run'', ''-test'', ''-c'', config]\<rparr>"

definition run_invocation :: "string \<Rightarrow> string \<Rightarrow> xray_invocation" where
  "run_invocation exe config =
     \<lparr>inv_kind = Run_Config, executable = exe, arguments = [''run'', ''-c'', config]\<rparr>"

definition config_path :: "xray_invocation \<Rightarrow> string" where
  "config_path invocation = last (arguments invocation)"

record xray_config_transaction =
  tx_executable :: string
  candidate_path :: string
  active_path :: string

definition preflight :: "xray_config_transaction \<Rightarrow> xray_invocation" where
  "preflight tx = validation_invocation (tx_executable tx) (candidate_path tx)"

definition start_candidate_invocation :: "xray_config_transaction \<Rightarrow> xray_invocation" where
  "start_candidate_invocation tx = run_invocation (tx_executable tx) (candidate_path tx)"

section \<open>Waiting for an address\<close>

definition address_not_ready :: "io_error \<Rightarrow> bool" where
  "address_not_ready e \<longleftrightarrow> raw_os_error e = Some 10049 \<or> io_kind e = AddrNotAvailable"

text \<open>\<open>for attempt in 0..attempts\<close>, counting the attempts that are left.\<close>

fun retry_loop ::
  "('s \<Rightarrow> 's) \<Rightarrow> ('s, io_error, 'a) prog \<Rightarrow> nat \<Rightarrow> ('s, io_error, 'a) prog" where
  "retry_loop sleep operation 0 s = (Err (io_other ''attempt loop always returns on its final iteration''), s)"
| "retry_loop sleep operation (Suc left) s =
     (case operation s of
        (Ok a, t) \<Rightarrow> (Ok a, t)
      | (Err e, t) \<Rightarrow>
          if 0 < left \<and> address_not_ready e then retry_loop sleep operation left (sleep t)
          else (Err e, t))"

definition retry_address_not_ready ::
  "('s \<Rightarrow> 's) \<Rightarrow> ('s, io_error, 'a) prog \<Rightarrow> nat \<Rightarrow> ('s, io_error, 'a) prog" where
  "retry_address_not_ready sleep operation attempts s =
     (if attempts = 0 then (Err (io_new InvalidInput ''address readiness requires at least one attempt''), s)
      else retry_loop sleep operation attempts s)"

section \<open>SOCKS5\<close>

definition socks5_ipv4_connect_request :: "bytes \<Rightarrow> u16 \<Rightarrow> bytes" where
  "socks5_ipv4_connect_request a port =
     [5, 1, 0, 1, a ! 0, a ! 1, a ! 2, a ! 3, ucast (drop_bit 8 port), ucast port]"

definition hex_digit :: "nat \<Rightarrow> char" where
  "hex_digit n = (if n < 10 then char_of (48 + n) else char_of (87 + n))"

definition hex2 :: "u8 \<Rightarrow> string" where
  "hex2 b = [hex_digit (unat b div 16), hex_digit (unat b mod 16)]"

definition debug_hex :: "bytes \<Rightarrow> string" where
  "debug_hex bs = ''['' @ join_with '', '' (map hex2 bs) @ '']''"

definition validate_socks5_method_reply :: "bytes \<Rightarrow> string + unit" where
  "validate_socks5_method_reply reply =
     (if reply = [5, 0] then Ok ()
      else Err (''SOCKS5 proxy rejected no-auth negotiation: '' @ debug_hex reply))"

text \<open>How many bytes of the bound address and port follow the header; 0 for a domain.\<close>

definition validate_socks5_connect_header :: "bytes \<Rightarrow> string + nat" where
  "validate_socks5_connect_header h =
     (if h ! 0 \<noteq> 5 \<or> h ! 2 \<noteq> 0 then Err (''invalid SOCKS5 CONNECT response: '' @ debug_hex h)
      else if h ! 1 \<noteq> 0 then Err (''SOCKS5 CONNECT failed with status 0x'' @ hex2 (h ! 1))
      else if h ! 3 = 1 then Ok 6
      else if h ! 3 = 4 then Ok 18
      else if h ! 3 = 3 then Ok 0
      else Err (''SOCKS5 CONNECT returned unknown address type 0x'' @ hex2 (h ! 3)))"

section \<open>Lemmas\<close>

text \<open>The state before the \<open>k\<close>-th attempt when all earlier ones fail.\<close>

definition before_attempt :: "('s \<Rightarrow> 's) \<Rightarrow> ('s, io_error, 'a) prog \<Rightarrow> nat \<Rightarrow> 's \<Rightarrow> 's" where
  "before_attempt sleep operation k = ((\<lambda>s. sleep (snd (operation s))) ^^ k)"

definition not_ready_at :: "('s, io_error, 'a) prog \<Rightarrow> 's \<Rightarrow> bool" where
  "not_ready_at operation s \<longleftrightarrow> (\<exists>e. fst (operation s) = Err e \<and> address_not_ready e)"

lemma before_attempt_simps [simp]:
  "before_attempt sleep operation 0 s = s"
  "before_attempt sleep operation (Suc k) s =
     before_attempt sleep operation k (sleep (snd (operation s)))"
  by (simp_all add: before_attempt_def funpow_Suc_right del: funpow.simps(2))

lemma retry_loop_spec:
  "0 < n \<Longrightarrow> \<exists>k<n. (\<forall>j<k. not_ready_at operation (before_attempt sleep operation j s))
     \<and> (Suc k = n \<or> \<not> not_ready_at operation (before_attempt sleep operation k s))
     \<and> retry_loop sleep operation n s = operation (before_attempt sleep operation k s)"
proof (induction n arbitrary: s)
  case (Suc n)
  show ?case
  proof (cases "0 < n \<and> not_ready_at operation s")
    case True
    then obtain e where e: "fst (operation s) = Err e" "address_not_ready e" by (auto simp: not_ready_at_def)
    from Suc.IH [of "sleep (snd (operation s))"] True obtain k where
      "k < n" "\<forall>j<k. not_ready_at operation (before_attempt sleep operation (Suc j) s)"
      "Suc k = n \<or> \<not> not_ready_at operation (before_attempt sleep operation (Suc k) s)"
      "retry_loop sleep operation n (sleep (snd (operation s)))
         = operation (before_attempt sleep operation (Suc k) s)"
      by auto
    moreover have "retry_loop sleep operation (Suc n) s
        = retry_loop sleep operation n (sleep (snd (operation s)))"
      using True e by (cases "operation s") auto
    ultimately show ?thesis
      using True by (intro exI [of _ "Suc k"]) (auto simp: less_Suc_eq_0_disj)
  next
    case False
    then have "retry_loop sleep operation (Suc n) s = operation s"
      by (cases "operation s") (auto simp: not_ready_at_def split: sum.splits)
    with False show ?thesis by (intro exI [of _ 0]) auto
  qed
qed simp

section \<open>Properties\<close>

text \<open>
  The retry loop runs the operation at least once and at most the given number of
  times, sleeping between attempts; it goes on exactly while the address is not ready, and
  returns what the last attempt returned.
\<close>

theorem retry_returns_last_attempt:
  assumes "0 < attempts"
  shows "\<exists>k<attempts. (\<forall>j<k. not_ready_at operation (before_attempt sleep operation j s))
     \<and> (Suc k = attempts \<or> \<not> not_ready_at operation (before_attempt sleep operation k s))
     \<and> retry_address_not_ready sleep operation attempts s
         = operation (before_attempt sleep operation k s)"
  using retry_loop_spec [OF assms, of operation sleep s] assms
  by (simp add: retry_address_not_ready_def)

text \<open>An operation that never succeeds, on a count of the sleeps.\<close>

definition always_busy :: "(nat, io_error, unit) prog" where
  "always_busy n = (Err (io_new AddrNotAvailable ''busy''), n)"

lemma retry_returns_last_attempt_witness:
  "\<exists>k<3. (\<forall>j<k. not_ready_at always_busy (before_attempt Suc always_busy j 0))
     \<and> (Suc k = 3 \<or> \<not> not_ready_at always_busy (before_attempt Suc always_busy k 0))
     \<and> retry_address_not_ready Suc always_busy 3 0 = always_busy (before_attempt Suc always_busy k 0)"
  by (rule retry_returns_last_attempt) simp

end
