(* ===== verification/Protocol.thy ===== *)
theory Protocol
  imports Rust_Strings
begin

text \<open>
  The service protocol, \<open>crates/varmlen-protocol/src/lib.rs\<close>: the messages, the bounds on
  requests that \<open>validate_request\<close> enforces, and the payload codecs. Serialisation itself
  is \<open>serde_json\<close>; the codecs take it as a parameter.
\<close>

section \<open>Constants\<close>

definition PROTOCOL_VERSION :: u16 where "PROTOCOL_VERSION = 3"
definition MAX_FRAME_BYTES :: nat where "MAX_FRAME_BYTES = 1024 * 1024"
definition MAX_LOG_TAIL_BYTES :: u32 where "MAX_LOG_TAIL_BYTES = 256 * 1024"
definition MAX_CONFIG_BYTES :: nat where "MAX_CONFIG_BYTES = 384 * 1024"
definition MAX_SERVER_ENDPOINTS :: nat where "MAX_SERVER_ENDPOINTS = 64"
definition MAX_EXCLUDED_APPS :: nat where "MAX_EXCLUDED_APPS = 256"
definition MAX_APP_SELECTOR_BYTES :: nat where "MAX_APP_SELECTOR_BYTES = 4096"
definition MAX_CORE_TAG_BYTES :: nat where "MAX_CORE_TAG_BYTES = 64"

lemmas protocol_bounds = MAX_FRAME_BYTES_def MAX_LOG_TAIL_BYTES_def MAX_CONFIG_BYTES_def
  MAX_SERVER_ENDPOINTS_def MAX_EXCLUDED_APPS_def MAX_APP_SELECTOR_BYTES_def MAX_CORE_TAG_BYTES_def

section \<open>Messages\<close>

text \<open>\<open>std::net\<close> addresses: an IPv4 address is 32 bits, an IPv6 address 128, big-endian.\<close>

datatype ip_addr = V4 "32 word" | V6 "128 word"

datatype socket_addr =
    SocketV4 "32 word" u16
  | SocketV6 "128 word" u16 u32 u32

fun socket_port :: "socket_addr \<Rightarrow> u16" where
  "socket_port (SocketV4 _ p) = p"
| "socket_port (SocketV6 _ p _ _) = p"

fun socket_ip :: "socket_addr \<Rightarrow> ip_addr" where
  "socket_ip (SocketV4 a _) = V4 a"
| "socket_ip (SocketV6 a _ _ _) = V6 a"

record app_selector =
  canonical_path :: string
  basename :: string

record connect_request =
  xray_version :: string
  xray_config :: string
  validation_config :: string
  server_endpoints :: "socket_addr list"
  excluded_apps :: "app_selector list"
  apps_selective :: bool
  killswitch :: bool
  allow_lan :: bool

definition default_xray_version :: string where
  "default_xray_version = ''26.3.27''"

datatype core_command =
    Info
  | Active
  | ListReleases
  | Install "string option"
  | Activate string
  | Uninstall string

record core_installed_version =
  civ_tag :: string
  civ_active :: bool
  civ_bundled :: bool

record core_info =
  installed :: "core_installed_version list"
  active_core :: "string option"
  latest :: "string option"
  has_update :: bool

record core_release =
  rel_tag :: string
  rel_name :: string
  rel_date :: "string option"
  rel_prerelease :: bool

datatype service_command =
    Status
  | Connect connect_request
  | Disconnect bool
  | LogTail u32
  | ClearLog
  | Core core_command

record request_envelope =
  req_version :: u16
  req_operation_id :: u64
  req_command :: service_command

datatype connection_phase =
    Disconnected
  | Validating
  | Holding
  | Starting
  | Connected
  | Stopping
  | Blocked
  | Restoring
  | BlockedError

record service_state =
  phase :: connection_phase
  operation_id :: u64
  split_active :: bool
  dns_protected :: bool
  network_blocked :: bool

definition disconnected_state :: service_state where
  "disconnected_state = \<lparr>phase = Disconnected, operation_id = 0, split_active = False,
     dns_protected = False, network_blocked = False\<rparr>"

datatype service_response =
    RState service_state
  | RLogTail string
  | RCoreInfo core_info
  | RCoreReleases "core_release list"
  | RCoreInstalled string
  | RCoreActive string
  | Ack

datatype service_error_code =
    UnsupportedVersion
  | FrameTooLarge
  | InvalidFrame
  | InvalidRequest
  | Unauthorized
  | ValidationFailed
  | HoldFailed
  | XrayStartFailed
  | HealthCheckFailed
  | RestoreFailed
  | CleanupFailed
  | Internal

record service_error =
  err_code :: service_error_code
  err_message :: string

definition service_error_new :: "service_error_code \<Rightarrow> string \<Rightarrow> service_error" where
  "service_error_new c m = \<lparr>err_code = c, err_message = m\<rparr>"

lemma err_code_new [simp]: "err_code (service_error_new c m) = c"
  by (simp add: service_error_new_def)

record response_envelope =
  resp_version :: u16
  resp_operation_id :: u64
  resp_result :: "service_error + service_response"

section \<open>Validation\<close>

definition tag_char :: "char \<Rightarrow> bool" where
  "tag_char c \<longleftrightarrow> is_alnum c \<or> c = CHR ''.'' \<or> c = CHR ''-'' \<or> c = CHR ''_''"

definition invalid_core_tag :: "string \<Rightarrow> bool" where
  "invalid_core_tag t =
     (let v = dropWhile (\<lambda>c. c = CHR ''v'') t
      in v = [] \<or> MAX_CORE_TAG_BYTES < length v \<or> \<not> list_all tag_char v)"

definition invalid_selector_field :: "string \<Rightarrow> bool" where
  "invalid_selector_field v =
     (trim v = [] \<or> MAX_APP_SELECTOR_BYTES < length v \<or> CHR 0x00 \<in> set v)"

definition validate_connect_request :: "connect_request \<Rightarrow> service_error_code + unit" where
  "validate_connect_request r =
     (let configs_invalid = invalid_core_tag (xray_version r)
            \<or> xray_config r = [] \<or> validation_config r = []
            \<or> MAX_CONFIG_BYTES < length (xray_config r)
            \<or> MAX_CONFIG_BYTES < length (validation_config r);
          endpoints_invalid = server_endpoints r = []
            \<or> MAX_SERVER_ENDPOINTS < length (server_endpoints r)
            \<or> list_ex (\<lambda>e. socket_port e = 0) (server_endpoints r);
          selectors_invalid = MAX_EXCLUDED_APPS < length (excluded_apps r)
            \<or> list_ex (\<lambda>a. invalid_selector_field (canonical_path a)
                          \<or> invalid_selector_field (basename a)) (excluded_apps r)
      in if configs_invalid \<or> endpoints_invalid \<or> selectors_invalid
         then Err InvalidRequest else Ok ())"

fun validate_core_command :: "core_command \<Rightarrow> service_error_code + unit" where
  "validate_core_command (Install (Some t)) = reject_if (invalid_core_tag t) InvalidRequest"
| "validate_core_command (Activate t) = reject_if (invalid_core_tag t) InvalidRequest"
| "validate_core_command (Uninstall t) = reject_if (invalid_core_tag t) InvalidRequest"
| "validate_core_command _ = Ok ()"

definition validate_request :: "request_envelope \<Rightarrow> service_error_code + unit" where
  "validate_request r =
     (if req_version r \<noteq> PROTOCOL_VERSION then Err UnsupportedVersion
      else (case req_command r of
          Connect c \<Rightarrow> validate_connect_request c
        | Core c \<Rightarrow> validate_core_command c
        | LogTail n \<Rightarrow>
            if n = 0 \<or> MAX_LOG_TAIL_BYTES < n then Err InvalidRequest else Ok ()
        | _ \<Rightarrow> Ok ()))"

section \<open>Payloads\<close>

text \<open>\<open>ser\<close> and \<open>de\<close> stand for \<open>serde_json::to_vec\<close> and \<open>serde_json::from_slice\<close>.\<close>

definition encode_payload :: "('a \<Rightarrow> string + bytes) \<Rightarrow> 'a \<Rightarrow> service_error_code + bytes" where
  "encode_payload ser v =
     rbind (map_err (\<lambda>_. InvalidFrame) (ser v)) (\<lambda>bs.
       if MAX_FRAME_BYTES < length bs then Err FrameTooLarge else Ok bs)"

definition decode_request ::
  "(bytes \<Rightarrow> string + request_envelope) \<Rightarrow> bytes \<Rightarrow> service_error_code + request_envelope" where
  "decode_request de bs =
     (if MAX_FRAME_BYTES < length bs then Err FrameTooLarge
      else rbind (map_err (\<lambda>_. InvalidFrame) (de bs)) (\<lambda>r.
        rbind (validate_request r) (\<lambda>_. Ok r)))"

definition decode_response ::
  "(bytes \<Rightarrow> string + response_envelope) \<Rightarrow> bytes \<Rightarrow> service_error_code + response_envelope" where
  "decode_response de bs =
     (if MAX_FRAME_BYTES < length bs then Err FrameTooLarge
      else rbind (map_err (\<lambda>_. InvalidFrame) (de bs)) (\<lambda>r.
        if resp_version r \<noteq> PROTOCOL_VERSION then Err UnsupportedVersion else Ok r))"

text \<open>The law of the serialiser on one value: what was written reads back as it.\<close>

definition serde_law :: "('a \<Rightarrow> string + bytes) \<Rightarrow> (bytes \<Rightarrow> string + 'a) \<Rightarrow> 'a \<Rightarrow> bool" where
  "serde_law ser de v \<longleftrightarrow> (\<forall>bs. ser v = Ok bs \<longrightarrow> de bs = Ok v)"

section \<open>What validation guarantees\<close>

text \<open>The declarative reading of the request bounds.\<close>

definition valid_tag_text :: "string \<Rightarrow> bool" where
  "valid_tag_text t \<longleftrightarrow> (\<exists>n u. t = replicate n CHR ''v'' @ u \<and> u \<noteq> [] \<and> hd u \<noteq> CHR ''v''
      \<and> length u \<le> 64 \<and> (\<forall>c\<in>set u. tag_char c))"

definition valid_selector_text :: "string \<Rightarrow> bool" where
  "valid_selector_text v \<longleftrightarrow> trim v \<noteq> [] \<and> length v \<le> 4096 \<and> CHR 0x00 \<notin> set v"

definition wf_connect :: "connect_request \<Rightarrow> bool" where
  "wf_connect r \<longleftrightarrow>
     valid_tag_text (xray_version r)
     \<and> length (xray_config r) \<in> {1..393216} \<and> length (validation_config r) \<in> {1..393216}
     \<and> length (server_endpoints r) \<in> {1..64}
     \<and> (\<forall>e\<in>set (server_endpoints r). socket_port e \<noteq> 0)
     \<and> length (excluded_apps r) \<le> 256
     \<and> (\<forall>a\<in>set (excluded_apps r). valid_selector_text (canonical_path a)
                                  \<and> valid_selector_text (basename a))"

fun wf_command :: "service_command \<Rightarrow> bool" where
  "wf_command (Connect c) = wf_connect c"
| "wf_command (Core (Install (Some t))) = valid_tag_text t"
| "wf_command (Core (Activate t)) = valid_tag_text t"
| "wf_command (Core (Uninstall t)) = valid_tag_text t"
| "wf_command (LogTail n) = (unat n \<in> {1..262144})"
| "wf_command _ = True"

lemma dropWhile_replicate_iff:
  "(\<exists>n u. t = replicate n c @ u \<and> u \<noteq> [] \<and> hd u \<noteq> c \<and> P u)
     \<longleftrightarrow> dropWhile (\<lambda>x. x = c) t \<noteq> [] \<and> P (dropWhile (\<lambda>x. x = c) t)"
proof
  assume "\<exists>n u. t = replicate n c @ u \<and> u \<noteq> [] \<and> hd u \<noteq> c \<and> P u"
  then obtain n u where t: "t = replicate n c @ u" "u \<noteq> []" "hd u \<noteq> c" "P u" by blast
  have "dropWhile (\<lambda>x. x = c) (replicate n c @ u) = u"
    using t(2,3) by (induction n) (auto simp: neq_Nil_conv)
  with t show "dropWhile (\<lambda>x. x = c) t \<noteq> [] \<and> P (dropWhile (\<lambda>x. x = c) t)" by simp
next
  let ?u = "dropWhile (\<lambda>x. x = c) t" and ?p = "takeWhile (\<lambda>x. x = c) t"
  assume *: "?u \<noteq> [] \<and> P ?u"
  have "?p = replicate (length ?p) c"
    by (rule replicate_eqI [symmetric, THEN sym]) (auto dest: set_takeWhileD)
  then have "t = replicate (length ?p) c @ ?u" by (metis takeWhile_dropWhile_id)
  moreover have "hd ?u \<noteq> c" using * hd_dropWhile [of "\<lambda>x. x = c" t] by auto
  ultimately show "\<exists>n u. t = replicate n c @ u \<and> u \<noteq> [] \<and> hd u \<noteq> c \<and> P u" using * by blast
qed

lemma invalid_core_tag_iff: "invalid_core_tag t \<longleftrightarrow> \<not> valid_tag_text t"
  unfolding invalid_core_tag_def valid_tag_text_def Let_def
  using dropWhile_replicate_iff [of t "CHR ''v''" "\<lambda>u. length u \<le> 64 \<and> (\<forall>c\<in>set u. tag_char c)"]
  by (auto simp: MAX_CORE_TAG_BYTES_def list_all_iff not_less)

lemma invalid_selector_field_iff: "invalid_selector_field v \<longleftrightarrow> \<not> valid_selector_text v"
  by (auto simp: invalid_selector_field_def valid_selector_text_def MAX_APP_SELECTOR_BYTES_def)

lemma validate_connect_request_iff:
  "validate_connect_request r = Ok () \<longleftrightarrow> wf_connect r"
proof -
  have ne: "(xs = []) = (length xs < 1)" for xs :: "'a list" by (cases xs) auto
  show ?thesis
    unfolding validate_connect_request_def wf_connect_def Let_def
    by (auto simp: invalid_core_tag_iff invalid_selector_field_iff protocol_bounds list_ex_iff
        Suc_le_eq not_less)
qed

lemma validate_connect_request_cases:
  "validate_connect_request r = Ok () \<or> validate_connect_request r = Err InvalidRequest"
  by (simp add: validate_connect_request_def Let_def)

lemma wf_command_core_cases:
  "validate_core_command c = Ok () \<longleftrightarrow> wf_command (Core c)"
  by (cases c rule: validate_core_command.cases) (auto simp: invalid_core_tag_iff)

lemma log_tail_bound: "(n = 0 \<or> MAX_LOG_TAIL_BYTES < n) \<longleftrightarrow> \<not> wf_command (LogTail n)"
proof -
  have "unat MAX_LOG_TAIL_BYTES = 262144" by (simp add: MAX_LOG_TAIL_BYTES_def)
  then have "(MAX_LOG_TAIL_BYTES < n) = (262144 < unat n)" by (simp add: word_less_nat_alt)
  moreover have "(n = 0) = (unat n = 0)" by (simp add: unat_eq_zero)
  ultimately show ?thesis by auto
qed

text \<open>Every character of an accepted tag is a letter, a digit, a dot, a dash or an underscore.\<close>

lemma tag_char_v: "tag_char CHR ''v''"
  by (simp add: tag_char_def is_alnum_def is_lower_def)

lemma valid_tag_chars: "valid_tag_text t \<Longrightarrow> c \<in> set t \<Longrightarrow> tag_char c"
  using tag_char_v by (auto simp: valid_tag_text_def)

lemma tag_char_not_special:
  "tag_char c \<Longrightarrow> c \<notin> {CHR ''/'', CHR 0x5C, CHR '':'', CHR 0x00, CHR '' '', CHR 0x22}"
  by (auto simp: tag_char_def is_alnum_def is_digit_def is_upper_def is_lower_def)

lemma validate_request_iff:
  "validate_request r = Ok () \<longleftrightarrow> req_version r = 3 \<and> wf_command (req_command r)"
  using log_tail_bound
  by (cases "req_command r")
     (auto simp: validate_request_def PROTOCOL_VERSION_def validate_connect_request_iff
       wf_command_core_cases simp del: wf_command.simps(5))

section \<open>Properties\<close>

text \<open>
  C33: the service accepts exactly the requests of its own version whose tags, texts, lists
  and numbers are within the bounds of the protocol.
\<close>

theorem validate_request_accepts:
  "validate_request r = Ok () \<longleftrightarrow> req_version r = 3 \<and> wf_command (req_command r)"
  by (rule validate_request_iff)

text \<open>
  A well-formed request that the client could encode is decoded by the service to
  itself.
\<close>

theorem request_round_trip:
  assumes "encode_payload ser r = Ok bs" and "serde_law ser de r"
    and "req_version r = 3" and "wf_command (req_command r)"
  shows "decode_request de bs = Ok r"
  using assms validate_request_iff
  by (auto simp: encode_payload_def decode_request_def serde_law_def split: if_splits)

definition sample_request :: request_envelope where
  "sample_request = \<lparr>req_version = 3, req_operation_id = 7, req_command = LogTail 1024\<rparr>"

lemma request_round_trip_witness:
  "decode_request (\<lambda>b. Ok sample_request) [1] = Ok sample_request"
  by (rule request_round_trip [where ser = "\<lambda>r. Ok [1]"])
     (simp_all add: encode_payload_def MAX_FRAME_BYTES_def serde_law_def sample_request_def)

end
