(* ===== verification/Net_Text.thy ===== *)
theory Net_Text
  imports Protocol
begin

text \<open>
  The texts of \<open>std::net\<close> addresses: dotted decimal, and for IPv6 the canonical form with
  the first longest run of zero groups compressed. The address ranges the sources test are
  here too, through octets as the sources have them.
\<close>

section \<open>Octets and groups\<close>

definition octet4 :: "nat \<Rightarrow> 32 word \<Rightarrow> u8" where
  "octet4 i a = ucast (drop_bit (24 - 8 * i) a)"

definition octet6 :: "nat \<Rightarrow> 128 word \<Rightarrow> u8" where
  "octet6 i a = ucast (drop_bit (120 - 8 * i) a)"

definition octets4 :: "32 word \<Rightarrow> u8 list" where
  "octets4 a = map (\<lambda>i. octet4 i a) [0, 1, 2, 3]"

definition segments :: "128 word \<Rightarrow> u16 list" where
  "segments a = map (\<lambda>i. ucast (drop_bit (112 - 16 * i) a)) [0, 1, 2, 3, 4, 5, 6, 7]"

section \<open>Display\<close>

fun hex_digits :: "nat \<Rightarrow> string" where
  "hex_digits n = (if n < 16 then [if n < 10 then char_of (48 + n) else char_of (87 + n)]
     else hex_digits (n div 16) @ hex_digits (n mod 16))"

declare hex_digits.simps [simp del]

definition ipv4_text :: "32 word \<Rightarrow> string" where
  "ipv4_text a = join_with ''.'' (map (\<lambda>b. dec (unat b)) (octets4 a))"

text \<open>The start and length of the first longest run of zeros.\<close>

fun longest_zeros :: "nat \<Rightarrow> nat \<times> nat \<Rightarrow> nat \<times> nat \<Rightarrow> u16 list \<Rightarrow> nat \<times> nat" where
  "longest_zeros i current best [] = best"
| "longest_zeros i current best (x # xs) =
     (if x = 0 then
        let current = (if snd current = 0 then (i, 1) else (fst current, snd current + 1));
            best = (if snd best < snd current then current else best)
        in longest_zeros (i + 1) current best xs
      else longest_zeros (i + 1) (0, 0) best xs)"

definition group_text :: "u16 list \<Rightarrow> string" where
  "group_text gs = join_with '':'' (map (\<lambda>g. hex_digits (unat g)) gs)"

definition ipv6_text :: "128 word \<Rightarrow> string" where
  "ipv6_text a =
     (let gs = segments a in
      if take 6 gs = [0, 0, 0, 0, 0, 0xFFFF] then ''::ffff:'' @ ipv4_text (ucast a)
      else let (start, len) = longest_zeros 0 (0, 0) (0, 0) gs in
        if 1 < len then group_text (take start gs) @ ''::'' @ group_text (drop (start + len) gs)
        else group_text gs)"

fun ip_text :: "ip_addr \<Rightarrow> string" where
  "ip_text (V4 a) = ipv4_text a"
| "ip_text (V6 a) = ipv6_text a"

text \<open>\<open>Ipv4Addr::from_str\<close>: four decimal numbers up to 255 without leading zeros.\<close>

definition parse_octet :: "string \<Rightarrow> nat option" where
  "parse_octet s =
     (if s \<noteq> [] \<and> length s \<le> 3 \<and> list_all is_digit s \<and> (length s = 1 \<or> hd s \<noteq> CHR ''0'')
      then parse_uint 255 s else None)"

definition parse_ipv4 :: "string \<Rightarrow> 32 word option" where
  "parse_ipv4 s =
     (case map parse_octet (split_char CHR ''.'' s) of
        [Some a, Some b, Some c, Some d] \<Rightarrow> Some (of_nat (((a * 256 + b) * 256 + c) * 256 + d))
      | _ \<Rightarrow> None)"

section \<open>Ranges\<close>

definition ipv4_is_private :: "32 word \<Rightarrow> bool" where
  "ipv4_is_private a \<longleftrightarrow>
     octet4 0 a = 10 \<or> (octet4 0 a = 172 \<and> 16 \<le> octet4 1 a \<and> octet4 1 a \<le> 31)
     \<or> (octet4 0 a = 192 \<and> octet4 1 a = 168)"

definition ipv4_is_link_local :: "32 word \<Rightarrow> bool" where
  "ipv4_is_link_local a \<longleftrightarrow> octet4 0 a = 169 \<and> octet4 1 a = 254"

definition between :: "'a::len word \<Rightarrow> 'a word \<Rightarrow> 'a word \<Rightarrow> bool" where
  "between lo hi a \<longleftrightarrow> lo \<le> a \<and> a \<le> hi"

lemma unat_octet4: "unat (octet4 i a) = unat a div 2 ^ (24 - 8 * i) mod 256"
  by (simp add: octet4_def unat_low_byte unat_drop_bit)

text \<open>The first two octets are the upper half of the address.\<close>

definition upper_half :: "32 word \<Rightarrow> nat" where
  "upper_half a = unat a div 2 ^ 16"

lemma octet4_upper_half:
  "octet4 0 a = n \<longleftrightarrow> upper_half a div 256 = unat n"
  "octet4 1 a = n \<longleftrightarrow> upper_half a mod 256 = unat n"
  "n \<le> octet4 1 a \<longleftrightarrow> unat n \<le> upper_half a mod 256"
  "octet4 1 a \<le> n \<longleftrightarrow> upper_half a mod 256 \<le> unat n"
proof -
  have "unat a < 2 ^ 32" by (rule order.strict_trans2 [OF unsigned_less]) simp
  then have "unat a div 2 ^ 24 mod 256 = unat a div 2 ^ 24" by simp
  moreover have "unat a div 2 ^ 24 = upper_half a div 256"
    by (simp add: upper_half_def div_mult2_eq [symmetric])
  ultimately show "octet4 0 a = n \<longleftrightarrow> upper_half a div 256 = unat n"
    using unat_octet4 [of 0 a] by (simp add: word_unat_eq_iff)
  show "octet4 1 a = n \<longleftrightarrow> upper_half a mod 256 = unat n"
    "n \<le> octet4 1 a \<longleftrightarrow> unat n \<le> upper_half a mod 256"
    "octet4 1 a \<le> n \<longleftrightarrow> upper_half a mod 256 \<le> unat n"
    using unat_octet4 [of 1 a] by (simp_all add: word_unat_eq_iff word_le_nat_alt upper_half_def)
qed

lemma byte_range_all: "y div 256 = q \<longleftrightarrow> 256 * q \<le> y \<and> y \<le> 256 * q + (255 :: nat)"
proof -
  have "y mod 256 \<le> 255" using less_Suc_eq_le [of "y mod 256" 255] by simp
  then show ?thesis using byte_range [of 255 y q 0] by simp
qed

lemma byte_range_one:
  "y div 256 = q \<and> y mod 256 = b \<longleftrightarrow> y = 256 * q + b" if "b < (256 :: nat)"
  using byte_range [OF that, of y q b] by auto

text \<open>A range of addresses that is a range of upper halves.\<close>

lemma le_upper_half: "m mod n = 0 \<Longrightarrow> 0 < n \<Longrightarrow> m \<le> x \<longleftrightarrow> m div n \<le> x div (n :: nat)"
  by (metis div_le_mono dvd_div_mult_self le_trans mod_0_imp_dvd mult_le_mono1
      times_div_less_eq_dividend mult.commute)

lemma upper_half_le: "m mod n = n - 1 \<Longrightarrow> 0 < n \<Longrightarrow> x \<le> m \<longleftrightarrow> x div n \<le> m div (n :: nat)"
proof -
  assume a: "m mod n = n - 1" "0 < n"
  have "m = n * (m div n) + (n - 1)" using a by (metis mult_div_mod_eq)
  moreover have "x = n * (x div n) + x mod n" "x mod n \<le> n - 1"
    using a by (auto simp: Suc_leI less_Suc_eq_le [symmetric])
  ultimately show "x \<le> m \<longleftrightarrow> x div n \<le> m div n"
    by (metis add_mono_thms_linordered_semiring(1) div_le_mono mult_le_mono2)
qed

lemma between_upper_half:
  "between lo hi a \<longleftrightarrow> unat lo div 2 ^ 16 \<le> upper_half a \<and> upper_half a \<le> unat hi div 2 ^ 16"
  if "unat lo mod 2 ^ 16 = 0" "unat hi mod 2 ^ 16 = 2 ^ 16 - 1"
  using le_upper_half [OF that(1), of "unat a"] upper_half_le [OF that(2), of "unat a"]
  by (simp add: between_def word_le_nat_alt upper_half_def)

lemmas upper_half_ranges = octet4_upper_half byte_range byte_range_all byte_range_one between_upper_half

lemma ipv4_is_private_ranges:
  "ipv4_is_private a \<longleftrightarrow> between 0x0A000000 0x0AFFFFFF a \<or> between 0xAC100000 0xAC1FFFFF a
     \<or> between 0xC0A80000 0xC0A8FFFF a"
  unfolding ipv4_is_private_def octet4_upper_half
  by (simp add: between_upper_half byte_range byte_range_one) (auto simp: byte_range_all)

lemma ipv4_is_link_local_range:
  "ipv4_is_link_local a \<longleftrightarrow> between 0xA9FE0000 0xA9FEFFFF a"
  unfolding ipv4_is_link_local_def octet4_upper_half
  by (simp add: between_upper_half byte_range_one) auto

end
