(* ===== verification/Socket_Address.thy ===== *)
theory Socket_Address
  imports Net_Text
begin

text \<open>
  Socket addresses in memory, as \<open>service/src/windows_adapter.rs\<close> reads them from the adapter
  tables and writes them for \<open>GetBestInterfaceEx\<close>: the layouts of \<open>SOCKADDR_IN\<close> and \<open>SOCKADDR_IN6\<close> on
  the little-endian targets of the program.
\<close>

section \<open>Integers in memory\<close>

text \<open>\<open>to_ne_bytes\<close> and \<open>from_ne_bytes\<close>, \<open>u16::to_be\<close>, and an address from its octets.\<close>

definition ne_bytes :: "nat \<Rightarrow> 'a::len word \<Rightarrow> bytes" where
  "ne_bytes n w = map (\<lambda>i. ucast (drop_bit (8 * i) w)) [0 ..< n]"

definition of_octets :: "bytes \<Rightarrow> 'a::len word" where
  "of_octets bs = foldl (\<lambda>w b. or (push_bit 8 w) (ucast b)) 0 bs"

definition of_ne_bytes :: "bytes \<Rightarrow> 'a::len word" where
  "of_ne_bytes bs = of_octets (rev bs)"

definition to_be16 :: "u16 \<Rightarrow> u16" where
  "to_be16 p = or (push_bit 8 p) (drop_bit 8 p)"

definition octets16 :: "128 word \<Rightarrow> u8 list" where
  "octets16 a = map (\<lambda>i. octet6 i a) [0 ..< 16]"

section \<open>Addresses in memory\<close>

definition AF_INET :: u16 where "AF_INET = 2"
definition AF_INET6 :: u16 where "AF_INET6 = 23"

datatype sockaddr =
    SockIn (sin_port: u16) (sin_addr: u32)
  | SockIn6 (sin6_port: u16) (sin6_flowinfo: u32) (sin6_addr: bytes) (sin6_scope_id: u32)

fun sockaddr_of :: "socket_addr \<Rightarrow> sockaddr" where
  "sockaddr_of (SocketV4 a p) = SockIn (to_be16 p) (of_ne_bytes (octets4 a))"
| "sockaddr_of (SocketV6 a p flow scope) = SockIn6 (to_be16 p) flow (octets16 a) scope"

text \<open>What \<open>as_ptr\<close> points to.\<close>

fun sockaddr_memory :: "sockaddr \<Rightarrow> bytes" where
  "sockaddr_memory (SockIn p a) = ne_bytes 2 AF_INET @ ne_bytes 2 p @ ne_bytes 4 a @ replicate 8 0"
| "sockaddr_memory (SockIn6 p flow a scope) =
     ne_bytes 2 AF_INET6 @ ne_bytes 2 p @ ne_bytes 4 flow @ a @ ne_bytes 4 scope"

text \<open>A pointer of the tables, null or to such memory.\<close>

type_synonym sockaddr_ptr = "bytes option"

definition sa_family :: "bytes \<Rightarrow> u16" where
  "sa_family m = of_ne_bytes (take 2 m)"

definition ip_from_sockaddr :: "sockaddr_ptr \<Rightarrow> ip_addr option" where
  "ip_from_sockaddr address = (case address of
       None \<Rightarrow> None
     | Some m \<Rightarrow>
         if sa_family m = AF_INET
         then Some (V4 (of_octets (ne_bytes 4 (of_ne_bytes (take 4 (drop 4 m)) :: u32))))
         else if sa_family m = AF_INET6 then Some (V6 (of_octets (take 16 (drop 8 m))))
         else None)"

definition has_family :: "u16 \<Rightarrow> sockaddr_ptr \<Rightarrow> bool" where
  "has_family family address = (case address of None \<Rightarrow> False | Some m \<Rightarrow> sa_family m = family)"

section \<open>Lemmas\<close>

lemma octet_step:
  "or (push_bit 8 (drop_bit (n + 8) a)) (ucast (ucast (drop_bit n a) :: u8)) = drop_bit n (a :: 'a::len word)"
  by (rule bit_eqI) (auto simp: bit_simps)

lemma of_octets4: "of_octets (octets4 a) = a"
proof -
  have "drop_bit 32 a = 0" by (rule bit_eqI) (auto simp: bit_simps dest: bit_imp_le_length)
  with octet_step [of 24 a] octet_step [of 16 a] octet_step [of 8 a] octet_step [of 0 a]
  show ?thesis by (simp add: of_octets_def octets4_def octet4_def)
qed

lemma of_octets16: "of_octets (octets16 a) = a"
proof -
  have "drop_bit 128 a = 0" by (rule bit_eqI) (auto simp: bit_simps dest: bit_imp_le_length)
  have *: "foldl (\<lambda>w b. or (push_bit 8 w) (ucast b)) (0 :: 128 word) (map (\<lambda>i. octet6 i a) [0 ..< n]) = drop_bit (128 - 8 * n) a"
    if "n \<le> 16" for n
    using that
  proof (induction n)
    case 0
    then show ?case using \<open>drop_bit 128 a = 0\<close> by simp
  next
    case (Suc n)
    have "120 - 8 * n + 8 = 128 - 8 * n" "128 - 8 * Suc n = 120 - 8 * n" using Suc.prems by simp_all
    then show ?case using Suc octet_step [of "120 - 8 * n" a] by (simp add: octet6_def)
  qed
  from * [of 16] show ?thesis by (simp add: of_octets_def octets16_def)
qed

lemma length_ne_bytes [simp]: "length (ne_bytes n w) = n"
  by (simp add: ne_bytes_def)

lemma length_octets [simp]: "length (octets4 a) = 4" "length (octets16 b) = 16"
  by (simp_all add: octets4_def octets16_def)

lemma ne_bytes_octets4: "ne_bytes 4 (of_ne_bytes (octets4 a) :: u32) = octets4 a"
  by (simp add: ne_bytes_def of_ne_bytes_def of_octets_def octets4_def octet4_def upt_rec)
     (intro conjI; rule bit_eqI; auto simp: bit_simps)

lemma port_in_network_order:
  "ne_bytes 2 (to_be16 p) = [ucast (drop_bit 8 p), ucast p]"
  by (simp add: ne_bytes_def to_be16_def upt_rec) (intro conjI; rule bit_eqI; auto simp: bit_simps)

lemma family_memory:
  "sa_family (ne_bytes 2 AF_INET @ r) = AF_INET" "sa_family (ne_bytes 2 AF_INET6 @ r) = AF_INET6"
  by (simp_all add: sa_family_def, code_simp+)

lemma families: "AF_INET6 \<noteq> AF_INET"
  by (simp add: AF_INET_def AF_INET6_def)

lemma sockaddr_memory_ip:
  "ip_from_sockaddr (Some (sockaddr_memory (sockaddr_of (SocketV4 a p)))) = Some (V4 a)"
  "ip_from_sockaddr (Some (sockaddr_memory (sockaddr_of (SocketV6 b q flow scope)))) = Some (V6 b)"
  by (simp_all add: ip_from_sockaddr_def family_memory ne_bytes_octets4 of_octets4 of_octets16 families)

fun socket_ip :: "socket_addr \<Rightarrow> ip_addr" where
  "socket_ip (SocketV4 a p) = V4 a"
| "socket_ip (SocketV6 a p flow scope) = V6 a"

section \<open>Properties\<close>

text \<open>
  What the service writes to memory for \<open>GetBestInterfaceEx\<close> is what it reads from the tables of
  the system: the address of an endpoint reads back from its memory, whose port is in network
  order whatever the order of the machine, for both families and every port, flow and scope.\<close>

theorem sockaddr_round_trip:
  "ip_from_sockaddr (Some (sockaddr_memory (sockaddr_of e))) = Some (socket_ip e)
   \<and> take 2 (drop 2 (sockaddr_memory (sockaddr_of e))) = [ucast (drop_bit 8 (socket_port e)), ucast (socket_port e)]"
proof
  show "ip_from_sockaddr (Some (sockaddr_memory (sockaddr_of e))) = Some (socket_ip e)"
    by (cases e) (simp_all only: sockaddr_memory_ip socket_ip.simps)
  show "take 2 (drop 2 (sockaddr_memory (sockaddr_of e))) = [ucast (drop_bit 8 (socket_port e)), ucast (socket_port e)]"
    by (cases e) (simp_all add: port_in_network_order)
qed

end
