(* ===== verification/Windows_Platform.thy ===== *)
theory Windows_Platform
  imports File_System Process_Plan Socket_Address
begin

text \<open>
  What the service calls outside its own code: Windows (adapter tables, DPAPI, job objects,
  processes, sockets, the clock) and the programs it starts (\<open>netsh\<close>, the core). Each call is
  a field of \<open>platform\<close>, an operation on a state \<open>'x\<close> of the rest of the machine that the
  model never looks into; the file system is modelled on its own. What a proof needs of these
  calls it takes as a named hypothesis on the record.
\<close>

record process_output =
  succeeded :: bool
  status_text :: string
  out_bytes :: bytes
  err_bytes :: bytes

text \<open>
  An adapter of \<open>GetAdaptersAddresses\<close>; its addresses are pointers to socket addresses in
  memory, which the system may leave null.
\<close>

record adapter =
  friendly_name :: string
  description :: string
  luid :: u64
  unicast :: "sockaddr_ptr list"
  dns :: "sockaddr_ptr list"
  if_index :: u32
  ipv6_if_index :: u32

datatype adapters_reply = BufferOverflow u32 | AdaptersFailed u32 | Adapters "adapter list"

record 'x platform =
  run_netsh :: "string list \<Rightarrow> ('x, io_error, process_output) prog"
  get_adapters :: "u32 \<Rightarrow> 'x \<Rightarrow> adapters_reply \<times> 'x"
  loop_fuel :: nat
  get_best_interface :: "bytes \<Rightarrow> ('x, u32, u32) prog"
  crypt_protect :: "bytes \<Rightarrow> ('x, io_error, bytes) prog"
  crypt_unprotect :: "bytes \<Rightarrow> ('x, io_error, bytes) prog"
  create_job_object :: "('x, string, nat) prog"
  set_job_limits :: "nat \<Rightarrow> u32 \<Rightarrow> ('x, string, unit) prog"
  spawn :: "xray_invocation \<Rightarrow> string \<Rightarrow> ('x, io_error, nat) prog"
  has_handle :: "nat \<Rightarrow> 'x \<Rightarrow> bool"
  assign_process :: "nat \<Rightarrow> nat \<Rightarrow> ('x, string, unit) prog"
  close_job :: "nat \<Rightarrow> 'x \<Rightarrow> 'x"
  try_wait :: "nat \<Rightarrow> ('x, io_error, string option) prog"
  kill_wait :: "nat \<Rightarrow> 'x \<Rightarrow> 'x"
  start_kill :: "nat \<Rightarrow> 'x \<Rightarrow> 'x"
  output_within :: "nat \<Rightarrow> xray_invocation \<Rightarrow> string \<Rightarrow> ('x, io_error, process_output option) prog"
  bind_loopback_port :: "('x, io_error, u16) prog"
  release_ports :: "'x \<Rightarrow> 'x"
  stream_connect :: "u16 \<Rightarrow> ('x, io_error, unit) prog"
  stream_write :: "bytes \<Rightarrow> ('x, io_error, unit) prog"
  stream_read :: "nat \<Rightarrow> ('x, io_error, bytes) prog"
  timed_out :: "nat \<Rightarrow> 'x \<Rightarrow> bool \<times> 'x"
  now_ms :: "'x \<Rightarrow> nat"
  sleep_ms :: "nat \<Rightarrow> 'x \<Rightarrow> 'x"
  bind_tun :: "32 word \<Rightarrow> ('x, io_error, unit) prog"
  connect_within :: "nat \<Rightarrow> socket_addr \<Rightarrow> ('x, io_error, unit option) prog"
  lookup_within :: "nat \<Rightarrow> string \<Rightarrow> ('x, io_error, socket_addr list option) prog"

record 'x world =
  disk :: file_system
  ext :: 'x

type_synonym ('x, 'a) os_io = "('x world, io_error, 'a) prog"

definition on_disk :: "(file_system, 'e, 'a) prog \<Rightarrow> ('x world, 'e, 'a) prog" where
  "on_disk m = szoom disk (\<lambda>d w. w\<lparr>disk := d\<rparr>) m"

definition on_ext :: "('x, 'e, 'a) prog \<Rightarrow> ('x world, 'e, 'a) prog" where
  "on_ext m = szoom ext (\<lambda>x w. w\<lparr>ext := x\<rparr>) m"

definition ext_modify :: "('x \<Rightarrow> 'x) \<Rightarrow> ('x world, 'e, unit) prog" where
  "ext_modify f = smodify (\<lambda>w. w\<lparr>ext := f (ext w)\<rparr>)"

text \<open>\<open>io::Error::from_raw_os_error\<close>; the message is the system's text for the code.\<close>

definition from_raw_os_error :: "u32 \<Rightarrow> io_error" where
  "from_raw_os_error code = \<lparr>io_kind = Other, raw_os_error = Some (sint code),
     io_message = ''os error '' @ dec (unat code)\<rparr>"

lemma wp_on_disk: "wp (on_disk m) Q E w = wp m (\<lambda>a d. Q a (w\<lparr>disk := d\<rparr>)) (\<lambda>e d. E e (w\<lparr>disk := d\<rparr>)) (disk w)"
  by (simp add: on_disk_def wp_simps)

lemma wp_on_ext: "wp (on_ext m) Q E w = wp m (\<lambda>a x. Q a (w\<lparr>ext := x\<rparr>)) (\<lambda>e x. E e (w\<lparr>ext := x\<rparr>)) (ext w)"
  by (simp add: on_ext_def wp_simps)

lemma wp_ext_modify: "wp (ext_modify f) Q E w = Q () (w\<lparr>ext := f (ext w)\<rparr>)"
  by (simp add: ext_modify_def wp_simps)

lemmas world_wp = wp_simps wp_on_disk wp_on_ext wp_ext_modify

section \<open>Job objects\<close>

text \<open>
  \<open>OwnedJob\<close> of \<open>service/src/windows_process.rs\<close>: a job whose processes die when its handle is
  closed. A job whose limits cannot be set is closed again by its \<open>drop\<close>.
\<close>

definition JOB_OBJECT_LIMIT_KILL_ON_JOB_CLOSE :: u32 where
  "JOB_OBJECT_LIMIT_KILL_ON_JOB_CLOSE = 0x2000"

definition create_job :: "'x platform \<Rightarrow> ('x, io_error, nat) prog" where
  "create_job P =
     sbind (smap_err io_other (create_job_object P)) (\<lambda>job.
     sseq (scatch (smap_err io_other (set_job_limits P job JOB_OBJECT_LIMIT_KILL_ON_JOB_CLOSE))
       (\<lambda>e. sseq (smodify (close_job P job)) (sfail e)))
     (sret job))"

definition assign_job :: "'x platform \<Rightarrow> nat \<Rightarrow> nat \<Rightarrow> ('x, io_error, unit) prog" where
  "assign_job P job child =
     sbind (sgets (has_handle P child)) (\<lambda>handle.
     if \<not> handle then sfail (io_other ''spawned Xray has no process handle'')
     else smap_err io_other (assign_process P job child))"

section \<open>What the rest of the machine leaves alone\<close>

text \<open>
  An assertion about the machine that none of the calls other than \<open>netsh\<close> disturbs. The
  theorems on the kill switch use it with the routes of the loopback interface: starting,
  probing and stopping the core, and reading system tables, do not change those.
\<close>

definition undisturbed :: "'x platform \<Rightarrow> ('x \<Rightarrow> bool) \<Rightarrow> bool" where
  "undisturbed P I \<longleftrightarrow>
     (\<forall>n x. I x \<longrightarrow> I (snd (get_adapters P n x))) \<and> (\<forall>a. keeps I (get_best_interface P a))
     \<and> (\<forall>b. keeps I (crypt_protect P b)) \<and> (\<forall>b. keeps I (crypt_unprotect P b))
     \<and> keeps I (create_job_object P) \<and> (\<forall>j n. keeps I (set_job_limits P j n))
     \<and> (\<forall>i d. keeps I (spawn P i d)) \<and> (\<forall>j c. keeps I (assign_process P j c))
     \<and> (\<forall>j x. I x \<longrightarrow> I (close_job P j x)) \<and> (\<forall>c. keeps I (try_wait P c))
     \<and> (\<forall>c x. I x \<longrightarrow> I (kill_wait P c x)) \<and> (\<forall>c x. I x \<longrightarrow> I (start_kill P c x))
     \<and> (\<forall>n i d. keeps I (output_within P n i d)) \<and> keeps I (bind_loopback_port P)
     \<and> (\<forall>x. I x \<longrightarrow> I (release_ports P x)) \<and> (\<forall>p. keeps I (stream_connect P p))
     \<and> (\<forall>b. keeps I (stream_write P b)) \<and> (\<forall>n. keeps I (stream_read P n))
     \<and> (\<forall>n x. I x \<longrightarrow> I (snd (timed_out P n x))) \<and> (\<forall>n x. I x \<longrightarrow> I (sleep_ms P n x))
     \<and> (\<forall>a. keeps I (bind_tun P a)) \<and> (\<forall>n a. keeps I (connect_within P n a))
     \<and> (\<forall>n h. keeps I (lookup_within P n h))"

lemma keeps_job:
  "keeps I (create_job_object P) \<Longrightarrow> \<forall>j n. keeps I (set_job_limits P j n) \<Longrightarrow> \<forall>j x. I x \<longrightarrow> I (close_job P j x)
     \<Longrightarrow> keeps I (create_job P)"
  "\<forall>j c. keeps I (assign_process P j c) \<Longrightarrow> keeps I (assign_job P k d)"
  by (simp add: create_job_def, intro hoare_rules; simp)
     (simp add: assign_job_def, intro hoare_rules; simp)

lemma undisturbedD:
  assumes "undisturbed P I"
  shows "I x \<Longrightarrow> I (snd (get_adapters P k x))" and "keeps I (get_best_interface P a)"
    and "keeps I (crypt_protect P b)" and "keeps I (crypt_unprotect P b)"
    and "keeps I (create_job P)" and "keeps I (spawn P i d)" and "keeps I (assign_job P j c)"
    and "I x \<Longrightarrow> I (close_job P j x)" and "keeps I (try_wait P c)"
    and "I x \<Longrightarrow> I (kill_wait P c x)" and "I x \<Longrightarrow> I (start_kill P c x)"
    and "keeps I (output_within P n i d)" and "keeps I (bind_loopback_port P)"
    and "I x \<Longrightarrow> I (release_ports P x)" and "keeps I (stream_connect P p)"
    and "keeps I (stream_write P b)" and "keeps I (stream_read P n)"
    and "I x \<Longrightarrow> I (snd (timed_out P n x))" and "I x \<Longrightarrow> I (sleep_ms P n x)"
    and "keeps I (bind_tun P t)" and "keeps I (connect_within P n e)"
    and "keeps I (lookup_within P n h)"
  using assms unfolding undisturbed_def
  by (simp_all add: keeps_job)

text \<open>Assertions on the machine lifted to the world, and the calls that keep them.\<close>

definition in_ext :: "('x \<Rightarrow> bool) \<Rightarrow> 'x world \<Rightarrow> bool" where
  "in_ext I w \<longleftrightarrow> I (ext w)"

lemma keeps_on_disk [hoare_rules]: "keeps (in_ext I) (on_disk m)"
  by (auto simp: keeps_def on_disk_def szoom_def in_ext_def split: prod.splits)

lemma keeps_on_ext [hoare_rules]: "keeps I m \<Longrightarrow> keeps (in_ext I) (on_ext m)"
  by (auto simp: keeps_def on_ext_def szoom_def in_ext_def split: prod.splits)

lemma keeps_ext_modify [hoare_rules]: "(\<And>x. I x \<Longrightarrow> I (f x)) \<Longrightarrow> keeps (in_ext I) (ext_modify f)"
  by (auto simp: keeps_def ext_modify_def smodify_def in_ext_def)

section \<open>A machine for concrete runs\<close>

text \<open>
  The routes of the loopback interface, by family and prefix, as \<open>netsh\<close> adds, deletes and
  shows them; every other call succeeds at once and changes nothing.
\<close>

type_synonym bench = "(string \<times> string) list"

definition success_output :: "bytes \<Rightarrow> process_output" where
  "success_output bs = \<lparr>succeeded = True, status_text = ''exit code: 0'', out_bytes = bs, err_bytes = []\<rparr>"

fun bench_netsh :: "string list \<Rightarrow> (bench, io_error, process_output) prog" where
  "bench_netsh (i # family # verb # r # p # f # rest) routes =
     (case strip_prefix ''prefix='' p of
        Some prefix \<Rightarrow>
          if i \<noteq> ''interface'' \<or> r \<noteq> ''route'' \<or> f \<noteq> ''interface=1''
          then (Ok (success_output []), routes)
          else if verb = ''add'' then (Ok (success_output []), List.insert (family, prefix) routes)
          else if verb = ''delete'' then (Ok (success_output []), removeAll (family, prefix) routes)
          else (Ok (success_output (if (family, prefix) \<in> set routes then as_bytes prefix else [])), routes)
      | None \<Rightarrow> (Ok (success_output []), routes))"
| "bench_netsh args routes = (Ok (success_output []), routes)"

definition bench_platform ::
  "(string list \<Rightarrow> ('x, io_error, process_output) prog) \<Rightarrow> 'x platform" where
  "bench_platform netsh =
     \<lparr>run_netsh = netsh,
      get_adapters = (\<lambda>n x. (Adapters [], x)),
      loop_fuel = 1,
      get_best_interface = (\<lambda>a. sret 1),
      crypt_protect = sret,
      crypt_unprotect = sret,
      create_job_object = sret 0,
      set_job_limits = (\<lambda>j n. sret ()),
      spawn = (\<lambda>i d. sret 0),
      has_handle = (\<lambda>c x. True),
      assign_process = (\<lambda>j c. sret ()),
      close_job = (\<lambda>j x. x),
      try_wait = (\<lambda>c. sret None),
      kill_wait = (\<lambda>c x. x),
      start_kill = (\<lambda>c x. x),
      output_within = (\<lambda>n i d. sret (Some (success_output []))),
      bind_loopback_port = sret 50000,
      release_ports = (\<lambda>x. x),
      stream_connect = (\<lambda>p. sret ()),
      stream_write = (\<lambda>b. sret ()),
      stream_read = (\<lambda>n. sret (replicate n 0)),
      timed_out = (\<lambda>n x. (False, x)),
      now_ms = (\<lambda>x. 0),
      sleep_ms = (\<lambda>n x. x),
      bind_tun = (\<lambda>a. sret ()),
      connect_within = (\<lambda>n a. sret (Some ())),
      lookup_within = (\<lambda>n h. sret (Some [SocketV4 0 443]))\<rparr>"

lemma undisturbed_bench: "undisturbed (bench_platform netsh) I"
  by (simp add: undisturbed_def bench_platform_def keeps_basic)

end
