(* ===== verification/Framing.thy ===== *)
theory Framing
  imports Protocol
begin

text \<open>
  \<open>crates/varmlen-service-core/src/framing.rs\<close> (length-prefixed frames) and
  \<open>handler.rs\<close> (from a request payload to a response payload). The reader is the bytes
  that will still arrive before end of file; the writer collects what was sent and may
  break after a given number of bytes. The executor behind \<open>handle_payload\<close> is the trait
  \<open>CommandExecutor\<close>, a parameter.
\<close>

section \<open>Big-endian lengths\<close>

definition be_bytes32 :: "nat \<Rightarrow> bytes" where
  "be_bytes32 n = [of_nat (n div 2 ^ 24), of_nat (n div 2 ^ 16), of_nat (n div 2 ^ 8), of_nat n]"

fun of_be_bytes :: "bytes \<Rightarrow> nat" where
  "of_be_bytes bs = foldl (\<lambda>n b. 256 * n + unat b) 0 bs"

declare of_be_bytes.simps [simp del]

lemma length_be_bytes32 [simp]: "length (be_bytes32 n) = 4"
  by (simp add: be_bytes32_def)

lemma digits256: "n = 256 * (n div 256) + n mod (256::nat)"
  by simp

lemma unat_of_nat8: "unat (of_nat n :: u8) = n mod 256"
  by (simp add: unat_of_nat)

lemma of_be_bytes32: "n < 2 ^ 32 \<Longrightarrow> of_be_bytes (be_bytes32 n) = n"
proof -
  assume "n < 2 ^ 32"
  then have top: "n div 2 ^ 24 mod 256 = n div 256 div 256 div 256"
    by (simp add: div_mult2_eq [symmetric])
  have "n = 256 * (n div 256) + n mod 256"
    "n div 256 = 256 * (n div 256 div 256) + n div 256 mod 256"
    "n div 256 div 256 = 256 * (n div 256 div 256 div 256) + n div 256 div 256 mod 256"
    by simp_all
  moreover have "n div 2 ^ 16 = n div 256 div 256" "n div 2 ^ 8 = n div 256"
    by (simp_all add: div_mult2_eq [symmetric])
  ultimately show ?thesis using top
    by (simp add: be_bytes32_def of_be_bytes.simps unat_of_nat8)
qed

section \<open>Frames\<close>

definition read_exact :: "nat \<Rightarrow> (bytes, unit, bytes) prog" where
  "read_exact n input =
     (if length input < n then (Err (), []) else (Ok (take n input), drop n input))"

definition read_payload :: "(bytes, service_error_code, bytes) prog" where
  "read_payload =
     sbind (smap_err (\<lambda>_. InvalidFrame) (read_exact 4)) (\<lambda>header.
       let n = of_be_bytes header
       in if MAX_FRAME_BYTES < n then sfail FrameTooLarge
          else smap_err (\<lambda>_. InvalidFrame) (read_exact n))"

text \<open>\<open>room = None\<close>: the writer never breaks.\<close>

record writer =
  sent :: bytes
  room :: "nat option"

definition write_all :: "bytes \<Rightarrow> (writer, unit, unit) prog" where
  "write_all bs w =
     (case room w of
        None \<Rightarrow> (Ok (), w\<lparr>sent := sent w @ bs\<rparr>)
      | Some n \<Rightarrow>
          if length bs \<le> n then (Ok (), w\<lparr>sent := sent w @ bs, room := Some (n - length bs)\<rparr>)
          else (Err (), w\<lparr>sent := sent w @ take n bs, room := Some 0\<rparr>))"

definition write_payload :: "bytes \<Rightarrow> (writer, service_error_code, unit) prog" where
  "write_payload payload =
     (if MAX_FRAME_BYTES < length payload then sfail FrameTooLarge
      else sseq (smap_err (\<lambda>_. Internal) (write_all (be_bytes32 (length payload))))
                (smap_err (\<lambda>_. Internal) (write_all payload)))"

lemma read_exact_append [simp]: "read_exact (length a) (a @ b) = (Ok a, b)"
  by (simp add: read_exact_def)

lemma write_payload_sent:
  assumes "write_payload p w = (Ok (), w')"
  shows "sent w' = sent w @ be_bytes32 (length p) @ p" and "length p \<le> MAX_FRAME_BYTES"
  using assms unfolding write_payload_def
  by (auto simp: prog_defs write_all_def split: if_splits option.splits)

lemma write_payload_unlimited:
  "room w = None \<Longrightarrow> length p \<le> MAX_FRAME_BYTES \<Longrightarrow> \<exists>w'. write_payload p w = (Ok (), w')"
  by (simp add: write_payload_def prog_defs write_all_def)

lemma read_payload_frame:
  assumes "length p \<le> MAX_FRAME_BYTES"
  shows "read_payload (be_bytes32 (length p) @ p @ rest) = (Ok p, rest)"
proof -
  have "read_exact 4 (be_bytes32 (length p) @ p @ rest) = (Ok (be_bytes32 (length p)), p @ rest)"
    using read_exact_append [of "be_bytes32 (length p)" "p @ rest"] by simp
  moreover have "of_be_bytes (be_bytes32 (length p)) = length p"
    using assms by (intro of_be_bytes32) (simp add: MAX_FRAME_BYTES_def)
  ultimately show ?thesis
    using assms by (simp add: read_payload_def prog_defs Let_def)
qed

section \<open>The request handler\<close>

record protocol_serde =
  read_request :: "bytes \<Rightarrow> string + request_envelope"
  write_request :: "request_envelope \<Rightarrow> string + bytes"
  read_response :: "bytes \<Rightarrow> string + response_envelope"
  write_response :: "response_envelope \<Rightarrow> string + bytes"

text \<open>\<open>format!("{code:?}")\<close>\<close>

fun debug_code :: "service_error_code \<Rightarrow> string" where
  "debug_code UnsupportedVersion = ''UnsupportedVersion''"
| "debug_code FrameTooLarge = ''FrameTooLarge''"
| "debug_code InvalidFrame = ''InvalidFrame''"
| "debug_code InvalidRequest = ''InvalidRequest''"
| "debug_code Unauthorized = ''Unauthorized''"
| "debug_code ValidationFailed = ''ValidationFailed''"
| "debug_code HoldFailed = ''HoldFailed''"
| "debug_code XrayStartFailed = ''XrayStartFailed''"
| "debug_code HealthCheckFailed = ''HealthCheckFailed''"
| "debug_code RestoreFailed = ''RestoreFailed''"
| "debug_code CleanupFailed = ''CleanupFailed''"
| "debug_code Internal = ''Internal''"

definition encode_error :: "protocol_serde \<Rightarrow> u64 \<Rightarrow> service_error_code \<Rightarrow> service_error_code + bytes" where
  "encode_error sd op code =
     encode_payload (write_response sd)
       \<lparr>resp_version = PROTOCOL_VERSION, resp_operation_id = op,
        resp_result = Err (service_error_new code (debug_code code))\<rparr>"

type_synonym 'x executor = "u64 \<Rightarrow> service_command \<Rightarrow> ('x, service_error, service_response) prog"

definition handle_payload ::
  "protocol_serde \<Rightarrow> 'x executor \<Rightarrow> bytes \<Rightarrow> ('x, service_error_code, bytes) prog" where
  "handle_payload sd execute payload =
     (if MAX_FRAME_BYTES < length payload then slift (encode_error sd 0 FrameTooLarge)
      else case read_request sd payload of
        Err _ \<Rightarrow> slift (encode_error sd 0 InvalidFrame)
      | Ok request \<Rightarrow>
          (case validate_request request of
             Err code \<Rightarrow> slift (encode_error sd (req_operation_id request) code)
           | Ok _ \<Rightarrow>
               sbind (sattempt (execute (req_operation_id request) (req_command request)))
                 (\<lambda>result. slift (encode_payload (write_response sd)
                   \<lparr>resp_version = PROTOCOL_VERSION,
                    resp_operation_id = req_operation_id request,
                    resp_result = result\<rparr>))))"

text \<open>The envelope the handler answers with, as a function of the payload and the run.\<close>

definition response_for ::
  "protocol_serde \<Rightarrow> 'x executor \<Rightarrow> bytes \<Rightarrow> 'x \<Rightarrow> response_envelope" where
  "response_for sd execute payload x =
     \<lparr>resp_version = PROTOCOL_VERSION,
      resp_operation_id =
        (if MAX_FRAME_BYTES < length payload then 0
         else case read_request sd payload of Err _ \<Rightarrow> 0 | Ok r \<Rightarrow> req_operation_id r),
      resp_result =
        (case decode_request (read_request sd) payload of
           Err code \<Rightarrow> Err (service_error_new code (debug_code code))
         | Ok r \<Rightarrow> fst (execute (req_operation_id r) (req_command r) x))\<rparr>"

lemma handle_payload_eq:
  "handle_payload sd execute payload x =
     (encode_payload (write_response sd) (response_for sd execute payload x),
      case decode_request (read_request sd) payload of
        Err _ \<Rightarrow> x
      | Ok r \<Rightarrow> snd (execute (req_operation_id r) (req_command r) x))"
  unfolding handle_payload_def response_for_def decode_request_def encode_error_def
  by (auto simp: prog_defs split: sum.splits prod.splits)

lemma decode_request_Ok:
  "decode_request de bs = Ok r \<longleftrightarrow>
     length bs \<le> MAX_FRAME_BYTES \<and> de bs = Ok r \<and> validate_request r = Ok ()"
  by (auto simp: decode_request_def)

lemma encode_payload_Ok:
  "encode_payload ser v = Ok bs \<longleftrightarrow> ser v = Ok bs \<and> length bs \<le> MAX_FRAME_BYTES"
  by (cases "ser v") (auto simp: encode_payload_def)

section \<open>What a client expects of the executor\<close>

text \<open>
  The contract between the executor behind the pipe and the application: a state that answers a
  command is the state the service then reports, a connection is reported as connected with the
  network sealed or open as the request asks, and so is a disconnection. \<open>usable\<close> stands for what
  the executor itself relies on.
\<close>

locale tunnel_executor =
  fixes exec :: "'x executor" and usable :: bool
    and reported :: "'x \<Rightarrow> service_state" and is_sealed is_open :: "'x \<Rightarrow> bool"
  assumes connect_settles: "usable \<Longrightarrow> wp (exec op (Connect r))
      (\<lambda>a x. \<forall>s. a = RState s \<longrightarrow> s = reported x \<and> phase s = Connected
         \<and> (if killswitch r then is_sealed x else is_open x)) (\<lambda>_ _. True) x"
    and disconnect_settles: "usable \<Longrightarrow> wp (exec op (Disconnect keep))
      (\<lambda>a x. \<forall>s. a = RState s \<longrightarrow> s = reported x \<and> phase s = (if keep then Blocked else Disconnected)
         \<and> (if keep then is_sealed x else is_open x)) (\<lambda>_ _. True) x"
    and status_reports: "exec op Status x = (Ok (RState (reported x)), x)"

section \<open>Properties\<close>

text \<open>
  C34: a frame is read back as the payload that was written, and reading it consumes exactly
  its bytes, whatever follows.
\<close>

theorem frame_round_trip:
  assumes "write_payload p w = (Ok (), w')"
  shows "\<exists>frame. sent w' = sent w @ frame \<and> (\<forall>rest. read_payload (frame @ rest) = (Ok p, rest))"
  using write_payload_sent [OF assms] read_payload_frame [of p]
  by (intro exI [of _ "be_bytes32 (length p) @ p"]) simp

lemma frame_round_trip_witness:
  "\<exists>frame. sent \<lparr>sent = [0, 0, 0, 2, 7, 8], room = None\<rparr> = sent \<lparr>sent = [], room = None\<rparr> @ frame
     \<and> (\<forall>rest. read_payload (frame @ rest) = (Ok [7, 8], rest))"
  by (rule frame_round_trip) code_simp

text \<open>
  A payload that is too large, unreadable, of another version or out of bounds never
  reaches the executor: the state is unchanged, and the answer is an error with its code.
\<close>

theorem invalid_request_not_executed:
  assumes "decode_request (read_request sd) p = Err code"
  shows "snd (handle_payload sd exec p x) = x
     \<and> fst (handle_payload sd exec p x) = encode_payload (write_response sd) (response_for sd exec p x)
     \<and> resp_result (response_for sd exec p x) = Err (service_error_new code (debug_code code))"
  by (simp add: handle_payload_eq response_for_def assms)

definition sample_protocol_serde :: protocol_serde where
  "sample_protocol_serde = \<lparr>
     read_request = (\<lambda>b. Ok \<lparr>req_version = (if b = [1] then 3 else 2), req_operation_id = 18446744073709551615,
        req_command = Status\<rparr>),
     write_request = (\<lambda>r. Ok [1]),
     read_response = (\<lambda>b. Ok \<lparr>resp_version = 3, resp_operation_id = 18446744073709551615,
        resp_result = Ok (RState disconnected_state)\<rparr>),
     write_response = (\<lambda>r. Ok [2])\<rparr>"

lemma invalid_request_not_executed_witness:
  "snd (handle_payload sample_protocol_serde (\<lambda>n c x. (Ok Ack, Suc x)) [5] 0) = 0
     \<and> fst (handle_payload sample_protocol_serde (\<lambda>n c x. (Ok Ack, Suc x)) [5] 0)
         = encode_payload (write_response sample_protocol_serde)
             (response_for sample_protocol_serde (\<lambda>n c x. (Ok Ack, Suc x)) [5] 0)
     \<and> resp_result (response_for sample_protocol_serde (\<lambda>n c x. (Ok Ack, Suc x)) [5] 0)
         = Err (service_error_new UnsupportedVersion (debug_code UnsupportedVersion))"
  by (rule invalid_request_not_executed) code_simp

text \<open>
  A valid request is executed exactly once, with its own operation id and command, and
  the answer carries that id, the protocol's version and the result as it is.
\<close>

theorem valid_request_answered:
  assumes "decode_request (read_request sd) p = Ok r"
    and "exec (req_operation_id r) (req_command r) x = (result, y)"
  shows "handle_payload sd exec p x =
     (encode_payload (write_response sd)
        \<lparr>resp_version = 3, resp_operation_id = req_operation_id r, resp_result = result\<rparr>, y)"
proof -
  have "length p \<le> MAX_FRAME_BYTES" "read_request sd p = Ok r"
    using assms(1) by (simp_all add: decode_request_Ok)
  then show ?thesis
    using assms by (simp add: handle_payload_eq response_for_def PROTOCOL_VERSION_def)
qed

lemma valid_request_answered_witness:
  "handle_payload sample_protocol_serde (\<lambda>n c x. (Ok Ack, Suc x)) [1] 0 =
     (encode_payload (write_response sample_protocol_serde)
        \<lparr>resp_version = 3, resp_operation_id = req_operation_id
           \<lparr>req_version = 3, req_operation_id = 18446744073709551615, req_command = Status\<rparr>,
         resp_result = Ok Ack\<rparr>, 1)"
  by (rule valid_request_answered) code_simp+

end
