(* ===== verification/Json.thy ===== *)
theory Json
  imports Rust_Strings
begin

text \<open>
  JSON values as the sources see them through \<open>serde_json::Value\<close>: the tree, its
  accessors, and objects as the sorted maps (\<open>BTreeMap<String, Value>\<close>, which is what
  the crate uses without its \<open>preserve_order\<close> feature; \<open>Cargo.lock\<close> shows it is off).
  Reading and printing JSON text is third-party code: it is the record \<open>json_text\<close>,
  a parameter of every definition that uses it.
\<close>

section \<open>Values\<close>

text \<open>A number is a \<open>u64\<close>, a negative \<open>i64\<close> or a double (given by its bits).\<close>

datatype json_num = PosInt u64 | NegInt u64 | Float u64

datatype json =
    JNull
  | JBool bool
  | JNum json_num
  | JStr string
  | JArr "json list"
  | JObj "(string \<times> json) list"

fun as_str :: "json \<Rightarrow> string option" where
  "as_str (JStr s) = Some s"
| "as_str _ = None"

fun as_bool :: "json \<Rightarrow> bool option" where
  "as_bool (JBool b) = Some b"
| "as_bool _ = None"

fun as_u64 :: "json \<Rightarrow> u64 option" where
  "as_u64 (JNum (PosInt n)) = Some n"
| "as_u64 _ = None"

fun as_array :: "json \<Rightarrow> json list option" where
  "as_array (JArr xs) = Some xs"
| "as_array _ = None"

fun as_object :: "json \<Rightarrow> (string \<times> json) list option" where
  "as_object (JObj kvs) = Some kvs"
| "as_object _ = None"

definition is_object :: "json \<Rightarrow> bool" where
  "is_object v \<longleftrightarrow> as_object v \<noteq> None"

text \<open>\<open>Value::get\<close> with a string key: only an object has fields.\<close>

fun jget :: "string \<Rightarrow> json \<Rightarrow> json option" where
  "jget k (JObj kvs) = map_of kvs k"
| "jget k _ = None"

text \<open>\<open>v.get(k).and_then(Value::as_str)\<close>\<close>

definition get_str :: "string \<Rightarrow> json \<Rightarrow> string option" where
  "get_str k v = Option.bind (jget k v) as_str"

definition get_array :: "string \<Rightarrow> json \<Rightarrow> json list option" where
  "get_array k v = Option.bind (jget k v) as_array"

text \<open>The value at a path of field names.\<close>

fun jpath :: "string list \<Rightarrow> json \<Rightarrow> json option" where
  "jpath [] v = Some v"
| "jpath (k # ks) v = Option.bind (jget k v) (jpath ks)"

lemma as_str_Some [simp]: "as_str v = Some s \<longleftrightarrow> v = JStr s"
  by (cases v) auto

lemma as_bool_Some [simp]: "as_bool v = Some b \<longleftrightarrow> v = JBool b"
  by (cases v) auto

lemma as_u64_Some [simp]: "as_u64 v = Some n \<longleftrightarrow> v = JNum (PosInt n)"
  by (cases v rule: as_u64.cases) auto

lemma as_array_Some [simp]: "as_array v = Some xs \<longleftrightarrow> v = JArr xs"
  by (cases v) auto

lemma as_object_Some [simp]: "as_object v = Some kvs \<longleftrightarrow> v = JObj kvs"
  by (cases v) auto

lemma get_str_Some [simp]: "get_str k v = Some s \<longleftrightarrow> jget k v = Some (JStr s)"
  by (auto simp: get_str_def bind_eq_Some_conv)

lemma get_array_Some [simp]: "get_array k v = Some xs \<longleftrightarrow> jget k v = Some (JArr xs)"
  by (auto simp: get_array_def bind_eq_Some_conv)

lemma jget_Some_object: "jget k v = Some x \<Longrightarrow> \<exists>kvs. v = JObj kvs \<and> map_of kvs k = Some x"
  by (cases v) auto

section \<open>Objects as sorted maps\<close>

fun obj_insert :: "string \<Rightarrow> json \<Rightarrow> (string \<times> json) list \<Rightarrow> (string \<times> json) list" where
  "obj_insert k v [] = [(k, v)]"
| "obj_insert k v ((l, w) # kvs) =
     (if k < l then (k, v) # (l, w) # kvs
      else if k = l then (k, v) # kvs
      else (l, w) # obj_insert k v kvs)"

definition obj_remove :: "string \<Rightarrow> (string \<times> json) list \<Rightarrow> (string \<times> json) list" where
  "obj_remove k kvs = filter (\<lambda>kv. fst kv \<noteq> k) kvs"

text \<open>\<open>object.entry(k).or_insert_with(|| default)\<close>: the object with the entry present.\<close>

definition obj_or_insert :: "string \<Rightarrow> json \<Rightarrow> (string \<times> json) list \<Rightarrow> (string \<times> json) list" where
  "obj_or_insert k d kvs = (case map_of kvs k of Some _ \<Rightarrow> kvs | None \<Rightarrow> obj_insert k d kvs)"

text \<open>The \<open>json!\<close> object literal: its fields are inserted in order.\<close>

definition jobj :: "(string \<times> json) list \<Rightarrow> json" where
  "jobj kvs = JObj (foldl (\<lambda>acc kv. obj_insert (fst kv) (snd kv) acc) [] kvs)"

text \<open>
  \<open>value["k"] = x\<close>. The sources assign only into objects, where it inserts; on the other
  values (never reached) Rust would panic, and the model leaves them alone.
\<close>

fun jset :: "string \<Rightarrow> json \<Rightarrow> json \<Rightarrow> json" where
  "jset k x (JObj kvs) = JObj (obj_insert k x kvs)"
| "jset k x v = v"

definition sorted_keys :: "(string \<times> json) list \<Rightarrow> bool" where
  "sorted_keys kvs \<longleftrightarrow> sorted_wrt (<) (map fst kvs)"

lemma map_of_obj_insert [simp]: "map_of (obj_insert k v kvs) = (map_of kvs)(k \<mapsto> v)"
  by (induction k v kvs rule: obj_insert.induct) auto

lemma map_of_obj_remove [simp]: "map_of (obj_remove k kvs) l = (if l = k then None else map_of kvs l)"
  by (induction kvs) (auto simp: obj_remove_def)

lemma map_of_fold_remove:
  "map_of (fold obj_remove ks kvs) k = (if k \<in> set ks then None else map_of kvs k)"
  by (induction ks arbitrary: kvs) auto

lemma map_of_obj_or_insert:
  "map_of (obj_or_insert k d kvs) = (if map_of kvs k = None then (map_of kvs)(k \<mapsto> d) else map_of kvs)"
  by (auto simp: obj_or_insert_def split: option.splits)

lemma set_obj_insert_subset: "set (obj_insert k v kvs) \<subseteq> insert (k, v) (set kvs)"
  by (induction k v kvs rule: obj_insert.induct) auto

lemma fst_set_obj_insert: "fst ` set (obj_insert k v kvs) = insert k (fst ` set kvs)"
  by (induction k v kvs rule: obj_insert.induct) auto

lemma sorted_keys_obj_insert: "sorted_keys kvs \<Longrightarrow> sorted_keys (obj_insert k v kvs)"
  unfolding sorted_keys_def
proof (induction k v kvs rule: obj_insert.induct)
  case (2 k v l w kvs)
  have "fst ` set (obj_insert k v kvs) = insert k (fst ` set kvs)"
    by (rule fst_set_obj_insert)
  with 2 show ?case by fastforce
qed simp

lemma sorted_keys_obj_remove: "sorted_keys kvs \<Longrightarrow> sorted_keys (obj_remove k kvs)"
  unfolding sorted_keys_def obj_remove_def
  by (induction kvs) auto

lemma map_of_foldl_insert:
  "map_of (foldl (\<lambda>acc kv. obj_insert (fst kv) (snd kv) acc) acc kvs) = map_of acc ++ map_of (rev kvs)"
  by (induction kvs arbitrary: acc) (auto simp: map_add_def fun_eq_iff split: option.splits)

lemma jget_jobj [simp]: "jget k (jobj kvs) = map_of (rev kvs) k"
  by (simp add: jobj_def map_of_foldl_insert)

lemma jobj_object: "\<exists>kvs'. jobj kvs = JObj kvs' \<and> map_of kvs' = map_of (rev kvs)"
  by (simp add: jobj_def map_of_foldl_insert)

lemma is_object_jobj [simp]: "is_object (jobj kvs)"
  by (simp add: is_object_def jobj_def)

lemma set_foldl_insert_subset:
  "set (foldl (\<lambda>acc kv. obj_insert (fst kv) (snd kv) acc) acc kvs) \<subseteq> set acc \<union> set kvs"
proof (induction kvs arbitrary: acc)
  case (Cons kv kvs)
  have "set (foldl (\<lambda>acc kv. obj_insert (fst kv) (snd kv) acc) (obj_insert (fst kv) (snd kv) acc) kvs)
      \<subseteq> set (obj_insert (fst kv) (snd kv) acc) \<union> set kvs"
    by (rule Cons.IH)
  also have "\<dots> \<subseteq> set acc \<union> set (kv # kvs)"
    using set_obj_insert_subset [of "fst kv" "snd kv" acc] by auto
  finally show ?case by simp
qed simp

lemma jget_jset [simp]:
  "jget l (jset k x (JObj kvs)) = (if l = k then Some x else map_of kvs l)"
  by simp

lemma jget_jset_object:
  "is_object v \<Longrightarrow> jget l (jset k x v) = (if l = k then Some x else jget l v)"
  by (cases v) (auto simp: is_object_def)

lemma is_object_jset [simp]: "is_object (jset k x v) = is_object v"
  by (cases v) (auto simp: is_object_def)

section \<open>Properties of every object key of a value\<close>

lemma json_size_pair [termination_simp]:
  "kv \<in> set kvs \<Longrightarrow> size (snd kv) < Suc (size_list (size_prod (\<lambda>_. 0) size) kvs)"
  by (induction kvs) auto

fun all_keys :: "(string \<Rightarrow> bool) \<Rightarrow> json \<Rightarrow> bool" where
  "all_keys P (JObj kvs) = list_all (\<lambda>kv. P (fst kv) \<and> all_keys P (snd kv)) kvs"
| "all_keys P (JArr xs) = list_all (all_keys P) xs"
| "all_keys P _ = True"

lemma all_keys_obj_insert:
  "P k \<Longrightarrow> all_keys P v \<Longrightarrow> all_keys P (JObj kvs) \<Longrightarrow> all_keys P (JObj (obj_insert k v kvs))"
  using set_obj_insert_subset [of k v kvs] by (auto simp: list_all_iff)

lemma all_keys_obj_remove: "all_keys P (JObj kvs) \<Longrightarrow> all_keys P (JObj (obj_remove k kvs))"
  by (auto simp: list_all_iff obj_remove_def)

lemma all_keys_fold_remove:
  "all_keys P (JObj kvs) \<Longrightarrow> all_keys P (JObj (fold obj_remove ks kvs))"
  by (induction ks arbitrary: kvs) (simp_all add: all_keys_obj_remove del: all_keys.simps)

lemma all_keys_obj_or_insert:
  "P k \<Longrightarrow> all_keys P d \<Longrightarrow> all_keys P (JObj kvs) \<Longrightarrow> all_keys P (JObj (obj_or_insert k d kvs))"
  by (simp add: obj_or_insert_def all_keys_obj_insert del: all_keys.simps(1) split: option.split)

lemma all_keys_map_of: "all_keys P (JObj kvs) \<Longrightarrow> map_of kvs k = Some v \<Longrightarrow> all_keys P v"
  by (drule map_of_SomeD) (auto simp: list_all_iff)

lemma all_keys_jget: "all_keys P w \<Longrightarrow> jget k w = Some v \<Longrightarrow> all_keys P v"
  by (cases w) (auto intro: all_keys_map_of simp del: all_keys.simps(1))

lemma all_keys_jobj:
  "list_all (\<lambda>kv. P (fst kv) \<and> all_keys P (snd kv)) kvs \<Longrightarrow> all_keys P (jobj kvs)"
  using set_foldl_insert_subset [of "[]" kvs] by (auto simp: jobj_def list_all_iff)

lemma all_keys_jset: "P k \<Longrightarrow> all_keys P x \<Longrightarrow> all_keys P v \<Longrightarrow> all_keys P (jset k x v)"
  by (cases v) (auto simp: all_keys_obj_insert simp del: all_keys.simps(1))

section \<open>JSON text\<close>

text \<open>
  \<open>serde_json\<close>'s reader and printers: \<open>from_str\<close>, \<open>to_string\<close> and
  \<open>to_string_pretty\<close>, with their error texts.
\<close>

record json_text =
  from_str :: "string \<Rightarrow> string + json"
  to_string :: "json \<Rightarrow> string + string"
  to_string_pretty :: "json \<Rightarrow> string + string"

text \<open>
  What the sources rely on, for one printed text: reading it gives back the value it was
  printed from.
\<close>

definition reads_back :: "json_text \<Rightarrow> string \<Rightarrow> bool" where
  "reads_back js text \<longleftrightarrow>
     (\<forall>v. (to_string js v = Ok text \<or> to_string_pretty js v = Ok text) \<longrightarrow> from_str js text = Ok v)"

end
