(* ===== verification/State_Record.thy ===== *)
theory State_Record
  imports Framing Json
begin

text \<open>
  \<open>service/src/state_record.rs\<close>: the desired-state journal's record and its file format, an
  eight-byte magic, a little-endian length and a JSON payload. The JSON (de)serialisers that
  \<open>serde\<close> derives for the record are the parameter \<open>state_serde\<close>.
\<close>

definition MAGIC :: bytes where
  "MAGIC = [0x56, 0x52, 0x4D, 0x4C, 0x4E, 0x53, 0x54, 0x31]"

definition HEADER_BYTES :: nat where "HEADER_BYTES = length MAGIC + 4"
definition MAX_STATE_BYTES :: nat where "MAX_STATE_BYTES = 1024 * 1024"

datatype desired_state_phase =
    DDisconnected
  | DConnecting connect_request "connect_request option" bool
  | DConnected connect_request
  | DDisconnecting bool
  | DBlocked string

record desired_state_record =
  format_version :: u16
  rec_operation_id :: u64
  rec_phase :: desired_state_phase

definition FORMAT_VERSION :: u16 where "FORMAT_VERSION = 2"

definition record_disconnected :: "u64 \<Rightarrow> desired_state_record" where
  "record_disconnected op =
     \<lparr>format_version = FORMAT_VERSION, rec_operation_id = op, rec_phase = DDisconnected\<rparr>"

definition record_connecting ::
  "u64 \<Rightarrow> connect_request \<Rightarrow> connect_request option \<Rightarrow> bool \<Rightarrow> desired_state_record" where
  "record_connecting op candidate previous requested_kill_switch =
     \<lparr>format_version = FORMAT_VERSION, rec_operation_id = op,
      rec_phase = DConnecting candidate previous requested_kill_switch\<rparr>"

definition record_connected :: "u64 \<Rightarrow> connect_request \<Rightarrow> desired_state_record" where
  "record_connected op request =
     \<lparr>format_version = FORMAT_VERSION, rec_operation_id = op, rec_phase = DConnected request\<rparr>"

definition record_disconnecting :: "u64 \<Rightarrow> bool \<Rightarrow> desired_state_record" where
  "record_disconnecting op keep_blocked =
     \<lparr>format_version = FORMAT_VERSION, rec_operation_id = op, rec_phase = DDisconnecting keep_blocked\<rparr>"

definition record_blocked :: "u64 \<Rightarrow> string \<Rightarrow> desired_state_record" where
  "record_blocked op reason =
     \<lparr>format_version = FORMAT_VERSION, rec_operation_id = op, rec_phase = DBlocked reason\<rparr>"

definition validate_record :: "desired_state_record \<Rightarrow> string + unit" where
  "validate_record r =
     (if format_version r \<noteq> FORMAT_VERSION
      then Err (''unsupported desired-state version '' @ dec (unat (format_version r)))
      else
        let validate = (\<lambda>request. map_err
          (\<lambda>code. ''invalid desired connection request: '' @ debug_code code)
          (validate_connect_request request))
        in case rec_phase r of
          DConnecting candidate previous ks \<Rightarrow>
            rbind (validate candidate) (\<lambda>_.
            rbind (case previous of Some p \<Rightarrow> validate p | None \<Rightarrow> Ok ()) (\<lambda>_. Ok ()))
        | DConnected request \<Rightarrow> validate request
        | DBlocked reason \<Rightarrow>
            if 4096 < length reason then Err ''blocked-state reason exceeds the size limit'' else Ok ()
        | DDisconnected \<Rightarrow> Ok ()
        | DDisconnecting keep \<Rightarrow> Ok ())"

text \<open>\<open>to_le_bytes\<close>, \<open>from_le_bytes\<close>\<close>

definition le_bytes32 :: "nat \<Rightarrow> bytes" where "le_bytes32 n = rev (be_bytes32 n)"
definition of_le_bytes :: "bytes \<Rightarrow> nat" where "of_le_bytes bs = of_be_bytes (rev bs)"

record state_serde =
  record_to_vec :: "desired_state_record \<Rightarrow> string + bytes"
  value_from_slice :: "bytes \<Rightarrow> string + json"
  record_from_value :: "json \<Rightarrow> string + desired_state_record"
  legacy_from_value :: "json \<Rightarrow> string + (u64 \<times> connect_request)"

definition encode_desired_state :: "state_serde \<Rightarrow> desired_state_record \<Rightarrow> string + bytes" where
  "encode_desired_state sd r =
     rbind (validate_record r) (\<lambda>_.
     rbind (map_err (\<lambda>e. ''encode desired state: '' @ e) (record_to_vec sd r)) (\<lambda>payload.
     if MAX_STATE_BYTES < length payload then Err ''desired state exceeds the size limit''
     else if 2 ^ 32 \<le> length payload then Err ''desired state length overflow''
     else Ok (MAGIC @ le_bytes32 (length payload) @ payload)))"

definition decode_desired_state :: "state_serde \<Rightarrow> bytes \<Rightarrow> string + desired_state_record" where
  "decode_desired_state sd encoded =
     (if length encoded < HEADER_BYTES \<or> take (length MAGIC) encoded \<noteq> MAGIC
      then Err ''desired state has an invalid header''
      else
        let len = of_le_bytes (take 4 (drop (length MAGIC) encoded)) in
        if MAX_STATE_BYTES < len \<or> length encoded \<noteq> HEADER_BYTES + len
        then Err ''desired state has an invalid payload length''
        else
          rbind (map_err (\<lambda>e. ''decode desired state: '' @ e)
            (value_from_slice sd (drop HEADER_BYTES encoded))) (\<lambda>value.
          rbind (ok_or ''desired state has no format version''
            (Option.bind (jget ''format_version'' value) as_u64)) (\<lambda>version.
          rbind (if version = 1
              then rbind (map_err (\<lambda>e. ''decode legacy desired state: '' @ e)
                (legacy_from_value sd value)) (\<lambda>(op, request). Ok (record_connected op request))
              else map_err (\<lambda>e. ''decode desired state: '' @ e) (record_from_value sd value)) (\<lambda>r.
          rbind (validate_record r) (\<lambda>_. Ok r)))))"

section \<open>What is stored\<close>

fun wf_desired_phase :: "desired_state_phase \<Rightarrow> bool" where
  "wf_desired_phase (DConnecting c p ks) = (wf_connect c \<and> (\<forall>r. p = Some r \<longrightarrow> wf_connect r))"
| "wf_desired_phase (DConnected r) = wf_connect r"
| "wf_desired_phase (DBlocked reason) = (length reason \<le> 4096)"
| "wf_desired_phase _ = True"

definition wf_desired :: "desired_state_record \<Rightarrow> bool" where
  "wf_desired r \<longleftrightarrow> format_version r = 2 \<and> wf_desired_phase (rec_phase r)"

lemma validate_record_iff: "validate_record r = Ok u \<longleftrightarrow> wf_desired r"
  by (cases "rec_phase r")
     (auto simp: validate_record_def wf_desired_def FORMAT_VERSION_def Let_def
       validate_connect_request_iff split: option.splits)

text \<open>
  The law of the derived serialisers on one record: its payload reads back as a value with
  its version, and the value as the record.
\<close>

definition state_serde_law :: "state_serde \<Rightarrow> desired_state_record \<Rightarrow> bool" where
  "state_serde_law sd r \<longleftrightarrow> (\<forall>payload. record_to_vec sd r = Ok payload \<longrightarrow>
     (\<exists>v. value_from_slice sd payload = Ok v
        \<and> jget ''format_version'' v = Some (JNum (PosInt (ucast (format_version r))))
        \<and> record_from_value sd v = Ok r))"

lemma length_le_bytes32 [simp]: "length (le_bytes32 n) = 4"
  by (simp add: le_bytes32_def)

lemma of_le_bytes32: "n < 2 ^ 32 \<Longrightarrow> of_le_bytes (le_bytes32 n) = n"
  by (simp add: of_le_bytes_def le_bytes32_def of_be_bytes32)

lemma length_MAGIC [simp]: "length MAGIC = 8"
  by (simp add: MAGIC_def)

lemma HEADER_BYTES_eq [simp]: "HEADER_BYTES = 12"
  by (simp add: HEADER_BYTES_def)

lemma encode_desired_state_Ok:
  "encode_desired_state sd r = Ok bs \<longleftrightarrow>
     wf_desired r \<and> (\<exists>payload. record_to_vec sd r = Ok payload \<and> length payload \<le> MAX_STATE_BYTES
       \<and> bs = MAGIC @ le_bytes32 (length payload) @ payload)"
proof -
  have "n \<le> MAX_STATE_BYTES \<Longrightarrow> \<not> 2 ^ 32 \<le> n" for n by (simp add: MAX_STATE_BYTES_def)
  then show ?thesis
    unfolding encode_desired_state_def if_Err_Ok_iff rbind_Ok_iff map_err_Ok_iff
    by (auto simp: validate_record_iff not_less)
qed

text \<open>A stored journal is exactly one header with one payload of the declared length.\<close>

lemma decode_desired_state_Ok:
  assumes "decode_desired_state sd bs = Ok r"
  shows "wf_desired r"
    and "take 8 bs = MAGIC" and "length bs = 12 + of_le_bytes (take 4 (drop 8 bs))"
    and "of_le_bytes (take 4 (drop 8 bs)) \<le> MAX_STATE_BYTES"
proof -
  from assms have "wf_desired r \<and> take (length MAGIC) bs = MAGIC
      \<and> length bs = HEADER_BYTES + of_le_bytes (take 4 (drop (length MAGIC) bs))
      \<and> \<not> MAX_STATE_BYTES < of_le_bytes (take 4 (drop (length MAGIC) bs))"
    unfolding decode_desired_state_def Let_def if_Err_Ok_iff rbind_Ok_iff
    by (elim conjE exE) (simp only: validate_record_iff sum.inject de_Morgan_disj not_not simp_thms)
  then show "wf_desired r" "take 8 bs = MAGIC" "length bs = 12 + of_le_bytes (take 4 (drop 8 bs))"
    "of_le_bytes (take 4 (drop 8 bs)) \<le> MAX_STATE_BYTES"
    unfolding length_MAGIC HEADER_BYTES_eq not_less by blast+
qed

lemma decode_encoded_state:
  assumes "encode_desired_state sd r = Ok bs" and "state_serde_law sd r"
  shows "decode_desired_state sd bs = Ok r"
proof -
  from assms(1) obtain payload where *: "wf_desired r" "record_to_vec sd r = Ok payload"
    "length payload \<le> MAX_STATE_BYTES" "bs = MAGIC @ le_bytes32 (length payload) @ payload"
    by (auto simp: encode_desired_state_Ok)
  have len: "of_le_bytes (le_bytes32 (length payload)) = length payload"
    using *(3) by (intro of_le_bytes32) (simp add: MAX_STATE_BYTES_def)
  from assms(2) *(2) obtain v where v: "value_from_slice sd payload = Ok v"
    "jget ''format_version'' v = Some (JNum (PosInt (ucast (format_version r))))"
    "record_from_value sd v = Ok r"
    unfolding state_serde_law_def by blast
  from *(1) have version: "format_version r = 2" by (simp add: wf_desired_def)
  have parts: "take (length MAGIC) bs = MAGIC"
    "take 4 (drop (length MAGIC) bs) = le_bytes32 (length payload)"
    "drop HEADER_BYTES bs = payload" "length bs = HEADER_BYTES + length payload"
    by (simp_all add: *(4))
  have wf: "validate_record r = Ok ()" using *(1) by (simp add: validate_record_iff)
  show ?thesis
    unfolding decode_desired_state_def Let_def parts len
    using *(3) v version wf by simp
qed

section \<open>Properties\<close>

text \<open>
  What the service writes to its journal it reads back: an encoded record decodes to
  itself, whatever its phase.
\<close>

theorem desired_state_round_trip:
  assumes "encode_desired_state sd r = Ok bs" and "state_serde_law sd r"
  shows "decode_desired_state sd bs = Ok r"
  using assms by (rule decode_encoded_state)

text \<open>
  A journal that decodes is well formed: format version two, every request in it within
  the bounds of the protocol, and not a byte more than the header declares; so a truncated
  or extended file, or one with invalid requests, is rejected.
\<close>

theorem decoded_state_well_formed:
  assumes "decode_desired_state sd bs = Ok r"
  shows "wf_desired r \<and> take 8 bs = MAGIC
     \<and> length bs = 12 + of_le_bytes (take 4 (drop 8 bs))
     \<and> of_le_bytes (take 4 (drop 8 bs)) \<le> 1048576"
proof -
  have "MAX_STATE_BYTES = 1048576" by (simp add: MAX_STATE_BYTES_def)
  with decode_desired_state_Ok [OF assms] show ?thesis by metis
qed

text \<open>A serialiser that knows the disconnected record.\<close>

definition sample_state_serde :: state_serde where
  "sample_state_serde = \<lparr>
     record_to_vec = (\<lambda>r. if r = record_disconnected 7 then Ok [1, 2] else Err ''io''),
     value_from_slice = (\<lambda>bs. if bs = [1, 2]
        then Ok (JObj [(''format_version'', JNum (PosInt 2))]) else Err ''EOF''),
     record_from_value = (\<lambda>v. Ok (record_disconnected 7)),
     legacy_from_value = (\<lambda>v. Err ''missing field'')\<rparr>"

abbreviation sample_journal :: bytes where
  "sample_journal \<equiv> MAGIC @ [2, 0, 0, 0] @ [1, 2]"

lemma desired_state_round_trip_witness:
  "decode_desired_state sample_state_serde sample_journal = Ok (record_disconnected 7)"
proof (rule desired_state_round_trip)
  show "encode_desired_state sample_state_serde (record_disconnected 7) = Ok sample_journal"
  proof -
    have "le_bytes32 (length [1, 2 :: u8]) = [2, 0, 0, 0]" by (simp add: le_bytes32_def be_bytes32_def)
    moreover have "record_to_vec sample_state_serde (record_disconnected 7) = Ok [1, 2]"
      by (simp add: sample_state_serde_def)
    moreover have "wf_desired (record_disconnected 7)"
      by (simp add: wf_desired_def record_disconnected_def FORMAT_VERSION_def)
    ultimately show ?thesis
      unfolding encode_desired_state_Ok by (intro conjI exI [of _ "[1, 2]"]) (simp_all only:, simp add: MAX_STATE_BYTES_def)
  qed
  show "state_serde_law sample_state_serde (record_disconnected 7)"
    by (simp add: state_serde_law_def sample_state_serde_def record_disconnected_def FORMAT_VERSION_def)
qed

lemma decoded_state_well_formed_witness:
  "wf_desired (record_disconnected 7) \<and> take 8 sample_journal = MAGIC
     \<and> length sample_journal = 12 + of_le_bytes (take 4 (drop 8 sample_journal))
     \<and> of_le_bytes (take 4 (drop 8 sample_journal)) \<le> 1048576"
  by (rule decoded_state_well_formed [where sd = sample_state_serde]) code_simp

end
