(* ===== verification/Windows_State.thy ===== *)
theory Windows_State
  imports Windows_Platform State_Record
begin

text \<open>
  \<open>service/src/windows_state.rs\<close> and the path layout of
  \<open>crates/varmlen-service-core/src/runtime.rs\<close>: where the service keeps its files, the
  atomic replacement of a file, and the journal of the desired state, encrypted by DPAPI.
\<close>

section \<open>The layout\<close>

record runtime_layout =
  install_dir :: string
  xray_executable :: string
  wintun_library :: string
  geoip_database :: string
  geosite_database :: string
  state_dir :: string
  desired_state :: string
  active_config :: string
  candidate_config :: string
  validation_path :: string
  log_file :: string

definition portable_parent :: "string \<Rightarrow> string option" where
  "portable_parent p =
     (case path_parent p of
        Some d \<Rightarrow> if d \<noteq> [] then Some d
          else if dir_part p = [] then None else Some (butlast (dir_part p))
      | None \<Rightarrow> if dir_part p = [] then None else Some (butlast (dir_part p)))"

definition trim_end_char :: "char \<Rightarrow> string \<Rightarrow> string" where
  "trim_end_char c s = rev (dropWhile (\<lambda>x. x = c) (rev s))"

definition portable_join :: "string \<Rightarrow> string \<Rightarrow> string" where
  "portable_join base child =
     (if backslash \<in> set base \<and> CHR ''/'' \<notin> set base
      then trim_end_char backslash base @ backslash # child
      else path_join base child)"

definition from_service_executable :: "string \<Rightarrow> string \<Rightarrow> string + runtime_layout" where
  "from_service_executable service_executable state =
     rbind (ok_or ''service executable has no installation directory''
       (portable_parent service_executable)) (\<lambda>install.
     Ok \<lparr>install_dir = install,
         xray_executable = portable_join install ''xray.exe'',
         wintun_library = portable_join install ''wintun.dll'',
         geoip_database = portable_join install ''geoip.dat'',
         geosite_database = portable_join install ''geosite.dat'',
         state_dir = state,
         desired_state = portable_join state ''desired-state.bin'',
         active_config = portable_join state ''active.json'',
         candidate_config = portable_join state ''candidate.json'',
         validation_path = portable_join state ''validation.json'',
         log_file = portable_join state ''xray.log''\<rparr>)"

definition STATE_DIRECTORY :: string where "STATE_DIRECTORY = ''Varmlen''"

text \<open>\<open>runtime_layout()\<close>: from \<open>current_exe()\<close> and the variable \<open>ProgramData\<close>.\<close>

definition service_layout :: "io_error + string \<Rightarrow> string option \<Rightarrow> io_error + runtime_layout" where
  "service_layout current_exe program_data =
     rbind current_exe (\<lambda>exe.
     rbind (ok_or (io_new NotFound ''ProgramData is not set'') program_data) (\<lambda>data.
     map_err io_other (from_service_executable exe (path_join data STATE_DIRECTORY))))"

section \<open>Atomic replacement\<close>

definition ensure_state_directory :: "runtime_layout \<Rightarrow> unit fs_io" where
  "ensure_state_directory l = fs_create_dir_all (state_dir l)"

text \<open>\<open>NEXT_TEMPORARY.fetch_add(1)\<close> and \<open>std::process::id()\<close>\<close>

definition temporary_suffix :: "file_system \<Rightarrow> string" where
  "temporary_suffix s =
     ''.'' @ dec (unat (process_id s)) @ ''.'' @ dec (unat (temp_counter s)) @ ''.tmp''"

definition take_temporary_suffix :: "string fs_io" where
  "take_temporary_suffix =
     (\<lambda>s. (Ok (temporary_suffix s), s\<lparr>temp_counter := temp_counter s + 1\<rparr>))"

definition atomic_write :: "string \<Rightarrow> bytes \<Rightarrow> unit fs_io" where
  "atomic_write path contents =
     sbind (slift (ok_or (io_new InvalidInput ''path has no parent'') (path_parent path))) (\<lambda>parent.
     sseq (fs_create_dir_all parent)
     (sbind (slift (ok_or (io_new InvalidInput ''path has no filename'') (path_file_name path)))
       (\<lambda>filename.
     sbind take_temporary_suffix (\<lambda>suffix.
     let temporary = path_join parent (''.'' @ filename @ suffix) in
     sseq (fs_create_new temporary)
     (sseq (fs_write_all temporary contents)
     (sseq fs_sync
     (scatch (fs_rename temporary path) (\<lambda>e.
       sseq (signore (fs_remove_file temporary)) (sfail (io_other (io_message e))))))))))) "

section \<open>The journal\<close>

definition persist_desired_state ::
  "'x platform \<Rightarrow> state_serde \<Rightarrow> runtime_layout \<Rightarrow> desired_state_record \<Rightarrow> ('x, unit) os_io" where
  "persist_desired_state P sd l r =
     sseq (on_disk (ensure_state_directory l))
     (sbind (slift (map_err io_other (encode_desired_state sd r))) (\<lambda>encoded.
     sbind (on_ext (crypt_protect P encoded)) (\<lambda>protected.
     on_disk (atomic_write (desired_state l) protected))))"

definition load_desired_state ::
  "'x platform \<Rightarrow> state_serde \<Rightarrow> runtime_layout \<Rightarrow> ('x, desired_state_record option) os_io" where
  "load_desired_state P sd l =
     sbind (sattempt (on_disk (fs_read (desired_state l)))) (\<lambda>r. case r of
       Err e \<Rightarrow> if io_kind e = NotFound then sret None else sfail e
     | Ok protected \<Rightarrow>
         sbind (on_ext (crypt_unprotect P protected)) (\<lambda>cleartext.
         slift (map_err io_other (rbind (decode_desired_state sd cleartext) (\<lambda>r. Ok (Some r))))))"

definition clear_desired_state :: "runtime_layout \<Rightarrow> unit fs_io" where
  "clear_desired_state l =
     scatch (fs_remove_file (desired_state l)) (\<lambda>e. if io_kind e = NotFound then sret () else sfail e)"

text \<open>A layout and a world for concrete runs.\<close>

definition sample_layout :: runtime_layout where
  "sample_layout =
     \<lparr>install_dir = ''C:/v'', xray_executable = ''C:/v/xray.exe'', wintun_library = ''C:/v/wintun.dll'',
      geoip_database = ''C:/v/geoip.dat'', geosite_database = ''C:/v/geosite.dat'',
      state_dir = ''C:/s'', desired_state = ''C:/s/desired-state.bin'',
      active_config = ''C:/s/active.json'', candidate_config = ''C:/s/candidate.json'',
      validation_path = ''C:/s/validation.json'', log_file = ''C:/s/xray.log''\<rparr>"

definition sample_world :: "bench world" where
  "sample_world = \<lparr>disk = \<lparr>files = [], dirs = [''C:/'', ''C:/s''], faults = [],
     temp_counter = 1, process_id = 4\<rparr>, ext = []\<rparr>"

section \<open>Lemmas\<close>

text \<open>The temporary file is never the file itself.\<close>

lemma parent_and_name_length:
  assumes "path_parent p = Some d" and "path_file_name p = Some f"
  shows "length p \<le> Suc (length d + length f)"
proof -
  have "length p = length (dir_part p) + length (file_part p)"
    by (metis dir_file_part length_append)
  moreover from assms(1) have "length (dir_part p) \<le> Suc (length d)"
    by (auto simp: path_parent_def Let_def split: if_splits)
  moreover from assms(2) have "f = file_part p"
    by (auto simp: path_file_name_def split: if_splits)
  ultimately show ?thesis by simp
qed

lemma temporary_not_path:
  assumes "path_parent p = Some d" and "path_file_name p = Some f"
  shows "path_join d (''.'' @ f @ temporary_suffix s) \<noteq> p"
proof
  assume "path_join d (''.'' @ f @ temporary_suffix s) = p"
  moreover have "length d + length x \<le> length (path_join d x)" for x by (simp add: path_join_def)
  ultimately have "length d + length (''.'' @ f @ temporary_suffix s) \<le> length p" by metis
  with parent_and_name_length [OF assms] show False by (simp add: temporary_suffix_def)
qed

lemma wp_take_temporary_suffix:
  assumes "\<And>t. (\<And>q. file_at q t = file_at q s) \<Longrightarrow> dirs t = dirs s \<Longrightarrow> Q (temporary_suffix s) t"
  shows "wp take_temporary_suffix Q E s"
  unfolding take_temporary_suffix_def wp_def by (simp add: assms)

lemma atomic_write_outcome:
  "wp (atomic_write p b)
     (\<lambda>_ t. file_at p t = Some b \<and> (\<forall>q. q \<noteq> p \<longrightarrow> file_at q t = file_at q s))
     (\<lambda>_ t. file_at p t = file_at p s) s"
proof (cases "path_parent p")
  case parent: (Some d)
  show ?thesis
  proof (cases "path_file_name p")
    case None
    with parent show ?thesis
      by (simp add: atomic_write_def wp_simps wp_create_dir_all)
  next
    case name: (Some f)
    have step: "wp (let temporary = path_join d (''.'' @ f @ temporary_suffix u) in
        sseq (fs_create_new temporary)
        (sseq (fs_write_all temporary b)
        (sseq fs_sync
        (scatch (fs_rename temporary p) (\<lambda>e.
          sseq (signore (fs_remove_file temporary)) (sfail (io_other (io_message e))))))))
      (\<lambda>_ t. file_at p t = Some b \<and> (\<forall>q. q \<noteq> p \<longrightarrow> file_at q t = file_at q s))
      (\<lambda>_ t. file_at p t = file_at p s) t"
      if same: "\<And>q. file_at q t = file_at q s" for t u
    proof -
      note other = temporary_not_path [OF parent name, of u] temporary_not_path [OF parent name, of u, symmetric]
      show ?thesis
        unfolding Let_def wp_simps
        by (rule wp_create_new; (rule wp_write_all)?; (rule wp_sync)?; (rule wp_rename)?;
            (rule wp_remove_file)?; use same other in simp)
    qed
    show ?thesis
      unfolding atomic_write_def parent name wp_simps ok_or_simps sum.case
      by (rule wp_create_dir_all, rule wp_take_temporary_suffix, rule step) simp_all
  qed
qed (simp add: atomic_write_def wp_simps)

lemma wp_atomic_write:
  assumes "\<And>t. file_at p t = Some b \<Longrightarrow> (\<And>q. q \<noteq> p \<Longrightarrow> file_at q t = file_at q s) \<Longrightarrow> Q () t"
    and "\<And>e t. file_at p t = file_at p s \<Longrightarrow> E e t"
  shows "wp (atomic_write p b) Q E s"
  using atomic_write_outcome by (rule wp_mono) (auto intro: assms)

text \<open>
  DPAPI, for one clear text: what is encrypted decrypts to it, at any later time.
\<close>

definition dpapi_law :: "'x platform \<Rightarrow> bytes \<Rightarrow> bool" where
  "dpapi_law P clear \<longleftrightarrow> (\<forall>x c y z. crypt_protect P clear x = (Ok c, y) \<longrightarrow>
     (\<exists>w. crypt_unprotect P c z = (Ok clear, w)))"

text \<open>The journal file holds an encryption of the encoded record.\<close>

definition journal_holds ::
  "'x platform \<Rightarrow> state_serde \<Rightarrow> runtime_layout \<Rightarrow> desired_state_record \<Rightarrow> 'x world \<Rightarrow> bool" where
  "journal_holds P sd l r w \<longleftrightarrow>
     (\<exists>clear x c y. encode_desired_state sd r = Ok clear \<and> crypt_protect P clear x = (Ok c, y)
        \<and> file_at (desired_state l) (disk w) = Some c)"

lemma persist_outcome:
  "wp (persist_desired_state P sd l r)
     (\<lambda>_ t. journal_holds P sd l r t)
     (\<lambda>_ t. file_at (desired_state l) (disk t) = file_at (desired_state l) (disk w)) w"
  unfolding persist_desired_state_def ensure_state_directory_def world_wp
proof (rule wp_create_dir_all, goal_cases)
  case (1 d)
  show ?case
  proof (cases "encode_desired_state sd r")
    case (Inl e)
    then show ?thesis using 1 by simp
  next
    case (Inr clear)
    then show ?thesis
      using 1 by (auto simp: journal_holds_def intro!: wpI [where m = "crypt_protect P clear"] wp_atomic_write)
  qed
qed simp

lemma load_working:
  assumes "journal_holds P sd l r w" and "state_serde_law sd r"
    and "\<And>clear. encode_desired_state sd r = Ok clear \<Longrightarrow> dpapi_law P clear"
    and "faults (disk w) = []"
  shows "\<exists>w'. load_desired_state P sd l w = (Ok (Some r), w')"
proof -
  from assms(1) obtain clear x c y where *: "encode_desired_state sd r = Ok clear"
    "crypt_protect P clear x = (Ok c, y)" "file_at (desired_state l) (disk w) = Some c"
    unfolding journal_holds_def by blast
  obtain v where "crypt_unprotect P c (ext w) = (Ok clear, v)"
    using assms(3) [OF *(1)] *(2) unfolding dpapi_law_def by blast
  moreover have "decode_desired_state sd clear = Ok r"
    using decode_encoded_state [OF *(1) assms(2)] .
  ultimately show ?thesis
    using *(3) assms(4)
    by (simp add: load_desired_state_def fs_read_def fs_op_def on_disk_def on_ext_def szoom_def prog_defs)
qed

section \<open>Properties\<close>

text \<open>
  C31: replacing a file is atomic under any failure: afterwards it has the new contents and
  every other file is as before, or, on an error, it still has the old contents.
\<close>

theorem atomic_write_all_or_nothing:
  "wp (atomic_write p b)
     (\<lambda>_ t. file_at p t = Some b \<and> (\<forall>q. q \<noteq> p \<longrightarrow> file_at q t = file_at q s))
     (\<lambda>_ t. file_at p t = file_at p s) s"
  by (rule atomic_write_outcome)

text \<open>A replacement whose rename fails: the third of its operations after the directory.\<close>

lemma atomic_write_all_or_nothing_witness:
  "wp (atomic_write ''C:/s/a.json'' [1])
     (\<lambda>_ t. file_at ''C:/s/a.json'' t = Some [1]
        \<and> (\<forall>q. q \<noteq> ''C:/s/a.json'' \<longrightarrow> file_at q t = file_at q ((disk sample_world)\<lparr>
             faults := [None, None, None, None, Some (access_denied, 0)]\<rparr>)))
     (\<lambda>_ t. file_at ''C:/s/a.json'' t = file_at ''C:/s/a.json'' ((disk sample_world)\<lparr>
             faults := [None, None, None, None, Some (access_denied, 0)]\<rparr>))
     ((disk sample_world)\<lparr>faults := [None, None, None, None, Some (access_denied, 0)]\<rparr>)"
  by (rule atomic_write_all_or_nothing)


text \<open>
  C32: The journal of the service's desired state survives: after a record was persisted, every
  world with the same journal file in which no file operation fails loads exactly that record,
  and a failed persist leaves the journal file as it was.\<close>

theorem journal_round_trip:
  assumes "state_serde_law sd r"
    and "\<forall>clear. encode_desired_state sd r = Ok clear \<longrightarrow> dpapi_law P clear"
  shows "wp (persist_desired_state P sd l r)
     (\<lambda>_ t. \<forall>u. file_at (desired_state l) (disk u) = file_at (desired_state l) (disk t) \<and> faults (disk u) = []
        \<longrightarrow> fst (load_desired_state P sd l u) = Ok (Some r))
     (\<lambda>_ t. file_at (desired_state l) (disk t) = file_at (desired_state l) (disk w)) w"
proof (rule wp_mono [OF persist_outcome])
  fix t
  assume t: "journal_holds P sd l r t"
  have "\<exists>v. load_desired_state P sd l u = (Ok (Some r), v)"
    if "file_at (desired_state l) (disk u) = file_at (desired_state l) (disk t)" "faults (disk u) = []" for u
    using t that assms by (intro load_working) (auto simp: journal_holds_def)
  then show "\<forall>u. file_at (desired_state l) (disk u) = file_at (desired_state l) (disk t) \<and> faults (disk u) = []
      \<longrightarrow> fst (load_desired_state P sd l u) = Ok (Some r)" by fastforce
qed

lemma journal_round_trip_witness:
  "\<exists>t. persist_desired_state (bench_platform bench_netsh) sample_state_serde sample_layout (record_disconnected 7)
        sample_world = (Ok (), t)
     \<and> fst (load_desired_state (bench_platform bench_netsh) sample_state_serde sample_layout t)
        = Ok (Some (record_disconnected 7))"
proof -
  let ?persist = "persist_desired_state (bench_platform bench_netsh) sample_state_serde sample_layout
    (record_disconnected 7) sample_world"
  have "state_serde_law sample_state_serde (record_disconnected 7)"
    by (simp add: state_serde_law_def sample_state_serde_def record_disconnected_def FORMAT_VERSION_def)
  moreover have "\<forall>clear. encode_desired_state sample_state_serde (record_disconnected 7) = Ok clear
      \<longrightarrow> dpapi_law (bench_platform bench_netsh) clear"
    by (simp add: dpapi_law_def bench_platform_def sret_def)
  moreover have ok: "is_ok (fst ?persist) \<and> faults (disk (snd ?persist)) = []" by code_simp
  then obtain t where run: "?persist = (Ok (), t)" by (cases ?persist) (auto simp: is_ok_def split: sum.splits)
  ultimately have "\<forall>u. file_at (desired_state sample_layout) (disk u) = file_at (desired_state sample_layout) (disk t)
      \<and> faults (disk u) = [] \<longrightarrow> fst (load_desired_state (bench_platform bench_netsh) sample_state_serde sample_layout u)
        = Ok (Some (record_disconnected 7))"
    using wp_OkD [OF journal_round_trip [of sample_state_serde "record_disconnected 7" "bench_platform bench_netsh"] run]
    by blast
  with run ok show ?thesis by auto
qed
end
