(* ===== verification/Runtime.thy ===== *)
theory Runtime
  imports Json
begin

text \<open>
  \<open>crates/varmlen-service-core/src/runtime.rs\<close>: what the privileged service accepts as an
  Xray configuration, and how it rewrites one before starting the core. Each function of
  the source parses its text and works on the tree; here the part after the parse is a
  definition of its own on the tree (suffix \<open>_tree\<close>), and the definition with the source's
  name composes it with the parser and the printer.
\<close>

section \<open>Constants and reports\<close>

definition TUN_ADAPTER_NAME :: string where "TUN_ADAPTER_NAME = ''Varmlen''"
definition TUN_ADAPTER_DESCRIPTION :: string where "TUN_ADAPTER_DESCRIPTION = ''Varmlen''"
definition TUN_IPV4_GATEWAY :: string where "TUN_IPV4_GATEWAY = ''10.255.0.1/30''"
definition TUN_IPV6_GATEWAY :: string where "TUN_IPV6_GATEWAY = ''fd00:7661:726d:6c65::1/64''"
definition TUN_DNS :: string where "TUN_DNS = ''1.1.1.1''"
definition IPV4_DEFAULT :: string where "IPV4_DEFAULT = ''0.0.0.0/0''"
definition IPV6_DEFAULT :: string where "IPV6_DEFAULT = ''::/0''"

lemmas tun_constants = TUN_ADAPTER_NAME_def TUN_ADAPTER_DESCRIPTION_def TUN_IPV4_GATEWAY_def
  TUN_IPV6_GATEWAY_def TUN_DNS_def IPV4_DEFAULT_def IPV6_DEFAULT_def

record native_tun_inspection =
  adapter_name :: string
  adapter_description :: string
  has_ipv4_gateway :: bool
  has_ipv6_gateway :: bool
  dns_servers :: "string list"

type_synonym validation_inspection = "u16 list"

section \<open>Parsing and the shared checks\<close>

definition parse_object :: "json_text \<Rightarrow> string \<Rightarrow> string \<Rightarrow> string + (string \<times> json) list" where
  "parse_object js config label =
     rbind (map_err (\<lambda>e. label @ '' is invalid JSON: '' @ e) (from_str js config)) (\<lambda>v.
       ok_or (label @ '' must be a JSON object'') (as_object v))"

definition allowed_fields :: "string list" where
  "allowed_fields = [''log'', ''dns'', ''inbounds'', ''outbounds'', ''routing'', ''observatory'',
     ''burstObservatory'']"

definition reject_unknown_top_level_fields ::
  "(string \<times> json) list \<Rightarrow> string list \<Rightarrow> string \<Rightarrow> string + unit" where
  "reject_unknown_top_level_fields root allowed label =
     (case find (\<lambda>k. k \<notin> set allowed) (map fst root) of
        Some k \<Rightarrow> Err (label @ '' has unsupported top-level field: '' @ k)
      | None \<Rightarrow> Ok ())"

definition reject_log_file_paths :: "(string \<times> json) list \<Rightarrow> string \<Rightarrow> string + unit" where
  "reject_log_file_paths root label =
     (case map_of root ''log'' of
        None \<Rightarrow> Ok ()
      | Some v \<Rightarrow>
          rbind (ok_or (label @ '' log must be an object'') (as_object v)) (\<lambda>log.
            if map_of log ''access'' \<noteq> None \<or> map_of log ''error'' \<noteq> None
            then Err (label @ '' must not set log file paths'')
            else (case find (\<lambda>k. k \<noteq> ''loglevel'') (map fst log) of
                Some k \<Rightarrow> Err (label @ '' log has unsupported field: '' @ k)
              | None \<Rightarrow> Ok ())))"

definition privileged_key :: "string \<Rightarrow> bool" where
  "privileged_key k \<longleftrightarrow>
     ascii_lower k \<in> {''file'', ''certificatefile'', ''keyfile'', ''cafile'', ''certfile''}"

fun reject_privileged_file_references :: "json \<Rightarrow> string + unit" where
  "reject_privileged_file_references (JObj kvs) =
     rfor_each (\<lambda>kv. if privileged_key (fst kv)
       then Err (''privileged file reference is not allowed in Xray config: '' @ ascii_lower (fst kv))
       else reject_privileged_file_references (snd kv)) kvs"
| "reject_privileged_file_references (JArr vs) = rfor_each reject_privileged_file_references vs"
| "reject_privileged_file_references _ = Ok ()"

definition required_string :: "json option \<Rightarrow> string \<Rightarrow> string + string" where
  "required_string v label =
     (case Option.bind v as_str of
        Some s \<Rightarrow> if s \<noteq> [] then Ok s else Err (label @ '' must be a non-empty string'')
      | None \<Rightarrow> Err (label @ '' must be a non-empty string''))"

definition string_array :: "json option \<Rightarrow> string \<Rightarrow> string + string list" where
  "string_array v label =
     rbind (ok_or (label @ '' must be an array'') (Option.bind v as_array)) (\<lambda>vs.
     rbind (rtraverse (\<lambda>x. case as_str x of
         Some s \<Rightarrow> if s \<noteq> [] then Ok s else Err (label @ '' contains a non-string value'')
       | None \<Rightarrow> Err (label @ '' contains a non-string value'')) vs) (\<lambda>ss.
     if ss = [] then Err (label @ '' must not be empty'') else Ok ss))"

definition has_protocol :: "string \<Rightarrow> json \<Rightarrow> bool" where
  "has_protocol p v \<longleftrightarrow> get_str ''protocol'' v = Some p"

text \<open>The checks common to the two kinds of configuration, and the inbounds.\<close>

definition reject_unsafe :: "(string \<times> json) list \<Rightarrow> string \<Rightarrow> string + unit" where
  "reject_unsafe root label =
     rbind (reject_unknown_top_level_fields root allowed_fields label) (\<lambda>_.
     rbind (reject_log_file_paths root label) (\<lambda>_.
     reject_privileged_file_references (JObj root)))"

section \<open>The native TUN configuration\<close>

definition inspect_native_tree :: "(string \<times> json) list \<Rightarrow> string + native_tun_inspection" where
  "inspect_native_tree root =
     rbind (reject_unsafe root ''native Xray config'') (\<lambda>_.
     rbind (ok_or ''native Xray config has no inbounds array''
       (Option.bind (map_of root ''inbounds'') as_array)) (\<lambda>inbounds.
     rbind (reject_if (length inbounds \<noteq> 1)
       ''native Xray config must contain exactly one inbound'') (\<lambda>_.
     rbind (ok_or ''native Xray config has no TUN inbound''
       (find (has_protocol ''tun'') inbounds)) (\<lambda>tun.
     rbind (reject_if (length (filter (has_protocol ''tun'') inbounds) \<noteq> 1)
       ''native Xray config must contain exactly one TUN inbound'') (\<lambda>_.
     rbind (ok_or ''TUN inbound has no settings object''
       (Option.bind (jget ''settings'' tun) as_object)) (\<lambda>settings.
     rbind (required_string (map_of settings ''name'') ''TUN adapter name'') (\<lambda>name.
     rbind (reject_if (name \<noteq> TUN_ADAPTER_NAME)
       (''TUN adapter name must be '' @ TUN_ADAPTER_NAME)) (\<lambda>_.
     rbind (required_string (map_of settings ''desc'') ''TUN adapter description'') (\<lambda>description.
     rbind (reject_if (description \<noteq> TUN_ADAPTER_DESCRIPTION)
       (''TUN adapter description must be '' @ TUN_ADAPTER_DESCRIPTION)) (\<lambda>_.
     rbind (string_array (map_of settings ''gateway'') ''TUN gateway'') (\<lambda>gateways.
     rbind (reject_if (TUN_IPV4_GATEWAY \<notin> set gateways)
       (''TUN config is missing IPv4 gateway '' @ TUN_IPV4_GATEWAY)) (\<lambda>_.
     rbind (reject_if (TUN_IPV6_GATEWAY \<notin> set gateways)
       (''TUN config is missing IPv6 gateway '' @ TUN_IPV6_GATEWAY)) (\<lambda>_.
     rbind (string_array (map_of settings ''dns'') ''TUN DNS'') (\<lambda>dns.
     rbind (reject_if (TUN_DNS \<notin> set dns) (''TUN DNS must include '' @ TUN_DNS)) (\<lambda>_.
     rbind (string_array (map_of settings ''autoSystemRoutingTable'')
       ''TUN automatic routing table'') (\<lambda>routes.
     rbind (reject_if (IPV4_DEFAULT \<notin> set routes)
       ''TUN automatic routing table is missing the IPv4 default route'') (\<lambda>_.
     rbind (reject_if (IPV6_DEFAULT \<notin> set routes)
       ''TUN automatic routing table is missing the IPv6 default route'') (\<lambda>_.
     rbind (reject_if (Option.bind (map_of settings ''autoOutboundsInterface'') as_str \<noteq> Some ''auto'')
       ''TUN autoOutboundsInterface must be \"auto\"'') (\<lambda>_.
     Ok \<lparr>adapter_name = name, adapter_description = description,
       has_ipv4_gateway = (TUN_IPV4_GATEWAY \<in> set gateways),
       has_ipv6_gateway = (TUN_IPV6_GATEWAY \<in> set gateways),
       dns_servers = dns\<rparr>)))))))))))))))))))"

definition inspect_native_tun_config :: "json_text \<Rightarrow> string \<Rightarrow> string + native_tun_inspection" where
  "inspect_native_tun_config js config =
     rbind (parse_object js config ''native Xray config'') inspect_native_tree"

text \<open>
  The rewriting. An in-place mutation of the element found by a search returns the list
  with that element replaced; \<open>rtraverse\<close> is the loop over the outbounds, which stops at
  the first error (the half-rewritten tree is then dropped).
\<close>

fun update_first :: "('a \<Rightarrow> bool) \<Rightarrow> 'e \<Rightarrow> ('a \<Rightarrow> 'e + 'a) \<Rightarrow> 'a list \<Rightarrow> 'e + 'a list" where
  "update_first p e f [] = Err e"
| "update_first p e f (x # xs) =
     (if p x then rbind (f x) (\<lambda>y. Ok (y # xs))
      else rbind (update_first p e f xs) (\<lambda>ys. Ok (x # ys)))"

definition tun_automatic_fields :: "string list" where
  "tun_automatic_fields =
     [''desc'', ''gateway'', ''dns'', ''autoSystemRoutingTable'', ''autoOutboundsInterface'']"

definition strip_tun_settings :: "json \<Rightarrow> string + json" where
  "strip_tun_settings tun =
     rbind (ok_or ''TUN inbound has no settings object''
       (Option.bind (jget ''settings'' tun) as_object)) (\<lambda>settings.
     Ok (jset ''settings'' (JObj (fold obj_remove tun_automatic_fields settings)) tun))"

definition bind_outbound :: "string \<Rightarrow> json \<Rightarrow> string + json" where
  "bind_outbound interface outbound =
     (if has_protocol ''blackhole'' outbound \<or> has_protocol ''dns'' outbound then Ok outbound
      else
        rbind (ok_or ''native Xray outbound is not an object'' (as_object outbound)) (\<lambda>ob.
        let ob = obj_or_insert ''streamSettings'' (JObj []) ob in
        rbind (ok_or ''native Xray streamSettings is not an object''
          (Option.bind (map_of ob ''streamSettings'') as_object)) (\<lambda>stream.
        let stream = obj_or_insert ''sockopt'' (JObj []) stream in
        rbind (ok_or ''native Xray sockopt is not an object''
          (Option.bind (map_of stream ''sockopt'') as_object)) (\<lambda>sockopt.
        let sockopt = obj_insert ''interface'' (JStr interface) sockopt in
        Ok (JObj (obj_insert ''streamSettings''
          (JObj (obj_insert ''sockopt'' (JObj sockopt) stream)) ob))))))"

definition rewrite_native_tree ::
  "string \<Rightarrow> (string \<times> json) list \<Rightarrow> string + (string \<times> json) list" where
  "rewrite_native_tree interface root =
     rbind (ok_or ''native Xray config has no TUN inbound''
       (Option.bind (map_of root ''inbounds'') as_array)) (\<lambda>inbounds.
     rbind (update_first (has_protocol ''tun'') ''native Xray config has no TUN inbound''
       strip_tun_settings inbounds) (\<lambda>inbounds.
     let root = obj_insert ''inbounds'' (JArr inbounds) root in
     rbind (ok_or ''native Xray config has no outbounds array''
       (Option.bind (map_of root ''outbounds'') as_array)) (\<lambda>outbounds.
     rbind (rtraverse (bind_outbound interface) outbounds) (\<lambda>outbounds.
     Ok (obj_insert ''outbounds'' (JArr outbounds) root)))))"

definition rewrite_native_outbound_interface ::
  "json_text \<Rightarrow> string \<Rightarrow> string \<Rightarrow> string + string" where
  "rewrite_native_outbound_interface js config interface_name =
     rbind (inspect_native_tun_config js config) (\<lambda>_.
     let interface = trim interface_name in
     rbind (reject_if (interface = [] \<or> 256 < length interface \<or> has_control interface)
       ''physical outbound interface name is invalid'') (\<lambda>_.
     rbind (parse_object js config ''native Xray config'') (\<lambda>root.
     rbind (rewrite_native_tree interface root) (\<lambda>root.
     map_err (\<lambda>e. ''could not serialize native Xray config: '' @ e)
       (to_string_pretty js (JObj root))))))"

section \<open>The validation configuration\<close>

definition socks_port :: "json \<Rightarrow> string + u16" where
  "socks_port socks =
     ok_or ''validation SOCKS inbound has an invalid port''
       (case Option.bind (jget ''port'' socks) as_u64 of
          Some n \<Rightarrow> if n < 65536 \<and> n \<noteq> 0 then Some (ucast n) else None
        | None \<Rightarrow> None)"

definition check_listener :: "json \<Rightarrow> string + unit" where
  "check_listener inbound =
     (case get_str ''listen'' inbound of
        None \<Rightarrow> Err ''every validation inbound must have an explicit loopback listener''
      | Some a \<Rightarrow>
          if a \<in> {''127.0.0.1'', ''::1''} then Ok ()
          else Err ''every validation inbound must listen on loopback'')"

definition inspect_validation_tree :: "(string \<times> json) list \<Rightarrow> string + validation_inspection" where
  "inspect_validation_tree root =
     rbind (reject_unsafe root ''validation Xray config'') (\<lambda>_.
     rbind (ok_or ''validation Xray config has no inbounds array''
       (Option.bind (map_of root ''inbounds'') as_array)) (\<lambda>inbounds.
     rbind (reject_if (list_ex (has_protocol ''tun'') inbounds)
       ''validation Xray config must not create a TUN adapter'') (\<lambda>_.
     rbind (rfor_each check_listener inbounds) (\<lambda>_.
     rbind (rtraverse socks_port (filter (has_protocol ''socks'') inbounds)) (\<lambda>socks_ports.
     rbind (reject_if (length socks_ports \<noteq> 1)
       ''validation Xray config must contain exactly one effective-route SOCKS inbound'') (\<lambda>_.
     Ok socks_ports))))))"

definition inspect_validation_config :: "json_text \<Rightarrow> string \<Rightarrow> string + validation_inspection" where
  "inspect_validation_config js config =
     rbind (parse_object js config ''validation Xray config'') inspect_validation_tree"

text \<open>The loop over the inbounds with the iterator of replacements, and what is left of it.\<close>

fun assign_ports :: "u16 list \<Rightarrow> json list \<Rightarrow> string + (json list \<times> u16 list)" where
  "assign_ports ports [] = Ok ([], ports)"
| "assign_ports ports (x # xs) =
     (if has_protocol ''socks'' x then
        (case ports of
           [] \<Rightarrow> Err ''replacement validation port is missing''
         | p # ps \<Rightarrow> rbind (assign_ports ps xs) (\<lambda>(ys, rest).
             Ok (jset ''port'' (JNum (PosInt (ucast p))) x # ys, rest)))
      else rbind (assign_ports ports xs) (\<lambda>(ys, rest). Ok (x # ys, rest)))"

definition rewrite_ports_tree ::
  "u16 list \<Rightarrow> (string \<times> json) list \<Rightarrow> string + (string \<times> json) list" where
  "rewrite_ports_tree ports root =
     rbind (ok_or ''validation Xray config has no inbounds array''
       (Option.bind (map_of root ''inbounds'') as_array)) (\<lambda>inbounds.
     rbind (assign_ports ports inbounds) (\<lambda>(inbounds, rest).
     rbind (reject_if (rest \<noteq> []) ''too many replacement validation ports'') (\<lambda>_.
     Ok (obj_insert ''inbounds'' (JArr inbounds) root))))"

definition rewrite_validation_ports :: "json_text \<Rightarrow> string \<Rightarrow> u16 list \<Rightarrow> string + string" where
  "rewrite_validation_ports js config ports =
     rbind (inspect_validation_config js config) (\<lambda>socks_ports.
     rbind (reject_if (length ports \<noteq> length socks_ports \<or> list_ex (\<lambda>p. p < 1024) ports
         \<or> \<not> distinct ports)
       ''replacement validation ports must be unique, unprivileged, and complete'') (\<lambda>_.
     rbind (parse_object js config ''validation Xray config'') (\<lambda>root.
     rbind (rewrite_ports_tree ports root) (\<lambda>root.
     rbind (map_err (\<lambda>e. ''could not serialize validation config: '' @ e)
       (to_string js (JObj root))) (\<lambda>rewritten.
     rbind (inspect_validation_config js rewritten) (\<lambda>_.
     Ok rewritten))))))"

section \<open>The assets of a build\<close>

datatype asset_arch = X64 | Arm64

definition from_target :: "string \<Rightarrow> string + asset_arch" where
  "from_target target =
     (if target = ''x86_64-pc-windows-msvc'' then Ok X64
      else if target = ''aarch64-pc-windows-msvc'' then Ok Arm64
      else Err (''unsupported Windows target: '' @ target))"

fun xray_archive :: "asset_arch \<Rightarrow> string" where
  "xray_archive X64 = ''Xray-windows-64.zip''"
| "xray_archive Arm64 = ''Xray-windows-arm64-v8a.zip''"

fun wintun_directory :: "asset_arch \<Rightarrow> string" where
  "wintun_directory X64 = ''amd64''"
| "wintun_directory Arm64 = ''arm64''"

section \<open>What the checks accept\<close>

definition safe_root :: "(string \<times> json) list \<Rightarrow> bool" where
  "safe_root root \<longleftrightarrow>
     fst ` set root \<subseteq> set allowed_fields
     \<and> (\<forall>v. map_of root ''log'' = Some v \<longrightarrow> (\<exists>log. v = JObj log \<and> fst ` set log \<subseteq> {''loglevel''}))
     \<and> all_keys (\<lambda>k. \<not> privileged_key k) (JObj root)"

definition strings_at :: "(string \<times> json) list \<Rightarrow> string \<Rightarrow> string list \<Rightarrow> bool" where
  "strings_at kvs k ss \<longleftrightarrow> map_of kvs k = Some (JArr (map JStr ss)) \<and> ss \<noteq> [] \<and> [] \<notin> set ss"

definition native_tun :: "(string \<times> json) list \<Rightarrow> native_tun_inspection \<Rightarrow> bool" where
  "native_tun root insp \<longleftrightarrow>
     safe_root root
     \<and> (\<exists>tun settings gateways routes.
          map_of root ''inbounds'' = Some (JArr [tun])
          \<and> jget ''protocol'' tun = Some (JStr ''tun'') \<and> jget ''settings'' tun = Some (JObj settings)
          \<and> map_of settings ''name'' = Some (JStr ''Varmlen'')
          \<and> map_of settings ''desc'' = Some (JStr ''Varmlen'')
          \<and> strings_at settings ''gateway'' gateways
          \<and> TUN_IPV4_GATEWAY \<in> set gateways \<and> TUN_IPV6_GATEWAY \<in> set gateways
          \<and> strings_at settings ''dns'' (dns_servers insp) \<and> TUN_DNS \<in> set (dns_servers insp)
          \<and> strings_at settings ''autoSystemRoutingTable'' routes
          \<and> {IPV4_DEFAULT, IPV6_DEFAULT} \<subseteq> set routes
          \<and> map_of settings ''autoOutboundsInterface'' = Some (JStr ''auto'')
          \<and> adapter_name insp = ''Varmlen'' \<and> adapter_description insp = ''Varmlen''
          \<and> has_ipv4_gateway insp \<and> has_ipv6_gateway insp)"

definition validation_root :: "(string \<times> json) list \<Rightarrow> u16 \<Rightarrow> bool" where
  "validation_root root p \<longleftrightarrow>
     safe_root root
     \<and> (\<exists>inbounds pre socks post.
          map_of root ''inbounds'' = Some (JArr inbounds)
          \<and> (\<forall>x\<in>set inbounds. \<not> has_protocol ''tun'' x
                \<and> jget ''listen'' x \<in> {Some (JStr ''127.0.0.1''), Some (JStr ''::1'')})
          \<and> inbounds = pre @ socks # post
          \<and> has_protocol ''socks'' socks \<and> jget ''port'' socks = Some (JNum (PosInt (ucast p))) \<and> p \<noteq> 0
          \<and> (\<forall>x\<in>set (pre @ post). \<not> has_protocol ''socks'' x))"

lemma reject_privileged_Ok:
  "reject_privileged_file_references v = Ok () \<longleftrightarrow> all_keys (\<lambda>k. \<not> privileged_key k) v"
  by (induction v rule: reject_privileged_file_references.induct) (auto simp: list_all_iff)

lemma find_None_set: "find P xs = None \<longleftrightarrow> (\<forall>x\<in>set xs. \<not> P x)"
  by (induction xs) auto

lemma find_reject_Ok: "(case find P xs of Some k \<Rightarrow> Err (f k) | None \<Rightarrow> Ok u) = Ok u \<longleftrightarrow> (\<forall>x\<in>set xs. \<not> P x)"
  by (induction xs) auto

lemma reject_log_Ok:
  "reject_log_file_paths root label = Ok () \<longleftrightarrow>
     (\<forall>v. map_of root ''log'' = Some v \<longrightarrow> (\<exists>log. v = JObj log \<and> fst ` set log \<subseteq> {''loglevel''}))"
proof (cases "map_of root ''log''")
  case (Some v)
  then show ?thesis
    by (cases v) (auto simp: reject_log_file_paths_def find_reject_Ok map_of_eq_None_iff)
qed (simp add: reject_log_file_paths_def)

lemma reject_unsafe_Ok: "reject_unsafe root label = Ok () \<longleftrightarrow> safe_root root"
proof -
  have "reject_unknown_top_level_fields root allowed_fields label = Ok ()
      \<longleftrightarrow> fst ` set root \<subseteq> set allowed_fields"
    unfolding reject_unknown_top_level_fields_def find_reject_Ok by auto
  then show ?thesis
    by (simp add: reject_unsafe_def safe_root_def reject_log_Ok reject_privileged_Ok
        del: all_keys.simps reject_privileged_file_references.simps)
qed

lemma required_string_Ok [simp]: "required_string v l = Ok s \<longleftrightarrow> v = Some (JStr s) \<and> s \<noteq> []"
  by (auto simp: required_string_def bind_eq_Some_conv split: option.splits if_splits)

lemma traverse_strings:
  "rtraverse (\<lambda>x. case as_str x of
       Some s \<Rightarrow> if s \<noteq> [] then Ok s else Err e | None \<Rightarrow> Err e) vs = Ok ss
     \<longleftrightarrow> vs = map JStr ss \<and> [] \<notin> set ss"
proof (induction vs arbitrary: ss)
  case (Cons v vs)
  show ?case
    by (cases v; cases ss) (auto simp: Cons.IH)
qed auto

lemma string_array_Ok: "string_array (map_of kvs k) l = Ok ss \<longleftrightarrow> strings_at kvs k ss"
  by (auto simp: string_array_def strings_at_def traverse_strings bind_eq_Some_conv)

lemma parse_object_Ok [simp]: "parse_object js c l = Ok root \<longleftrightarrow> from_str js c = Ok (JObj root)"
  by (auto simp: parse_object_def)

lemma length1: "length xs = Suc 0 \<longleftrightarrow> (\<exists>x. xs = [x])"
  by (cases xs) auto

lemma inspect_native_tree_Ok: "inspect_native_tree root = Ok insp \<longleftrightarrow> native_tun root insp"
  unfolding inspect_native_tree_def native_tun_def
  by (cases insp)
     (auto simp: reject_unsafe_Ok string_array_Ok bind_eq_Some_conv length1 has_protocol_def
       TUN_ADAPTER_NAME_def TUN_ADAPTER_DESCRIPTION_def split: if_splits; blast)

lemma socks_port_Ok:
  "socks_port v = Ok p \<longleftrightarrow> jget ''port'' v = Some (JNum (PosInt (ucast p))) \<and> p \<noteq> 0"
  by (auto simp: socks_port_def bind_eq_Some_conv u64_port
      split: option.splits if_splits)

lemma filter_single:
  "filter P xs = [x] \<longleftrightarrow> (\<exists>pre post. xs = pre @ x # post \<and> P x \<and> (\<forall>y\<in>set (pre @ post). \<not> P y))"
proof
  assume "filter P xs = [x]"
  then obtain pre post where "xs = pre @ x # post" "\<forall>y\<in>set pre. \<not> P y" "P x" "filter P post = []"
    by (auto simp: filter_eq_Cons_iff)
  then show "\<exists>pre post. xs = pre @ x # post \<and> P x \<and> (\<forall>y\<in>set (pre @ post). \<not> P y)"
    by (intro exI [of _ pre] exI [of _ post]) (auto simp: filter_empty_conv)
next
  assume "\<exists>pre post. xs = pre @ x # post \<and> P x \<and> (\<forall>y\<in>set (pre @ post). \<not> P y)"
  then obtain pre post where "xs = pre @ x # post" "P x" "\<forall>y\<in>set (pre @ post). \<not> P y" by blast
  moreover from this(3) have "filter P pre = []" "filter P post = []"
    by (simp_all add: filter_empty_conv)
  ultimately show "filter P xs = [x]" by simp
qed

lemma check_listener_Ok:
  "check_listener x = Ok () \<longleftrightarrow> jget ''listen'' x \<in> {Some (JStr ''127.0.0.1''), Some (JStr ''::1'')}"
  by (cases "get_str ''listen'' x") (auto simp: check_listener_def get_str_def bind_eq_Some_conv)

lemma inspect_validation_tree_Ok:
  "inspect_validation_tree root = Ok ps \<longleftrightarrow> (\<exists>p. ps = [p] \<and> validation_root root p)"
proof -
  have traverse: "(rtraverse socks_port xs = Ok ps \<and> length ps = 1)
      \<longleftrightarrow> (\<exists>x p. xs = [x] \<and> ps = [p] \<and> socks_port x = Ok p)" for xs
    by (cases xs; cases "tl xs") (auto simp: length1)
  have "inspect_validation_tree root = Ok ps \<longleftrightarrow>
      safe_root root \<and> (\<exists>inbounds. map_of root ''inbounds'' = Some (JArr inbounds)
        \<and> (\<forall>x\<in>set inbounds. \<not> has_protocol ''tun'' x \<and> check_listener x = Ok ())
        \<and> rtraverse socks_port (filter (has_protocol ''socks'') inbounds) = Ok ps \<and> length ps = 1)"
    unfolding inspect_validation_tree_def
    by (auto simp: reject_unsafe_Ok bind_eq_Some_conv list_ex_iff)
  then show ?thesis
    unfolding traverse filter_single socks_port_Ok check_listener_Ok validation_root_def by blast
qed

lemma safe_root_insert:
  assumes "safe_root root" and "k \<in> {''inbounds'', ''outbounds''}"
    and "all_keys (\<lambda>k. \<not> privileged_key k) v"
  shows "safe_root (obj_insert k v root)"
proof -
  have "\<not> privileged_key k" and "k \<in> set allowed_fields" and "k \<noteq> ''log''"
    using assms(2) by (auto simp: privileged_key_def ascii_lower_def lower_char_def is_upper_def allowed_fields_def)
  then show ?thesis
    using assms(1,3) unfolding safe_root_def
    by (auto simp: fst_set_obj_insert intro!: all_keys_obj_insert simp del: all_keys.simps)
qed

lemma safe_root_get: "safe_root root \<Longrightarrow> map_of root k = Some v \<Longrightarrow> all_keys (\<lambda>k. \<not> privileged_key k) v"
  unfolding safe_root_def by (blast intro: all_keys_map_of)

section \<open>What the port rewriting does\<close>

text \<open>Only the port of the one SOCKS inbound differs.\<close>

definition same_but_port :: "u16 \<Rightarrow> (string \<times> json) list \<Rightarrow> (string \<times> json) list \<Rightarrow> bool" where
  "same_but_port q root root' \<longleftrightarrow>
     (\<forall>k. k \<noteq> ''inbounds'' \<longrightarrow> map_of root' k = map_of root k)
     \<and> (\<exists>pre socks post. map_of root ''inbounds'' = Some (JArr (pre @ socks # post))
          \<and> has_protocol ''socks'' socks
          \<and> map_of root' ''inbounds''
              = Some (JArr (pre @ jset ''port'' (JNum (PosInt (ucast q))) socks # post)))"

lemma assign_ports_none: "\<forall>x\<in>set xs. \<not> has_protocol ''socks'' x \<Longrightarrow> assign_ports ps xs = Ok (xs, ps)"
  by (induction xs) auto

lemma assign_ports_skip:
  "\<forall>x\<in>set pre. \<not> has_protocol ''socks'' x \<Longrightarrow>
     assign_ports ps (pre @ xs) = rbind (assign_ports ps xs) (\<lambda>(ys, rest). Ok (pre @ ys, rest))"
  by (induction pre) (auto simp: rbind_def split: sum.splits)

lemma assign_ports_single:
  "has_protocol ''socks'' s \<Longrightarrow> \<forall>x\<in>set (pre @ post). \<not> has_protocol ''socks'' x \<Longrightarrow>
     assign_ports [q] (pre @ s # post) = Ok (pre @ jset ''port'' (JNum (PosInt (ucast q))) s # post, [])"
  by (simp add: assign_ports_skip assign_ports_none)

lemma has_protocol_object: "has_protocol p v \<Longrightarrow> \<exists>kvs. v = JObj kvs"
  by (cases v) (auto simp: has_protocol_def)

lemma rewrite_ports_tree_Ok:
  assumes "validation_root root p" and "q \<noteq> 0"
  obtains root' where "rewrite_ports_tree [q] root = Ok root'" and "validation_root root' q"
    and "same_but_port q root root'"
proof -
  from assms(1) obtain inbounds pre s post where *: "safe_root root"
    "map_of root ''inbounds'' = Some (JArr inbounds)" "inbounds = pre @ s # post"
    "\<forall>x\<in>set inbounds. \<not> has_protocol ''tun'' x
       \<and> jget ''listen'' x \<in> {Some (JStr ''127.0.0.1''), Some (JStr ''::1'')}"
    "has_protocol ''socks'' s" "\<forall>x\<in>set (pre @ post). \<not> has_protocol ''socks'' x"
    unfolding validation_root_def by blast
  let ?s = "jset ''port'' (JNum (PosInt (ucast q))) s" and ?keys = "all_keys (\<lambda>k. \<not> privileged_key k)"
  let ?root = "obj_insert ''inbounds'' (JArr (pre @ ?s # post)) root"
  obtain kvs where s: "s = JObj kvs" using has_protocol_object [OF *(5)] by blast
  have run: "rewrite_ports_tree [q] root = Ok ?root"
    by (simp add: rewrite_ports_tree_def *(2,3) assign_ports_single [OF *(5,6)])
  have "?keys (JArr inbounds)" using *(1,2) by (rule safe_root_get)
  moreover have "\<not> privileged_key ''port''"
    by (simp add: privileged_key_def ascii_lower_def lower_char_def is_upper_def)
  ultimately have keys: "?keys (JArr (pre @ ?s # post))"
    using *(3) by (auto simp: list_all_iff intro!: all_keys_jset)
  have "validation_root ?root q"
    unfolding validation_root_def
  proof (intro conjI exI)
    show "safe_root ?root" using *(1) keys by (intro safe_root_insert) auto
    show "map_of ?root ''inbounds'' = Some (JArr (pre @ ?s # post))" by simp
    show "\<forall>x\<in>set (pre @ ?s # post). \<not> has_protocol ''tun'' x
       \<and> jget ''listen'' x \<in> {Some (JStr ''127.0.0.1''), Some (JStr ''::1'')}"
      using *(3,4) by (auto simp: s has_protocol_def)
    show "has_protocol ''socks'' ?s" using *(5) by (simp add: s has_protocol_def)
  qed (use *(6) assms(2) in \<open>auto simp: s\<close>)
  moreover have "same_but_port q root ?root"
    unfolding same_but_port_def using *(2,3,5) by auto
  ultimately show ?thesis using run that by blast
qed

section \<open>What the interface rewriting does\<close>

definition interface_path :: "string list" where
  "interface_path = [''streamSettings'', ''sockopt'', ''interface'']"

text \<open>
  A network-capable outbound carries the interface name, and agrees with the original at
  every path that does not run along the interface's.
\<close>

definition bound_outbound :: "string \<Rightarrow> json \<Rightarrow> json \<Rightarrow> bool" where
  "bound_outbound name v w \<longleftrightarrow>
     (if has_protocol ''blackhole'' v \<or> has_protocol ''dns'' v then w = v
      else jpath interface_path w = Some (JStr name)
        \<and> (\<forall>ks. ks \<noteq> take (length ks) interface_path \<and> take 3 ks \<noteq> interface_path
             \<longrightarrow> jpath ks w = jpath ks v))"

definition stripped_tun :: "json \<Rightarrow> json \<Rightarrow> bool" where
  "stripped_tun v w \<longleftrightarrow>
     (\<forall>k. k \<noteq> ''settings'' \<longrightarrow> jget k w = jget k v)
     \<and> (\<forall>k. jpath [''settings'', k] w
            = (if k \<in> set tun_automatic_fields then None else jpath [''settings'', k] v))"

definition native_rewritten ::
  "string \<Rightarrow> (string \<times> json) list \<Rightarrow> (string \<times> json) list \<Rightarrow> bool" where
  "native_rewritten name root root' \<longleftrightarrow>
     safe_root root'
     \<and> (\<forall>k. k \<notin> {''inbounds'', ''outbounds''} \<longrightarrow> map_of root' k = map_of root k)
     \<and> (\<exists>tun tun' outs outs'.
          map_of root ''inbounds'' = Some (JArr [tun]) \<and> map_of root' ''inbounds'' = Some (JArr [tun'])
          \<and> stripped_tun tun tun'
          \<and> map_of root ''outbounds'' = Some (JArr outs) \<and> map_of root' ''outbounds'' = Some (JArr outs')
          \<and> list_all2 (bound_outbound name) outs outs')"

abbreviation no_file_keys :: "json \<Rightarrow> bool" where
  "no_file_keys \<equiv> all_keys (\<lambda>k. \<not> privileged_key k)"

lemma not_privileged [simp]:
  "\<not> privileged_key ''settings''" "\<not> privileged_key ''streamSettings''"
  "\<not> privileged_key ''sockopt''" "\<not> privileged_key ''interface''" "\<not> privileged_key ''port''"
  by (simp_all add: privileged_key_def ascii_lower_def lower_char_def is_upper_def)

lemma strip_tun_settings_Ok:
  assumes "strip_tun_settings v = Ok w"
  shows "stripped_tun v w" and "no_file_keys v \<Longrightarrow> no_file_keys w"
    and "has_protocol p w \<longleftrightarrow> has_protocol p v"
proof -
  from assms obtain kvs settings where v: "v = JObj kvs" "map_of kvs ''settings'' = Some (JObj settings)"
    and w: "w = jset ''settings'' (JObj (fold obj_remove tun_automatic_fields settings)) v"
    by (auto simp: strip_tun_settings_def bind_eq_Some_conv dest!: jget_Some_object)
  show "stripped_tun v w"
    using v by (auto simp: w stripped_tun_def map_of_fold_remove)
  show "has_protocol p w \<longleftrightarrow> has_protocol p v"
    using v by (simp add: w has_protocol_def)
  show "no_file_keys w" if "no_file_keys v"
    using that v unfolding w
    by (intro all_keys_jset all_keys_fold_remove) (auto dest: all_keys_map_of simp del: all_keys.simps)
qed

lemma bind_outbound_cases:
  assumes "bind_outbound name v = Ok w"
  obtains (skip) "has_protocol ''blackhole'' v \<or> has_protocol ''dns'' v" "w = v"
    | (bind) kvs stream sockopt where "\<not> (has_protocol ''blackhole'' v \<or> has_protocol ''dns'' v)"
        "v = JObj kvs"
        "map_of (obj_or_insert ''streamSettings'' (JObj []) kvs) ''streamSettings'' = Some (JObj stream)"
        "map_of (obj_or_insert ''sockopt'' (JObj []) stream) ''sockopt'' = Some (JObj sockopt)"
        "w = JObj (obj_insert ''streamSettings''
            (JObj (obj_insert ''sockopt'' (JObj (obj_insert ''interface'' (JStr name) sockopt))
               (obj_or_insert ''sockopt'' (JObj []) stream)))
            (obj_or_insert ''streamSettings'' (JObj []) kvs))"
  using assms by (auto simp: bind_outbound_def Let_def bind_eq_Some_conv split: if_splits)

lemma bind_outbound_bound:
  assumes "bind_outbound name v = Ok w"
  shows "bound_outbound name v w"
  using assms
proof (cases rule: bind_outbound_cases)
  case bind
  have "jpath ks w = jpath ks v"
    if "ks \<noteq> take (length ks) interface_path" "take 3 ks \<noteq> interface_path" for ks
  proof -
    from that obtain k ks1 where ks: "ks = k # ks1" by (cases ks) auto
    show ?thesis
    proof (cases "k = ''streamSettings''")
      case stream: True
      with that ks obtain k2 ks2 where ks1: "ks1 = k2 # ks2" by (cases ks1) (auto simp: interface_path_def)
      show ?thesis
      proof (cases "k2 = ''sockopt''")
        case sock: True
        with that ks ks1 stream obtain k3 ks3 where "ks2 = k3 # ks3" "k3 \<noteq> ''interface''"
          by (cases ks2) (auto simp: interface_path_def)
        with bind ks ks1 stream sock show ?thesis
          by (auto simp: map_of_obj_or_insert split: if_splits)
      qed (use bind ks ks1 stream in \<open>auto simp: map_of_obj_or_insert split: if_splits\<close>)
    qed (use bind ks in \<open>auto simp: map_of_obj_or_insert split: if_splits\<close>)
  qed
  with bind show ?thesis
    by (simp add: bound_outbound_def interface_path_def)
qed (simp add: bound_outbound_def)

lemma bind_outbound_file_keys:
  assumes "bind_outbound name v = Ok w" and "no_file_keys v"
  shows "no_file_keys w"
  using assms(1)
proof (cases rule: bind_outbound_cases)
  case (bind kvs stream sockopt)
  have "no_file_keys (JObj (obj_or_insert ''streamSettings'' (JObj []) kvs))" (is "no_file_keys ?v")
    using assms(2) bind(2) by (intro all_keys_obj_or_insert) auto
  moreover from this bind(3) have "no_file_keys (JObj stream)" by (rule all_keys_map_of)
  then have "no_file_keys (JObj (obj_or_insert ''sockopt'' (JObj []) stream))"
    by (intro all_keys_obj_or_insert) auto
  moreover from this bind(4) have "no_file_keys (JObj sockopt)" by (rule all_keys_map_of)
  ultimately show ?thesis
    unfolding bind(5) by (intro all_keys_obj_insert) auto
qed (use assms(2) in simp)

lemma rewrite_native_tree_Ok:
  assumes "native_tun root insp" and "rewrite_native_tree name root = Ok root'"
  shows "native_rewritten name root root'"
proof -
  from assms(1) obtain tun where tun: "safe_root root" "map_of root ''inbounds'' = Some (JArr [tun])"
    "has_protocol ''tun'' tun"
    unfolding native_tun_def has_protocol_def get_str_Some by blast
  with assms(2) obtain tun' outs outs' where *: "strip_tun_settings tun = Ok tun'"
    "map_of root ''outbounds'' = Some (JArr outs)" "rtraverse (bind_outbound name) outs = Ok outs'"
    "root' = obj_insert ''outbounds'' (JArr outs') (obj_insert ''inbounds'' (JArr [tun']) root)"
    by (auto simp: rewrite_native_tree_def Let_def bind_eq_Some_conv)
  have outs: "list_all2 (\<lambda>v w. bind_outbound name v = Ok w) outs outs'"
    using *(3) by (simp add: rtraverse_Ok_iff)
  have "no_file_keys tun" "\<forall>v\<in>set outs. no_file_keys v"
    using safe_root_get [OF tun(1,2)] safe_root_get [OF tun(1) *(2)] by (auto simp: list_all_iff)
  then have keys: "no_file_keys tun'" "\<forall>w\<in>set outs'. no_file_keys w"
    using strip_tun_settings_Ok(2) [OF *(1)] outs bind_outbound_file_keys
    by (auto simp: list_all2_conv_all_nth all_set_conv_all_nth)
  then have "safe_root root'"
    unfolding *(4) by (intro safe_root_insert tun(1)) (auto simp: list_all_iff)
  moreover have "list_all2 (bound_outbound name) outs outs'"
    using outs by (rule list_all2_mono) (rule bind_outbound_bound)
  ultimately show ?thesis
    unfolding native_rewritten_def using tun(2) *(2) strip_tun_settings_Ok(1) [OF *(1)]
    by (auto simp: *(4))
qed

section \<open>Properties\<close>

text \<open>
  C26: the service accepts a native configuration exactly when it is a JSON object with only
  the allowed top-level fields, no log file path, no key that names a privileged file at any
  depth, and one inbound, the TUN adapter with the fixed name, gateways, DNS server, default
  routes and automatic outbound interface; the report carries the adapter's DNS servers.
\<close>

theorem inspect_native_accepts:
  "inspect_native_tun_config js config = Ok insp
     \<longleftrightarrow> (\<exists>root. from_str js config = Ok (JObj root) \<and> native_tun root insp)"
  by (auto simp: inspect_native_tun_config_def inspect_native_tree_Ok)

text \<open>
  The service accepts a validation configuration exactly when it is safe in the same
  sense, has no TUN inbound, every inbound listens on loopback, and exactly one is SOCKS,
  with a port that fits and is not zero; the report is that port.
\<close>

theorem inspect_validation_accepts:
  "inspect_validation_config js config = Ok ports
     \<longleftrightarrow> (\<exists>root p. from_str js config = Ok (JObj root) \<and> validation_root root p \<and> ports = [p])"
  by (auto simp: inspect_validation_config_def inspect_validation_tree_Ok)

text \<open>
  C27: the configuration the service starts the core with differs from the accepted one only
  as the network policy needs: every outbound that can reach the network is bound to the
  given interface and otherwise unchanged, the automatic settings of the TUN adapter are
  gone, and no privileged file key has appeared.
\<close>

theorem rewrite_native_effect:
  assumes "rewrite_native_outbound_interface js config name = Ok text"
    and "reads_back js text"
  shows "\<exists>root root'. from_str js config = Ok (JObj root) \<and> from_str js text = Ok (JObj root')
     \<and> native_rewritten (trim name) root root'"
  using assms
  by (auto simp: rewrite_native_outbound_interface_def inspect_native_tun_config_def Let_def
      inspect_native_tree_Ok reads_back_def dest!: rewrite_native_tree_Ok)

text \<open>
  Replacing the SOCKS port of an accepted validation configuration never fails on an
  unprivileged port, changes nothing else, and the result inspects to that port.
\<close>

theorem rewrite_ports_total:
  assumes "inspect_validation_config js config = Ok [p]" and "1024 \<le> q"
  shows "\<exists>root root'. from_str js config = Ok (JObj root) \<and> same_but_port q root root'
     \<and> (\<forall>text. to_string js (JObj root') = Ok text \<longrightarrow> from_str js text = Ok (JObj root')
          \<longrightarrow> rewrite_validation_ports js config [q] = Ok text
            \<and> inspect_validation_config js text = Ok [q])"
proof -
  from assms(1) obtain root where root: "from_str js config = Ok (JObj root)" "validation_root root p"
    by (auto simp: inspect_validation_config_def inspect_validation_tree_Ok)
  have "q \<noteq> 0" using assms(2) by auto
  with root(2) obtain root' where *: "rewrite_ports_tree [q] root = Ok root'"
    "validation_root root' q" "same_but_port q root root'"
    by (rule rewrite_ports_tree_Ok)
  then have "inspect_validation_config js out = Ok [q]" if "from_str js out = Ok (JObj root')" for out
    using that by (auto simp: inspect_validation_config_def inspect_validation_tree_Ok)
  then show ?thesis
    using assms(1,2) root(1) *
    by (auto simp: rewrite_validation_ports_def not_less)
qed

section \<open>Concrete configurations\<close>

definition sample_native :: "(string \<times> json) list" where
  "sample_native =
     [(''inbounds'', JArr [JObj
        [(''protocol'', JStr ''tun''),
         (''settings'', JObj
           [(''autoOutboundsInterface'', JStr ''auto''),
            (''autoSystemRoutingTable'', JArr [JStr ''0.0.0.0/0'', JStr ''::/0'']),
            (''desc'', JStr ''Varmlen''), (''dns'', JArr [JStr ''1.1.1.1'']),
            (''gateway'', JArr [JStr ''10.255.0.1/30'', JStr ''fd00:7661:726d:6c65::1/64'']),
            (''name'', JStr ''Varmlen'')])]]),
      (''outbounds'', JArr [JObj [(''protocol'', JStr ''vless'')], JObj [(''protocol'', JStr ''dns'')]])]"

definition sample_validation :: "u16 \<Rightarrow> (string \<times> json) list" where
  "sample_validation p =
     [(''inbounds'', JArr [JObj [(''listen'', JStr ''127.0.0.1''), (''port'', JNum (PosInt (ucast p))),
        (''protocol'', JStr ''socks'')]])]"

text \<open>A reader and printer that know two documents.\<close>

definition two_documents :: "(string \<times> json) list \<Rightarrow> (string \<times> json) list \<Rightarrow> json_text" where
  "two_documents a b = \<lparr>
     from_str = (\<lambda>t. if t = ''a'' then Ok (JObj a) else if t = ''b'' then Ok (JObj b) else Err ''EOF''),
     to_string = (\<lambda>v. if v = JObj b then Ok ''b'' else Err ''key must be a string''),
     to_string_pretty = (\<lambda>v. if v = JObj b then Ok ''b'' else Err ''key must be a string'')\<rparr>"

definition sample_rewritten :: "(string \<times> json) list" where
  "sample_rewritten =
     (case rewrite_native_tree ''Ethernet'' sample_native of Inl _ \<Rightarrow> [] | Inr r \<Rightarrow> r)"

abbreviation native_documents :: json_text where
  "native_documents \<equiv> two_documents sample_native sample_rewritten"

abbreviation port_documents :: json_text where
  "port_documents \<equiv> two_documents (sample_validation 10808) (sample_validation 50000)"

lemma rewrite_native_effect_witness:
  "\<exists>root root'. from_str native_documents ''a'' = Ok (JObj root)
     \<and> from_str native_documents ''b'' = Ok (JObj root')
     \<and> native_rewritten (trim '' Ethernet'') root root'"
proof (rule rewrite_native_effect)
  show "rewrite_native_outbound_interface native_documents ''a'' '' Ethernet'' = Ok ''b''"
    by code_simp
  show "reads_back native_documents ''b''"
    by (auto simp: reads_back_def two_documents_def split: if_splits)
qed

lemma rewrite_ports_total_witness:
  "\<exists>root root'. from_str port_documents ''a'' = Ok (JObj root) \<and> same_but_port 50000 root root'
     \<and> (\<forall>text. to_string port_documents (JObj root') = Ok text
          \<longrightarrow> from_str port_documents text = Ok (JObj root')
          \<longrightarrow> rewrite_validation_ports port_documents ''a'' [50000] = Ok text
            \<and> inspect_validation_config port_documents text = Ok [50000])"
  by (rule rewrite_ports_total [where p = 10808]) code_simp+

end
