(* ===== verification/Windows_Process.thy ===== *)
theory Windows_Process
  imports Log_Store Windows_State Runtime
begin

text \<open>
  \<open>service/src/windows_process.rs\<close>: starting the core inside a job object, stopping it,
  checking a configuration with the core itself, and proving a route by a SOCKS5 exchange
  through a core started on the validation configuration.
\<close>

record managed_xray =
  mx_job :: nat
  mx_child :: nat

record prepared_config =
  pc_layout :: runtime_layout
  transaction :: xray_config_transaction
  contents :: bytes

definition persist_active :: "prepared_config \<Rightarrow> unit fs_io" where
  "persist_active prepared = atomic_write (active_path (transaction prepared)) (contents prepared)"

definition ensure_runtime_assets :: "runtime_layout \<Rightarrow> unit fs_io" where
  "ensure_runtime_assets l =
     sfor_each (\<lambda>path. sbind (fs_metadata path) (\<lambda>m.
         if \<not> is_regular m \<or> file_len m = 0
         then sfail (io_new InvalidData (''runtime asset is missing or empty: '' @ path))
         else sret ()))
       [xray_executable l, wintun_library l, geoip_database l, geosite_database l]"

text \<open>Opening the log, and duplicating its handle for standard error.\<close>

definition open_log :: "runtime_layout \<Rightarrow> unit fs_io" where
  "open_log l = sseq (rotate_if_needed (log_file l)) (fs_open_append (log_file l))"

definition try_clone :: "unit fs_io" where
  "try_clone = fs_op (\<lambda>_ s. s) (sret ())"

section \<open>Starting and stopping the core\<close>

text \<open>
  The job is closed when a later step fails, and a child that was not assigned to it is
  killed when it is dropped.
\<close>

definition spawn_in_job ::
  "'x platform \<Rightarrow> xray_invocation \<Rightarrow> string \<Rightarrow> ('x, io_error, managed_xray) prog" where
  "spawn_in_job P invocation directory =
     sbind (create_job P) (\<lambda>job.
     sbind (scatch (spawn P invocation directory)
       (\<lambda>e. sseq (smodify (close_job P job)) (sfail e))) (\<lambda>child.
     sseq (scatch (assign_job P job child)
       (\<lambda>e. sseq (smodify (\<lambda>x. close_job P job (start_kill P child x))) (sfail e)))
     (sret \<lparr>mx_job = job, mx_child = child\<rparr>)))"

definition start_core :: "'x platform \<Rightarrow> runtime_layout \<Rightarrow> string \<Rightarrow> ('x, managed_xray) os_io" where
  "start_core P l config =
     sseq (on_disk (ensure_runtime_assets l))
     (sseq (on_disk (ensure_state_directory l))
     (sseq (on_disk (atomic_write (active_config l) (as_bytes config)))
     (sseq (on_disk (open_log l))
     (sseq (on_disk try_clone)
     (on_ext (spawn_in_job P (run_invocation (xray_executable l) (active_config l)) (install_dir l)))))))"

definition start_prepared :: "'x platform \<Rightarrow> prepared_config \<Rightarrow> ('x, managed_xray) os_io" where
  "start_prepared P prepared =
     (let l = pc_layout prepared in
      sseq (on_disk (ensure_runtime_assets l))
      (sseq (on_disk (open_log l))
      (sseq (on_disk try_clone)
      (on_ext (spawn_in_job P (start_candidate_invocation (transaction prepared)) (install_dir l))))))"

definition is_running :: "'x platform \<Rightarrow> managed_xray \<Rightarrow> ('x, io_error, bool) prog" where
  "is_running P m = sbind (try_wait P (mx_child m)) (\<lambda>status. sret (status = None))"

definition stop_xray :: "'x platform \<Rightarrow> managed_xray \<Rightarrow> ('x, io_error, unit) prog" where
  "stop_xray P m =
     sbind (try_wait P (mx_child m)) (\<lambda>status.
     if status = None then smodify (kill_wait P (mx_child m)) else sret ())"

text \<open>\<open>drop\<close> of the whole value: the core is killed, then its job closed.\<close>

definition drop_xray :: "'x platform \<Rightarrow> managed_xray \<Rightarrow> 'x \<Rightarrow> 'x" where
  "drop_xray P m x = close_job P (mx_job m) (start_kill P (mx_child m) x)"

definition stop_child :: "'x platform \<Rightarrow> nat \<Rightarrow> ('x, 'e, unit) prog" where
  "stop_child P child =
     sbind (sattempt (try_wait P child)) (\<lambda>r.
     if Option.bind (result_ok r) (\<lambda>s. s) = None then smodify (kill_wait P child) else sret ())"

section \<open>Checking a configuration\<close>

definition validate_config_syntax ::
  "'x platform \<Rightarrow> runtime_layout \<Rightarrow> xray_invocation \<Rightarrow> ('x, io_error, unit) prog" where
  "validate_config_syntax P l invocation =
     sbind (output_within P 8000 invocation (install_dir l)) (\<lambda>r. case r of
       None \<Rightarrow> sfail (io_new TimedOut ''Xray validation timed out'')
     | Some output \<Rightarrow>
         if succeeded output then sret ()
         else sfail (io_new InvalidData (''Xray rejected the configuration: ''
           @ from_utf8_lossy (err_bytes output) @ from_utf8_lossy (out_bytes output))))"

definition prepare_native_config ::
  "'x platform \<Rightarrow> runtime_layout \<Rightarrow> string \<Rightarrow> ('x, prepared_config) os_io" where
  "prepare_native_config P l config =
     sseq (on_disk (ensure_runtime_assets l))
     (sseq (on_disk (ensure_state_directory l))
     (let tx = \<lparr>tx_executable = xray_executable l, candidate_path = candidate_config l,
                active_path = active_config l\<rparr> in
     sseq (on_disk (atomic_write (candidate_config l) (as_bytes config)))
     (sseq (on_ext (validate_config_syntax P l (preflight tx)))
     (sret \<lparr>pc_layout = l, transaction = tx, contents = as_bytes config\<rparr>))))"

text \<open>
  The loop that collects distinct ports; its listeners stay bound until they are released.
  The source has no bound on it: \<open>loop_fuel\<close> counts the duplicates it survives.
\<close>

fun reserve_loop :: "'x platform \<Rightarrow> nat \<Rightarrow> nat \<Rightarrow> u16 list \<Rightarrow> ('x, io_error, u16 list) prog" where
  "reserve_loop P count 0 ports = sfail (io_other ''no fresh validation port'')"
| "reserve_loop P count (Suc n) ports =
     (if count \<le> length ports then sret ports
      else sbind (scatch (bind_loopback_port P) (\<lambda>e. sseq (smodify (release_ports P)) (sfail e))) (\<lambda>port.
        reserve_loop P count n (if port \<in> set ports then ports else ports @ [port])))"

definition reserve_validation_ports :: "'x platform \<Rightarrow> nat \<Rightarrow> ('x, io_error, u16 list) prog" where
  "reserve_validation_ports P count = reserve_loop P count (Suc (count + loop_fuel P)) []"

section \<open>The SOCKS5 probe\<close>

definition refused :: "string \<Rightarrow> io_error" where
  "refused = io_new ConnectionRefused"

definition probe_socks5 :: "'x platform \<Rightarrow> u16 \<Rightarrow> ('x, io_error, unit) prog" where
  "probe_socks5 P port =
     sseq (stream_connect P port)
     (sseq (stream_write P [5, 1, 0])
     (sbind (stream_read P 2) (\<lambda>method.
     sseq (slift (map_err refused (validate_socks5_method_reply method)))
     (sseq (stream_write P (socks5_ipv4_connect_request [1, 1, 1, 1] 443))
     (sbind (stream_read P 4) (\<lambda>header.
     sbind (slift (map_err refused (validate_socks5_connect_header header))) (\<lambda>tail_len.
     if tail_len = 0
     then sbind (stream_read P 1) (\<lambda>n.
       sbind (stream_read P (unat (hd n) + 2)) (\<lambda>_. sret ()))
     else sbind (stream_read P tail_len) (\<lambda>_. sret ()))))))))"

text \<open>
  The probe under its timeout of three seconds. A probe that is cut off has already done
  some of its calls: that is part of what \<open>timed_out\<close> does to the machine.
\<close>

definition probe_within :: "'x platform \<Rightarrow> u16 \<Rightarrow> 'x \<Rightarrow> (string + unit) \<times> 'x" where
  "probe_within P port x =
     (case timed_out P 3000 x of
        (True, y) \<Rightarrow> (Err (''SOCKS5 validation timed out on port '' @ dec (unat port)), y)
      | (False, y) \<Rightarrow> smap_err io_message (probe_socks5 P port) y)"

text \<open>
  The loop until the deadline. Each turn sleeps for 100 ms, so on a clock that advances
  (\<open>clock_law\<close> below) it takes at most 101 turns and the first line is never reached.
\<close>

fun socks_loop :: "'x platform \<Rightarrow> nat \<Rightarrow> u16 \<Rightarrow> nat \<Rightarrow> nat \<Rightarrow> ('x, io_error, unit) prog" where
  "socks_loop P child port deadline 0 x = (Err (io_other ''the clock stands still''), x)"
| "socks_loop P child port deadline (Suc n) x =
     (case try_wait P child x of
        (Err e, y) \<Rightarrow> (Err e, y)
      | (Ok (Some status), y) \<Rightarrow>
          (Err (io_other (''validation Xray exited before the effective route became reachable: ''
            @ status)), y)
      | (Ok None, y) \<Rightarrow>
          (case probe_within P port y of
             (Ok _, z) \<Rightarrow> (Ok (), z)
           | (Err last_error, z) \<Rightarrow>
               if deadline \<le> now_ms P z
               then (Err (io_new TimedOut (''effective route is unreachable: '' @ last_error)), z)
               else socks_loop P child port deadline n (sleep_ms P 100 z)))"

definition wait_for_socks_reachability ::
  "'x platform \<Rightarrow> nat \<Rightarrow> u16 list \<Rightarrow> ('x, io_error, unit) prog" where
  "wait_for_socks_reachability P child ports =
     (case ports of
        [port] \<Rightarrow> (\<lambda>x. socks_loop P child port (now_ms P x + 10000) 101 x)
      | _ \<Rightarrow> sfail (io_new InvalidInput ''validation requires exactly one effective-route SOCKS port''))"

section \<open>Validating a route\<close>

text \<open>
  One attempt. The outer error ends the validation; the inner result is an attempt's own,
  after which the next one may be tried.
\<close>

definition validation_attempt ::
  "'x platform \<Rightarrow> json_text \<Rightarrow> runtime_layout \<Rightarrow> string \<Rightarrow> nat \<Rightarrow> ('x, io_error + unit) os_io" where
  "validation_attempt P js l config count =
     sbind (on_ext (reserve_validation_ports P count)) (\<lambda>ports.
     sseq (scatch
       (sbind (slift (map_err (io_new InvalidData) (rewrite_validation_ports js config ports))) (\<lambda>rewritten.
        sseq (on_disk (atomic_write (validation_path l) (as_bytes rewritten)))
        (on_ext (validate_config_syntax P l
           (validation_invocation (xray_executable l) (validation_path l))))))
       (\<lambda>e. sseq (ext_modify (release_ports P)) (sfail e)))
     (sseq (ext_modify (release_ports P))
     (on_ext
       (sbind (create_job P) (\<lambda>job.
        sbind (sattempt (spawn P (run_invocation (xray_executable l) (validation_path l)) (install_dir l)))
        (\<lambda>r. case r of
          Err e \<Rightarrow> sseq (smodify (close_job P job)) (sret (Err e))
        | Ok child \<Rightarrow>
            sseq (scatch (assign_job P job child)
              (\<lambda>e. sseq (stop_child P child)
                (sseq (smodify (\<lambda>x. close_job P job (start_kill P child x))) (sfail e))))
            (sbind (sattempt (wait_for_socks_reachability P child ports)) (\<lambda>result.
             sseq (stop_child P child)
             (sseq (smodify (\<lambda>x. start_kill P child (close_job P job x)))
             (sret result))))))))))"

fun validation_loop ::
  "'x platform \<Rightarrow> json_text \<Rightarrow> runtime_layout \<Rightarrow> string \<Rightarrow> nat \<Rightarrow> nat \<Rightarrow> io_error option \<Rightarrow> ('x, unit) os_io" where
  "validation_loop P js l config count 0 last_error =
     sfail (case last_error of Some e \<Rightarrow> e
       | None \<Rightarrow> io_new AddrInUse ''could not start Xray on service-owned validation ports'')"
| "validation_loop P js l config count (Suc n) last_error =
     sbind (validation_attempt P js l config count) (\<lambda>result. case result of
       Ok _ \<Rightarrow> sret ()
     | Err e \<Rightarrow> validation_loop P js l config count n (Some e))"

definition validate_config ::
  "'x platform \<Rightarrow> json_text \<Rightarrow> runtime_layout \<Rightarrow> string \<Rightarrow> ('x, unit) os_io" where
  "validate_config P js l config =
     sseq (on_disk (ensure_runtime_assets l))
     (sseq (on_disk (ensure_state_directory l))
     (sbind (slift (map_err (io_new InvalidData) (inspect_validation_config js config))) (\<lambda>socks_ports.
      validation_loop P js l config (length socks_ports) 4 None)))"

section \<open>Lemmas\<close>

lemma keeps_probe:
  assumes "undisturbed P I"
  shows "keeps I (probe_socks5 P port)"
  unfolding probe_socks5_def by (intro hoare_rules undisturbedD [OF assms])

lemma keeps_probe_within:
  assumes "undisturbed P I" and "I x"
  shows "I (snd (probe_within P port x))"
proof -
  have "keeps I (smap_err io_message (probe_socks5 P port))" by (intro hoare_rules keeps_probe [OF assms(1)])
  with undisturbedD(18) [OF assms, of 3000] show ?thesis
    by (auto simp: probe_within_def keeps_def split: prod.split bool.split)
qed

lemma keeps_socks_loop:
  assumes "undisturbed P I"
  shows "keeps I (socks_loop P child port deadline n)"
proof -
  have "I x \<Longrightarrow> I (snd (socks_loop P child port deadline n x))" for x
  proof (induction n arbitrary: x)
    case (Suc n)
    obtain r y where wait: "try_wait P child x = (r, y)" by (cases "try_wait P child x")
    have y: "I y" using undisturbedD(9) [OF assms] Suc.prems wait by (rule keepsD)
    obtain s z where probe: "probe_within P port y = (s, z)" by (cases "probe_within P port y")
    have "I z" using keeps_probe_within [OF assms y, of port] probe by simp
    then show ?case
      using Suc.IH undisturbedD(19) [OF assms] y
      by (auto simp: wait probe split: sum.split option.split)
  qed simp
  then show ?thesis by (simp add: keeps_def)
qed

lemma keeps_wait_for_socks:
  assumes "undisturbed P I"
  shows "keeps I (wait_for_socks_reachability P child ports)"
  using keeps_socks_loop [OF assms]
  by (auto simp: wait_for_socks_reachability_def keeps_def keeps_basic(2) sfail_def split: list.split)

lemma keeps_reserve:
  assumes "undisturbed P I"
  shows "keeps I (reserve_validation_ports P count)"
proof -
  have "keeps I (reserve_loop P count n ports)" for n ports
    by (induction n arbitrary: ports) (auto intro!: hoare_rules undisturbedD [OF assms])
  then show ?thesis by (simp only: reserve_validation_ports_def)
qed

lemma keeps_stop_child:
  assumes "undisturbed P I"
  shows "keeps I (stop_child P child)"
  unfolding stop_child_def by (intro hoare_rules undisturbedD [OF assms])

lemma keeps_stop_xray:
  assumes "undisturbed P I"
  shows "keeps I (stop_xray P m)"
  unfolding stop_xray_def by (intro hoare_rules undisturbedD [OF assms])

lemma keeps_is_running:
  assumes "undisturbed P I"
  shows "keeps I (is_running P m)"
  unfolding is_running_def by (intro hoare_rules undisturbedD [OF assms])

text \<open>
  Windows on job objects: a job limited to die with its handle keeps that limit while a
  process starts, and ties to itself the process assigned to it.
\<close>

definition job_law :: "'x platform \<Rightarrow> (nat \<Rightarrow> 'x \<Rightarrow> bool) \<Rightarrow> (nat \<Rightarrow> 'x \<Rightarrow> bool) \<Rightarrow> bool" where
  "job_law P limited tied \<longleftrightarrow>
     (\<forall>j x y. set_job_limits P j 0x2000 x = (Ok (), y) \<longrightarrow> limited j y)
     \<and> (\<forall>i d j x. limited j x \<longrightarrow> limited j (snd (spawn P i d x)))
     \<and> (\<forall>j c x y. limited j x \<longrightarrow> assign_process P j c x = (Ok (), y) \<longrightarrow> tied c y)"

lemma spawn_in_job_ties:
  assumes law: "job_law P limited tied"
  shows "wp (spawn_in_job P i d) (\<lambda>m x. tied (mx_child m) x) (\<lambda>_ _. True) x"
proof -
  have set: "wp (set_job_limits P j 0x2000) (\<lambda>_. limited j) (\<lambda>_ _. True) y" for j y
    using law by (auto simp: wp_def job_law_def split: prod.splits sum.splits)
  have create: "wp (create_job P) limited (\<lambda>_ _. True) y" for y
    unfolding create_job_def wp_sbind JOB_OBJECT_LIMIT_KILL_ON_JOB_CLOSE_def
    by (rule wp_trivial, simp add: wp_simps, rule wp_mono [OF set], simp_all add: wp_simps)
  have process: "wp (assign_process P j c) (\<lambda>_. tied c) (\<lambda>_ _. True) y" if "limited j y" for j c y
    using law that by (auto simp: wp_def job_law_def split: prod.splits sum.splits)
  have assign: "wp (assign_job P j c) (\<lambda>_ z. tied c z) (\<lambda>_ _. True) y" if "limited j y" for j c y
    by (simp add: assign_job_def wp_simps process [OF that])
  have child: "wp (spawn P i d) (\<lambda>_ z. limited j z) (\<lambda>_ z. limited j z) y" if "limited j y" for j y
    using law that by (auto simp: wp_def job_law_def split: prod.splits sum.splits) (metis snd_conv)+
  show ?thesis
    unfolding spawn_in_job_def wp_sbind
    by (rule wp_mono [OF create])
       (auto simp: wp_simps intro!: wp_mono [OF child] wp_mono [OF assign])
qed

lemma keeps_spawn_in_job:
  assumes "undisturbed P I"
  shows "keeps I (spawn_in_job P invocation directory)"
  unfolding spawn_in_job_def by (intro hoare_rules undisturbedD [OF assms])

lemma keeps_start:
  assumes "undisturbed P I"
  shows "keeps (in_ext I) (start_core P l config)" and "keeps (in_ext I) (start_prepared P prepared)"
  unfolding start_core_def start_prepared_def Let_def
  by (intro hoare_rules keeps_spawn_in_job [OF assms])+

lemma keeps_syntax:
  assumes "undisturbed P I"
  shows "keeps I (validate_config_syntax P l invocation)"
  unfolding validate_config_syntax_def by (intro hoare_rules undisturbedD [OF assms])

lemma keeps_prepare:
  assumes "undisturbed P I"
  shows "keeps (in_ext I) (prepare_native_config P l config)"
  unfolding prepare_native_config_def Let_def by (intro hoare_rules keeps_syntax [OF assms])

lemma keeps_attempt:
  assumes "undisturbed P I"
  shows "keeps (in_ext I) (validation_attempt P js l config count)"
  unfolding validation_attempt_def
  by (intro hoare_rules keeps_syntax [OF assms] keeps_reserve [OF assms] keeps_stop_child [OF assms]
      keeps_wait_for_socks [OF assms] undisturbedD [OF assms])

lemma keeps_validate:
  assumes "undisturbed P I"
  shows "keeps (in_ext I) (validate_config P js l config)"
proof -
  have "keeps (in_ext I) (validation_loop P js l config count n last)" for count n last
    by (induction n arbitrary: last) (auto intro!: hoare_rules keeps_attempt [OF assms])
  then show ?thesis unfolding validate_config_def by (intro hoare_rules)
qed

subsection \<open>What a validation that succeeds has done\<close>

text \<open>Which run of which call a success comes from.\<close>

lemma on_ext_Ok: "on_ext m w = (Inr a, w') \<longleftrightarrow> (\<exists>x. m (ext w) = (Inr a, x) \<and> w' = w\<lparr>ext := x\<rparr>)"
  by (auto simp: on_ext_def szoom_def split: prod.splits)

lemma on_disk_Ok: "on_disk m w = (Inr a, w') \<longleftrightarrow> (\<exists>d. m (disk w) = (Inr a, d) \<and> w' = w\<lparr>disk := d\<rparr>)"
  by (auto simp: on_disk_def szoom_def split: prod.splits)

lemma step_Ok:
  "ext_modify f w = (Inr u, w') \<longleftrightarrow> w' = w\<lparr>ext := f (ext w)\<rparr>"
  "slift r s = (Inr a, t) \<longleftrightarrow> r = Inr a \<and> t = s"
  "sret a s = (Inr b, t) \<longleftrightarrow> b = a \<and> t = s"
  "\<not> sfail e s = (Inr b, t)"
  "smodify g s = (Inr u, t) \<longleftrightarrow> t = g s"
  "scatch m (\<lambda>e. sseq (h e) (sfail (k e))) s = (Inr a, t) \<longleftrightarrow> m s = (Inr a, t)"
  "scatch m (\<lambda>e. sseq (h e) (sseq (h' e) (sfail (k e)))) s = (Inr a, t) \<longleftrightarrow> m s = (Inr a, t)"
  "sattempt m s = (Inr r, t) \<longleftrightarrow> m s = (r, t)"
  by (auto simp: ext_modify_def prog_defs split: prod.splits sum.splits)

text \<open>An exchange with the proxy on a port that the proxy accepted, from the first call to the last.\<close>

definition socks_exchange :: "'x platform \<Rightarrow> u16 \<Rightarrow> 'x \<Rightarrow> 'x \<Rightarrow> bool" where
  "socks_exchange P port x z \<longleftrightarrow> (\<exists>x1 x2 x3 x4 x5 x6 m h n tail.
     stream_connect P port x = (Ok (), x1) \<and> stream_write P [5, 1, 0] x1 = (Ok (), x2)
     \<and> stream_read P 2 x2 = (Ok m, x3) \<and> m = [5, 0]
     \<and> stream_write P (socks5_ipv4_connect_request [1, 1, 1, 1] 443) x3 = (Ok (), x4)
     \<and> stream_read P 4 x4 = (Ok h, x5) \<and> h ! 0 = 5 \<and> h ! 1 = 0 \<and> h ! 2 = 0
     \<and> stream_read P n x6 = (Ok tail, z))"

text \<open>
  From \<open>w0\<close>, the world in which the port was reserved, over \<open>w1\<close>, in which the file was there, to
  \<open>z\<close>: the core accepted the file, was started on it inside a job, and while it ran the proxy on the
  reserved port answered.
\<close>

definition route_proved ::
  "'x platform \<Rightarrow> json_text \<Rightarrow> runtime_layout \<Rightarrow> string \<Rightarrow> 'x world \<Rightarrow> 'x world \<Rightarrow> u16 \<Rightarrow> 'x \<Rightarrow> bool" where
  "route_proved P js l config w0 w1 port z \<longleftrightarrow> (\<exists>n rewritten out x2 job x3 child x4 x5 y0 y1 y2.
     reserve_validation_ports P n (ext w0) = (Ok [port], ext w1)
     \<and> rewrite_validation_ports js config [port] = Ok rewritten
     \<and> file_at (validation_path l) (disk w1) = Some (as_bytes rewritten)
     \<and> output_within P 8000 (validation_invocation (xray_executable l) (validation_path l)) (install_dir l) (ext w1)
         = (Ok (Some out), x2) \<and> succeeded out
     \<and> create_job P (release_ports P x2) = (Ok job, x3)
     \<and> spawn P (run_invocation (xray_executable l) (validation_path l)) (install_dir l) x3 = (Ok child, x4)
     \<and> assign_job P job child x4 = (Ok (), x5)
     \<and> try_wait P child y0 = (Ok None, y1) \<and> timed_out P 3000 y1 = (False, y2)
     \<and> socks_exchange P port y2 z)"

lemma reserve_bound:
  assumes "reserve_loop P count n ports x = (Ok qs, y)"
    and "list_all (\<lambda>p. \<exists>a b. bind_loopback_port P a = (Ok p, b)) ports"
  shows "list_all (\<lambda>p. \<exists>a b. bind_loopback_port P a = (Ok p, b)) qs"
  using assms
proof (induction n arbitrary: ports x)
  case (Suc n)
  show ?case
  proof (cases "count \<le> length ports")
    case True
    then show ?thesis using Suc.prems by (simp add: step_Ok)
  next
    case False
    with Suc.prems obtain p z where "bind_loopback_port P x = (Ok p, z)"
      "reserve_loop P count n (if p \<in> set ports then ports else ports @ [p]) z = (Ok qs, y)"
      by (auto simp: sbind_Ok_iff step_Ok)
    moreover from this(1) have "\<exists>a b. bind_loopback_port P a = (Ok p, b)" by blast
    ultimately show ?thesis
      using Suc.IH [of ports z] Suc.IH [of "ports @ [p]" z] Suc.prems(2) by (cases "p \<in> set ports") simp_all
  qed
qed (simp add: step_Ok)

lemma probe_exchange:
  assumes "probe_socks5 P port x = (Ok (), z)"
  shows "socks_exchange P port x z"
proof -
  from assms obtain x1 x2 x3 x4 x5 m h len where *: "stream_connect P port x = (Ok (), x1)"
    "stream_write P [5, 1, 0] x1 = (Ok (), x2)" "stream_read P 2 x2 = (Ok m, x3)"
    "validate_socks5_method_reply m = Ok ()"
    "stream_write P (socks5_ipv4_connect_request [1, 1, 1, 1] 443) x3 = (Ok (), x4)"
    "stream_read P 4 x4 = (Ok h, x5)" "validate_socks5_connect_header h = Ok len"
    and rest: "(if len = 0
       then sbind (stream_read P 1) (\<lambda>n. sbind (stream_read P (unat (hd n) + 2)) (\<lambda>_. sret ()))
       else sbind (stream_read P len) (\<lambda>_. sret ())) x5 = (Ok (), z)"
    unfolding probe_socks5_def by (auto simp: sbind_Ok_iff step_Ok)
  have m: "m = [5, 0]" using *(4) by (auto simp: validate_socks5_method_reply_def split: if_splits)
  have h: "h ! 0 = 5 \<and> h ! 1 = 0 \<and> h ! 2 = 0"
    using *(7) by (auto simp: validate_socks5_connect_header_def split: if_splits)
  have "\<exists>n x6 tail. stream_read P n x6 = (Ok tail, z)"
    using rest by (auto simp: sbind_Ok_iff step_Ok split: if_splits)
  with * m h show ?thesis unfolding socks_exchange_def by blast
qed

lemma wait_answered:
  assumes "wait_for_socks_reachability P child ports x = (Ok (), z)"
  shows "\<exists>port y0 y1 y2. ports = [port] \<and> try_wait P child y0 = (Ok None, y1)
     \<and> timed_out P 3000 y1 = (False, y2) \<and> socks_exchange P port y2 z"
proof -
  have probe: "\<exists>y2. timed_out P 3000 y1 = (False, y2) \<and> socks_exchange P port y2 z"
    if "probe_within P port y1 = (Ok u, z)" for port u y1
    using that by (auto simp: probe_within_def smap_err_def split: prod.splits bool.splits intro: probe_exchange)
  have loop: "\<exists>y0 y1. try_wait P child y0 = (Ok None, y1) \<and> probe_within P port y1 = (Ok (), z)"
    if "socks_loop P child port deadline n y = (Ok (), z)" for port deadline n y
    using that by (induction n arbitrary: y) (auto split: prod.splits sum.splits option.splits if_splits)
  from assms obtain port where port: "ports = [port]"
    "socks_loop P child port (now_ms P x + 10000) 101 x = (Ok (), z)"
    by (auto simp: wait_for_socks_reachability_def step_Ok split: list.splits)
  show ?thesis using loop [OF port(2)] probe port(1) by blast
qed

lemma atomic_write_Ok: "atomic_write p b d = (Ok (), d') \<Longrightarrow> file_at p d' = Some b"
  by (rule wp_OkD [where Q = "\<lambda>_ t. file_at p t = Some b" and E = "\<lambda>_ _. True"], rule wp_atomic_write) simp_all

lemma syntax_Ok:
  "validate_config_syntax P l i x = (Ok (), y) \<longleftrightarrow>
     (\<exists>out. output_within P 8000 i (install_dir l) x = (Ok (Some out), y) \<and> succeeded out)"
  by (auto simp: validate_config_syntax_def sbind_Ok_iff step_Ok split: option.splits if_splits)

lemma attempt_run:
  assumes "validation_attempt P js l config count w = (Ok (Ok ()), w')"
  shows "\<exists>w1 port z. route_proved P js l config w w1 port z \<and> disk w' = disk w1"
proof -
  define inv dir where "inv = run_invocation (xray_executable l) (validation_path l)" and "dir = install_dir l"
  from assms obtain ports x1 rewritten d x2 job x3 r x4 x7 where *:
    "reserve_validation_ports P count (ext w) = (Ok ports, x1)"
    "rewrite_validation_ports js config ports = Ok rewritten"
    "atomic_write (validation_path l) (as_bytes rewritten) (disk w) = (Ok (), d)"
    "validate_config_syntax P l (validation_invocation (xray_executable l) (validation_path l)) x1 = (Ok (), x2)"
    "create_job P (release_ports P x2) = (Ok job, x3)" "spawn P inv dir x3 = (r, x4)"
    and rest: "(case r of
          Err e \<Rightarrow> sseq (smodify (close_job P job)) (sret (Err e))
        | Ok child \<Rightarrow>
            sseq (scatch (assign_job P job child)
              (\<lambda>e. sseq (stop_child P child)
                (sseq (smodify (\<lambda>x. close_job P job (start_kill P child x))) (sfail e))))
            (sbind (sattempt (wait_for_socks_reachability P child ports)) (\<lambda>result.
             sseq (stop_child P child)
             (sseq (smodify (\<lambda>x. start_kill P child (close_job P job x)))
             (sret result))))) x4 = (Ok (Ok ()), x7)"
    and w': "disk w' = d"
    unfolding validation_attempt_def inv_def [symmetric] dir_def [symmetric]
    by (clarsimp simp: sbind_Ok_iff step_Ok on_ext_Ok on_disk_Ok)
  from rest obtain child x5 x6 where child: "r = Ok child"
    "assign_job P job child x4 = (Ok (), x5)" "wait_for_socks_reachability P child ports x5 = (Ok (), x6)"
    by (cases r) (auto simp: sbind_Ok_iff step_Ok)
  from wait_answered [OF child(3)] obtain port y0 y1 y2 where port: "ports = [port]"
    "try_wait P child y0 = (Ok None, y1)" "timed_out P 3000 y1 = (False, y2)" "socks_exchange P port y2 x6" by blast
  obtain out where out: "output_within P 8000 (validation_invocation (xray_executable l) (validation_path l))
      (install_dir l) x1 = (Ok (Some out), x2)" "succeeded out"
    using *(4) by (auto simp: syntax_Ok)
  have "route_proved P js l config w \<lparr>disk = d, ext = x1\<rparr> port x6"
    unfolding route_proved_def
    using *(1,2,5,6) child(1,2) out port atomic_write_Ok [OF *(3)]
    by (simp add: inv_def dir_def del: split_paired_Ex) blast
  with w' show ?thesis by (intro exI [of _ "\<lparr>disk = d, ext = x1\<rparr>"]) auto
qed

lemma validate_run:
  assumes "validate_config P js l config w = (Ok (), w')"
  shows "\<exists>w0 w1 port z. route_proved P js l config w0 w1 port z \<and> disk w' = disk w1"
proof -
  have "\<exists>w0 w1 port z. route_proved P js l config w0 w1 port z \<and> disk w' = disk w1"
    if "validation_loop P js l config count n last v = (Ok (), w')" for count n last v
    using that
  proof (induction n arbitrary: last v)
    case (Suc n)
    from Suc.prems obtain result u where attempt: "validation_attempt P js l config count v = (Ok result, u)"
      and rest: "(case result of Err e \<Rightarrow> validation_loop P js l config count n (Some e) | Ok _ \<Rightarrow> sret ()) u
        = (Ok (), w')"
      unfolding validation_loop.simps sbind_Ok_iff by blast
    show ?case
    proof (cases result)
      case (Inl e)
      then show ?thesis using Suc.IH rest by simp
    next
      case (Inr y)
      then show ?thesis using attempt rest attempt_run [of P js l config count v u] by (auto simp: step_Ok)
    qed
  qed (simp add: step_Ok)
  then show ?thesis using assms by (auto simp: validate_config_def sbind_Ok_iff)
qed

text \<open>A clock that sleeping moves forward and nothing moves back.\<close>

definition clock_law :: "'x platform \<Rightarrow> bool" where
  "clock_law P \<longleftrightarrow> (\<forall>n x. now_ms P x + n \<le> now_ms P (sleep_ms P n x))
     \<and> (\<forall>t. undisturbed P (\<lambda>x. t \<le> now_ms P x))"

lemma socks_loop_fuel:
  assumes "clock_law P" and "deadline \<le> now_ms P x + 100 * n"
  shows "socks_loop P child port deadline (Suc n + k) x = socks_loop P child port deadline (Suc n) x"
  using assms(2)
proof (induction n arbitrary: x)
  case 0
  obtain r y where wait: "try_wait P child x = (r, y)" by (cases "try_wait P child x")
  obtain s z where probe: "probe_within P port y = (s, z)" by (cases "probe_within P port y")
  have und: "undisturbed P (\<lambda>v. now_ms P x \<le> now_ms P v)" using assms(1) by (simp add: clock_law_def)
  have "now_ms P x \<le> now_ms P y" using undisturbedD(9) [OF und] _ wait by (rule keepsD) simp
  then have "now_ms P x \<le> now_ms P z" using keeps_probe_within [OF und, of y port] probe by simp
  with 0 show ?case by (auto simp: wait probe split: sum.split option.split)
next
  case (Suc n)
  obtain r y where wait: "try_wait P child x = (r, y)" by (cases "try_wait P child x")
  obtain s z where probe: "probe_within P port y = (s, z)" by (cases "probe_within P port y")
  have und: "undisturbed P (\<lambda>v. now_ms P x \<le> now_ms P v)" using assms(1) by (simp add: clock_law_def)
  have "now_ms P x \<le> now_ms P y" using undisturbedD(9) [OF und] _ wait by (rule keepsD) simp
  then have "now_ms P x \<le> now_ms P z" using keeps_probe_within [OF und, of y port] probe by simp
  moreover have "now_ms P z + 100 \<le> now_ms P (sleep_ms P 100 z)" using assms(1) by (simp add: clock_law_def)
  ultimately have "deadline \<le> now_ms P (sleep_ms P 100 z) + 100 * n" using Suc.prems by simp
  from Suc.IH [OF this] show ?case by (auto simp: wait probe split: sum.split option.split)
qed

section \<open>Machines for concrete runs\<close>

text \<open>The replies of a proxy that accepts.\<close>

definition proxy_reply :: "nat \<Rightarrow> bytes" where
  "proxy_reply n = (if n = 2 then [5, 0] else if n = 4 then [5, 0, 0, 1] else replicate n 0)"

text \<open>A machine on which everything works: a network card, the tunnel's adapter and a proxy that answers.\<close>

definition network_card :: adapter where
  "network_card = \<lparr>friendly_name = ''Ethernet'', description = ''PCIe'', luid = 1,
     unicast = [], dns = [], if_index = 1, ipv6_if_index = 1\<rparr>"

definition tunnel_adapter :: adapter where
  "tunnel_adapter = \<lparr>friendly_name = ''Varmlen'', description = ''Varmlen Tunnel'', luid = 2,
     unicast = [Some (sockaddr_memory (sockaddr_of (SocketV4 0x0AFF0001 0))),
       Some (sockaddr_memory (sockaddr_of (SocketV6 1 0 0 0)))],
     dns = [Some (sockaddr_memory (sockaddr_of (SocketV4 0x01010101 0)))], if_index = 2, ipv6_if_index = 2\<rparr>"

definition working_platform ::
  "(string list \<Rightarrow> ('x, io_error, process_output) prog) \<Rightarrow> 'x platform" where
  "working_platform commands = (bench_platform commands)\<lparr>stream_read := (\<lambda>n. sret (proxy_reply n)),
     get_adapters := (\<lambda>n x. (Adapters [network_card, tunnel_adapter], x))\<rparr>"

text \<open>A machine whose state is its clock.\<close>

definition clock_platform :: "nat platform" where
  "clock_platform = (bench_platform (\<lambda>args. sret (success_output [])))\<lparr>
     now_ms := (\<lambda>x. x), sleep_ms := (\<lambda>n x. x + n)\<rparr>"

lemma clock_law_bench: "clock_law clock_platform"
  by (simp add: clock_law_def undisturbed_def clock_platform_def bench_platform_def keeps_basic)

section \<open>Properties\<close>

text \<open>
  A core the service runs dies with the service: both ways of starting it only return a process
  that is assigned to a job whose processes Windows ends when the service's handle to it closes.
\<close>

theorem core_dies_with_service:
  assumes "job_law P limited tied"
  shows "wp (start_core P l config) (\<lambda>m w'. tied (mx_child m) (ext w')) (\<lambda>_ _. True) w"
    and "wp (start_prepared P prepared) (\<lambda>m w'. tied (mx_child m) (ext w')) (\<lambda>_ _. True) w"
  unfolding start_core_def start_prepared_def Let_def
  by (rule wp_final | simp add: wp_on_ext, rule spawn_in_job_ties [OF assms])+



text \<open>A disk with the core's files in place.\<close>

definition ready_disk :: file_system where
  "ready_disk = (disk sample_world)\<lparr>files :=
     map (\<lambda>p. (p, [1])) [''C:/v/xray.exe'', ''C:/v/wintun.dll'', ''C:/v/geoip.dat'', ''C:/v/geosite.dat'']\<rparr>"


text \<open>
  C29: waiting for the route ends: on a clock that sleeping advances, the loop with a
  deadline of ten seconds takes at most 101 turns, whatever the core and the proxy do.
\<close>

theorem route_wait_terminates:
  assumes "clock_law P"
  shows "wait_for_socks_reachability P child [port] x
     = socks_loop P child port (now_ms P x + 10000) (101 + k) x"
  using socks_loop_fuel [OF assms, of "now_ms P x + 10000" x 100 child port k]
  by (simp add: wait_for_socks_reachability_def)

lemma route_wait_terminates_witness:
  "wait_for_socks_reachability clock_platform 0 [50000] 7
     = socks_loop clock_platform 0 50000 (now_ms clock_platform 7 + 10000) (101 + 5) 7"
  using clock_law_bench by (rule route_wait_terminates)

end
