(* ===== verification/Routes.thy ===== *)
theory Routes
  imports Adapter Windows_State
begin

text \<open>
  \<open>service/src/windows_routes.rs\<close>: the kill switch, as routes of the loopback interface that
  win when the tunnel's are gone, and the tunnel's own addresses, DNS and routes, all through
  \<open>netsh\<close>. The file of host routes is serialised by the parameter \<open>route_serde\<close>.
\<close>

definition IPV4_ADDRESS :: string where "IPV4_ADDRESS = ''10.255.0.1''"
definition IPV4_MASK :: string where "IPV4_MASK = ''255.255.255.252''"
definition IPV6_ADDRESS :: string where "IPV6_ADDRESS = ''fd00:7661:726d:6c65::1/64''"
definition IPV4_DNS :: string where "IPV4_DNS = ''1.1.1.1''"
definition IPV6_DNS :: string where "IPV6_DNS = ''2606:4700:4700::1111''"
definition LOOPBACK_INTERFACE_INDEX :: string where "LOOPBACK_INTERFACE_INDEX = ''1''"
definition KILLSWITCH_METRIC :: string where "KILLSWITCH_METRIC = ''4096''"
definition IPV4_DEFAULTS :: "string list" where "IPV4_DEFAULTS = [''0.0.0.0/1'', ''128.0.0.0/1'']"
definition IPV6_DEFAULTS :: "string list" where "IPV6_DEFAULTS = [''::/1'', ''8000::/1'']"
definition ROUTE_STATE_FILE :: string where "ROUTE_STATE_FILE = ''killswitch-routes.json''"

section \<open>Running netsh\<close>

definition failed_output :: "string \<Rightarrow> process_output \<Rightarrow> io_error" where
  "failed_output what output =
     io_other (what @ '' failed ('' @ status_text output @ ''): ''
       @ trim (from_utf8_lossy (out_bytes output)) @ trim (from_utf8_lossy (err_bytes output)))"

definition netsh :: "'x platform \<Rightarrow> string list \<Rightarrow> ('x, io_error, unit) prog" where
  "netsh P args =
     sbind (run_netsh P args) (\<lambda>output.
     if succeeded output then sret ()
     else sfail (failed_output (''netsh '' @ join_with '' '' args) output))"

definition delete_route :: "'x platform \<Rightarrow> string \<Rightarrow> string \<Rightarrow> string \<Rightarrow> ('x, io_error, unit) prog" where
  "delete_route P family prefix interface =
     signore (netsh P [''interface'', family, ''delete'', ''route'', ''prefix='' @ prefix,
       ''interface='' @ interface, ''store=active''])"

definition replace_route ::
  "'x platform \<Rightarrow> string \<Rightarrow> string \<Rightarrow> string \<Rightarrow> string \<Rightarrow> string \<Rightarrow> ('x, io_error, unit) prog" where
  "replace_route P family prefix interface next_hop metric =
     sseq (delete_route P family prefix interface)
     (netsh P [''interface'', family, ''add'', ''route'', ''prefix='' @ prefix,
       ''interface='' @ interface, ''nexthop='' @ next_hop, ''metric='' @ metric, ''store=active''])"

definition mentions :: "string \<Rightarrow> bytes \<Rightarrow> bool" where
  "mentions prefix out \<longleftrightarrow>
     list_ex (\<lambda>line. list_ex (\<lambda>field. field = prefix) (split_whitespace line))
       (str_lines (from_utf8_lossy out))"

definition route_exists :: "'x platform \<Rightarrow> string \<Rightarrow> string \<Rightarrow> string \<Rightarrow> ('x, io_error, bool) prog" where
  "route_exists P family prefix interface =
     sbind (run_netsh P [''interface'', family, ''show'', ''route'', ''prefix='' @ prefix,
       ''interface='' @ interface, ''store=active'']) (\<lambda>output.
     if \<not> succeeded output then sfail (failed_output ''netsh route verification'' output)
     else sret (mentions prefix (out_bytes output)))"

section \<open>The kill switch\<close>

record route_serde =
  routes_to_vec :: "ip_addr list \<Rightarrow> string + bytes"
  routes_from_slice :: "bytes \<Rightarrow> string + ip_addr list"

fun host_route :: "ip_addr \<Rightarrow> string \<times> string \<times> string" where
  "host_route (V4 a) = (''ipv4'', ipv4_text a @ ''/32'', ''0.0.0.0'')"
| "host_route (V6 a) = (''ipv6'', ipv6_text a @ ''/128'', ''::'')"

definition route_state_path :: "runtime_layout \<Rightarrow> string" where
  "route_state_path l = path_join (state_dir l) ROUTE_STATE_FILE"

definition load_route_state :: "route_serde \<Rightarrow> runtime_layout \<Rightarrow> ip_addr list fs_io" where
  "load_route_state rs l =
     sbind (sattempt (fs_read (route_state_path l))) (\<lambda>r. case r of
       Ok bytes \<Rightarrow>
         if length bytes \<le> 64 * 1024 then slift (map_err io_other (routes_from_slice rs bytes))
         else sfail (io_new InvalidData ''kill-switch route state is too large'')
     | Err e \<Rightarrow> if io_kind e = NotFound then sret [] else sfail e)"

definition load_or_default :: "route_serde \<Rightarrow> runtime_layout \<Rightarrow> ('x, ip_addr list) os_io" where
  "load_or_default rs l = scatch (on_disk (load_route_state rs l)) (\<lambda>_. sret [])"

definition default_routes :: "(string \<times> string) list" where
  "default_routes = map (Pair ''ipv4'') IPV4_DEFAULTS @ map (Pair ''ipv6'') IPV6_DEFAULTS"

definition check_route :: "'x platform \<Rightarrow> bool \<Rightarrow> string \<Rightarrow> string \<Rightarrow> string \<Rightarrow> ('x, io_error, unit) prog" where
  "check_route P expected what family prefix =
     sbind (route_exists P family prefix LOOPBACK_INTERFACE_INDEX) (\<lambda>present.
     if present \<noteq> expected
     then sfail (io_other (what @ (if present then ''still present'' else ''missing'')))
     else sret ())"

definition verify_killswitch_routes ::
  "'x platform \<Rightarrow> route_serde \<Rightarrow> runtime_layout \<Rightarrow> bool \<Rightarrow> ('x, unit) os_io" where
  "verify_killswitch_routes P rs l expected =
     sseq (sfor_each (\<lambda>(family, prefixes). sfor_each (\<lambda>prefix.
         on_ext (check_route P expected (''kill-switch route '' @ prefix @ '' on interface ''
           @ LOOPBACK_INTERFACE_INDEX @ '' is '') family prefix)) prefixes)
       [(''ipv4'', IPV4_DEFAULTS), (''ipv6'', IPV6_DEFAULTS)])
     (sbind (load_or_default rs l) (\<lambda>dns_servers.
     sfor_each (\<lambda>address. case host_route address of (family, prefix, _) \<Rightarrow>
       on_ext (check_route P expected (''kill-switch DNS route '' @ prefix @ '' is '') family prefix))
       dns_servers))"

definition install_killswitch_routes ::
  "'x platform \<Rightarrow> route_serde \<Rightarrow> runtime_layout \<Rightarrow> ('x, unit) os_io" where
  "install_killswitch_routes P rs l =
     sbind (load_or_default rs l) (\<lambda>old.
     sbind (on_ext (physical_dns_servers P)) (\<lambda>physical.
     let dns_servers = remdups_adj (sort_key ip_text (old @ physical)) in
     if 128 < length dns_servers
     then sfail (io_new InvalidData ''too many physical DNS servers to protect'')
     else
       sbind (slift (map_err io_other (routes_to_vec rs dns_servers))) (\<lambda>bytes.
       sseq (on_disk (atomic_write (route_state_path l) bytes))
       (sseq (sfor_each (\<lambda>prefix. on_ext (replace_route P ''ipv4'' prefix LOOPBACK_INTERFACE_INDEX
          ''0.0.0.0'' KILLSWITCH_METRIC)) IPV4_DEFAULTS)
       (sseq (sfor_each (\<lambda>prefix. on_ext (replace_route P ''ipv6'' prefix LOOPBACK_INTERFACE_INDEX
          ''::'' KILLSWITCH_METRIC)) IPV6_DEFAULTS)
       (sseq (sfor_each (\<lambda>address. case host_route address of (family, prefix, next_hop) \<Rightarrow>
          on_ext (replace_route P family prefix LOOPBACK_INTERFACE_INDEX next_hop ''1'')) dns_servers)
       (verify_killswitch_routes P rs l True)))))))"

definition remove_killswitch_routes ::
  "'x platform \<Rightarrow> route_serde \<Rightarrow> runtime_layout \<Rightarrow> ('x, unit) os_io" where
  "remove_killswitch_routes P rs l =
     sbind (load_or_default rs l) (\<lambda>dns_servers.
     sseq (sfor_each (\<lambda>prefix. on_ext (delete_route P ''ipv4'' prefix LOOPBACK_INTERFACE_INDEX)) IPV4_DEFAULTS)
     (sseq (sfor_each (\<lambda>prefix. on_ext (delete_route P ''ipv6'' prefix LOOPBACK_INTERFACE_INDEX)) IPV6_DEFAULTS)
     (sseq (sfor_each (\<lambda>address. case host_route address of (family, prefix, _) \<Rightarrow>
        on_ext (delete_route P family prefix LOOPBACK_INTERFACE_INDEX)) dns_servers)
     (sseq (verify_killswitch_routes P rs l False)
     (on_disk (scatch (fs_remove_file (route_state_path l))
        (\<lambda>e. if io_kind e = NotFound then sret () else sfail e)))))))"

section \<open>The tunnel's network\<close>

definition configure_stable_tun_network :: "'x platform \<Rightarrow> ('x, io_error, unit) prog" where
  "configure_stable_tun_network P =
     sseq (netsh P [''interface'', ''ipv4'', ''set'', ''address'', ''name='' @ TUN_ADAPTER_NAME,
       ''source=static'', ''address='' @ IPV4_ADDRESS, ''mask='' @ IPV4_MASK, ''gateway=none'',
       ''store=active''])
     (sseq (signore (netsh P [''interface'', ''ipv6'', ''delete'', ''address'',
       ''interface='' @ TUN_ADAPTER_NAME, ''address='' @ IPV6_ADDRESS, ''store=active'']) :: ('x, io_error, unit) prog)
     (sseq (netsh P [''interface'', ''ipv6'', ''add'', ''address'',
       ''interface='' @ TUN_ADAPTER_NAME, ''address='' @ IPV6_ADDRESS, ''type=unicast'', ''store=active''])
     (sseq (netsh P [''interface'', ''ipv4'', ''set'', ''dnsservers'', ''name='' @ TUN_ADAPTER_NAME,
       ''source=static'', ''address='' @ IPV4_DNS, ''register=none'', ''validate=no''])
     (sseq (netsh P [''interface'', ''ipv6'', ''set'', ''dnsservers'', ''name='' @ TUN_ADAPTER_NAME,
       ''source=static'', ''address='' @ IPV6_DNS, ''register=none'', ''validate=no''])
     (sseq (sfor_each (\<lambda>prefix. replace_route P ''ipv4'' prefix TUN_ADAPTER_NAME ''0.0.0.0'' ''1'') IPV4_DEFAULTS)
     (sfor_each (\<lambda>prefix. replace_route P ''ipv6'' prefix TUN_ADAPTER_NAME ''::'' ''1'') IPV6_DEFAULTS))))))"

section \<open>What netsh does\<close>

text \<open>
  \<open>rt x\<close> is the set of routes of the loopback interface (family and prefix) in the active
  store. The commands that name the loopback interface add, delete and show them as their
  words say; a failing one may or may not have had its effect; every other command leaves
  them alone.
\<close>

definition shows_route :: "'x platform \<Rightarrow> ('x \<Rightarrow> (string \<times> string) set) \<Rightarrow> bool" where
  "shows_route P rt \<longleftrightarrow> (\<forall>family prefix x out y. prefix \<noteq> [] \<longrightarrow> list_all graphic prefix \<longrightarrow>
     run_netsh P [''interface'', family, ''show'', ''route'', ''prefix='' @ prefix, ''interface=1'',
       ''store=active''] x = (Ok out, y) \<longrightarrow> succeeded out \<longrightarrow>
     (mentions prefix (out_bytes out) \<longleftrightarrow> (family, prefix) \<in> rt x))"

definition edits_routes :: "'x platform \<Rightarrow> ('x \<Rightarrow> (string \<times> string) set) \<Rightarrow> bool" where
  "edits_routes P rt \<longleftrightarrow> (\<forall>args x.
     let after = rt (snd (run_netsh P args x)) in
     (if \<exists>family prefix rest. args = [''interface'', family, ''add'', ''route'', ''prefix='' @ prefix,
           ''interface=1''] @ rest
      then \<exists>family prefix. args ! 1 = family \<and> args ! 4 = ''prefix='' @ prefix
           \<and> rt x \<subseteq> after \<and> after \<subseteq> insert (family, prefix) (rt x)
      else if \<exists>family prefix rest. args = [''interface'', family, ''delete'', ''route'',
           ''prefix='' @ prefix, ''interface=1''] @ rest
      then \<exists>family prefix. args ! 1 = family \<and> args ! 4 = ''prefix='' @ prefix
           \<and> after \<subseteq> rt x \<and> rt x \<subseteq> insert (family, prefix) after
      else after = rt x))"

definition netsh_law :: "'x platform \<Rightarrow> ('x \<Rightarrow> (string \<times> string) set) \<Rightarrow> bool" where
  "netsh_law P rt \<longleftrightarrow> shows_route P rt \<and> edits_routes P rt"

lemma edits_add:
  assumes "edits_routes P rt"
  shows "rt x \<subseteq> rt (snd (run_netsh P ([''interface'', family, ''add'', ''route'', ''prefix='' @ prefix,
        ''interface=1''] @ rest) x))"
    and "rt (snd (run_netsh P ([''interface'', family, ''add'', ''route'', ''prefix='' @ prefix,
        ''interface=1''] @ rest) x)) \<subseteq> insert (family, prefix) (rt x)"
  using assms unfolding edits_routes_def Let_def
  by (auto dest!: spec [of _ "[''interface'', family, ''add'', ''route'', ''prefix='' @ prefix,
        ''interface=1''] @ rest"] spec [of _ x])

lemma edits_delete:
  assumes "edits_routes P rt"
  shows "rt (snd (run_netsh P ([''interface'', family, ''delete'', ''route'', ''prefix='' @ prefix,
        ''interface=1''] @ rest) x)) \<subseteq> rt x"
    and "rt x \<subseteq> insert (family, prefix) (rt (snd (run_netsh P ([''interface'', family, ''delete'',
        ''route'', ''prefix='' @ prefix, ''interface=1''] @ rest) x)))"
  using assms unfolding edits_routes_def Let_def
  by (auto dest!: spec [of _ "[''interface'', family, ''delete'', ''route'', ''prefix='' @ prefix,
        ''interface=1''] @ rest"] spec [of _ x])

lemma edits_other:
  assumes "edits_routes P rt" and "''interface=1'' \<notin> set args"
  shows "rt (snd (run_netsh P args x)) = rt x"
  using assms unfolding edits_routes_def Let_def
  by (auto dest!: spec [of _ args] spec [of _ x] split: if_splits)

lemma edits_show:
  assumes "edits_routes P rt"
  shows "rt (snd (run_netsh P ([''interface'', family, ''show'', ''route''] @ rest) x)) = rt x"
  using assms unfolding edits_routes_def Let_def
  by (auto dest!: spec [of _ "[''interface'', family, ''show'', ''route''] @ rest"] spec [of _ x])

section \<open>Lemmas\<close>

text \<open>Assertions on the loopback routes that a command not naming that interface keeps.\<close>

lemma keeps_netsh_other:
  assumes "edits_routes P rt" and "''interface=1'' \<notin> set args"
  shows "keeps (\<lambda>x. J (rt x)) (netsh P args)"
proof -
  have "keeps (\<lambda>x. J (rt x)) (run_netsh P args)" by (simp add: keeps_def edits_other assms)
  then show ?thesis unfolding netsh_def by (intro hoare_rules)
qed

lemma keeps_configure:
  assumes "edits_routes P rt"
  shows "keeps (\<lambda>x. J (rt x)) (configure_stable_tun_network P)"
  unfolding configure_stable_tun_network_def replace_route_def delete_route_def
  by (intro hoare_rules keeps_netsh_other [OF assms]) (simp_all add: TUN_ADAPTER_NAME_def
      IPV4_ADDRESS_def IPV4_MASK_def IPV6_ADDRESS_def IPV4_DNS_def IPV6_DNS_def)

lemma loopback_argument [simp]: "''interface='' @ LOOPBACK_INTERFACE_INDEX = ''interface=1''"
  by (simp add: LOOPBACK_INTERFACE_INDEX_def)

lemma wp_check_route:
  assumes "netsh_law P rt" and "prefix \<noteq> [] \<and> list_all graphic prefix"
  shows "wp (check_route P expected what family prefix)
     (\<lambda>_ y. rt y = rt x \<and> ((family, prefix) \<in> rt x) = expected) (\<lambda>_ y. rt y = rt x) x"
proof -
  let ?args = "[''interface'', family, ''show'', ''route'', ''prefix='' @ prefix, ''interface=1'', ''store=active'']"
  have law: "shows_route P rt" "edits_routes P rt" using assms(1) by (simp_all add: netsh_law_def)
  have same: "rt (snd (run_netsh P ?args x)) = rt x"
    using edits_show [OF law(2), of family "[''prefix='' @ prefix, ''interface=1'', ''store=active'']"] by simp
  have "wp (run_netsh P ?args) (\<lambda>out y. rt y = rt x
      \<and> (succeeded out \<longrightarrow> (mentions prefix (out_bytes out) \<longleftrightarrow> (family, prefix) \<in> rt x)))
      (\<lambda>_ y. rt y = rt x) x"
    using law(1) assms(2) same unfolding shows_route_def by (intro wpI) auto
  then show ?thesis
    unfolding check_route_def route_exists_def loopback_argument wp_simps
    by (rule wp_mono) (auto simp: wp_simps)
qed

text \<open>Verification changes no route, and succeeds only when the defaults are as expected.\<close>

lemma keeps_check_route:
  assumes "netsh_law P rt"
  shows "keeps (\<lambda>x. J (rt x)) (check_route P expected what family prefix)"
proof -
  have "keeps (\<lambda>x. J (rt x)) (run_netsh P [''interface'', family, ''show'', ''route'',
      ''prefix='' @ prefix, ''interface=1'', ''store=active''])"
    using edits_show [of P rt family "[''prefix='' @ prefix, ''interface=1'', ''store=active'']"] assms
    by (simp add: keeps_def netsh_law_def)
  then show ?thesis
    unfolding check_route_def route_exists_def loopback_argument by (intro hoare_rules)
qed

lemma keeps_load_or_default: "keeps (in_ext I) (load_or_default rs l)"
  unfolding load_or_default_def by (intro hoare_rules)

lemma keeps_verify:
  assumes "netsh_law P rt"
  shows "keeps (in_ext (\<lambda>x. J (rt x))) (verify_killswitch_routes P rs l expected)"
  unfolding verify_killswitch_routes_def
  by (intro hoare_rules keeps_load_or_default keeps_check_route [OF assms])

definition fallback_routes :: "('x \<Rightarrow> (string \<times> string) set) \<Rightarrow> 'x world \<Rightarrow> bool" where
  "fallback_routes rt w \<longleftrightarrow> set default_routes \<subseteq> rt (ext w)"

definition no_fallback_routes :: "('x \<Rightarrow> (string \<times> string) set) \<Rightarrow> 'x world \<Rightarrow> bool" where
  "no_fallback_routes rt w \<longleftrightarrow> set default_routes \<inter> rt (ext w) = {}"

lemma set_default_routes:
  "set default_routes = {(''ipv4'', ''0.0.0.0/1''), (''ipv4'', ''128.0.0.0/1''),
     (''ipv6'', ''::/1''), (''ipv6'', ''8000::/1'')}"
  by (simp add: default_routes_def IPV4_DEFAULTS_def IPV6_DEFAULTS_def)

lemma verify_outcome:
  assumes law: "netsh_law P rt"
  shows "wp (verify_killswitch_routes P rs l expected)
     (\<lambda>_ w'. if expected then fallback_routes rt w' else no_fallback_routes rt w') (\<lambda>_ _. True) w"
proof -
  have check: "wp (on_ext (check_route P expected what family prefix))
      (\<lambda>_ w'. rt (ext w') = rt (ext w) \<and> ((family, prefix) \<in> rt (ext w)) = expected) (\<lambda>_ _. True) w"
    if "prefix \<noteq> [] \<and> list_all graphic prefix" for what family prefix w
    unfolding wp_on_ext by (rule wp_mono [OF wp_check_route [OF law that]]) auto
  have rest: "wp (sbind (load_or_default rs l) (\<lambda>dns_servers.
        sfor_each (\<lambda>address. case host_route address of (family, prefix, _) \<Rightarrow>
          on_ext (check_route P expected (''kill-switch DNS route '' @ prefix @ '' is '') family prefix))
        dns_servers)) (\<lambda>_ w'. rt (ext w') = rt (ext w)) (\<lambda>_ _. True) w" for w
  proof -
    have "keeps (in_ext (\<lambda>x. rt x = rt (ext w))) (sbind (load_or_default rs l) (\<lambda>dns_servers.
        sfor_each (\<lambda>address. case host_route address of (family, prefix, _) \<Rightarrow>
          on_ext (check_route P expected (''kill-switch DNS route '' @ prefix @ '' is '') family prefix))
        dns_servers))"
      by (intro hoare_rules keeps_load_or_default keeps_check_route [OF law])
    then show ?thesis by (rule keeps_wp) (simp_all add: in_ext_def)
  qed
  have graphic: "''0.0.0.0/1'' \<noteq> [] \<and> list_all graphic ''0.0.0.0/1''" "''128.0.0.0/1'' \<noteq> [] \<and> list_all graphic ''128.0.0.0/1''"
    "''::/1'' \<noteq> [] \<and> list_all graphic ''::/1''" "''8000::/1'' \<noteq> [] \<and> list_all graphic ''8000::/1''"
    by (simp_all add: graphic_def)
  have loop: "wp (sfor_each (\<lambda>(family, prefixes). sfor_each (\<lambda>prefix.
        on_ext (check_route P expected (''kill-switch route '' @ prefix @ '' on interface ''
          @ LOOPBACK_INTERFACE_INDEX @ '' is '') family prefix)) prefixes)
      [(''ipv4'', IPV4_DEFAULTS), (''ipv6'', IPV6_DEFAULTS)])
     (\<lambda>_ w'. if expected then fallback_routes rt w' else no_fallback_routes rt w') (\<lambda>_ _. True) w"
    unfolding IPV4_DEFAULTS_def IPV6_DEFAULTS_def sfor_each.simps prod.case wp_simps
    apply (rule wp_mono [OF check [OF graphic(1)]])
     apply (rule wp_mono [OF check [OF graphic(2)]])
      apply (rule wp_mono [OF check [OF graphic(3)]])
       apply (rule wp_mono [OF check [OF graphic(4)]])
        apply (cases expected; simp add: fallback_routes_def no_fallback_routes_def set_default_routes)
       apply simp_all
    done
  show ?thesis
    unfolding verify_killswitch_routes_def wp_sbind [of "sfor_each _ [_, _]"]
    by (rule wp_mono [OF loop], rule wp_mono [OF rest])
       (auto simp: fallback_routes_def no_fallback_routes_def split: if_splits)
qed

lemma install_outcome:
  assumes "netsh_law P rt"
  shows "wp (install_killswitch_routes P rs l) (\<lambda>_ w'. fallback_routes rt w') (\<lambda>_ _. True) w"
proof -
  have "wp (verify_killswitch_routes P rs l True) (\<lambda>_ w'. fallback_routes rt w') (\<lambda>_ _. True) t" for t
    using verify_outcome [OF assms, of rs l True] by simp
  then show ?thesis
    unfolding install_killswitch_routes_def Let_def by (intro wp_final wp_guard) simp_all
qed

lemma remove_outcome:
  assumes "netsh_law P rt"
  shows "wp (remove_killswitch_routes P rs l) (\<lambda>_ w'. no_fallback_routes rt w') (\<lambda>_ _. True) w"
proof -
  have "keeps (no_fallback_routes rt) (on_disk m)" for m :: "unit fs_io"
    using keeps_on_disk [of "\<lambda>x. set default_routes \<inter> rt x = {}" m]
    by (simp add: keeps_def in_ext_def no_fallback_routes_def)
  then have "wp (sseq (verify_killswitch_routes P rs l False) (on_disk m))
     (\<lambda>_ w'. no_fallback_routes rt w') (\<lambda>_ _. True) t" for m :: "unit fs_io" and t
    unfolding wp_sbind by (intro wp_mono [OF verify_outcome [OF assms]] keeps_wp) simp_all
  then show ?thesis
    unfolding remove_killswitch_routes_def
    by (rule wp_final [OF wp_final [OF wp_final [OF wp_final]]])
qed

section \<open>The kill switch as a contract\<close>

text \<open>
  What the service needs of its kill switch: installing closes the fallback, removing opens
  it, and verifying decides which of the two holds without changing it.
\<close>

locale route_killswitch =
  fixes env :: bool
    and install :: "('w, io_error, unit) prog"
    and remove :: "('w, io_error, unit) prog"
    and verify :: "bool \<Rightarrow> ('w, io_error, unit) prog"
    and closed :: "'w \<Rightarrow> bool"
    and opened :: "'w \<Rightarrow> bool"
  assumes install_closes: "env \<Longrightarrow> wp install (\<lambda>_ w'. closed w') (\<lambda>_ _. True) w"
    and remove_opens: "env \<Longrightarrow> wp remove (\<lambda>_ w'. opened w') (\<lambda>_ _. True) w"
    and verify_decides: "env \<Longrightarrow>
      wp (verify b) (\<lambda>_ w'. if b then closed w' else opened w') (\<lambda>_ _. True) w"
    and verify_keeps_closed: "env \<Longrightarrow> keeps closed (verify b)"
    and exclusive: "\<not> (closed w \<and> opened w)"
begin

text \<open>What was installed stays closed under verification, and never verifies as absent.\<close>

lemma installed_stays:
  assumes env
  shows "wp (sseq install (sattempt (verify b))) (\<lambda>r w'. closed w' \<and> (is_ok r \<longrightarrow> b)) (\<lambda>_ _. True) w"
proof -
  have "wp (verify b) (\<lambda>_ w'. closed w' \<and> b) (\<lambda>_ w'. closed w') t" if "closed t" for t
  proof (rule wpI)
    fix a t'
    assume run: "verify b t = (Ok a, t')"
    have "closed t'" using keepsD [OF verify_keeps_closed [OF assms] that run] .
    with wp_OkD [OF verify_decides [OF assms] run] exclusive show "closed t' \<and> b"
      by (auto split: if_splits)
  next
    fix e t'
    assume "verify b t = (Err e, t')"
    then show "closed t'" using keepsD [OF verify_keeps_closed [OF assms] that] by blast
  qed
  then have "wp (sattempt (verify b)) (\<lambda>r w'. closed w' \<and> (is_ok r \<longrightarrow> b)) (\<lambda>_ _. True) t" if "closed t" for t
    unfolding wp_sattempt using that by (auto intro: wp_mono)
  then show ?thesis
    unfolding wp_sbind by (intro wp_mono [OF install_closes [OF assms]]) auto
qed

text \<open>After a successful removal the fallback is gone.\<close>

lemma removed_not_closed:
  assumes env
  shows "wp remove (\<lambda>_ w'. opened w' \<and> \<not> closed w') (\<lambda>_ _. True) w"
  by (rule wp_mono [OF remove_opens [OF assms]]) (use exclusive in auto)

end

lemma fallback_exclusive: "\<not> (fallback_routes rt w \<and> no_fallback_routes rt w)"
  by (auto simp: fallback_routes_def no_fallback_routes_def set_default_routes)

lemma keeps_fallback: "keeps (in_ext (\<lambda>x. set default_routes \<subseteq> rt x)) m \<longleftrightarrow> keeps (fallback_routes rt) m"
  by (simp add: keeps_def in_ext_def fallback_routes_def)

text \<open>
  The model's kill switch meets the contract on every machine whose \<open>netsh\<close> obeys its law.
\<close>

interpretation ks: route_killswitch "netsh_law P rt" "install_killswitch_routes P rs l"
  "remove_killswitch_routes P rs l" "verify_killswitch_routes P rs l"
  "fallback_routes rt" "no_fallback_routes rt" for P rt rs l
proof unfold_locales
  assume law: "netsh_law P rt"
  show "wp (install_killswitch_routes P rs l) (\<lambda>_ w'. fallback_routes rt w') (\<lambda>_ _. True) w" for w
    by (rule install_outcome [OF law])
  show "wp (remove_killswitch_routes P rs l) (\<lambda>_ w'. no_fallback_routes rt w') (\<lambda>_ _. True) w" for w
    by (rule remove_outcome [OF law])
  show "wp (verify_killswitch_routes P rs l b)
      (\<lambda>_ w'. if b then fallback_routes rt w' else no_fallback_routes rt w') (\<lambda>_ _. True) w" for b w
    by (rule verify_outcome [OF law])
  show "keeps (fallback_routes rt) (verify_killswitch_routes P rs l b)" for b
    using keeps_verify [OF law, of "\<lambda>R. set default_routes \<subseteq> R"] by (simp add: keeps_fallback)
qed (rule fallback_exclusive)

section \<open>The machine for concrete runs obeys the law\<close>

lemma fields_graphic:
  "list_all graphic s \<Longrightarrow> fields_from acc s = (if acc = [] \<and> s = [] then [] else [rev acc @ s])"
proof (induction s arbitrary: acc)
  case (Cons c s)
  have "strip_any ws_encodings (c # s) = None"
    using Cons.prems by (intro strip_any_None_ascii) (auto dest: graphic_ws)
  with Cons show ?case by simp
qed simp

lemma mentions_itself:
  assumes "p \<noteq> []" and "list_all graphic p"
  shows "mentions p (as_bytes p)" and "\<not> mentions p []"
proof -
  have "list_all (\<lambda>b. b < 0x80) (as_bytes p)"
    using assms(2) by (auto simp: list_all_iff as_bytes_def graphic_def word_less_nat_alt)
  then have lossy: "from_utf8_lossy (as_bytes p) = p" by (simp add: from_utf8_lossy_ascii)
  have "CHR 0x0A \<notin> set p" using assms(2) by (auto simp: list_all_iff graphic_def)
  then have "str_lines p = [p]" using assms(1) by (simp add: str_lines_def split_char_free)
  with lossy show "mentions p (as_bytes p)"
    using assms by (simp add: mentions_def split_whitespace_def fields_graphic)
  show "\<not> mentions p []" by (simp add: mentions_def str_lines_def)
qed

lemma netsh_law_bench: "netsh_law (bench_platform bench_netsh) set"
proof -
  have strip: "strip_prefix ''prefix='' (''prefix='' @ p) = Some p" for p
    by (simp add: strip_prefix_Some)
  have "shows_route (bench_platform bench_netsh) set"
    unfolding shows_route_def bench_platform_def
    using mentions_itself by (auto simp: strip success_output_def simp del: append.simps)
  moreover have "edits_routes (bench_platform bench_netsh) set"
    unfolding edits_routes_def Let_def
  proof (intro allI, goal_cases)
    case (1 args x)
    show ?case
    proof (cases "\<exists>i family verb r p f rest. args = i # family # verb # r # p # f # rest")
      case True
      then obtain i family verb r p f rest where args: "args = i # family # verb # r # p # f # rest"
        by blast
      show ?thesis
        unfolding args
        by (cases "strip_prefix ''prefix='' p")
           (auto simp: bench_platform_def strip_prefix_Some strip [simplified])
    next
      case False
      then have "snd (bench_netsh args x) = x"
        by (cases "(args, x)" rule: bench_netsh.cases) auto
      with False show ?thesis by (auto simp: bench_platform_def)
    qed
  qed
  ultimately show ?thesis by (simp add: netsh_law_def)
qed

text \<open>A reader and writer of host routes that fails on every file.\<close>

definition json_routes :: route_serde where
  "json_routes = \<lparr>routes_to_vec = (\<lambda>as. Ok (as_bytes (join_with '','' (map ip_text as)))),
     routes_from_slice = (\<lambda>b. Err ''expected value'')\<rparr>"

section \<open>Properties\<close>

text \<open>
  C30: installing the kill switch closes the network: when it reports success, every
  split-default route is on the loopback interface, and a later verification can only
  confirm that, never report the routes as absent.
\<close>

theorem killswitch_install_closes:
  assumes "netsh_law P rt"
  shows "wp (sseq (install_killswitch_routes P rs l) (sattempt (verify_killswitch_routes P rs l b)))
     (\<lambda>r w'. fallback_routes rt w' \<and> (is_ok r \<longrightarrow> b)) (\<lambda>_ _. True) w"
  using assms by (rule ks.installed_stays)

lemma killswitch_install_closes_witness:
  "wp (sseq (install_killswitch_routes (bench_platform bench_netsh) json_routes sample_layout)
       (sattempt (verify_killswitch_routes (bench_platform bench_netsh) json_routes sample_layout True)))
     (\<lambda>r w'. fallback_routes set w' \<and> (is_ok r \<longrightarrow> True)) (\<lambda>_ _. True) sample_world"
  using netsh_law_bench by (rule killswitch_install_closes)

text \<open>
  Removing it opens the network again: when it reports success no split-default route
  is left on the loopback interface.
\<close>

theorem killswitch_remove_opens:
  assumes "netsh_law P rt"
  shows "wp (remove_killswitch_routes P rs l)
     (\<lambda>_ w'. no_fallback_routes rt w' \<and> \<not> fallback_routes rt w') (\<lambda>_ _. True) w"
  using assms by (rule ks.removed_not_closed)

text \<open>A machine with the kill switch on, two host routes, and an unreadable route file.\<close>

definition blocked_world :: "bench world" where
  "blocked_world = sample_world\<lparr>
     disk := (disk sample_world)\<lparr>files := [(''C:/s'' @ backslash # ''killswitch-routes.json'', [0])]\<rparr>,
     ext := default_routes @ [(''ipv4'', ''192.168.1.1/32'')]\<rparr>"

lemma killswitch_remove_opens_witness:
  "wp (remove_killswitch_routes (bench_platform bench_netsh) json_routes sample_layout)
     (\<lambda>_ w'. no_fallback_routes set w' \<and> \<not> fallback_routes set w') (\<lambda>_ _. True) blocked_world"
  using netsh_law_bench by (rule killswitch_remove_opens)

text \<open>
  Configuring the tunnel never touches the kill switch: whatever it returns, the
  loopback routes are what they were.
\<close>

theorem tunnel_configuration_keeps_killswitch:
  assumes "netsh_law P rt"
  shows "rt (snd (configure_stable_tun_network P x)) = rt x"
proof -
  have "keeps (\<lambda>y. rt y = rt x) (configure_stable_tun_network P)"
    using assms by (intro keeps_configure) (simp add: netsh_law_def)
  then show ?thesis by (simp add: keeps_def)
qed

lemma tunnel_configuration_keeps_killswitch_witness:
  "set (snd (configure_stable_tun_network (bench_platform bench_netsh) default_routes)) = set default_routes"
  using netsh_law_bench by (rule tunnel_configuration_keeps_killswitch)

text \<open>
  An unreadable route file is treated as an empty one, so removing the kill switch then
  succeeds, deletes the file, and leaves the host routes of the DNS servers in place with
  nothing that remembers them.
\<close>

theorem unreadable_route_file_leaks_host_routes:
  "case remove_killswitch_routes (bench_platform bench_netsh) json_routes sample_layout blocked_world of
     (r, w') \<Rightarrow> is_ok r \<and> file_at (route_state_path sample_layout) (disk w') = None
       \<and> ext w' = [(''ipv4'', ''192.168.1.1/32'')]"
  by code_simp

end
