(* ===== verification/Core_Manager.thy ===== *)
theory Core_Manager
  imports Windows_State Runtime
begin

text \<open>
  \<open>service/src/core_manager.rs\<close>: which versions of the core are installed, which one is
  active, and how one is downloaded, checked and installed. The web (HTTP, URL parsing,
  SHA-256, ZIP, the \<open>serde\<close> readers of GitHub's answers) is the parameter \<open>web\<close>.
\<close>

definition BUNDLED_XRAY_VERSION :: string where "BUNDLED_XRAY_VERSION = ''26.3.27''"
definition API_ROOT :: string where
  "API_ROOT = ''https://api.github.com/repos/XTLS/Xray-core/releases''"
definition OFFICIAL_DOWNLOAD_ROOT :: string where
  "OFFICIAL_DOWNLOAD_ROOT = ''https://github.com/XTLS/Xray-core/releases/download/''"
definition MAX_RELEASE_BODY :: nat where "MAX_RELEASE_BODY = 4 * 1024 * 1024"
definition MAX_CORE_BYTES :: nat where "MAX_CORE_BYTES = 256 * 1024 * 1024"
definition MAX_EXTRACTED_BYTES :: nat where "MAX_EXTRACTED_BYTES = 128 * 1024 * 1024"

section \<open>Releases\<close>

record github_asset =
  ga_name :: string
  browser_download_url :: string
  ga_size :: nat
  digest :: "string option"

record github_release =
  tag_name :: string
  gr_name :: "string option"
  published_at :: "string option"
  prerelease :: bool
  assets :: "github_asset list"

record core_download_asset =
  asset_name :: string
  asset_url :: string
  asset_size :: nat
  asset_sha256 :: string

record http_response =
  status_success :: bool
  status_line :: string
  content_length :: "nat option"
  body_chunks :: "(string + bytes) list"
  redirect_to :: "string option"

record 'x web =
  web_json :: json_text
  release_from_value :: "json \<Rightarrow> string + github_release"
  releases_from_value :: "json \<Rightarrow> string + github_release list"
  parse_url :: "string \<Rightarrow> string + (string \<times> string option)"
  http_client :: "string + unit"
  http_exchange :: "string \<Rightarrow> ('x, string, http_response) prog"
  redirect_fuel :: nat
  sha256_hex :: "bytes \<Rightarrow> string"
  zip_entries :: "bytes \<Rightarrow> string + (string + (string \<times> nat \<times> (string + bytes))) list"
  target_arch :: string

definition xray_asset_name :: "string \<Rightarrow> string + string" where
  "xray_asset_name arch =
     (if arch = ''x86_64'' then Ok ''Xray-windows-64.zip''
      else if arch = ''aarch64'' then Ok ''Xray-windows-arm64-v8a.zip''
      else Err (''unsupported Windows architecture: '' @ arch))"

definition normalize_tag :: "string \<Rightarrow> string" where
  "normalize_tag tag = dropWhile (\<lambda>c. c = CHR ''v'') (trim tag)"

definition valid_tag :: "string \<Rightarrow> bool" where
  "valid_tag tag \<longleftrightarrow> tag \<noteq> [] \<and> length tag \<le> 64 \<and> list_all tag_char tag"

fun split_if :: "(char \<Rightarrow> bool) \<Rightarrow> string \<Rightarrow> string list" where
  "split_if p [] = [[]]"
| "split_if p (c # s) =
     (if p c then [] # split_if p s
      else (case split_if p s of [] \<Rightarrow> [[c]] | w # ws \<Rightarrow> (c # w) # ws))"

definition version_parts :: "string \<Rightarrow> nat list" where
  "version_parts v =
     List.map_filter (parse_uint (2 ^ 32 - 1))
       (filter (\<lambda>p. p \<noteq> []) (split_if (\<lambda>c. \<not> is_digit c) (normalize_tag v)))"

datatype ordering = Less | Equal | Greater

fun list_cmp :: "nat list \<Rightarrow> nat list \<Rightarrow> ordering" where
  "list_cmp [] [] = Equal"
| "list_cmp [] (y # ys) = Less"
| "list_cmp (x # xs) [] = Greater"
| "list_cmp (x # xs) (y # ys) = (if x < y then Less else if y < x then Greater else list_cmp xs ys)"

definition version_cmp :: "string \<Rightarrow> string \<Rightarrow> ordering" where
  "version_cmp a b = list_cmp (version_parts a) (version_parts b)"

definition decode_releases :: "'x web \<Rightarrow> string \<Rightarrow> string + github_release list" where
  "decode_releases W body =
     (if MAX_RELEASE_BODY < length body then Err ''GitHub release response exceeds the size limit''
      else rbind (map_err (\<lambda>e. ''invalid release JSON: '' @ e) (from_str (web_json W) body)) (\<lambda>value.
        if as_array value \<noteq> None
        then map_err (\<lambda>e. ''invalid releases: '' @ e) (releases_from_value W value)
        else map_err (\<lambda>e. ''invalid release: '' @ e)
          (rbind (release_from_value W value) (\<lambda>r. Ok [r]))))"

definition parse_releases :: "'x web \<Rightarrow> string \<Rightarrow> string + core_release list" where
  "parse_releases W body =
     rbind (decode_releases W body) (\<lambda>releases.
     Ok (List.map_filter (\<lambda>r.
       let tag = normalize_tag (tag_name r) in
       if valid_tag tag
       then Some \<lparr>rel_tag = tag,
              rel_name = (case gr_name r of Some n \<Rightarrow> n | None \<Rightarrow> tag_name r),
              rel_date = published_at r, rel_prerelease = prerelease r\<rparr>
       else None) releases))"

definition select_release_asset ::
  "'x web \<Rightarrow> string \<Rightarrow> string \<Rightarrow> string \<Rightarrow> string + core_download_asset" where
  "select_release_asset W body requested_tag arch =
     (let requested_tag = normalize_tag requested_tag in
      rbind (decode_releases W body) (\<lambda>releases.
      rbind (ok_or (''Xray release '' @ requested_tag @ '' was not found'')
        (find (\<lambda>r. normalize_tag (tag_name r) = requested_tag) releases)) (\<lambda>release.
      rbind (xray_asset_name arch) (\<lambda>expected_name.
      rbind (ok_or (''release has no '' @ expected_name @ '' asset'')
        (find (\<lambda>a. ga_name a = expected_name) (assets release))) (\<lambda>asset.
      if ga_size asset = 0 \<or> MAX_CORE_BYTES < ga_size asset
      then Err (''invalid core asset size: '' @ dec (ga_size asset) @ '' bytes'')
      else if \<not> starts_with OFFICIAL_DOWNLOAD_ROOT (browser_download_url asset)
      then Err ''refusing a non-official Xray download URL''
      else
        rbind (ok_or ''official release asset has no valid SHA-256 digest''
          (case Option.bind (digest asset) (strip_prefix ''sha256:'') of
             Some d \<Rightarrow> if length d = 64 \<and> list_all is_hex d then Some d else None
           | None \<Rightarrow> None)) (\<lambda>sha256.
        Ok \<lparr>asset_name = ga_name asset, asset_url = browser_download_url asset,
            asset_size = ga_size asset, asset_sha256 = ascii_lower sha256\<rparr>))))))"

section \<open>Installed versions\<close>

definition versions_dir :: "runtime_layout \<Rightarrow> string" where
  "versions_dir l = path_join (path_join (state_dir l) ''cores'') ''xray''"

definition active_file :: "runtime_layout \<Rightarrow> string" where
  "active_file l = path_join (state_dir l) ''active-xray.txt''"

definition binary_for :: "runtime_layout \<Rightarrow> string \<Rightarrow> string" where
  "binary_for l tag =
     (let tag = normalize_tag tag in
      if tag = BUNDLED_XRAY_VERSION then xray_executable l
      else path_join (path_join (versions_dir l) tag) ''xray.exe'')"

definition active_tag :: "runtime_layout \<Rightarrow> (file_system, 'e, string) prog" where
  "active_tag l =
     sbind (sattempt (fs_read (active_file l))) (\<lambda>r.
     case map_option normalize_tag (Option.bind (result_ok r) from_utf8) of
       None \<Rightarrow> sret BUNDLED_XRAY_VERSION
     | Some tag \<Rightarrow>
         if valid_tag tag
         then sbind (fs_is_file (binary_for l tag)) (\<lambda>exists.
           sret (if exists then tag else BUNDLED_XRAY_VERSION))
         else sret BUNDLED_XRAY_VERSION)"

definition resolve_binary :: "runtime_layout \<Rightarrow> string \<Rightarrow> (file_system, string, string) prog" where
  "resolve_binary l tag =
     (let tag = normalize_tag tag in
      if \<not> valid_tag tag then sfail (''invalid Xray version: '' @ tag)
      else sbind (fs_is_file (binary_for l tag)) (\<lambda>exists.
        if \<not> exists then sfail (''Xray '' @ tag @ '' is not installed'')
        else sret (binary_for l tag)))"

text \<open>An I/O error in front of which the sources put a text.\<close>

abbreviation context_io :: "string \<Rightarrow> (file_system, io_error, 'a) prog \<Rightarrow> (file_system, string, 'a) prog" where
  "context_io what m \<equiv> smap_err (\<lambda>e. what @ '': '' @ io_message e) m"

definition stage_runtime_asset :: "string \<Rightarrow> string \<Rightarrow> (file_system, string, string) prog" where
  "stage_runtime_asset source directory =
     sbind (slift (ok_or (''runtime asset has no file name: '' @ source) (path_file_name source))) (\<lambda>name.
     let destination = path_join directory name in
     sbind (sattempt (fs_metadata destination)) (\<lambda>r. case r of
       Ok m \<Rightarrow>
         if is_regular m \<and> 0 < file_len m then sret destination
         else sfail (''selected core runtime asset is invalid: '' @ destination)
     | Err _ \<Rightarrow>
         sbind (context_io (''inspect runtime asset '' @ source) (fs_metadata source)) (\<lambda>m.
         if \<not> is_regular m \<or> file_len m = 0
         then sfail (''runtime asset is missing or empty: '' @ source)
         else
           sseq (context_io ''create selected core runtime directory'' (fs_create_dir_all directory))
           (sbind (sgets process_id) (\<lambda>pid.
           let temporary = path_join directory (''.'' @ name @ ''.'' @ dec (unat pid) @ ''.tmp'') in
           sseq (signore (fs_remove_file temporary))
           (sseq (context_io (''stage runtime asset '' @ source) (fs_copy source temporary))
           (sseq (scatch (smap_err (\<lambda>e. ''install runtime asset '' @ destination @ '': '' @ io_message e)
                (fs_rename temporary destination)) (\<lambda>e.
              sseq (signore (fs_remove_file temporary))
              (sbind (fs_is_file destination) (\<lambda>exists.
              if \<not> exists then sfail e else sret ()))))
           (sret destination))))))))"

definition core_runtime_layout :: "runtime_layout \<Rightarrow> string \<Rightarrow> (file_system, string, runtime_layout) prog" where
  "core_runtime_layout l tag =
     (let tag = normalize_tag tag in
      sbind (resolve_binary l tag) (\<lambda>executable.
      if tag = BUNDLED_XRAY_VERSION then sret l
      else
        sbind (slift (ok_or ''selected Xray has no runtime directory'' (path_parent executable))) (\<lambda>directory.
        sbind (stage_runtime_asset (wintun_library l) directory) (\<lambda>wintun.
        sbind (stage_runtime_asset (geoip_database l) directory) (\<lambda>geoip.
        sbind (stage_runtime_asset (geosite_database l) directory) (\<lambda>geosite.
        sret (l\<lparr>install_dir := directory, xray_executable := executable, wintun_library := wintun,
          geoip_database := geoip, geosite_database := geosite\<rparr>)))))))"

text \<open>\<open>sort_by\<close>, stable: \<open>gt x y\<close> says that \<open>x\<close> must come after \<open>y\<close>.\<close>

fun insert_by :: "('a \<Rightarrow> 'a \<Rightarrow> bool) \<Rightarrow> 'a \<Rightarrow> 'a list \<Rightarrow> 'a list" where
  "insert_by gt x [] = [x]"
| "insert_by gt x (y # ys) = (if gt x y then y # insert_by gt x ys else x # y # ys)"

definition sort_by :: "('a \<Rightarrow> 'a \<Rightarrow> bool) \<Rightarrow> 'a list \<Rightarrow> 'a list" where
  "sort_by gt xs = foldr (insert_by gt) xs []"

fun installed_tags :: "runtime_layout \<Rightarrow> string list \<Rightarrow> string list \<Rightarrow> (file_system, 'e, string list) prog" where
  "installed_tags l tags [] = sret tags"
| "installed_tags l tags (name # names) =
     (if valid_tag name
      then sbind (fs_is_file (path_join (path_join (versions_dir l) name) ''xray.exe'')) (\<lambda>exists.
        installed_tags l (if exists \<and> name \<notin> set tags then tags @ [name] else tags) names)
      else installed_tags l tags names)"

definition local_info :: "runtime_layout \<Rightarrow> string option \<Rightarrow> (file_system, 'e, core_info) prog" where
  "local_info l latest_tag =
     sbind (active_tag l) (\<lambda>active.
     sbind (sattempt (fs_read_dir (versions_dir l))) (\<lambda>entries.
     sbind (installed_tags l [BUNDLED_XRAY_VERSION]
       (case result_ok entries of Some names \<Rightarrow> names | None \<Rightarrow> [])) (\<lambda>tags.
     let tags = sort_by (\<lambda>x y. version_cmp y x = Greater) tags in
     sret \<lparr>installed = map (\<lambda>t. \<lparr>civ_tag = t, civ_active = (t = active),
              civ_bundled = (t = BUNDLED_XRAY_VERSION)\<rparr>) tags,
           active_core = Some active, latest = latest_tag,
           has_update = (case latest_tag of Some t \<Rightarrow> version_cmp t active = Greater | None \<Rightarrow> False)\<rparr>)))"

definition uninstall :: "runtime_layout \<Rightarrow> string \<Rightarrow> (file_system, string, unit) prog" where
  "uninstall l tag =
     (let tag = normalize_tag tag in
      if \<not> valid_tag tag then sfail (''invalid Xray version: '' @ tag)
      else if tag = BUNDLED_XRAY_VERSION
      then sfail ''the Xray version bundled with Varmlen cannot be removed''
      else sbind (active_tag l) (\<lambda>active.
        if tag = active then sfail ''activate another Xray version before removing this one''
        else scatch (smap_err (\<lambda>e. (io_kind e, ''remove Xray version: '' @ io_message e))
            (fs_remove_dir_all (path_join (versions_dir l) tag)))
          (\<lambda>(k, e). if k = NotFound then sret () else sfail e)))"

section \<open>Downloading\<close>

definition allowed_http_url :: "string \<times> string option \<Rightarrow> bool" where
  "allowed_http_url url \<longleftrightarrow>
     fst url = ''https'' \<and> snd url \<in> Some ` {''api.github.com'', ''github.com'',
       ''objects.githubusercontent.com'', ''release-assets.githubusercontent.com''}"

text \<open>The whole body, or the first error of the stream.\<close>

fun collect_body :: "(string + bytes) list \<Rightarrow> string + bytes" where
  "collect_body [] = Ok []"
| "collect_body (c # cs) = rbind c (\<lambda>b. rbind (collect_body cs) (\<lambda>bs. Ok (b @ bs)))"

text \<open>
  A request of \<open>http_client\<close>: the library asks its policy before it follows a redirect, and a
  redirect the policy stops is the response. The policy sets no bound on the redirects, the
  time-out of 45 seconds does; \<open>redirect_fuel\<close> is the number of exchanges it leaves time for.
\<close>

fun follow_redirects :: "'x web \<Rightarrow> nat \<Rightarrow> string \<Rightarrow> ('x, string, http_response) prog" where
  "follow_redirects W 0 url = sfail ''operation timed out''"
| "follow_redirects W (Suc n) url =
     sbind (http_exchange W url) (\<lambda>response. case redirect_to response of
       None \<Rightarrow> sret response
     | Some next \<Rightarrow>
         (case parse_url W next of
            Err _ \<Rightarrow> sret response
          | Ok u \<Rightarrow> if allowed_http_url u then follow_redirects W n next else sret response))"

definition http_send :: "'x web \<Rightarrow> string \<Rightarrow> ('x, string, http_response) prog" where
  "http_send W url = follow_redirects W (redirect_fuel W) url"

definition fetch_text :: "'x web \<Rightarrow> string \<Rightarrow> ('x world, string, string) prog" where
  "fetch_text W url =
     sbind (slift (map_err (\<lambda>e. ''invalid GitHub URL: '' @ e) (parse_url W url))) (\<lambda>parsed.
     if \<not> allowed_http_url parsed then sfail ''refusing a non-GitHub release URL''
     else
       sseq (slift (http_client W))
       (sbind (smap_err (\<lambda>e. ''GitHub release request: '' @ e) (on_ext (http_send W url))) (\<lambda>response.
       if \<not> status_success response
       then sfail (''GitHub release request returned HTTP '' @ status_line response)
       else if (case content_length response of Some n \<Rightarrow> MAX_RELEASE_BODY < n | None \<Rightarrow> False)
       then sfail ''GitHub release response exceeds the size limit''
       else
         sbind (slift (map_err (\<lambda>e. ''read GitHub release response: '' @ e)
           (collect_body (body_chunks response)))) (\<lambda>bytes.
         if MAX_RELEASE_BODY < length bytes
         then sfail ''GitHub release response exceeds the size limit''
         else slift (ok_or (''GitHub response is not UTF-8: '' @ utf8_error bytes) (from_utf8 bytes))))))"

definition list_releases :: "'x web \<Rightarrow> ('x world, string, core_release list) prog" where
  "list_releases W =
     sbind (fetch_text W (API_ROOT @ ''?per_page=30'')) (\<lambda>body. slift (parse_releases W body))"

definition saturating_add64 :: "nat \<Rightarrow> nat \<Rightarrow> nat" where
  "saturating_add64 a b = min (a + b) (2 ^ 64 - 1)"

text \<open>The loop over the chunks of the download: bounded, hashed and written.\<close>

fun download_chunks ::
  "string \<Rightarrow> nat \<Rightarrow> (string + bytes) list \<Rightarrow> nat \<Rightarrow> bytes \<Rightarrow> (file_system, string, bytes) prog" where
  "download_chunks archive declared [] downloaded hashed = sret hashed"
| "download_chunks archive declared (c # cs) downloaded hashed =
     sbind (slift (map_err (\<lambda>e. ''download Xray chunk: '' @ e) c)) (\<lambda>chunk.
     let downloaded = saturating_add64 downloaded (length chunk) in
     if MAX_CORE_BYTES < downloaded \<or> saturating_add64 declared 1024 < downloaded
     then sfail ''Xray download exceeded its declared size''
     else
       sseq (context_io ''write Xray archive'' (fs_write_all archive chunk))
       (download_chunks archive declared cs downloaded (hashed @ chunk)))"

text \<open>The search for the one \<open>xray.exe\<close> of the archive.\<close>

fun find_executable ::
  "(string + (string \<times> nat \<times> (string + bytes))) list \<Rightarrow> (string \<times> nat \<times> (string + bytes)) option
     \<Rightarrow> string + (string \<times> nat \<times> (string + bytes)) option" where
  "find_executable [] found = Ok found"
| "find_executable (entry # entries) found =
     rbind (map_err (\<lambda>e. ''read Xray ZIP: '' @ e) entry) (\<lambda>file.
     if last (split_char CHR ''/'' (fst file)) = ''xray.exe''
     then if found \<noteq> None then Err ''Xray ZIP contains multiple xray.exe entries''
       else find_executable entries (Some file)
     else find_executable entries found)"

definition extract_xray :: "'x web \<Rightarrow> string \<Rightarrow> string \<Rightarrow> (file_system, string, unit) prog" where
  "extract_xray W archive_path destination =
     sbind (context_io ''open Xray archive'' (fs_read archive_path)) (\<lambda>bytes.
     sbind (slift (map_err (\<lambda>e. ''open Xray ZIP: '' @ e) (zip_entries W bytes))) (\<lambda>entries.
     sbind (slift (find_executable entries None)) (\<lambda>found.
     sbind (slift (ok_or ''Xray ZIP has no xray.exe'' found)) (\<lambda>(name, extracted, content).
     if extracted = 0 \<or> MAX_EXTRACTED_BYTES < extracted then sfail ''xray.exe has an invalid extracted size''
     else
       sseq (context_io ''create extracted xray.exe'' (fs_create_new destination))
       (sbind (slift (map_err (\<lambda>e. ''extract xray.exe: '' @ e) content)) (\<lambda>data.
       sseq (context_io ''extract xray.exe''
         (fs_write_all destination (take (MAX_EXTRACTED_BYTES + 1) data)))
       (if MAX_EXTRACTED_BYTES < min (length data) (MAX_EXTRACTED_BYTES + 1)
        then sfail ''xray.exe exceeded the extraction size limit''
        else sseq (context_io ''flush xray.exe'' fs_sync) (context_io ''sync xray.exe'' fs_sync))))))))"

definition verify_xray_version ::
  "'x platform \<Rightarrow> string \<Rightarrow> string \<Rightarrow> ('x world, string, unit) prog" where
  "verify_xray_version P binary expected =
     sbind (smap_err (\<lambda>e. ''run downloaded Xray: '' @ io_message e)
       (on_ext (output_within P 10000 \<lparr>inv_kind = Run_Config, executable = binary,
          arguments = [''version'']\<rparr> []))) (\<lambda>result.
     case result of
       None \<Rightarrow> sfail ''Xray version check timed out''
     | Some output \<Rightarrow>
         if \<not> succeeded output then sfail ''downloaded xray.exe failed its version check''
         else
           let fields = (case str_lines (from_utf8_lossy (out_bytes output)) of
               [] \<Rightarrow> [] | line # _ \<Rightarrow> split_whitespace line)
           in if length fields < 2 then sfail ''downloaded Xray returned no version''
             else let version = normalize_tag (fields ! 1) in
               if version \<noteq> normalize_tag expected
               then sfail (''downloaded Xray reports '' @ version @ '', expected '' @ expected)
               else sret ())"

definition download_path :: "runtime_layout \<Rightarrow> string \<Rightarrow> string" where
  "download_path l tag = path_join (state_dir l) (''.xray-'' @ tag @ ''.download'')"

definition extracted_path :: "runtime_layout \<Rightarrow> string \<Rightarrow> string" where
  "extracted_path l tag = path_join (state_dir l) (''.xray-'' @ tag @ ''.exe'')"

text \<open>\<open>TemporaryFiles\<close>: both files are removed, errors ignored, when \<open>install\<close> returns.\<close>

definition drop_temporaries :: "string list \<Rightarrow> 'x world \<Rightarrow> 'x world" where
  "drop_temporaries paths = (\<lambda>w.
     fold (\<lambda>p w. w\<lparr>disk := snd (fs_remove_file p (disk w))\<rparr>) paths w)"

text \<open>From the release's JSON to the checked executable of a version, not yet in place.\<close>

definition download_release ::
  "'x platform \<Rightarrow> 'x web \<Rightarrow> runtime_layout \<Rightarrow> string \<Rightarrow> core_download_asset \<Rightarrow> ('x world, string, unit) prog" where
  "download_release P W l tag asset =
     sseq (slift (http_client W))
     (sbind (smap_err (\<lambda>e. ''download Xray: '' @ e) (on_ext (http_send W (asset_url asset)))) (\<lambda>response.
     if \<not> status_success response then sfail (''Xray download returned HTTP '' @ status_line response)
     else
       sseq (on_disk (context_io ''create Xray archive'' (fs_create (download_path l tag))))
       (sbind (on_disk (download_chunks (download_path l tag) (asset_size asset)
          (body_chunks response) 0 [])) (\<lambda>hashed.
       sseq (on_disk (context_io ''flush Xray archive'' fs_sync))
       (if sha256_hex W hashed \<noteq> asset_sha256 asset
        then sfail (''Xray SHA-256 mismatch (expected '' @ asset_sha256 asset @ '', got ''
          @ sha256_hex W hashed @ '')'')
        else
          sseq (on_disk (extract_xray W (download_path l tag) (extracted_path l tag)))
          (verify_xray_version P (extracted_path l tag) tag))))))"

definition release_body ::
  "'x web \<Rightarrow> string option \<Rightarrow> ('x world, string, string \<times> string) prog" where
  "release_body W requested =
     (case requested of
        Some tag \<Rightarrow>
          let tag = normalize_tag tag in
          if \<not> valid_tag tag then sfail (''invalid Xray version: '' @ tag)
          else sbind (fetch_text W (API_ROOT @ ''/tags/v'' @ tag)) (\<lambda>body. sret (body, tag))
      | None \<Rightarrow>
          sbind (fetch_text W (API_ROOT @ ''?per_page=30'')) (\<lambda>body.
          sbind (slift (parse_releases W body)) (\<lambda>releases.
          case releases of
            [] \<Rightarrow> sfail ''GitHub returned no Xray releases''
          | r # _ \<Rightarrow> sret (body, rel_tag r))))"

definition install_core ::
  "'x platform \<Rightarrow> 'x web \<Rightarrow> runtime_layout \<Rightarrow> string option \<Rightarrow> ('x world, string, string) prog" where
  "install_core P W l requested =
     sbind (release_body W requested) (\<lambda>(body, tag).
     sbind (sattempt (on_disk (resolve_binary l tag))) (\<lambda>present.
     if is_ok present then sret tag
     else
       sbind (slift (select_release_asset W body tag (target_arch W))) (\<lambda>asset.
       sseq (on_disk (context_io ''create core state directory'' (fs_create_dir_all (state_dir l))))
       (sfinally
         (sseq (download_release P W l tag asset)
         (sbind (slift (ok_or ''Xray destination has no directory''
            (path_parent (binary_for l tag)))) (\<lambda>directory.
         sseq (on_disk (context_io ''create Xray version directory'' (fs_create_dir_all directory)))
         (sseq (on_disk (context_io (''install Xray '' @ tag)
            (fs_rename (extracted_path l tag) (binary_for l tag))))
         (sret tag)))))
         (drop_temporaries [download_path l tag, extracted_path l tag])))))"

definition activate_core ::
  "'x platform \<Rightarrow> runtime_layout \<Rightarrow> string \<Rightarrow> ('x world, string, unit) prog" where
  "activate_core P l tag =
     (let tag = normalize_tag tag in
      sbind (on_disk (resolve_binary l tag)) (\<lambda>binary.
      sseq (verify_xray_version P binary tag)
      (on_disk (context_io (''activate Xray '' @ tag) (atomic_write (active_file l) (as_bytes tag))))))"

section \<open>Lemmas\<close>

lemma find_SomeD: "find P xs = Some x \<Longrightarrow> x \<in> set xs \<and> P x"
  by (induction xs) (auto split: if_splits)

lemma select_release_asset_Ok:
  assumes "select_release_asset W body tag arch = Ok a"
  shows "\<exists>releases r d. decode_releases W body = Ok releases \<and> r \<in> set releases
     \<and> normalize_tag (tag_name r) = normalize_tag tag
     \<and> (\<exists>g\<in>set (assets r). ga_name g = asset_name a \<and> browser_download_url g = asset_url a
          \<and> ga_size g = asset_size a \<and> digest g = Some (''sha256:'' @ d))
     \<and> xray_asset_name arch = Ok (asset_name a)
     \<and> starts_with OFFICIAL_DOWNLOAD_ROOT (asset_url a)
     \<and> 0 < asset_size a \<and> asset_size a \<le> MAX_CORE_BYTES
     \<and> asset_sha256 a = ascii_lower d \<and> length d = 64 \<and> list_all is_hex d"
proof -
  from assms obtain releases r g name d where *:
    "decode_releases W body = Ok releases"
    "find (\<lambda>r. normalize_tag (tag_name r) = normalize_tag tag) releases = Some r"
    "xray_asset_name arch = Ok name" "find (\<lambda>a. ga_name a = name) (assets r) = Some g"
    "ga_size g \<noteq> 0 \<and> ga_size g \<le> MAX_CORE_BYTES" "starts_with OFFICIAL_DOWNLOAD_ROOT (browser_download_url g)"
    "Option.bind (digest g) (strip_prefix ''sha256:'') = Some d" "length d = 64" "list_all is_hex d"
    "a = \<lparr>asset_name = ga_name g, asset_url = browser_download_url g, asset_size = ga_size g,
       asset_sha256 = ascii_lower d\<rparr>"
    unfolding select_release_asset_def Let_def
    by (auto simp: if_Err_Ok_iff not_less split: if_splits option.splits)
  from *(7) have "digest g = Some (''sha256:'' @ d)"
    by (cases "digest g") (auto simp: strip_prefix_Some)
  with * find_SomeD [OF *(2)] find_SomeD [OF *(4)] show ?thesis
    by (intro exI [of _ releases] exI [of _ r] exI [of _ d]) auto
qed


lemma relative_join_inject:
  "\<not> path_is_absolute a \<Longrightarrow> \<not> path_is_absolute b \<Longrightarrow> path_join d a = path_join d b \<longleftrightarrow> a = b"
  by (auto simp: path_join_def)

lemma download_not_extracted: "download_path l tag \<noteq> extracted_path l tag"
proof -
  have "(''.xray-'' @ tag @ ''.download'') \<noteq> ''.xray-'' @ tag @ ''.exe''" by simp
  moreover have "length (path_join (state_dir l) (''.xray-'' @ tag @ ''.download''))
      \<noteq> length (path_join (state_dir l) (''.xray-'' @ tag @ ''.exe''))"
    by (auto simp: path_join_def)
  ultimately show ?thesis unfolding download_path_def extracted_path_def by metis
qed

lemma saturating_bound: "saturating_add64 a b \<le> n \<Longrightarrow> n < 2 ^ 64 - 1 \<Longrightarrow> a + b \<le> n"
  by (simp add: saturating_add64_def min_def split: if_splits)

lemma download_chunks_outcome:
  assumes "file_at p s = Some old" and "n \<le> MAX_CORE_BYTES" and "n \<le> declared + 1024"
  shows "wp (download_chunks p declared cs n h)
     (\<lambda>r t. \<exists>bytes. collect_body cs = Ok bytes \<and> r = h @ bytes \<and> n + length bytes \<le> MAX_CORE_BYTES
        \<and> n + length bytes \<le> declared + 1024 \<and> file_at p t = Some (old @ bytes))
     (\<lambda>_ _. True) s"
  using assms
proof (induction cs arbitrary: n h s old)
  case (Cons c cs)
  show ?case
  proof (cases c)
    case (Inr chunk)
    let ?m = "saturating_add64 n (length chunk)"
    show ?thesis
    proof (cases "MAX_CORE_BYTES < ?m \<or> saturating_add64 declared 1024 < ?m")
      case False
      have "n + length chunk \<le> MAX_CORE_BYTES"
        using False by (intro saturating_bound) (simp_all add: MAX_CORE_BYTES_def)
      then have m: "?m = n + length chunk" "?m \<le> MAX_CORE_BYTES"
        by (simp_all add: saturating_add64_def MAX_CORE_BYTES_def)
      have d: "?m \<le> declared + 1024" using False by (simp add: saturating_add64_def min_def split: if_splits)
      show ?thesis
        using False m(1)
        apply (simp add: Inr wp_simps Let_def)
        apply (rule wp_write_all)
         apply (rule wp_mono [OF Cons.IH [where old = "old @ chunk"]])
             apply (use Cons.prems m d in auto)
        done
    qed (simp add: Inr wp_simps Let_def)
  qed (simp add: wp_simps)
qed (simp add: wp_simps)

lemma extract_outcome:
  assumes "file_at archive s = Some bytes" and "archive \<noteq> dest"
  shows "wp (extract_xray W archive dest)
     (\<lambda>_ t. \<exists>entries name n data. zip_entries W bytes = Ok entries
        \<and> find_executable entries None = Ok (Some (name, n, Ok data))
        \<and> length data \<le> MAX_EXTRACTED_BYTES \<and> file_at dest t = Some data)
     (\<lambda>_ _. True) s"
  unfolding extract_xray_def wp_sbind [of "context_io _ _"] wp_smap_err
proof (rule wp_read, goal_cases)
  case (1 t c)
  then have c: "c = bytes" using assms(1) by simp
  show ?case
  proof (cases "zip_entries W bytes")
    case entries: (Inr entries)
    show ?thesis
    proof (cases "find_executable entries None")
      case (Inr found)
      show ?thesis
      proof (cases found)
        case (Some f)
        obtain name n content where f: "f = (name, n, content)" by (cases f)
        show ?thesis
        proof (cases content)
          case data: (Inr data)
          show ?thesis
            apply (simp add: wp_simps c entries Inr Some f data)
            apply (intro impI)
            apply (rule wp_create_new; simp add: wp_simps)
            apply (intro conjI impI; rule wp_write_all; simp add: wp_simps)
            apply (rule wp_sync; simp add: wp_simps)
            apply (rule wp_sync; simp)
            done
        next
          case (Inl e)
          show ?thesis
            by (simp add: wp_simps c entries Inr Some f Inl) (intro impI, rule wp_create_new; simp add: wp_simps)
        qed
      qed (simp add: wp_simps c entries Inr)
    qed (simp add: wp_simps c entries)
  qed (simp add: wp_simps c)
qed simp

lemma verify_keeps_disk:
  "wp (verify_xray_version P binary expected) (\<lambda>_ w'. disk w' = disk w) (\<lambda>_ _. True) w"
  unfolding verify_xray_version_def wp_sbind wp_smap_err wp_on_ext
  by (rule wp_trivial) (auto simp: wp_simps Let_def split: option.split)

lemma download_release_outcome:
  "wp (download_release P W l tag asset)
     (\<lambda>_ w'. \<exists>x y response bytes entries name n data.
        http_send W (asset_url asset) x = (Ok response, y) \<and> status_success response
        \<and> collect_body (body_chunks response) = Ok bytes
        \<and> length bytes \<le> MAX_CORE_BYTES \<and> length bytes \<le> asset_size asset + 1024
        \<and> sha256_hex W bytes = asset_sha256 asset
        \<and> zip_entries W bytes = Ok entries \<and> find_executable entries None = Ok (Some (name, n, Ok data))
        \<and> length data \<le> MAX_EXTRACTED_BYTES \<and> file_at (extracted_path l tag) (disk w') = Some data)
     (\<lambda>_ _. True) w"
proof (cases "http_client W")
  case (Inr u)
  show ?thesis
    unfolding download_release_def
    apply (simp add: Inr wp_simps wp_on_ext wp_on_disk)
    apply (rule wpI; (simp; fail)?)
    apply (intro impI)
    apply (rule wp_create; (simp; fail)?)
    apply (rule wp_mono [OF download_chunks_outcome [where old = "[]"]]; (simp; fail)?)
    apply (elim exE conjE)
    apply (rule wp_sync; (simp; fail)?)
    apply (intro impI)
    apply (rule wp_mono [OF extract_outcome [OF _ download_not_extracted]]; (simp; fail)?)
    apply (rule wp_mono [OF verify_keeps_disk]; (simp; fail)?)
    apply (elim exE conjE, simp)
    apply blast
    done
qed (simp add: download_release_def wp_simps)

subsection \<open>The hosts it contacts\<close>

definition github_url :: "'x web \<Rightarrow> string \<Rightarrow> bool" where
  "github_url W url \<longleftrightarrow> (\<exists>u. parse_url W url = Ok u \<and> allowed_http_url u)"

text \<open>The URL standard on the download root: whatever follows it is the path.\<close>

definition url_law :: "'x web \<Rightarrow> bool" where
  "url_law W \<longleftrightarrow> (\<forall>s. starts_with OFFICIAL_DOWNLOAD_ROOT s \<longrightarrow> parse_url W s = Ok (''https'', Some ''github.com''))"

text \<open>What exchanges with the allowed hosts, and the runs of a core, do not change.\<close>

definition github_keeps :: "'x platform \<Rightarrow> 'x web \<Rightarrow> ('x \<Rightarrow> bool) \<Rightarrow> bool" where
  "github_keeps P W I \<longleftrightarrow> (\<forall>url. github_url W url \<longrightarrow> keeps I (http_exchange W url))
     \<and> (\<forall>n i d. keeps I (output_within P n i d))"

lemma keeps_http_send:
  assumes "github_keeps P W I" and "github_url W url"
  shows "keeps I (http_send W url)"
proof -
  have "keeps I (follow_redirects W n url)" for n
    using assms(2)
  proof (induction n arbitrary: url)
    case (Suc n)
    then have "keeps I (http_exchange W url)" using assms(1) by (simp add: github_keeps_def)
    with Suc.IH show ?case
      by (auto simp: github_url_def split: option.split sum.split intro!: keeps_sbind keeps_basic)
  qed (simp add: keeps_basic)
  then show ?thesis by (simp add: http_send_def)
qed

lemma keeps_fetch_text:
  assumes "github_keeps P W I"
  shows "keeps (in_ext I) (fetch_text W url)"
  unfolding fetch_text_def
  by (rule keeps_slift_sbind, intro hoare_rules keeps_http_send [OF assms]) (auto simp: github_url_def)

lemma keeps_list_releases: "github_keeps P W I \<Longrightarrow> keeps (in_ext I) (list_releases W)"
  unfolding list_releases_def by (intro hoare_rules keeps_fetch_text)

lemma keeps_verify_xray_version:
  assumes "github_keeps P W I"
  shows "keeps (in_ext I) (verify_xray_version P binary expected)"
proof -
  have "keeps I (output_within P n i d)" for n i d using assms by (simp add: github_keeps_def)
  then show ?thesis
    unfolding verify_xray_version_def Let_def by (intro hoare_rules)
qed

lemma in_ext_drop_temporaries: "in_ext I (drop_temporaries ps w) \<longleftrightarrow> in_ext I w"
  by (induction ps arbitrary: w) (simp_all add: drop_temporaries_def in_ext_def)

lemma keeps_install_core:
  assumes keeps: "github_keeps P W I" and "url_law W"
  shows "keeps (in_ext I) (install_core P W l requested)"
proof -
  have "github_url W (asset_url asset)" if "select_release_asset W body tag arch = Ok asset" for body tag arch asset
    using select_release_asset_Ok [OF that] assms(2) by (auto simp: url_law_def github_url_def allowed_http_url_def)
  then have download: "keeps (in_ext I) (download_release P W l tag asset)"
    if "select_release_asset W body t arch = Ok asset" for body t arch asset tag
    unfolding download_release_def using that
    by (intro hoare_rules keeps_http_send [OF keeps] keeps_verify_xray_version [OF keeps])
  have "keeps (in_ext I) (release_body W requested)"
    unfolding release_body_def Let_def
    by (intro hoare_rules keeps_fetch_text [OF keeps]) (auto intro: keeps_basic split: list.split)
  then show ?thesis
    unfolding install_core_def
    apply (rule keeps_sbind)
    apply (rule keeps_case_prod)
    apply (rule keeps_sbind)
     apply (intro hoare_rules)
    apply (rule keeps_if)
     apply (rule keeps_basic)
    apply (rule keeps_slift_sbind)
    apply (intro hoare_rules)
     apply (erule download)
    apply (simp add: in_ext_drop_temporaries)
    done
qed

section \<open>Properties\<close>

text \<open>
  The updater asks for the archive that the installer of the same architecture ships.
\<close>

theorem updater_asset_is_packaged:
  "xray_asset_name arch = Ok name \<longleftrightarrow>
     (\<exists>a. from_target (arch @ ''-pc-windows-msvc'') = Ok a \<and> xray_archive a = name)"
  by (auto simp: xray_asset_name_def from_target_def append_eq_append_conv2 elim: asset_arch.exhaust)

text \<open>
  The asset chosen for a download is the one of the requested release for this
  architecture: it comes from the official download root, has a size of at most 256 MiB, and
  its digest is the release's SHA-256 of 64 hexadecimal digits.
\<close>

theorem select_release_asset_sound:
  assumes "select_release_asset W body tag arch = Ok a"
  shows "\<exists>releases r d. decode_releases W body = Ok releases \<and> r \<in> set releases
     \<and> normalize_tag (tag_name r) = normalize_tag tag
     \<and> (\<exists>g\<in>set (assets r). ga_name g = asset_name a \<and> browser_download_url g = asset_url a
          \<and> ga_size g = asset_size a \<and> digest g = Some (''sha256:'' @ d))
     \<and> xray_asset_name arch = Ok (asset_name a)
     \<and> starts_with ''https://github.com/XTLS/Xray-core/releases/download/'' (asset_url a)
     \<and> 0 < asset_size a \<and> asset_size a \<le> 268435456
     \<and> asset_sha256 a = ascii_lower d \<and> length d = 64 \<and> list_all is_hex d"
  using select_release_asset_Ok [OF assms] by (simp add: OFFICIAL_DOWNLOAD_ROOT_def MAX_CORE_BYTES_def)

definition sample_release :: github_release where
  "sample_release = \<lparr>tag_name = ''v1.8.0'', gr_name = None, published_at = None, prerelease = False,
     assets = [\<lparr>ga_name = ''Xray-windows-64.zip'', browser_download_url = OFFICIAL_DOWNLOAD_ROOT @ ''x'',
       ga_size = 9, digest = Some (''sha256:'' @ replicate 64 CHR ''A'')\<rparr>]\<rparr>"

definition sample_web :: "'x web" where
  "sample_web = \<lparr>
     web_json = \<lparr>from_str = (\<lambda>t. Ok JNull), to_string = (\<lambda>v. Ok []), to_string_pretty = (\<lambda>v. Ok [])\<rparr>,
     release_from_value = (\<lambda>v. Ok sample_release), releases_from_value = (\<lambda>v. Ok [sample_release]),
     parse_url = (\<lambda>u. Ok (''https'', Some ''github.com'')), http_client = Ok (),
     http_exchange = (\<lambda>u. sfail ''offline''), redirect_fuel = 10, sha256_hex = (\<lambda>b. replicate 64 CHR ''a''),
     zip_entries = (\<lambda>b. Ok []), target_arch = ''x86_64''\<rparr>"

lemma select_release_asset_sound_witness:
  "\<exists>releases r d. decode_releases (sample_web :: unit web) ''{}'' = Ok releases \<and> r \<in> set releases
     \<and> normalize_tag (tag_name r) = normalize_tag ''1.8.0''
     \<and> (\<exists>g\<in>set (assets r). ga_name g = ''Xray-windows-64.zip''
          \<and> browser_download_url g = OFFICIAL_DOWNLOAD_ROOT @ ''x''
          \<and> ga_size g = 9 \<and> digest g = Some (''sha256:'' @ d))
     \<and> xray_asset_name ''x86_64'' = Ok ''Xray-windows-64.zip''
     \<and> starts_with ''https://github.com/XTLS/Xray-core/releases/download/'' (OFFICIAL_DOWNLOAD_ROOT @ ''x'')
     \<and> 0 < (9 :: nat) \<and> 9 \<le> (268435456 :: nat)
     \<and> replicate 64 CHR ''a'' = ascii_lower d \<and> length d = 64 \<and> list_all is_hex d"
  using select_release_asset_sound [of "sample_web :: unit web" "''{}''" "''1.8.0''" "''x86_64''"
      "\<lparr>asset_name = ''Xray-windows-64.zip'', asset_url = OFFICIAL_DOWNLOAD_ROOT @ ''x'', asset_size = 9,
        asset_sha256 = replicate 64 CHR ''a''\<rparr>"]
  by (simp only: core_download_asset.simps) (erule meta_mp, code_simp)

text \<open>
  C35: a core is only taken from a download that matches: when downloading a release succeeds,
  the bytes received have the SHA-256 of the asset and are at most 1024 more than it
  declares, and the executable is the content of the archive's only \<open>xray.exe\<close>.
\<close>

theorem downloaded_core_is_checked:
  "wp (download_release P W l tag asset)
     (\<lambda>_ w'. \<exists>x y response bytes entries name n data.
        http_send W (asset_url asset) x = (Ok response, y) \<and> status_success response
        \<and> collect_body (body_chunks response) = Ok bytes
        \<and> length bytes \<le> 268435456 \<and> length bytes \<le> asset_size asset + 1024
        \<and> sha256_hex W bytes = asset_sha256 asset
        \<and> zip_entries W bytes = Ok entries \<and> find_executable entries None = Ok (Some (name, n, Ok data))
        \<and> length data \<le> 134217728 \<and> file_at (extracted_path l tag) (disk w') = Some data)
     (\<lambda>_ _. True) w"
  using download_release_outcome [of P W l tag asset w] by (simp add: MAX_CORE_BYTES_def MAX_EXTRACTED_BYTES_def)

text \<open>A small layout.\<close>

definition small_layout :: runtime_layout where
  "small_layout = \<lparr>install_dir = ''v'', xray_executable = ''v/x'', wintun_library = ''v/w'',
      geoip_database = ''v/p'', geosite_database = ''v/q'', state_dir = ''s'', desired_state = ''s/d'',
      active_config = ''s/a'', candidate_config = ''s/c'', validation_path = ''s/t'', log_file = ''s/l''\<rparr>"

text \<open>
  C39: the updater, which runs as the system account, contacts \<open>https\<close> URLs of four GitHub hosts only:
  listing releases and installing a version keep whatever exchanges with these hosts keep,
  whatever a server answers and wherever it redirects.
\<close>

theorem updater_contacts_github:
  assumes "github_keeps P W I" and "url_law W" and "I (ext w)"
  shows "I (ext (snd (list_releases W w))) \<and> I (ext (snd (install_core P W l requested w)))"
proof -
  from keeps_list_releases [OF assms(1)] keeps_install_core [OF assms(1,2)] assms(3)
  show ?thesis by (simp add: keeps_def in_ext_def)
qed

text \<open>
  A web that notes each URL it is asked for. Its only answer redirects the list of releases
  to another host.
\<close>

definition noting_web :: "string list web" where
  "noting_web = (sample_web :: string list web)\<lparr>
     parse_url := (\<lambda>u. if starts_with ''https://evil'' u then Ok (''https'', Some ''evil'') else Ok (''https'', Some ''github.com'')),
     http_exchange := (\<lambda>u visited. (Ok \<lparr>status_success = False, status_line = ''302 Found'', content_length = None,
       body_chunks = [], redirect_to = Some ''https://evil/x''\<rparr>, u # visited))\<rparr>"

definition empty_machine :: "string list world" where
  "empty_machine = \<lparr>disk = \<lparr>files = [], dirs = [], faults = [], temp_counter = 1, process_id = 4\<rparr>, ext = []\<rparr>"

theorem updater_contacts_github_witness:
  "list_all (github_url noting_web) (ext (snd (list_releases noting_web empty_machine)))
   \<and> fst (list_releases noting_web empty_machine) = Err ''GitHub release request returned HTTP 302 Found''
   \<and> list_all (github_url noting_web)
        (ext (snd (install_core (bench_platform (\<lambda>_. sret (success_output []))) noting_web small_layout None empty_machine)))"
proof -
  have "github_keeps (bench_platform (\<lambda>_. sret (success_output []))) noting_web (list_all (github_url noting_web))"
    by (auto simp: github_keeps_def keeps_def noting_web_def bench_platform_def sret_def)
  moreover have "url_law noting_web"
    unfolding url_law_def by (auto simp: noting_web_def OFFICIAL_DOWNLOAD_ROOT_def starts_with_iff)
  moreover have "list_all (github_url noting_web) (ext empty_machine)" by (simp add: empty_machine_def)
  ultimately have "list_all (github_url noting_web) (ext (snd (list_releases noting_web empty_machine)))
      \<and> list_all (github_url noting_web)
        (ext (snd (install_core (bench_platform (\<lambda>_. sret (success_output []))) noting_web small_layout None empty_machine)))"
    by (rule updater_contacts_github)
  moreover have "fst (list_releases noting_web empty_machine) = Err ''GitHub release request returned HTTP 302 Found''"
    by code_simp
  ultimately show ?thesis by simp
qed

text \<open>A disk with one installed core.\<close>

definition one_core :: file_system where
  "one_core = \<lparr>files = [(''s'' @ backslash # ''cores'' @ backslash # ''xray'' @ backslash # ''1.8.0''
        @ backslash # ''xray.exe'', [1])],
     dirs = [''s'', ''s'' @ backslash # ''cores'', ''s'' @ backslash # ''cores'' @ backslash # ''xray'',
       ''s'' @ backslash # ''cores'' @ backslash # ''xray'' @ backslash # ''1.8.0''],
     faults = [], temp_counter = 1, process_id = 4\<rparr>"

text \<open>
  A request to remove the version \<open>..\<close> passes the protocol's validation and the core
  manager's, and removes the directory \<open>cores\<close> with every installed version.
\<close>

theorem uninstall_leaves_versions_directory:
  "validate_core_command (Uninstall ''..'') = Ok ()
   \<and> uninstall small_layout ''..'' one_core = (Ok (), one_core\<lparr>files := [], dirs := [''s'']\<rparr>)"
  by code_simp

end
