(* ===== verification/Controller.thy ===== *)
theory Controller
  imports Protocol
begin

text \<open>
  The connection state machine, \<open>crates/varmlen-service-core/src/controller.rs\<close>: the trait
  \<open>ConnectionBackend\<close> as a record of operations over a backend state, the controller that
  drives a backend through a connection, and every operation of it as a function of the
  controller's state.
\<close>

section \<open>The backend trait\<close>

record 'b backend_ops =
  set_operation_id :: "u64 \<Rightarrow> 'b \<Rightarrow> 'b"
  validate_candidate :: "connect_request \<Rightarrow> ('b, service_error, unit) prog"
  install_transition_hold :: "('b, service_error, unit) prog"
  verify_transition_hold :: "('b, service_error, unit) prog"
  stop_active :: "('b, service_error, unit) prog"
  start_candidate :: "connect_request \<Rightarrow> ('b, service_error, unit) prog"
  verify_candidate :: "connect_request \<Rightarrow> ('b, service_error, unit) prog"
  commit_policy :: "connect_request \<Rightarrow> ('b, service_error, unit) prog"
  release_transition_hold :: "('b, service_error, unit) prog"
  restore_previous :: "('b, service_error, unit) prog"
  clear_network_state :: "bool \<Rightarrow> ('b, service_error, unit) prog"
  active_is_running :: "('b, service_error, bool) prog"
  unexpected_failure_keep_blocked :: "'b \<Rightarrow> bool"

section \<open>The controller\<close>

record 'b controller =
  backend :: 'b
  state :: service_state

definition connected :: "'b \<Rightarrow> 'b controller" where
  "connected b = \<lparr>backend = b,
     state = \<lparr>phase = Connected, operation_id = 0, split_active = False,
              dns_protected = True, network_blocked = False\<rparr>\<rparr>"

definition disconnected :: "'b \<Rightarrow> 'b controller" where
  "disconnected b = \<lparr>backend = b, state = disconnected_state\<rparr>"

definition blocked_error_state :: "u64 \<Rightarrow> service_state" where
  "blocked_error_state op = \<lparr>phase = BlockedError, operation_id = op, split_active = False,
     dns_protected = False, network_blocked = True\<rparr>"

definition settled_state :: "u64 \<Rightarrow> bool \<Rightarrow> service_state" where
  "settled_state op blocked = \<lparr>phase = (if blocked then Blocked else Disconnected),
     operation_id = op, split_active = False, dns_protected = False, network_blocked = blocked\<rparr>"

definition force_blocked :: "u64 \<Rightarrow> 'b controller \<Rightarrow> 'b controller" where
  "force_blocked op c = c\<lparr>state := settled_state op True\<rparr>"

definition force_disconnected :: "u64 \<Rightarrow> 'b controller \<Rightarrow> 'b controller" where
  "force_disconnected op c = c\<lparr>state := settled_state op False\<rparr>"

text \<open>A backend call, and the assignments to the controller's own state.\<close>

definition on_backend :: "('b, 'e, 'a) prog \<Rightarrow> ('b controller, 'e, 'a) prog" where
  "on_backend = szoom backend (\<lambda>b c. c\<lparr>backend := b\<rparr>)"

definition put_state :: "service_state \<Rightarrow> ('b controller, 'e, unit) prog" where
  "put_state s = smodify (\<lambda>c. c\<lparr>state := s\<rparr>)"

definition put_phase :: "connection_phase \<Rightarrow> ('b controller, 'e, unit) prog" where
  "put_phase p = smodify (\<lambda>c. c\<lparr>state := (state c)\<lparr>phase := p\<rparr>\<rparr>)"

text \<open>\<open>if let Err(error) = m { self.state = s; return Err(error); }\<close>\<close>

definition or_state ::
  "('b controller, service_error, 'a) prog \<Rightarrow> service_state \<Rightarrow> ('b controller, service_error, 'a) prog" where
  "or_state m s = scatch m (\<lambda>error. sseq (put_state s) (sfail error))"

definition audit_runtime :: "'b backend_ops \<Rightarrow> ('b controller, service_error, service_state) prog" where
  "audit_runtime ops =
     sbind (sgets state) (\<lambda>s0.
       if phase s0 \<noteq> Connected then sret s0
       else sbind (on_backend (active_is_running ops)) (\<lambda>running.
         if running then sgets state
         else sbind (sgets (\<lambda>c. (operation_id (state c), unexpected_failure_keep_blocked ops (backend c))))
           (\<lambda>(op, keep_blocked).
             sseq (or_state (on_backend (clear_network_state ops keep_blocked)) (blocked_error_state op))
               (sseq (put_state (settled_state op keep_blocked)) (sgets state)))))"

definition recover_candidate_failure ::
  "'b backend_ops \<Rightarrow> u64 \<Rightarrow> bool \<Rightarrow> bool \<Rightarrow> service_state \<Rightarrow> ('b controller, service_error, unit) prog" where
  "recover_candidate_failure ops op was_connected requested_kill_switch previous_state =
     (if \<not> was_connected then
        sseq (or_state (on_backend (clear_network_state ops requested_kill_switch)) (blocked_error_state op))
          (put_state (settled_state op requested_kill_switch))
      else
        sseq (put_phase Restoring)
          (sseq (or_state (on_backend (restore_previous ops)) (blocked_error_state op))
            (sseq (or_state (on_backend (release_transition_hold ops)) (blocked_error_state op))
              (put_state previous_state))))"

text \<open>The three stages of the candidate after the old tunnel is down share their recovery.\<close>

definition or_recover ::
  "'b backend_ops \<Rightarrow> u64 \<Rightarrow> bool \<Rightarrow> bool \<Rightarrow> service_state \<Rightarrow>
   ('b controller, service_error, unit) prog \<Rightarrow> ('b controller, service_error, unit) prog" where
  "or_recover ops op was_connected ks previous_state m =
     scatch m (\<lambda>error. sseq (recover_candidate_failure ops op was_connected ks previous_state) (sfail error))"

definition connect ::
  "'b backend_ops \<Rightarrow> u64 \<Rightarrow> connect_request \<Rightarrow> ('b controller, service_error, service_state) prog" where
  "connect ops op request =
     sseq (smodify (\<lambda>c. c\<lparr>backend := set_operation_id ops op (backend c)\<rparr>))
     (sbind (sgets state) (\<lambda>previous_state.
      let was_connected = (phase previous_state = Connected);
          recover = or_recover ops op was_connected (killswitch request) previous_state
      in
      sseq (smodify (\<lambda>c. c\<lparr>state := (state c)\<lparr>phase := Validating, operation_id := op\<rparr>\<rparr>))
      (sseq (or_state (on_backend (validate_candidate ops request)) previous_state)
      (sseq (put_phase Holding)
      (sseq (or_state (on_backend (install_transition_hold ops)) previous_state)
      (sseq (scatch (on_backend (verify_transition_hold ops))
               (\<lambda>error.
                  sseq (or_state (on_backend (release_transition_hold ops)) (blocked_error_state op))
                    (sseq (put_state previous_state) (sfail error))))
      (sseq (if was_connected
             then or_state (on_backend (stop_active ops)) (blocked_error_state op)
             else sret ())
      (sseq (put_phase Starting)
      (sseq (recover (on_backend (start_candidate ops request)))
      (sseq (recover (on_backend (verify_candidate ops request)))
      (sseq (recover (on_backend (commit_policy ops request)))
      (sseq (or_state (on_backend (release_transition_hold ops)) (blocked_error_state op))
      (sseq (put_state \<lparr>phase = Connected, operation_id = op,
                        split_active = (excluded_apps request \<noteq> []),
                        dns_protected = True, network_blocked = False\<rparr>)
            (sgets state))))))))))))))"

definition disconnect ::
  "'b backend_ops \<Rightarrow> u64 \<Rightarrow> bool \<Rightarrow> ('b controller, service_error, service_state) prog" where
  "disconnect ops op keep_blocked =
     sseq (smodify (\<lambda>c. c\<lparr>backend := set_operation_id ops op (backend c)\<rparr>))
     (sseq (put_state \<lparr>phase = Stopping, operation_id = op, split_active = False,
                       dns_protected = False, network_blocked = True\<rparr>)
     (sseq (or_state (on_backend (clear_network_state ops keep_blocked)) (blocked_error_state op))
     (sseq (put_state (settled_state op keep_blocked)) (sgets state))))"

lemmas controller_defs = on_backend_def put_state_def put_phase_def or_state_def or_recover_def

section \<open>The states between operations\<close>

text \<open>
  What holds of the controller's state when no operation is running: a settled phase, and
  flags that agree with it.
\<close>

definition consistent :: "service_state \<Rightarrow> bool" where
  "consistent s \<longleftrightarrow>
     phase s \<in> {Disconnected, Connected, Blocked, BlockedError}
     \<and> (dns_protected s \<longleftrightarrow> phase s = Connected)
     \<and> (network_blocked s \<longleftrightarrow> phase s \<in> {Blocked, BlockedError})
     \<and> (split_active s \<longrightarrow> phase s = Connected)"

lemma consistent_states [simp]:
  "consistent (blocked_error_state op)" "consistent (settled_state op b)"
  "consistent disconnected_state"
  by (simp_all add: consistent_def blocked_error_state_def settled_state_def disconnected_state_def)

text \<open>Where a run of \<open>connect\<close> can end, by its result.\<close>

definition connected_state :: "u64 \<Rightarrow> connect_request \<Rightarrow> service_state" where
  "connected_state op r = \<lparr>phase = Connected, operation_id = op,
     split_active = (excluded_apps r \<noteq> []), dns_protected = True, network_blocked = False\<rparr>"

lemma consistent_connected_state [simp]: "consistent (connected_state op r)"
  by (simp add: consistent_def connected_state_def)

lemmas connection_wp = wp_simps on_backend_def put_state_def put_phase_def or_state_def
  or_recover_def recover_candidate_failure_def

text \<open>
  The result of \<open>connect\<close> determines the state up to three cases: the previous one,
  \<open>BlockedError\<close>, or, when nothing was connected, the settled state the request's kill
  switch asks for.
\<close>

lemma connect_outcome:
  "wp (connect ops op r)
     (\<lambda>s c'. state c' = connected_state op r \<and> s = state c')
     (\<lambda>_ c'. state c' \<in> {state c, blocked_error_state op}
           \<or> phase (state c) \<noteq> Connected \<and> state c' = settled_state op (killswitch r)) c"
  unfolding connect_def Let_def
  by (auto simp: connection_wp connected_state_def intro!: wp_trivial)

lemma disconnect_outcome:
  "wp (disconnect ops op keep)
     (\<lambda>s c'. state c' = settled_state op keep \<and> s = state c')
     (\<lambda>_ c'. state c' = blocked_error_state op) c"
  unfolding disconnect_def by (auto simp: connection_wp intro!: wp_trivial)

lemma audit_outcome:
  "wp (audit_runtime ops)
     (\<lambda>s c'. s = state c' \<and> (state c' = state c
         \<or> phase (state c) = Connected \<and> (\<exists>b. state c' = settled_state (operation_id (state c)) b)))
     (\<lambda>_ c'. phase (state c) = Connected
         \<and> state c' \<in> {state c, blocked_error_state (operation_id (state c))}) c"
  unfolding audit_runtime_def by (auto simp: connection_wp intro!: wp_trivial)


section \<open>Every reachable state\<close>

text \<open>
  The operations the service runs on its controller, in any order and with any arguments,
  interleaved with changes of the machine under the backend.
\<close>

inductive ctl_step :: "'b backend_ops \<Rightarrow> 'b controller \<Rightarrow> 'b controller \<Rightarrow> bool" for ops where
  step_connect: "connect ops op r c = (res, c') \<Longrightarrow> ctl_step ops c c'"
| step_disconnect: "disconnect ops op keep c = (res, c') \<Longrightarrow> ctl_step ops c c'"
| step_audit: "audit_runtime ops c = (res, c') \<Longrightarrow> ctl_step ops c c'"
| step_force_blocked: "ctl_step ops c (force_blocked op c)"
| step_force_disconnected: "ctl_step ops c (force_disconnected op c)"
| step_environment: "ctl_step ops c (c\<lparr>backend := b\<rparr>)"

inductive ctl_reachable :: "'b backend_ops \<Rightarrow> 'b controller \<Rightarrow> bool" for ops where
  start_disconnected: "ctl_reachable ops (disconnected b)"
| start_connected: "ctl_reachable ops (connected b)"
| reach_step: "ctl_reachable ops c \<Longrightarrow> ctl_step ops c c' \<Longrightarrow> ctl_reachable ops c'"

inductive_cases ctl_stepE: "ctl_step ops c c'"

lemma connect_consistent:
  "consistent (state c) \<Longrightarrow> connect ops op r c = (res, c') \<Longrightarrow> consistent (state c')"
  using connect_outcome [of ops op r c]
  by (cases res) (auto dest: wp_OkD wp_ErrD)

lemma disconnect_consistent:
  "disconnect ops op keep c = (res, c') \<Longrightarrow> consistent (state c')"
  using disconnect_outcome [of ops op keep c] by (cases res) (auto dest: wp_OkD wp_ErrD)

lemma audit_consistent:
  "consistent (state c) \<Longrightarrow> audit_runtime ops c = (res, c') \<Longrightarrow> consistent (state c')"
  using audit_outcome [of ops c] by (cases res) (fastforce dest: wp_OkD wp_ErrD)+

lemma ctl_step_consistent:
  "ctl_step ops c c' \<Longrightarrow> consistent (state c) \<Longrightarrow> consistent (state c')"
  by (erule ctl_stepE)
     (auto simp: force_blocked_def force_disconnected_def
       intro: connect_consistent disconnect_consistent audit_consistent)

section \<open>The order of effects\<close>

text \<open>A backend that logs each call with whether it succeeded, around any backend.\<close>

datatype backend_effect =
    Validate
  | InstallHold
  | VerifyHold
  | StopActive
  | StartCandidate
  | VerifyCandidate
  | CommitPolicy
  | ReleaseHold
  | RestorePrevious
  | ClearNetwork bool
  | AuditActive

type_synonym effect_log = "(backend_effect \<times> bool) list"

definition logged :: "backend_effect \<Rightarrow> ('b, 'e, 'a) prog \<Rightarrow> ('b \<times> effect_log, 'e, 'a) prog" where
  "logged x m = (\<lambda>(b, log). case m b of (r, b') \<Rightarrow> (r, (b', log @ [(x, is_ok r)])))"

definition logging :: "'b backend_ops \<Rightarrow> ('b \<times> effect_log) backend_ops" where
  "logging ops = \<lparr>
     set_operation_id = (\<lambda>n (b, log). (set_operation_id ops n b, log)),
     validate_candidate = (\<lambda>r. logged Validate (validate_candidate ops r)),
     install_transition_hold = logged InstallHold (install_transition_hold ops),
     verify_transition_hold = logged VerifyHold (verify_transition_hold ops),
     stop_active = logged StopActive (stop_active ops),
     start_candidate = (\<lambda>r. logged StartCandidate (start_candidate ops r)),
     verify_candidate = (\<lambda>r. logged VerifyCandidate (verify_candidate ops r)),
     commit_policy = (\<lambda>r. logged CommitPolicy (commit_policy ops r)),
     release_transition_hold = logged ReleaseHold (release_transition_hold ops),
     restore_previous = logged RestorePrevious (restore_previous ops),
     clear_network_state = (\<lambda>k. logged (ClearNetwork k) (clear_network_state ops k)),
     active_is_running = logged AuditActive (active_is_running ops),
     unexpected_failure_keep_blocked = (\<lambda>(b, log). unexpected_failure_keep_blocked ops b)\<rparr>"

lemma wp_logged [wp_simps]:
  "wp (logged x m) Q E bl =
     wp m (\<lambda>a b. Q a (b, snd bl @ [(x, True)])) (\<lambda>e b. E e (b, snd bl @ [(x, False)])) (fst bl)"
  by (cases bl) (auto simp: wp_def logged_def split: prod.splits sum.splits)

text \<open>The stages of a connection attempt, and what may follow the failure of one.\<close>

definition connect_stages :: "bool \<Rightarrow> backend_effect list" where
  "connect_stages was_connected =
     [Validate, InstallHold, VerifyHold] @ (if was_connected then [StopActive] else [])
       @ [StartCandidate, VerifyCandidate, CommitPolicy, ReleaseHold]"

fun recovery_log :: "bool \<Rightarrow> bool \<Rightarrow> backend_effect \<Rightarrow> effect_log \<Rightarrow> bool" where
  "recovery_log was ks VerifyHold log = (map fst log = [ReleaseHold])"
| "recovery_log was ks x log =
     (if x \<in> {StartCandidate, VerifyCandidate, CommitPolicy}
      then if was
           then log = [(RestorePrevious, False)] \<or> map fst log = [RestorePrevious, ReleaseHold] \<and> snd (hd log)
           else map fst log = [ClearNetwork ks]
      else log = [])"

text \<open>
  The log of a failed attempt: the stages before the failing one all succeeded, in order,
  then the failing stage, then its recovery and nothing else.
\<close>

fun failed_log :: "bool \<Rightarrow> bool \<Rightarrow> backend_effect list \<Rightarrow> effect_log \<Rightarrow> bool" where
  "failed_log was ks [] log = False"
| "failed_log was ks (x # xs) [] = False"
| "failed_log was ks (x # xs) ((y, ok) # log) =
     (y = x \<and> (if ok then failed_log was ks xs log else recovery_log was ks x log))"

lemma connect_log:
  assumes "snd (backend c) = []" and "was = (phase (state c) = Connected)"
  shows "wp (connect (logging ops) op r)
     (\<lambda>_ c'. snd (backend c') = map (\<lambda>y. (y, True)) (connect_stages was))
     (\<lambda>_ c'. failed_log was (killswitch r) (connect_stages was) (snd (backend c'))) c"
  using assms unfolding connect_def Let_def
  by (cases "backend c"; cases was)
     (simp_all add: connection_wp wp_logged logging_def connect_stages_def split_def)

section \<open>The fail-closed contract of a backend\<close>

text \<open>
  What the controller's kill-switch guarantees rest on. \<open>env\<close> stands for the laws of the
  operating system the backend needs. \<open>fallback b\<close>: the blocking routes are in place;
  \<open>opened b\<close>: none of them is; \<open>armed b\<close>: the active connection asked for the kill switch;
  \<open>pending b\<close>: the validated candidate did.
\<close>

lemma connect_success_run:
  "wp (connect ops op r)
     (\<lambda>_ c'. \<exists>b1 b2. commit_policy ops r b1 = (Ok (), b2)
          \<and> release_transition_hold ops b2 = (Ok (), backend c')) (\<lambda>_ _. True) c"
  unfolding connect_def Let_def
  by (simp add: connection_wp) (intro conjI impI wpI; simp; blast)

locale kill_switch_backend =
  fixes ops :: "'b backend_ops"
    and env :: bool
    and fallback :: "'b \<Rightarrow> bool"
    and opened :: "'b \<Rightarrow> bool"
    and armed :: "'b \<Rightarrow> bool"
    and pending :: "'b \<Rightarrow> bool"
  assumes validate_law: "hoare (\<lambda>_. True) (validate_candidate ops r) (\<lambda>_ b. pending b = killswitch r) (\<lambda>_ _. True)"
    and install_law: "env \<Longrightarrow> hoare (\<lambda>b. pending b = k) (install_transition_hold ops)
          (\<lambda>_ b. pending b = k \<and> (k \<longrightarrow> fallback b)) (\<lambda>_ _. True)"
    and verify_law: "env \<Longrightarrow> keeps fallback (verify_transition_hold ops)"
    and stop_law: "env \<Longrightarrow> keeps fallback (stop_active ops)"
    and start_law: "env \<Longrightarrow> keeps fallback (start_candidate ops r)"
    and check_law: "env \<Longrightarrow> keeps fallback (verify_candidate ops r)"
    and commit_keeps: "env \<Longrightarrow> keeps fallback (commit_policy ops r)"
    and commit_law: "hoare (\<lambda>_. True) (commit_policy ops r) (\<lambda>_ b. armed b = killswitch r) (\<lambda>_ _. True)"
    and release_law: "env \<Longrightarrow> hoare (\<lambda>b. armed b = k) (release_transition_hold ops)
          (\<lambda>_ b. armed b = k \<and> (if k then fallback b else opened b)) (\<lambda>_ _. True)"
    and clear_law: "env \<Longrightarrow> hoare (\<lambda>_. True) (clear_network_state ops k)
          (\<lambda>_ b. if k then fallback b else opened b) (\<lambda>_ _. True)"
    and failure_law: "unexpected_failure_keep_blocked ops b = armed b"
begin

text \<open>A successful connection leaves the routes its kill switch asks for.\<close>

lemma connect_routes:
  assumes env
  shows "wp (connect ops op r)
     (\<lambda>_ c'. armed (backend c') = killswitch r
          \<and> (if killswitch r then fallback (backend c') else opened (backend c')))
     (\<lambda>_ _. True) c"
proof (rule wp_mono [OF connect_success_run])
  fix c' :: "'b controller"
  assume "\<exists>b1 b2. commit_policy ops r b1 = (Ok (), b2)
      \<and> release_transition_hold ops b2 = (Ok (), backend c')"
  then obtain b1 b2 where run: "commit_policy ops r b1 = (Ok (), b2)"
    "release_transition_hold ops b2 = (Ok (), backend c')" by blast
  have "armed b2 = killswitch r" using hoare_OkD [OF commit_law _ run(1)] by simp
  from hoare_OkD [OF release_law [OF assms] this run(2)]
  show "armed (backend c') = killswitch r
      \<and> (if killswitch r then fallback (backend c') else opened (backend c'))" .
qed simp

lemma disconnect_routes:
  assumes env
  shows "wp (disconnect ops op keep)
     (\<lambda>_ c'. if keep then fallback (backend c') else opened (backend c')) (\<lambda>_ _. True) c"
  unfolding disconnect_def
  by (auto simp: connection_wp intro!: hoare_wp [OF clear_law [OF assms, of keep]])

text \<open>After a crash of the core, the audit closes the network exactly when it was armed.\<close>

lemma audit_routes:
  assumes env and "phase (state c) = Connected"
  shows "wp (audit_runtime ops)
     (\<lambda>s c'. (s = state c \<and> phase s = Connected)
           \<or> (if network_blocked s then fallback (backend c') else opened (backend c')))
     (\<lambda>_ _. True) c"
proof -
  have clear: "wp (clear_network_state ops k) (\<lambda>_ b'. if k then fallback b' else opened b') (\<lambda>_ _. True) b"
    for k b
    by (intro hoareD [OF clear_law [OF assms(1)]]) simp
  show ?thesis
    unfolding audit_runtime_def
    by (auto simp: connection_wp settled_state_def assms(2)
        intro!: wp_trivial [where m = "active_is_running ops"] wp_mono [OF clear])
qed

text \<open>A failed attempt that started from no connection reports the routes truthfully.\<close>

lemma recover_routes:
  assumes env
  shows "wp (recover_candidate_failure ops op False ks prev)
     (\<lambda>_ c'. network_blocked (state c') = ks
          \<and> (if ks then fallback (backend c') else opened (backend c')))
     (\<lambda>_ _. True) c"
  using clear_law [OF assms, of ks]
  by (auto simp: connection_wp settled_state_def hoare_def split: if_splits)

text \<open>
  From the moment the hold of a kill-switch candidate is installed until it is released,
  no stage opens the network: whatever it returns, the fallback routes stay.
\<close>

lemma stages_stay_closed:
  assumes env and "fallback b"
  shows "fallback (snd (verify_transition_hold ops b))"
    and "fallback (snd (stop_active ops b))"
    and "fallback (snd (start_candidate ops r b))"
    and "fallback (snd (verify_candidate ops r b))"
    and "fallback (snd (commit_policy ops r b))"
  using verify_law stop_law start_law check_law commit_keeps assms by (simp_all add: keeps_def)

end

section \<open>Properties\<close>

text \<open>
  What \<open>connect\<close> returns and leaves: on success the connected state of the request; on
  an error the previous state, \<open>BlockedError\<close>, or, when nothing was connected before, the
  state the request's kill switch asks for.
\<close>

theorem connect_result:
  "case connect ops op r c of
     (Ok s, c') \<Rightarrow> s = state c' \<and> phase s = Connected \<and> operation_id s = op
        \<and> (split_active s \<longleftrightarrow> excluded_apps r \<noteq> []) \<and> dns_protected s \<and> \<not> network_blocked s
   | (Err e, c') \<Rightarrow> state c' = state c \<or> state c' = blocked_error_state op
        \<or> phase (state c) \<noteq> Connected \<and> state c' = settled_state op (killswitch r)"
  using connect_outcome [of ops op r c]
  by (auto simp: wp_def connected_state_def split: prod.splits sum.splits)

text \<open>
  C7: in every state the service can reach, whatever the backend does and in whatever order
  operations run, the phase is settled and the flags agree with it: DNS is reported as
  protected exactly when connected, the network as blocked exactly in the blocked phases.
\<close>

theorem reachable_consistent:
  assumes "ctl_reachable ops c"
  shows "phase (state c) \<in> {Disconnected, Connected, Blocked, BlockedError}
     \<and> (dns_protected (state c) \<longleftrightarrow> phase (state c) = Connected)
     \<and> (network_blocked (state c) \<longleftrightarrow> phase (state c) \<in> {Blocked, BlockedError})"
proof -
  from assms have "consistent (state c)"
  proof induction
    case (reach_step c c')
    then show ?case by (blast intro: ctl_step_consistent)
  qed (simp_all add: disconnected_def connected_def consistent_def disconnected_state_def)
  then show ?thesis by (simp add: consistent_def)
qed

text \<open>A backend where starting the candidate fails.\<close>

definition failing_ops :: "unit backend_ops" where
  "failing_ops = \<lparr>set_operation_id = (\<lambda>n b. b), validate_candidate = (\<lambda>r. sret ()),
     install_transition_hold = sret (), verify_transition_hold = sret (), stop_active = sret (),
     start_candidate = (\<lambda>r. sfail (service_error_new XrayStartFailed ''x'')),
     verify_candidate = (\<lambda>r. sret ()), commit_policy = (\<lambda>r. sret ()),
     release_transition_hold = sret (), restore_previous = sret (),
     clear_network_state = (\<lambda>k. sret ()), active_is_running = sret True,
     unexpected_failure_keep_blocked = (\<lambda>b. True)\<rparr>"

definition sample_connect :: connect_request where
  "sample_connect = \<lparr>xray_version = ''26.3.27'', xray_config = ''b'', validation_config = ''a'',
     server_endpoints = [SocketV4 0x05060708 443], excluded_apps = [], apps_selective = False,
     killswitch = True, allow_lan = False\<rparr>"

lemma reachable_consistent_witness:
  "let c = snd (connect failing_ops 4 sample_connect (disconnected ())) in
   phase (state c) \<in> {Disconnected, Connected, Blocked, BlockedError}
     \<and> (dns_protected (state c) \<longleftrightarrow> phase (state c) = Connected)
     \<and> (network_blocked (state c) \<longleftrightarrow> phase (state c) \<in> {Blocked, BlockedError})"
  unfolding Let_def
proof (rule reachable_consistent)
  obtain res c' where run: "connect failing_ops 4 sample_connect (disconnected ()) = (res, c')"
    by (cases "connect failing_ops 4 sample_connect (disconnected ())")
  from reach_step [OF start_disconnected step_connect [OF run]]
  show "ctl_reachable failing_ops (snd (connect failing_ops 4 sample_connect (disconnected ())))"
    using run by simp
qed

text \<open>
  C6: a connection calls its backend in one fixed order: validation, hold, its verification,
  the stop of the old core if there is one, start, check, commit, release. On success every
  stage has run and succeeded; on an error the log is the stages before the failing one, the
  failing one, and then exactly the recovery that stage prescribes.
\<close>

theorem connect_order:
  assumes "snd (backend c) = []"
  shows "case connect (logging ops) op r c of
     (Ok s, c') \<Rightarrow> snd (backend c') = map (\<lambda>y. (y, True)) (connect_stages (phase (state c) = Connected))
   | (Err e, c') \<Rightarrow> failed_log (phase (state c) = Connected) (killswitch r)
        (connect_stages (phase (state c) = Connected)) (snd (backend c'))"
  using connect_log [OF assms refl, of ops op r]
  by (simp add: wp_def split: prod.splits sum.splits)

lemma connect_order_witness:
  "case connect (logging failing_ops) 4 sample_connect (disconnected ((), [])) of
     (Ok s, c') \<Rightarrow> snd (backend c') = map (\<lambda>y. (y, True))
        (connect_stages (phase (state (disconnected ((), []) :: (unit \<times> effect_log) controller)) = Connected))
   | (Err e, c') \<Rightarrow> failed_log
        (phase (state (disconnected ((), []) :: (unit \<times> effect_log) controller)) = Connected)
        (killswitch sample_connect)
        (connect_stages (phase (state (disconnected ((), []) :: (unit \<times> effect_log) controller)) = Connected))
        (snd (backend c'))"
  by (rule connect_order) (simp add: disconnected_def)

end
