(* ===== verification/Backend.thy ===== *)
theory Backend
  imports Windows_Process Routes Core_Manager Controller
begin

text \<open>
  \<open>service/src/windows_backend.rs\<close>: the implementation of the controller's backend on
  Windows, every operation of it, composed of the routes, the process, the adapters, the core
  versions and the journal. The kill-switch contract of the controller is interpreted on it.
\<close>

text \<open>The code that is not the service's own: Windows and the serialisers.\<close>

record 'x system =
  os :: "'x platform"
  js :: json_text
  states :: state_serde
  routes :: route_serde

record 'x windows_backend =
  machine :: "'x world"
  wb_layout :: runtime_layout
  active :: "managed_xray option"
  active_request :: "connect_request option"
  previous_request :: "connect_request option"
  candidate_request :: "connect_request option"
  prepared_candidate :: "prepared_config option"
  active_interface :: "string option"
  previous_interface :: "string option"
  candidate_interface :: "string option"
  pending_operation_id :: u64

type_synonym ('x, 'e, 'a) backend_prog = "('x windows_backend, 'e, 'a) prog"

definition on_machine :: "('x world, 'e, 'a) prog \<Rightarrow> ('x, 'e, 'a) backend_prog" where
  "on_machine m = szoom machine (\<lambda>w b. b\<lparr>machine := w\<rparr>) m"

text \<open>\<open>map_err(|error| service_error(code, error))\<close>\<close>

definition service_io :: "service_error_code \<Rightarrow> ('s, io_error, 'a) prog \<Rightarrow> ('s, service_error, 'a) prog" where
  "service_io code m = smap_err (\<lambda>e. service_error_new code (io_message e)) m"

definition service_text :: "service_error_code \<Rightarrow> string + 'a \<Rightarrow> ('s, service_error, 'a) prog" where
  "service_text code r = slift (map_err (service_error_new code) r)"

definition wants_killswitch :: "connect_request option \<Rightarrow> bool" where
  "wants_killswitch r \<longleftrightarrow> (\<exists>q. r = Some q \<and> killswitch q)"

lemma wants_killswitch_code [code, simp]:
  "wants_killswitch None = False" "wants_killswitch (Some q) = killswitch q"
  by (simp_all add: wants_killswitch_def)

section \<open>Opening\<close>

definition backend_open ::
  "io_error + string \<Rightarrow> string option \<Rightarrow> ('x world, io_error, 'x windows_backend) prog" where
  "backend_open current_exe program_data =
     sbind (slift (service_layout current_exe program_data)) (\<lambda>l.
     sseq (on_disk (ensure_state_directory l))
     (sbind (sgets (\<lambda>w. w)) (\<lambda>w.
     sret \<lparr>machine = w, wb_layout = l, active = None, active_request = None, previous_request = None,
          candidate_request = None, prepared_candidate = None, active_interface = None,
          previous_interface = None, candidate_interface = None, pending_operation_id = 0\<rparr>)))"

section \<open>The shared steps\<close>

definition layout_for_core :: "string \<Rightarrow> ('x, service_error, runtime_layout) backend_prog" where
  "layout_for_core version =
     sbind (sgets wb_layout) (\<lambda>l.
     smap_err (service_error_new ValidationFailed) (on_machine (on_disk (core_runtime_layout l version))))"

definition persist :: "'x system \<Rightarrow> desired_state_record \<Rightarrow> ('x, io_error, unit) backend_prog" where
  "persist Y r = sbind (sgets wb_layout) (\<lambda>l. on_machine (persist_desired_state (os Y) (states Y) l r))"

definition stop_process :: "'x system \<Rightarrow> ('x, io_error, unit) backend_prog" where
  "stop_process Y =
     sbind (sgets active) (\<lambda>process. case process of
       None \<Rightarrow> sret ()
     | Some m \<Rightarrow>
         sseq (smodify (\<lambda>b. b\<lparr>active := None\<rparr>))
         (on_machine (on_ext (sfinally (stop_xray (os Y) m) (drop_xray (os Y) m)))))"

fun candidate_loop :: "'x system \<Rightarrow> nat \<Rightarrow> bool \<Rightarrow> ('x, io_error, adapter_info) backend_prog" where
  "candidate_loop Y 0 network_configured =
     sfail (io_new TimedOut ''Varmlen TUN adapter did not become ready with IPv4, IPv6 and DNS'')"
| "candidate_loop Y (Suc n) network_configured =
     sbind (sgets active) (\<lambda>process.
     sbind (slift (ok_or (io_other ''Xray process was not started'') process)) (\<lambda>m.
     sbind (on_machine (on_ext (is_running (os Y) m))) (\<lambda>running.
     if \<not> running then sfail (io_other ''Xray exited during startup'')
     else
       sbind (on_machine (on_ext (find_varmlen_adapter (os Y)))) (\<lambda>found. case found of
         None \<Rightarrow>
           sseq (on_machine (ext_modify (sleep_ms (os Y) 100))) (candidate_loop Y n network_configured)
       | Some adapter \<Rightarrow>
           sseq (if network_configured then sret ()
                 else on_machine (on_ext (configure_stable_tun_network (os Y))))
           (if has_ipv4 adapter \<and> has_ipv6 adapter \<and> 0 < dns_count adapter then sret adapter
            else sseq (on_machine (ext_modify (sleep_ms (os Y) 100))) (candidate_loop Y n True))))))"

definition wait_for_candidate :: "'x system \<Rightarrow> ('x, io_error, adapter_info) backend_prog" where
  "wait_for_candidate Y = candidate_loop Y 100 False"

text \<open>The TCP probe's source: the address part of the tunnel's gateway.\<close>

definition probe_source :: "io_error + 32 word" where
  "probe_source =
     (let address = (case split_once [CHR ''/''] TUN_IPV4_GATEWAY of
          Some (a, _) \<Rightarrow> a | None \<Rightarrow> TUN_IPV4_GATEWAY) in
      ok_or (io_other ''invalid TUN probe address: invalid IP address syntax'') (parse_ipv4 address))"

fun dns_loop :: "'x platform \<Rightarrow> nat \<Rightarrow> string option \<Rightarrow> ('x, io_error, unit) prog" where
  "dns_loop P 0 last_error =
     sfail (io_new TimedOut (''DNS health check failed after adapter startup: ''
       @ (case last_error of Some e \<Rightarrow> e | None \<Rightarrow> ''unknown DNS error'')))"
| "dns_loop P (Suc n) last_error =
     sbind (sattempt (lookup_within P 6000 ''mullvad.net'')) (\<lambda>r. case r of
       Ok None \<Rightarrow> sseq (smodify (sleep_ms P 350)) (dns_loop P n (Some ''DNS query timed out''))
     | Ok (Some []) \<Rightarrow> sseq (smodify (sleep_ms P 350)) (dns_loop P n (Some ''DNS returned no addresses''))
     | Ok (Some (address # rest)) \<Rightarrow> sret ()
     | Err e \<Rightarrow> sseq (smodify (sleep_ms P 350)) (dns_loop P n (Some (io_message e))))"

definition connected_health_check :: "'x platform \<Rightarrow> ('x, io_error, unit) prog" where
  "connected_health_check P =
     sbind (slift probe_source) (\<lambda>source.
     sseq (smap_err (\<lambda>e. io_new (io_kind e) (''Varmlen TUN address '' @ ipv4_text source
         @ '' did not become bindable: '' @ io_message e))
       (retry_address_not_ready (sleep_ms P 100) (bind_tun P source) 100))
     (sbind (connect_within P 5000 (SocketV4 0x01010101 443)) (\<lambda>r. case r of
       None \<Rightarrow> sfail (io_new TimedOut ''TUN-bound TCP health check timed out'')
     | Some _ \<Rightarrow> dns_loop P 3 None)))"

section \<open>The operations\<close>

definition check_excluded_apps :: "app_selector list \<Rightarrow> ('x, service_error, unit) backend_prog" where
  "check_excluded_apps apps = sfor_each (\<lambda>app.
     let path = canonical_path app;
         missing = sfail (service_error_new ValidationFailed
           (''excluded application does not exist or is not absolute: '' @ path))
     in if \<not> path_is_absolute path then missing
        else sbind (on_machine (on_disk (fs_is_file path))) (\<lambda>exists.
          if \<not> exists then missing else sret ())) apps"

definition physical_interface ::
  "'x system \<Rightarrow> service_error_code \<Rightarrow> string option \<Rightarrow> socket_addr list \<Rightarrow> ('x, service_error, string) backend_prog" where
  "physical_interface Y code known endpoints = (case known of
       Some interface \<Rightarrow> sret interface
     | None \<Rightarrow> service_io code (on_machine (on_ext (best_outbound_interface_name (os Y) endpoints))))"

definition wb_validate_candidate ::
  "'x system \<Rightarrow> connect_request \<Rightarrow> ('x, service_error, unit) backend_prog" where
  "wb_validate_candidate Y request =
     sseq (service_text ValidationFailed (inspect_native_tun_config (js Y) (xray_config request)))
     (sseq (service_text ValidationFailed (inspect_validation_config (js Y) (validation_config request)))
     (sseq (check_excluded_apps (excluded_apps request))
     (sbind (layout_for_core (xray_version request)) (\<lambda>core_layout.
     sseq (service_io ValidationFailed
       (on_machine (validate_config (os Y) (js Y) core_layout (validation_config request))))
     (sbind (sgets active_interface) (\<lambda>known.
     sbind (physical_interface Y ValidationFailed known (server_endpoints request)) (\<lambda>interface.
     sbind (service_text ValidationFailed
       (rewrite_native_outbound_interface (js Y) (xray_config request) interface)) (\<lambda>effective_config.
     sbind (service_io ValidationFailed
       (on_machine (prepare_native_config (os Y) core_layout effective_config))) (\<lambda>prepared.
     smodify (\<lambda>b. b\<lparr>prepared_candidate := Some prepared, candidate_request := Some request,
       candidate_interface := Some interface\<rparr>))))))))))"

definition wb_install_transition_hold :: "'x system \<Rightarrow> ('x, service_error, unit) backend_prog" where
  "wb_install_transition_hold Y =
     sbind (sgets (\<lambda>b. (candidate_request b, active_request b, pending_operation_id b, wb_layout b)))
     (\<lambda>(wanted, current, op, l).
     sbind (slift (ok_or (service_error_new Internal ''candidate request missing before transition hold'')
       wanted)) (\<lambda>candidate.
     sseq (service_io Internal (persist Y (record_connecting op candidate current (killswitch candidate))))
     (if killswitch candidate \<or> wants_killswitch current
      then service_io HoldFailed (on_machine (install_killswitch_routes (os Y) (routes Y) l))
      else sret ())))"

definition wb_verify_transition_hold :: "'x system \<Rightarrow> ('x, service_error, unit) backend_prog" where
  "wb_verify_transition_hold Y =
     sbind (sgets (\<lambda>b. (wants_killswitch (candidate_request b) \<or> wants_killswitch (active_request b), wb_layout b)))
     (\<lambda>(required, l).
     if required
     then service_io HoldFailed (on_machine (verify_killswitch_routes (os Y) (routes Y) l True))
     else sret ())"

definition wb_stop_active :: "'x system \<Rightarrow> ('x, service_error, unit) backend_prog" where
  "wb_stop_active Y =
     sseq (smodify (\<lambda>b. b\<lparr>previous_request := active_request b, active_request := None,
       previous_interface := active_interface b, active_interface := None\<rparr>))
     (service_io XrayStartFailed (stop_process Y))"

text \<open>Assigning the running core drops the one that was there before.\<close>

definition set_active :: "'x system \<Rightarrow> managed_xray \<Rightarrow> ('x, 'e, unit) backend_prog" where
  "set_active Y m =
     sbind (sgets active) (\<lambda>old.
     sseq (case old of None \<Rightarrow> sret () | Some p \<Rightarrow> on_machine (ext_modify (drop_xray (os Y) p)))
     (smodify (\<lambda>b. b\<lparr>active := Some m\<rparr>)))"

definition wb_start_candidate ::
  "'x system \<Rightarrow> connect_request \<Rightarrow> ('x, service_error, unit) backend_prog" where
  "wb_start_candidate Y request =
     sbind (sgets prepared_candidate) (\<lambda>candidate.
     sbind (slift (ok_or (service_error_new ValidationFailed ''native candidate was not preflighted'')
       candidate)) (\<lambda>prepared.
     sbind (service_io XrayStartFailed (on_machine (start_prepared (os Y) prepared))) (set_active Y)))"

definition wb_verify_candidate ::
  "'x system \<Rightarrow> connect_request \<Rightarrow> ('x, service_error, unit) backend_prog" where
  "wb_verify_candidate Y request =
     service_io HealthCheckFailed (sseq (wait_for_candidate Y) (sret ()))"

definition wb_commit_policy ::
  "'x system \<Rightarrow> connect_request \<Rightarrow> ('x, service_error, unit) backend_prog" where
  "wb_commit_policy Y request =
     sbind (service_io HealthCheckFailed (on_machine (on_ext (find_varmlen_adapter (os Y))))) (\<lambda>found.
     sseq (slift (ok_or (service_error_new HealthCheckFailed
       ''Varmlen TUN adapter disappeared before policy commit'') found))
     (sseq (service_io HealthCheckFailed (on_machine (on_ext (connected_health_check (os Y)))))
     (sbind (sgets (\<lambda>b. (prepared_candidate b, pending_operation_id b))) (\<lambda>(candidate, op).
     sbind (slift (ok_or (service_error_new Internal ''candidate config missing'') candidate)) (\<lambda>prepared.
     sseq (service_io Internal (on_machine (on_disk (persist_active prepared))))
     (sseq (service_io Internal (persist Y (record_connected op request)))
     (smodify (\<lambda>b. b\<lparr>active_request := Some request, active_interface := candidate_interface b,
       previous_request := None, previous_interface := None, candidate_request := None,
       candidate_interface := None, prepared_candidate := None\<rparr>))))))))"

definition wb_release_transition_hold :: "'x system \<Rightarrow> ('x, service_error, unit) backend_prog" where
  "wb_release_transition_hold Y =
     sbind (sgets (\<lambda>b. (active_request b, wb_layout b))) (\<lambda>(current, l).
     if wants_killswitch current
     then service_io HoldFailed (on_machine (verify_killswitch_routes (os Y) (routes Y) l True))
     else service_io CleanupFailed (on_machine (remove_killswitch_routes (os Y) (routes Y) l)))"

definition wb_restore_previous :: "'x system \<Rightarrow> ('x, service_error, unit) backend_prog" where
  "wb_restore_previous Y =
     sseq (service_io RestoreFailed (stop_process Y))
     (sbind (sgets previous_request) (\<lambda>wanted.
     sseq (smodify (\<lambda>b. b\<lparr>previous_request := None\<rparr>))
     (sbind (slift (ok_or (service_error_new RestoreFailed ''there is no previous connection to restore'')
       wanted)) (\<lambda>previous.
     sbind (sgets previous_interface) (\<lambda>known.
     sseq (smodify (\<lambda>b. b\<lparr>previous_interface := None\<rparr>))
     (sbind (physical_interface Y RestoreFailed known (server_endpoints previous)) (\<lambda>interface.
     sbind (service_text RestoreFailed
       (rewrite_native_outbound_interface (js Y) (xray_config previous) interface)) (\<lambda>effective_config.
     sbind (smap_err (\<lambda>e. service_error_new RestoreFailed (err_message e))
       (layout_for_core (xray_version previous))) (\<lambda>core_layout.
     sseq (sbind (service_io RestoreFailed (on_machine (start_core (os Y) core_layout effective_config)))
       (set_active Y))
     (sseq (service_io RestoreFailed (wait_for_candidate Y))
     (sseq (service_io RestoreFailed (on_machine (on_ext (connected_health_check (os Y)))))
     (sbind (sgets pending_operation_id) (\<lambda>op.
     sseq (service_io RestoreFailed (persist Y (record_connected op previous)))
     (smodify (\<lambda>b. b\<lparr>active_request := Some previous, active_interface := Some interface,
       candidate_interface := None, candidate_request := None, prepared_candidate := None\<rparr>)))))))))))))))"

definition wb_clear_network_state ::
  "'x system \<Rightarrow> bool \<Rightarrow> ('x, service_error, unit) backend_prog" where
  "wb_clear_network_state Y keep_blocked =
     sbind (sgets (\<lambda>b. (pending_operation_id b, wb_layout b))) (\<lambda>(op, l).
     sseq (service_io CleanupFailed (persist Y (record_disconnecting op keep_blocked)))
     (sseq (service_io CleanupFailed (stop_process Y))
     (sseq (smodify (\<lambda>b. b\<lparr>active_request := None, previous_request := None, candidate_request := None,
        prepared_candidate := None, active_interface := None, previous_interface := None,
        candidate_interface := None\<rparr>))
     (if keep_blocked
      then sseq (service_io CleanupFailed (on_machine (install_killswitch_routes (os Y) (routes Y) l)))
        (service_io CleanupFailed (persist Y (record_blocked op ''kill switch requested while disconnected'')))
      else sseq (service_io CleanupFailed (on_machine (remove_killswitch_routes (os Y) (routes Y) l)))
        (service_io CleanupFailed (persist Y (record_disconnected op)))))))"

definition wb_active_is_running :: "'x system \<Rightarrow> ('x, service_error, bool) backend_prog" where
  "wb_active_is_running Y =
     sbind (sgets active) (\<lambda>process. case process of
       Some m \<Rightarrow> service_io Internal (on_machine (on_ext (is_running (os Y) m)))
     | None \<Rightarrow> sret False)"

definition wb_unexpected_failure_keep_blocked :: "'x windows_backend \<Rightarrow> bool" where
  "wb_unexpected_failure_keep_blocked b = wants_killswitch (active_request b)"

definition windows_ops :: "'x system \<Rightarrow> 'x windows_backend backend_ops" where
  "windows_ops Y = \<lparr>
     set_operation_id = (\<lambda>op b. b\<lparr>pending_operation_id := op\<rparr>),
     validate_candidate = wb_validate_candidate Y,
     install_transition_hold = wb_install_transition_hold Y,
     verify_transition_hold = wb_verify_transition_hold Y,
     stop_active = wb_stop_active Y,
     start_candidate = wb_start_candidate Y,
     verify_candidate = wb_verify_candidate Y,
     commit_policy = wb_commit_policy Y,
     release_transition_hold = wb_release_transition_hold Y,
     restore_previous = wb_restore_previous Y,
     clear_network_state = wb_clear_network_state Y,
     active_is_running = wb_active_is_running Y,
     unexpected_failure_keep_blocked = wb_unexpected_failure_keep_blocked\<rparr>"

section \<open>What each operation does to the routes\<close>

text \<open>
  The law of the machine for the kill switch: \<open>netsh\<close> does what its arguments say to the
  routes of the loopback interface, and no other call changes them.
\<close>

definition routes_law :: "'x platform \<Rightarrow> ('x \<Rightarrow> (string \<times> string) set) \<Rightarrow> bool" where
  "routes_law P rt \<longleftrightarrow> netsh_law P rt \<and> (\<forall>J. undisturbed P (\<lambda>x. J (rt x)))"

definition at_routes ::
  "('x \<Rightarrow> (string \<times> string) set) \<Rightarrow> ((string \<times> string) set \<Rightarrow> bool) \<Rightarrow> 'x windows_backend \<Rightarrow> bool" where
  "at_routes rt J b \<longleftrightarrow> J (rt (ext (machine b)))"

lemma routes_lawD:
  assumes "routes_law P rt"
  shows "netsh_law P rt" and "edits_routes P rt" and "undisturbed P (\<lambda>x. J (rt x))"
  using assms by (simp_all add: routes_law_def netsh_law_def)

lemma keeps_on_machine [hoare_rules]:
  "keeps (in_ext (\<lambda>x. J (rt x))) m \<Longrightarrow> keeps (at_routes rt J) (on_machine m)"
  by (auto simp: keeps_def on_machine_def szoom_def at_routes_def in_ext_def split: prod.splits)

lemma keeps_service_io [hoare_rules]: "keeps I m \<Longrightarrow> keeps I (service_io code m)"
  unfolding service_io_def by (intro hoare_rules)

lemma keeps_service_text [hoare_rules]: "keeps I (service_text code r)"
  unfolding service_text_def by (intro hoare_rules)

lemma at_routes_update [simp]:
  "at_routes rt J (b\<lparr>active := a\<rparr>) = at_routes rt J b"
  "at_routes rt J (b\<lparr>active_request := r\<rparr>) = at_routes rt J b"
  "at_routes rt J (b\<lparr>previous_request := r\<rparr>) = at_routes rt J b"
  "at_routes rt J (b\<lparr>candidate_request := r\<rparr>) = at_routes rt J b"
  "at_routes rt J (b\<lparr>prepared_candidate := p\<rparr>) = at_routes rt J b"
  "at_routes rt J (b\<lparr>active_interface := i\<rparr>) = at_routes rt J b"
  "at_routes rt J (b\<lparr>previous_interface := i\<rparr>) = at_routes rt J b"
  "at_routes rt J (b\<lparr>candidate_interface := i\<rparr>) = at_routes rt J b"
  "at_routes rt J (b\<lparr>pending_operation_id := n\<rparr>) = at_routes rt J b"
  by (simp_all add: at_routes_def)

lemma keeps_bookkeeping [hoare_rules]:
  "(\<And>b. machine (f b) = machine b) \<Longrightarrow> keeps (at_routes rt J) (smodify f)"
  by (simp add: keeps_def smodify_def at_routes_def)

lemma keeps_persist:
  assumes "routes_law (os Y) rt"
  shows "keeps (at_routes rt J) (persist Y r)"
proof -
  note und = routes_lawD(3) [OF assms, of J]
  have "keeps (in_ext (\<lambda>x. J (rt x))) (persist_desired_state (os Y) (states Y) l r)" for l
    unfolding persist_desired_state_def by (intro hoare_rules undisturbedD [OF und])
  then show ?thesis unfolding persist_def by (intro hoare_rules)
qed

lemma keeps_drop:
  assumes "undisturbed P I"
  shows "I x \<Longrightarrow> I (drop_xray P m x)"
  unfolding drop_xray_def by (intro undisturbedD [OF assms])

lemma keeps_stop_process:
  assumes "routes_law (os Y) rt"
  shows "keeps (at_routes rt J) (stop_process Y)"
proof -
  note und = routes_lawD(3) [OF assms, of J]
  show ?thesis
    unfolding stop_process_def
    by (intro hoare_rules keeps_stop_xray [OF und] keeps_drop [OF und]; simp)
qed

lemma keeps_candidate:
  assumes "routes_law (os Y) rt"
  shows "keeps (at_routes rt J) (wait_for_candidate Y)"
proof -
  note und = routes_lawD(3) [OF assms, of J]
  note rules = hoare_rules keeps_is_running [OF und] keeps_find_adapter [OF und]
    keeps_configure [OF routes_lawD(2) [OF assms]] undisturbedD [OF und]
  have "keeps (at_routes rt J) (candidate_loop Y n configured)" for n configured
    by (induction n arbitrary: configured) (simp_all only: candidate_loop.simps, (intro rules | assumption)+)
  then show ?thesis by (simp only: wait_for_candidate_def)
qed

lemma keeps_health:
  assumes "undisturbed P I"
  shows "keeps I (connected_health_check P)"
proof -
  have dns: "keeps I (dns_loop P n e)" for n e
    by (induction n arbitrary: e)
       (simp_all only: dns_loop.simps, (intro hoare_rules undisturbedD [OF assms] | assumption |
          rule keeps_case_sum keeps_case_option)+, auto split: list.split intro!: hoare_rules undisturbedD [OF assms])
  have "keeps I (retry_loop (sleep_ms P 100) (bind_tun P a) n)" for a n
  proof -
    have "I x \<Longrightarrow> I (snd (retry_loop (sleep_ms P 100) (bind_tun P a) n x))" for x
    proof (induction n arbitrary: x)
      case (Suc n)
      obtain r y where run: "bind_tun P a x = (r, y)" by (cases "bind_tun P a x")
      have "I y" using undisturbedD(20) [OF assms] Suc.prems run by (rule keepsD)
      then show ?case using Suc.IH undisturbedD(19) [OF assms] by (auto simp: run split: sum.split)
    qed simp
    then show ?thesis by (simp add: keeps_def)
  qed
  then have retry: "keeps I (retry_address_not_ready (sleep_ms P 100) (bind_tun P a) n)" for a n
    by (simp add: keeps_def retry_address_not_ready_def)
  show ?thesis
    unfolding connected_health_check_def
    by (intro hoare_rules retry undisturbedD [OF assms] dns)
qed

text \<open>A route assertion survives every operation that does not touch the kill switch itself.\<close>

lemma keeps_set_active:
  assumes "routes_law (os Y) rt"
  shows "keeps (at_routes rt J) (set_active Y m)"
  unfolding set_active_def
  by (intro hoare_rules keeps_drop [OF routes_lawD(3) [OF assms, of J]]; simp)

lemma keeps_verify_routes:
  assumes "routes_law P rt"
  shows "keeps (at_routes rt J) (on_machine (verify_killswitch_routes P rs l expected))"
  by (intro hoare_rules keeps_verify routes_lawD(1) [OF assms])

lemma keeps_operations:
  assumes law: "routes_law (os Y) rt"
  shows "keeps (at_routes rt J) (wb_verify_transition_hold Y)"
    and "keeps (at_routes rt J) (wb_stop_active Y)"
    and "keeps (at_routes rt J) (wb_start_candidate Y r)"
    and "keeps (at_routes rt J) (wb_verify_candidate Y r)"
    and "keeps (at_routes rt J) (wb_commit_policy Y r)"
    and "keeps (at_routes rt J) (wb_active_is_running Y)"
proof -
  note und = routes_lawD(3) [OF law, of J]
  show "keeps (at_routes rt J) (wb_verify_transition_hold Y)"
    unfolding wb_verify_transition_hold_def by (intro hoare_rules keeps_verify_routes [OF law])
  show "keeps (at_routes rt J) (wb_stop_active Y)"
    unfolding wb_stop_active_def by (intro hoare_rules keeps_stop_process [OF law]; simp)
  show "keeps (at_routes rt J) (wb_start_candidate Y r)"
    unfolding wb_start_candidate_def
    by (intro hoare_rules keeps_start(2) [OF und] keeps_set_active [OF law])
  show "keeps (at_routes rt J) (wb_verify_candidate Y r)"
    unfolding wb_verify_candidate_def by (intro hoare_rules keeps_candidate [OF law])
  show "keeps (at_routes rt J) (wb_commit_policy Y r)"
    unfolding wb_commit_policy_def
    by (intro hoare_rules keeps_find_adapter [OF und] keeps_health [OF und] keeps_persist [OF law]; simp)
  show "keeps (at_routes rt J) (wb_active_is_running Y)"
    unfolding wb_active_is_running_def by (intro hoare_rules keeps_is_running [OF und])
qed

lemma keeps_layout_for_core: "keeps (at_routes rt J) (layout_for_core v)"
  unfolding layout_for_core_def by (intro hoare_rules)

lemma keeps_physical_interface:
  assumes "routes_law (os Y) rt"
  shows "keeps (at_routes rt J) (physical_interface Y code known endpoints)"
  unfolding physical_interface_def
  by (intro hoare_rules keeps_best_interface [OF routes_lawD(3) [OF assms, of J]])

lemma keeps_validate_restore:
  assumes law: "routes_law (os Y) rt"
  shows "keeps (at_routes rt J) (wb_validate_candidate Y r)"
    and "keeps (at_routes rt J) (wb_restore_previous Y)"
proof -
  note und = routes_lawD(3) [OF law, of J]
  have apps: "keeps (at_routes rt J) (check_excluded_apps apps)" for apps
    unfolding check_excluded_apps_def Let_def by (intro hoare_rules)
  show "keeps (at_routes rt J) (wb_validate_candidate Y r)"
    unfolding wb_validate_candidate_def
    by (intro hoare_rules apps keeps_layout_for_core keeps_validate [OF und] keeps_prepare [OF und]
        keeps_physical_interface [OF law]; simp)
  show "keeps (at_routes rt J) (wb_restore_previous Y)"
    unfolding wb_restore_previous_def
    by (intro hoare_rules keeps_layout_for_core keeps_physical_interface [OF law] keeps_start(1) [OF und]
        keeps_stop_process [OF law] keeps_set_active [OF law] keeps_candidate [OF law]
        keeps_health [OF und] keeps_persist [OF law]; simp)
qed

section \<open>The kill-switch contract\<close>

definition backend_closed :: "('x \<Rightarrow> (string \<times> string) set) \<Rightarrow> 'x windows_backend \<Rightarrow> bool" where
  "backend_closed rt b \<longleftrightarrow> fallback_routes rt (machine b)"

definition backend_opened :: "('x \<Rightarrow> (string \<times> string) set) \<Rightarrow> 'x windows_backend \<Rightarrow> bool" where
  "backend_opened rt b \<longleftrightarrow> no_fallback_routes rt (machine b)"

lemma closed_at_routes: "backend_closed rt = at_routes rt (\<lambda>R. set default_routes \<subseteq> R)"
  by (simp add: fun_eq_iff backend_closed_def at_routes_def fallback_routes_def)

lemma opened_at_routes: "backend_opened rt = at_routes rt (\<lambda>R. set default_routes \<inter> R = {})"
  by (simp add: fun_eq_iff backend_opened_def at_routes_def no_fallback_routes_def)

lemma wp_on_machine [wp_simps]:
  "wp (on_machine m) Q E b = wp m (\<lambda>a w. Q a (b\<lparr>machine := w\<rparr>)) (\<lambda>e w. E e (b\<lparr>machine := w\<rparr>)) (machine b)"
  by (simp add: on_machine_def wp_simps)

lemma wp_service_io [wp_simps]:
  "wp (service_io code m) Q E b = wp m Q (\<lambda>e. E (service_error_new code (io_message e))) b"
  by (simp add: service_io_def wp_simps)

lemmas backend_wp = wp_simps wp_on_machine wp_service_io

lemma validate_pending:
  "wp (wb_validate_candidate Y r) (\<lambda>_ b. wants_killswitch (candidate_request b) = killswitch r) (\<lambda>_ _. True) b"
  unfolding wb_validate_candidate_def by (rule wp_final)+ (simp add: wp_simps)

lemma commit_armed:
  "wp (wb_commit_policy Y r) (\<lambda>_ b. wants_killswitch (active_request b) = killswitch r) (\<lambda>_ _. True) b"
  unfolding wb_commit_policy_def split_def by (rule wp_final)+ (simp add: wp_simps)

lemma wp_persist:
  assumes "\<And>w. Q () (b\<lparr>machine := w\<rparr>)" and "\<And>e w. E e (b\<lparr>machine := w\<rparr>)"
  shows "wp (persist Y r) Q E b"
  unfolding persist_def wp_sbind wp_sgets wp_on_machine by (rule wp_trivial) (simp_all add: assms)

lemma install_hold_closes:
  assumes "routes_law (os Y) rt" and "wants_killswitch (candidate_request b) = k"
  shows "wp (wb_install_transition_hold Y)
     (\<lambda>_ b'. wants_killswitch (candidate_request b') = k \<and> (k \<longrightarrow> backend_closed rt b')) (\<lambda>_ _. True) b"
proof (cases "candidate_request b")
  case None
  then show ?thesis by (simp add: wb_install_transition_hold_def wp_simps)
next
  case (Some q)
  have install: "wp (install_killswitch_routes (os Y) (routes Y) l) (\<lambda>_ w. fallback_routes rt w) (\<lambda>_ _. True) w"
    for l w by (rule install_outcome [OF routes_lawD(1) [OF assms(1)]])
  show ?thesis
    unfolding wb_install_transition_hold_def
    by (simp add: backend_wp Some)
       (intro conjI impI; rule wp_persist; use assms(2) in \<open>auto simp: Some backend_wp backend_closed_def intro!: wp_mono [OF install]\<close>)
qed

lemma release_decides:
  assumes "routes_law (os Y) rt" and "wants_killswitch (active_request b) = k"
  shows "wp (wb_release_transition_hold Y)
     (\<lambda>_ b'. wants_killswitch (active_request b') = k
        \<and> (if k then backend_closed rt b' else backend_opened rt b')) (\<lambda>_ _. True) b"
  unfolding wb_release_transition_hold_def
  using wp_mono [OF verify_outcome [OF routes_lawD(1) [OF assms(1)], of "routes Y" "wb_layout b" True "machine b"]]
    wp_mono [OF remove_outcome [OF routes_lawD(1) [OF assms(1)], of "routes Y" "wb_layout b" "machine b"]]
  by (cases k) (auto simp: backend_wp assms(2) backend_closed_def backend_opened_def)

lemma clear_decides:
  assumes law: "routes_law (os Y) rt"
  shows "wp (wb_clear_network_state Y k)
     (\<lambda>_ b'. if k then backend_closed rt b' else backend_opened rt b') (\<lambda>_ _. True) b"
proof -
  have closed: "wp (persist Y r) (\<lambda>_. backend_closed rt) (\<lambda>_ _. True) b" if "backend_closed rt b" for r b
    using keeps_persist [OF law, of "\<lambda>R. set default_routes \<subseteq> R"] that
    by (intro keeps_wp [where P = "backend_closed rt"]) (simp_all add: closed_at_routes)
  have opened: "wp (persist Y r) (\<lambda>_. backend_opened rt) (\<lambda>_ _. True) b" if "backend_opened rt b" for r b
    using keeps_persist [OF law, of "\<lambda>R. set default_routes \<inter> R = {}"] that
    by (intro keeps_wp [where P = "backend_opened rt"]) (simp_all add: opened_at_routes)
  have "wp (if k
      then sseq (service_io CleanupFailed (on_machine (install_killswitch_routes (os Y) (routes Y) l)))
        (service_io CleanupFailed (persist Y r))
      else sseq (service_io CleanupFailed (on_machine (remove_killswitch_routes (os Y) (routes Y) l)))
        (service_io CleanupFailed (persist Y s)))
     (\<lambda>_ b'. if k then backend_closed rt b' else backend_opened rt b') (\<lambda>_ _. True) b" for r s l b
    by (cases k; simp add: backend_wp)
       (rule wp_mono [OF install_outcome [OF routes_lawD(1) [OF law]]], rule closed,
        simp_all add: backend_closed_def,
        rule wp_mono [OF remove_outcome [OF routes_lawD(1) [OF law]]], rule opened,
        simp_all add: backend_opened_def)
  note decide = this
  show ?thesis
    unfolding wb_clear_network_state_def split_def by (rule wp_final)+ (rule decide)
qed

text \<open>
  The contract, on the Windows backend: the environment is the law of the routes, \<open>fallback\<close>
  that the split-default routes are on the loopback interface, and a connection is armed when
  its request asked for the kill switch.
\<close>

interpretation wb: kill_switch_backend "windows_ops Y" "routes_law (os Y) rt"
  "backend_closed rt" "backend_opened rt" "\<lambda>b. wants_killswitch (active_request b)"
  "\<lambda>b. wants_killswitch (candidate_request b)" for Y :: "'x system" and rt
proof unfold_locales
  show "hoare (\<lambda>_. True) (validate_candidate (windows_ops Y) r)
      (\<lambda>_ b. wants_killswitch (candidate_request b) = killswitch r) (\<lambda>_ _. True)" for r
    by (intro hoareI) (simp add: windows_ops_def validate_pending)
  show "hoare (\<lambda>_. True) (commit_policy (windows_ops Y) r)
      (\<lambda>_ b. wants_killswitch (active_request b) = killswitch r) (\<lambda>_ _. True)" for r
    by (intro hoareI) (simp add: windows_ops_def commit_armed)
  show "unexpected_failure_keep_blocked (windows_ops Y) b = wants_killswitch (active_request b)" for b
    by (simp add: windows_ops_def wb_unexpected_failure_keep_blocked_def)
next
  assume law: "routes_law (os Y) rt"
  show "hoare (\<lambda>b. wants_killswitch (candidate_request b) = k) (install_transition_hold (windows_ops Y))
      (\<lambda>_ b. wants_killswitch (candidate_request b) = k \<and> (k \<longrightarrow> backend_closed rt b)) (\<lambda>_ _. True)" for k
    by (intro hoareI) (simp add: windows_ops_def install_hold_closes [OF law])
  show "hoare (\<lambda>b. wants_killswitch (active_request b) = k) (release_transition_hold (windows_ops Y))
      (\<lambda>_ b. wants_killswitch (active_request b) = k
         \<and> (if k then backend_closed rt b else backend_opened rt b)) (\<lambda>_ _. True)" for k
    by (intro hoareI) (simp only: windows_ops_def backend_ops.simps release_decides [OF law])
  show "hoare (\<lambda>_. True) (clear_network_state (windows_ops Y) k)
      (\<lambda>_ b. if k then backend_closed rt b else backend_opened rt b) (\<lambda>_ _. True)" for k
    by (intro hoareI) (simp only: windows_ops_def backend_ops.simps clear_decides [OF law])
qed (simp_all add: windows_ops_def closed_at_routes keeps_operations)

section \<open>A hold that fails while blocked\<close>

text \<open>The stages before the old tunnel goes down leave the active request alone.\<close>

definition no_active :: "'x windows_backend \<Rightarrow> bool" where
  "no_active b \<longleftrightarrow> active_request b = None"

lemma no_active_machine [hoare_rules]: "keeps no_active (on_machine m)"
  by (auto simp: keeps_def on_machine_def szoom_def no_active_def split: prod.splits)

lemma no_active_modify [hoare_rules]:
  "(\<And>b. active_request (f b) = active_request b) \<Longrightarrow> keeps no_active (smodify f)"
  by (simp add: keeps_def smodify_def no_active_def)

lemma no_active_stages:
  "keeps no_active (wb_validate_candidate Y r)"
  "keeps no_active (wb_install_transition_hold Y)"
  "keeps no_active (wb_verify_transition_hold Y)"
proof -
  have "keeps no_active (check_excluded_apps apps)" for apps
    unfolding check_excluded_apps_def Let_def by (intro hoare_rules)
  then show "keeps no_active (wb_validate_candidate Y r)"
    unfolding wb_validate_candidate_def layout_for_core_def physical_interface_def
    by (intro hoare_rules; simp)
  show "keeps no_active (wb_install_transition_hold Y)" "keeps no_active (wb_verify_transition_hold Y)"
    unfolding wb_install_transition_hold_def wb_verify_transition_hold_def persist_def
    by (intro hoare_rules)+
qed

lemma release_opens:
  assumes "routes_law (os Y) rt" and "no_active b"
  shows "wp (wb_release_transition_hold Y) (\<lambda>_ b'. backend_opened rt b') (\<lambda>_ _. True) b"
  using assms(2) by (intro wp_mono [OF release_decides [OF assms(1), where k = False]]) (simp_all add: no_active_def)

lemma blocked_hold_failure:
  assumes law: "routes_law (os Y) rt" and "no_active (fst (backend c))" and "snd (backend c) = []"
    and "phase (state c) = Blocked"
  shows "wp (connect (logging (windows_ops Y)) op r) (\<lambda>_ _. True)
     (\<lambda>_ c'. snd (backend c') = [(Validate, True), (InstallHold, True), (VerifyHold, False), (ReleaseHold, True)]
        \<longrightarrow> state c' = state c \<and> backend_opened rt (fst (backend c'))) c"
proof -
  obtain b where b: "backend c = (b, [])" "no_active b" using assms(2,3) by (cases "backend c") simp
  define b0 where "b0 = b\<lparr>pending_operation_id := op\<rparr>"
  have b0: "no_active b0" using b(2) by (simp add: b0_def no_active_def)
  have release: "wp (wb_release_transition_hold Y) (\<lambda>_ b'. backend_opened rt b') (\<lambda>_ _. True) b'"
    if "no_active b'" for b' by (rule release_opens [OF law that])
  note stage = keeps_wp [OF no_active_stages(1) [of Y r] b0]
  show ?thesis
    unfolding connect_def Let_def
    using assms(4)
    apply (simp add: connection_wp wp_logged logging_def b windows_ops_def b0_def [symmetric])
    apply (rule keeps_wp [OF no_active_stages(1) b0]; simp add: connection_wp wp_logged)
    apply (rule keeps_wp [OF no_active_stages(2)], assumption; simp add: connection_wp wp_logged)
    apply (rule keeps_wp [OF no_active_stages(3)], assumption; simp add: connection_wp wp_logged)
    apply (rule wp_mono [OF release], assumption; simp)
    done
qed

section \<open>A service for concrete runs\<close>

definition demo_system :: "bench system" where
  "demo_system = \<lparr>os = bench_platform bench_netsh, js = port_documents,
     states = sample_state_serde\<lparr>record_to_vec := (\<lambda>r. Ok [1, 2])\<rparr>, routes = json_routes\<rparr>"

definition demo_request :: "bool \<Rightarrow> connect_request" where
  "demo_request ks = \<lparr>xray_version = ''26.3.27'', xray_config = ''b'',
     validation_config = ''a'', server_endpoints = [SocketV4 0x05060708 443],
     excluded_apps = [], apps_selective = False, killswitch = ks, allow_lan = False\<rparr>"

definition demo_backend :: "bench windows_backend" where
  "demo_backend = \<lparr>machine = blocked_world, wb_layout = sample_layout,
     active = None, active_request = None, previous_request = None, candidate_request = None,
     prepared_candidate = None, active_interface = None, previous_interface = None,
     candidate_interface = None, pending_operation_id = 0\<rparr>"

lemma demo_law: "routes_law (os demo_system) set"
  by (simp add: routes_law_def demo_system_def netsh_law_bench undisturbed_bench)

section \<open>A connection that succeeds\<close>

text \<open>
  The machine on which everything works, with any \<open>netsh\<close>, and a request whose documents the
  serialiser \<open>j\<close> accepts.
\<close>

definition working_system ::
  "(string list \<Rightarrow> ('x, io_error, process_output) prog) \<Rightarrow> json_text \<Rightarrow> 'x system" where
  "working_system commands j = \<lparr>os = working_platform commands, js = j,
     states = sample_state_serde\<lparr>record_to_vec := (\<lambda>r. Ok [1, 2])\<rparr>, routes = json_routes\<rparr>"

definition working_request :: connect_request where
  "working_request = \<lparr>xray_version = ''26.3.27'', xray_config = ''c'',
     validation_config = ''p'', server_endpoints = [SocketV4 0x01010101 443],
     excluded_apps = [], apps_selective = False, killswitch = True, allow_lan = True\<rparr>"

definition accepts_working :: "json_text \<Rightarrow> bool" where
  "accepts_working j \<longleftrightarrow> is_ok (inspect_native_tun_config j ''c'') \<and> inspect_validation_config j ''p'' = Ok [20810]
     \<and> rewrite_validation_ports j ''p'' [50000] = Ok ''v'' \<and> rewrite_native_outbound_interface j ''c'' ''Ethernet'' = Ok ''r''"

text \<open>The disk after \<open>n\<close> writes.\<close>

definition working_disk :: "nat \<Rightarrow> (string \<times> bytes) list \<Rightarrow> file_system" where
  "working_disk n fs = ready_disk\<lparr>files := files ready_disk @ fs, temp_counter := of_nat (Suc n)\<rparr>"

abbreviation "v_file \<equiv> (validation_path sample_layout, as_bytes ''v'')"
abbreviation "r_file \<equiv> (candidate_config sample_layout, as_bytes ''r'')"
abbreviation "state_file \<equiv> (desired_state sample_layout, MAGIC @ [2, 0, 0, 0, 1, 2])"
abbreviation "routes_file \<equiv> (route_state_path sample_layout, [])"
abbreviation "log_entry \<equiv> (log_file sample_layout, [])"
abbreviation "active_entry \<equiv> (active_config sample_layout, as_bytes ''r'')"

lemma disk_runs:
  "core_runtime_layout sample_layout ''26.3.27'' ready_disk = (Ok sample_layout, ready_disk)"
  "ensure_runtime_assets sample_layout ready_disk = (Ok (), ready_disk)"
  "ensure_state_directory sample_layout ready_disk = (Ok (), ready_disk)"
  by code_simp+

lemma disk_runs_validation:
  "atomic_write (validation_path sample_layout) (as_bytes ''v'') ready_disk = (Ok (), working_disk 1 [v_file])"
  "ensure_runtime_assets sample_layout (working_disk 1 [v_file]) = (Ok (), working_disk 1 [v_file])"
  "ensure_state_directory sample_layout (working_disk 1 [v_file]) = (Ok (), working_disk 1 [v_file])"
  "atomic_write (candidate_config sample_layout) (as_bytes ''r'') (working_disk 1 [v_file])
    = (Ok (), working_disk 2 [v_file, r_file])"
  by code_simp+

lemma disk_runs_journal:
  "atomic_write (desired_state sample_layout) (MAGIC @ [2, 0, 0, 0, 1, 2]) (working_disk 2 [v_file, r_file])
    = (Ok (), working_disk 3 [v_file, r_file, state_file])"
  "ensure_state_directory sample_layout (working_disk 2 [v_file, r_file]) = (Ok (), working_disk 2 [v_file, r_file])"
  by code_simp+

lemma machine_runs:
  fixes x :: "'x :: equal"
  shows
  "reserve_validation_ports (working_platform commands) (Suc 0) x = (Ok [50000], x)"
  "wait_for_socks_reachability (working_platform commands) 0 [50000] x = (Ok (), x)"
  "best_outbound_interface_name (working_platform commands) [SocketV4 0x01010101 443] x = (Ok ''Ethernet'', x)"
  "find_varmlen_adapter (working_platform commands) x = (Ok (Some \<lparr>info_luid = 2, has_ipv4 = True, has_ipv6 = True, dns_count = 1\<rparr>), x)"
  "connected_health_check (working_platform commands) x = (Ok (), x)"
  by code_simp+

definition working_prepared :: prepared_config where
  "working_prepared = \<lparr>pc_layout = sample_layout,
     transaction = \<lparr>tx_executable = xray_executable sample_layout, candidate_path = candidate_config sample_layout,
       active_path = active_config sample_layout\<rparr>, contents = as_bytes ''r''\<rparr>"

definition idle_backend :: "'x \<Rightarrow> u64 \<Rightarrow> 'x windows_backend" where
  "idle_backend x op = \<lparr>machine = \<lparr>disk = ready_disk, ext = x\<rparr>, wb_layout = sample_layout,
     active = None, active_request = None, previous_request = None, candidate_request = None,
     prepared_candidate = None, active_interface = None, previous_interface = None,
     candidate_interface = None, pending_operation_id = op\<rparr>"

definition working_backend :: "nat \<Rightarrow> (string \<times> bytes) list \<Rightarrow> managed_xray option \<Rightarrow> 'x \<Rightarrow> u64 \<Rightarrow> 'x windows_backend" where
  "working_backend n fs m x op = (idle_backend x op)\<lparr>
     machine := \<lparr>disk = working_disk n fs, ext = x\<rparr>, active := m, candidate_request := Some working_request,
     prepared_candidate := Some working_prepared, candidate_interface := Some ''Ethernet''\<rparr>"

lemma working_calls:
  "create_job (working_platform commands) = sret 0" "spawn (working_platform commands) i d = sret 0"
  "assign_job (working_platform commands) jo c = sret ()" "close_job (working_platform commands) jo x = x"
  "try_wait (working_platform commands) c = sret None" "kill_wait (working_platform commands) c x = x"
  "start_kill (working_platform commands) c x = x" "release_ports (working_platform commands) x = x"
  "validate_config_syntax (working_platform commands) l i = sret ()"
  by (simp_all add: working_platform_def bench_platform_def create_job_def assign_job_def validate_config_syntax_def
      success_output_def prog_defs map_err_def)

lemma validate_stage:
  fixes x :: "'x :: equal"
  assumes "accepts_working j"
  shows "wb_validate_candidate (working_system commands j) working_request (idle_backend x op)
    = (Ok (), working_backend 2 [v_file, r_file] None x op)"
proof -
  from assms obtain report where inspect: "inspect_native_tun_config j ''c'' = Ok report"
    by (cases "inspect_native_tun_config j ''c''") (auto simp: accepts_working_def is_ok_def)
  note j = assms [unfolded accepts_working_def]
  have validate: "validate_config (working_platform commands) j sample_layout ''p'' \<lparr>disk = ready_disk, ext = x\<rparr>
      = (Ok (), \<lparr>disk = working_disk 1 [v_file], ext = x\<rparr>)"
    using j by (simp add: validate_config_def eval_nat_numeral validation_attempt_def disk_runs disk_runs_validation machine_runs
      on_disk_def on_ext_def szoom_def prog_defs ext_modify_def
      working_calls stop_child_def)
  have prepare: "prepare_native_config (working_platform commands) sample_layout ''r'' \<lparr>disk = working_disk 1 [v_file], ext = x\<rparr>
      = (Ok working_prepared, \<lparr>disk = working_disk 2 [v_file, r_file], ext = x\<rparr>)"
    by (simp add: prepare_native_config_def Let_def disk_runs_validation on_disk_def on_ext_def szoom_def prog_defs working_calls
      working_prepared_def del: One_nat_def)
  show ?thesis
    using j inspect validate prepare machine_runs(3) [of commands x]
    by (simp add: wb_validate_candidate_def working_system_def service_text_def service_io_def check_excluded_apps_def
      layout_for_core_def physical_interface_def on_machine_def on_disk_def on_ext_def szoom_def prog_defs disk_runs
      working_request_def idle_backend_def working_backend_def del: One_nat_def)
qed

definition four_routes :: bench where
  "four_routes = [(''ipv6'', ''8000::/1''), (''ipv6'', ''::/1''), (''ipv4'', ''128.0.0.0/1''), (''ipv4'', ''0.0.0.0/1'')]"


lemma encode_connecting:
  "encode_desired_state (sample_state_serde\<lparr>record_to_vec := (\<lambda>r. Ok [1, 2])\<rparr>) (record_connecting op working_request None True)
   = Ok (MAGIC @ [2, 0, 0, 0, 1, 2])"
  by code_simp
lemma encode_connected:
  "encode_desired_state (sample_state_serde\<lparr>record_to_vec := (\<lambda>r. Ok [1, 2])\<rparr>) (record_connected op working_request)
   = Ok (MAGIC @ [2, 0, 0, 0, 1, 2])"
  by code_simp
lemma protect_run: "crypt_protect (working_platform commands) b = sret b"
  by (simp add: working_platform_def bench_platform_def)

lemma install_run:
  "install_killswitch_routes (working_platform bench_netsh) json_routes sample_layout
     \<lparr>disk = working_disk 3 [v_file, r_file, state_file], ext = []\<rparr>
   = (Ok (), \<lparr>disk = working_disk 4 [v_file, r_file, state_file, routes_file], ext = four_routes\<rparr>)"
  by code_simp
lemma hold_stage:
  assumes "install_killswitch_routes (working_platform commands) json_routes sample_layout
      \<lparr>disk = working_disk 3 [v_file, r_file, state_file], ext = x\<rparr>
    = (Ok (), \<lparr>disk = working_disk 4 [v_file, r_file, state_file, routes_file], ext = y\<rparr>)"
  shows "wb_install_transition_hold (working_system commands j) (working_backend 2 [v_file, r_file] None x op)
    = (Ok (), working_backend 4 [v_file, r_file, state_file, routes_file] None y op)"
proof -
  have request: "killswitch working_request" by (simp add: working_request_def)
  have "persist_desired_state (working_platform commands) (sample_state_serde\<lparr>record_to_vec := (\<lambda>r. Ok [1, 2])\<rparr>)
      sample_layout (record_connecting op working_request None True) \<lparr>disk = working_disk 2 [v_file, r_file], ext = x\<rparr>
    = (Ok (), \<lparr>disk = working_disk 3 [v_file, r_file, state_file], ext = x\<rparr>)"
    by (simp add: persist_desired_state_def disk_runs_journal encode_connecting protect_run on_disk_def on_ext_def szoom_def prog_defs map_err_def)
  then show ?thesis
    by (simp add: wb_install_transition_hold_def persist_def service_io_def on_machine_def szoom_def prog_defs assms
      ok_or_def working_system_def working_backend_def idle_backend_def request)
qed

lemma verify_stage:
  "wb_verify_transition_hold (working_system bench_netsh j) (working_backend 4 [v_file, r_file, state_file, routes_file] None four_routes op)
    = (Ok (), working_backend 4 [v_file, r_file, state_file, routes_file] None four_routes op)"
  by code_simp
lemma start_stage:
  "wb_start_candidate (working_system bench_netsh j) working_request (working_backend 4 [v_file, r_file, state_file, routes_file] None four_routes op)
    = (Ok (), working_backend 4 [v_file, r_file, state_file, routes_file, log_entry] (Some \<lparr>mx_job = 0, mx_child = 0\<rparr>) four_routes op)"
  by code_simp
lemma configure_run: "configure_stable_tun_network (working_platform bench_netsh) four_routes = (Ok (), four_routes)"
  by code_simp

lemma candidate_stage:
  "wb_verify_candidate (working_system bench_netsh j) working_request (working_backend 4 [v_file, r_file, state_file, routes_file, log_entry] (Some \<lparr>mx_job = 0, mx_child = 0\<rparr>) four_routes op)
    = (Ok (), working_backend 4 [v_file, r_file, state_file, routes_file, log_entry] (Some \<lparr>mx_job = 0, mx_child = 0\<rparr>) four_routes op)"
proof -
  have "candidate_loop (working_system bench_netsh j) (Suc 99) False (working_backend 4 [v_file, r_file, state_file, routes_file, log_entry] (Some \<lparr>mx_job = 0, mx_child = 0\<rparr>) four_routes op)
    = (Ok \<lparr>info_luid = 2, has_ipv4 = True, has_ipv6 = True, dns_count = 1\<rparr>, working_backend 4 [v_file, r_file, state_file, routes_file, log_entry] (Some \<lparr>mx_job = 0, mx_child = 0\<rparr>) four_routes op)"
    unfolding candidate_loop.simps
    by (simp add: is_running_def working_calls machine_runs configure_run on_machine_def on_ext_def szoom_def prog_defs
      ok_or_def working_system_def working_backend_def)
  then show ?thesis
    by (simp add: wb_verify_candidate_def wait_for_candidate_def service_io_def prog_defs)
qed

definition connected_backend :: "u64 \<Rightarrow> bench windows_backend" where
  "connected_backend op = (idle_backend four_routes op)\<lparr>
     machine := \<lparr>disk = working_disk 6 [v_file, r_file, state_file, routes_file, log_entry, active_entry], ext = four_routes\<rparr>, active := Some \<lparr>mx_job = 0, mx_child = 0\<rparr>,
     active_request := Some working_request, active_interface := Some ''Ethernet''\<rparr>"

lemma commit_stage:
  "wb_commit_policy (working_system bench_netsh j) working_request (working_backend 4 [v_file, r_file, state_file, routes_file, log_entry] (Some \<lparr>mx_job = 0, mx_child = 0\<rparr>) four_routes op)
    = (Ok (), connected_backend op)"
  by code_simp
lemma release_stage:
  "wb_release_transition_hold (working_system bench_netsh j) (connected_backend op)
    = (Ok (), connected_backend op)"
  by code_simp

lemma idle_op: "(idle_backend x 0)\<lparr>pending_operation_id := op\<rparr> = idle_backend x op"
  by (simp add: idle_backend_def)

lemma connect_run:
  assumes "accepts_working j"
  shows "connect (windows_ops (working_system bench_netsh j)) op working_request (disconnected (idle_backend [] 0))
    = (Ok (connected_state op working_request),
       \<lparr>backend = connected_backend op, state = connected_state op working_request\<rparr>)"
  using validate_stage [OF assms, where commands = bench_netsh and x = "[]" and op = op]
  by (simp add: connect_def windows_ops_def controller_defs szoom_def prog_defs Let_def disconnected_def idle_op
    hold_stage [OF install_run] verify_stage start_stage candidate_stage commit_stage release_stage connected_state_def disconnected_state_def)


definition sample_documents :: json_text where
  "sample_documents = \<lparr>
     from_str = (\<lambda>t. if t = ''c'' then Ok (JObj sample_native) else if t = ''p'' then Ok (JObj (sample_validation 20810))
        else if t = ''r'' then Ok (JObj sample_rewritten) else if t = ''v'' then Ok (JObj (sample_validation 50000))
        else Err ''EOF''),
     to_string = (\<lambda>v. if v = JObj sample_rewritten then Ok ''r'' else if v = JObj (sample_validation 50000) then Ok ''v'' else Err []),
     to_string_pretty = (\<lambda>v. if v = JObj sample_rewritten then Ok ''r'' else if v = JObj (sample_validation 50000) then Ok ''v'' else Err [])\<rparr>"

lemma sample_documents: "accepts_working sample_documents"
  by code_simp

lemma undisturbed_working: "undisturbed (working_platform commands) I"
  by (simp add: undisturbed_def working_platform_def bench_platform_def keeps_basic)

lemma run_netsh_working: "run_netsh (working_platform commands) = commands" "run_netsh (bench_platform commands) = commands"
  by (simp_all add: working_platform_def bench_platform_def)

lemma netsh_law_working: "netsh_law (bench_platform commands) rt \<Longrightarrow> routes_law (os (working_system commands j)) rt"
  by (simp add: routes_law_def working_system_def undisturbed_working netsh_law_def shows_route_def edits_routes_def
    run_netsh_working)

lemmas working_law = netsh_law_working [OF netsh_law_bench]

section \<open>Properties\<close>

text \<open>
  C1: a connection that reports success has the routes its kill switch asks for: with the
  kill switch every split-default route is on the loopback interface, without it none is.
\<close>

theorem connect_sets_killswitch:
  assumes "routes_law (os Y) rt"
  shows "wp (connect (windows_ops Y) op r)
     (\<lambda>_ c'. wants_killswitch (active_request (backend c')) = killswitch r
        \<and> (if killswitch r then fallback_routes rt (machine (backend c'))
           else no_fallback_routes rt (machine (backend c')))) (\<lambda>_ _. True) c"
  using wb.connect_routes [OF assms, of op r c] by (simp only: backend_closed_def backend_opened_def)

lemma connect_sets_killswitch_witness:
  "\<exists>s c'. connect (windows_ops (working_system bench_netsh sample_documents)) 9 working_request
        (disconnected (idle_backend [] 0)) = (Ok s, c')
     \<and> phase s = Connected \<and> wants_killswitch (active_request (backend c')) = killswitch working_request
     \<and> (if killswitch working_request then fallback_routes set (machine (backend c'))
        else no_fallback_routes set (machine (backend c')))"
  using connect_run [OF sample_documents, of 9]
    wp_OkD [OF connect_sets_killswitch [OF working_law] connect_run [OF sample_documents, of 9]]
  by (auto simp: connected_state_def)

text \<open>
  Disconnecting leaves the routes it was asked to leave: blocked, the split-default
  routes are all there, otherwise none is.
\<close>

theorem disconnect_sets_killswitch:
  assumes "routes_law (os Y) rt"
  shows "wp (disconnect (windows_ops Y) op keep)
     (\<lambda>s c'. network_blocked s = keep
        \<and> (if keep then fallback_routes rt (machine (backend c'))
           else no_fallback_routes rt (machine (backend c')))) (\<lambda>_ _. True) c"
  using wp_conj [OF wb.disconnect_routes [OF assms, of op keep c] disconnect_outcome [of "windows_ops Y" op keep c]]
  by (rule wp_mono) (simp_all add: backend_closed_def backend_opened_def settled_state_def split: if_splits)

lemma disconnect_sets_killswitch_witness:
  "wp (disconnect (windows_ops demo_system) 9 False)
     (\<lambda>s c'. network_blocked s = False
        \<and> (if False then fallback_routes set (machine (backend c'))
           else no_fallback_routes set (machine (backend c')))) (\<lambda>_ _. True) (disconnected demo_backend)"
  using demo_law by (rule disconnect_sets_killswitch)

text \<open>
  When the core has died under a connection, the audit closes the network if the
  connection had the kill switch and opens it otherwise, and reports which.
\<close>

theorem audit_sets_killswitch:
  assumes "routes_law (os Y) rt" and "phase (state c) = Connected"
  shows "wp (audit_runtime (windows_ops Y))
     (\<lambda>s c'. (s = state c \<and> phase s = Connected)
        \<or> (if network_blocked s then fallback_routes rt (machine (backend c'))
           else no_fallback_routes rt (machine (backend c')))) (\<lambda>_ _. True) c"
  using wb.audit_routes [OF assms] by (simp only: backend_closed_def backend_opened_def)

lemma audit_sets_killswitch_witness:
  "wp (audit_runtime (windows_ops demo_system))
     (\<lambda>s c'. (s = state (connected demo_backend) \<and> phase s = Connected)
        \<or> (if network_blocked s then fallback_routes set (machine (backend c'))
           else no_fallback_routes set (machine (backend c')))) (\<lambda>_ _. True) (connected demo_backend)"
  using demo_law by (rule audit_sets_killswitch) (simp add: connected_def)

text \<open>
  C2: no leak while switching: once the fallback routes are in place, stopping the old
  core, starting, checking and committing the new one never removes one, whatever fails.
\<close>

theorem switching_never_opens:
  assumes "routes_law (os Y) rt" and "fallback_routes rt (machine b)"
  shows "fallback_routes rt (machine (snd (wb_verify_transition_hold Y b)))
     \<and> fallback_routes rt (machine (snd (wb_stop_active Y b)))
     \<and> fallback_routes rt (machine (snd (wb_start_candidate Y r b)))
     \<and> fallback_routes rt (machine (snd (wb_verify_candidate Y r b)))
     \<and> fallback_routes rt (machine (snd (wb_commit_policy Y r b)))
     \<and> fallback_routes rt (machine (snd (wb_restore_previous Y b)))"
  using wb.stages_stay_closed [OF assms(1), of b] assms(2)
    keeps_validate_restore(2) [OF assms(1), of "\<lambda>R. set default_routes \<subseteq> R"]
  by (simp add: backend_closed_def windows_ops_def keeps_def at_routes_def fallback_routes_def)

lemma switching_never_opens_witness:
  "fallback_routes set (machine (snd (wb_verify_transition_hold demo_system demo_backend)))
     \<and> fallback_routes set (machine (snd (wb_stop_active demo_system demo_backend)))
     \<and> fallback_routes set (machine (snd (wb_start_candidate demo_system (demo_request True) demo_backend)))
     \<and> fallback_routes set (machine (snd (wb_verify_candidate demo_system (demo_request True) demo_backend)))
     \<and> fallback_routes set (machine (snd (wb_commit_policy demo_system (demo_request True) demo_backend)))
     \<and> fallback_routes set (machine (snd (wb_restore_previous demo_system demo_backend)))"
  using demo_law
  by (rule switching_never_opens) (auto simp: fallback_routes_def demo_backend_def blocked_world_def)

text \<open>A \<open>netsh\<close> that fails once, on the fifth question about a route.\<close>

definition flaky_netsh :: "string list \<Rightarrow> (nat \<times> bench, io_error, process_output) prog" where
  "flaky_netsh args s = (case s of (n, rs) \<Rightarrow>
     if ''show'' \<in> set args \<and> n = 4
     then (Ok ((success_output [])\<lparr>succeeded := False\<rparr>), (5, rs))
     else (case bench_netsh args rs of (r, rs') \<Rightarrow> (r, (if ''show'' \<in> set args then Suc n else n, rs'))))"

lemma flaky_law: "routes_law (os (working_system flaky_netsh j)) (set \<circ> snd)"
proof (rule netsh_law_working)
  have bench: "shows_route (bench_platform bench_netsh) set" "edits_routes (bench_platform bench_netsh) set"
    using netsh_law_bench by (simp_all add: netsh_law_def)
  have out: "bench_netsh args rs = (Ok out, snd (bench_netsh args rs))"
    if "flaky_netsh args (n, rs) = (Ok out, y)" "succeeded out" for args n rs out y
    using that by (auto simp: flaky_netsh_def split: prod.splits if_splits)
  have "shows_route (bench_platform flaky_netsh) (set \<circ> snd)"
    using bench(1) out unfolding shows_route_def run_netsh_working split_paired_All comp_apply snd_conv by blast
  moreover have "edits_routes (bench_platform flaky_netsh) (set \<circ> snd)"
    unfolding edits_routes_def Let_def run_netsh_working
  proof (intro allI, goal_cases)
    case (1 args x)
    obtain n rs where x: "x = (n, rs)" by (cases x)
    show ?case
    proof (cases "''show'' \<in> set args \<and> n = 4")
      case True
      then have "snd (flaky_netsh args x) = (5, rs)" by (simp add: x flaky_netsh_def)
      then show ?thesis by (auto simp: x)
    next
      case False
      then have same: "snd (snd (flaky_netsh args (n, rs))) = snd (bench_netsh args rs)"
        by (auto simp: x flaky_netsh_def split: prod.split)
      show ?thesis
        unfolding x comp_apply snd_conv same
        by (rule bench(2) [unfolded edits_routes_def Let_def run_netsh_working, rule_format])
    qed
  qed
  ultimately show "netsh_law (bench_platform flaky_netsh) (set \<circ> snd)" by (simp add: netsh_law_def)
qed

lemma flaky_install:
  "install_killswitch_routes (working_platform flaky_netsh) json_routes sample_layout
     \<lparr>disk = working_disk 3 [v_file, r_file, state_file], ext = (0, four_routes)\<rparr>
   = (Ok (), \<lparr>disk = working_disk 4 [v_file, r_file, state_file, routes_file], ext = (4, four_routes)\<rparr>)"
  by code_simp
lemma flaky_verify:
  "snd (verify_killswitch_routes (working_platform flaky_netsh) json_routes sample_layout True
     \<lparr>disk = working_disk 4 [v_file, r_file, state_file, routes_file], ext = (4, four_routes)\<rparr>)
   = \<lparr>disk = working_disk 4 [v_file, r_file, state_file, routes_file], ext = (5, four_routes)\<rparr>"
  "\<not> is_ok (fst (verify_killswitch_routes (working_platform flaky_netsh) json_routes sample_layout True
     \<lparr>disk = working_disk 4 [v_file, r_file, state_file, routes_file], ext = (4, four_routes)\<rparr>))"
  by code_simp+
lemma flaky_remove:
  "remove_killswitch_routes (working_platform flaky_netsh) json_routes sample_layout
     \<lparr>disk = working_disk 4 [v_file, r_file, state_file, routes_file], ext = (5, four_routes)\<rparr>
   = (Ok (), \<lparr>disk = working_disk 4 [v_file, r_file, state_file], ext = (9, [])\<rparr>)"
  by code_simp

text \<open>While the network is blocked, a connection whose hold cannot be verified is given up.\<close>

definition blocked_idle :: "((nat \<times> bench) windows_backend \<times> effect_log) controller" where
  "blocked_idle = \<lparr>backend = (idle_backend (0, four_routes) 0, []), state = settled_state 3 True\<rparr>"

lemma given_up:
  "\<exists>e. connect (logging (windows_ops (working_system flaky_netsh sample_documents))) 9 working_request blocked_idle
    = (Err e, \<lparr>backend = (working_backend 4 [v_file, r_file, state_file] None (9, []) 9,
        [(Validate, True), (InstallHold, True), (VerifyHold, False), (ReleaseHold, True)]), state = settled_state 3 True\<rparr>)"
proof -
  obtain e where verify: "verify_killswitch_routes (working_platform flaky_netsh) json_routes sample_layout True
     \<lparr>disk = working_disk 4 [v_file, r_file, state_file, routes_file], ext = (4, four_routes)\<rparr>
   = (Err e, \<lparr>disk = working_disk 4 [v_file, r_file, state_file, routes_file], ext = (5, four_routes)\<rparr>)"
    using flaky_verify by (cases "verify_killswitch_routes (working_platform flaky_netsh) json_routes sample_layout True
     \<lparr>disk = working_disk 4 [v_file, r_file, state_file, routes_file], ext = (4, four_routes)\<rparr>")
      (auto simp: is_ok_def split: sum.splits)
  show ?thesis
    using validate_stage [OF sample_documents, where commands = flaky_netsh and x = "(0, four_routes)" and op = 9]
      hold_stage [OF flaky_install, of sample_documents 9]
    by (simp add: connect_def logging_def logged_def windows_ops_def controller_defs szoom_def prog_defs Let_def
      blocked_idle_def idle_op settled_state_def is_ok_def)
      (simp add: wb_verify_transition_hold_def wb_release_transition_hold_def service_io_def on_machine_def szoom_def
        prog_defs working_system_def working_backend_def idle_backend_def verify flaky_remove map_err_def
        working_request_def is_ok_def)
qed

text \<open>
  C8: a connection attempted while blocked, whose hold is installed but then fails its
  verification and is released, removes the kill switch and still reports the network as
  blocked: the state goes back to \<open>Blocked\<close> although no split-default route is left.
\<close>

theorem blocked_hold_failure_opens:
  assumes "routes_law (os Y) rt" and "active_request (fst (backend c)) = None" and "snd (backend c) = []"
    and "state c = settled_state n True"
  shows "wp (connect (logging (windows_ops Y)) op r) (\<lambda>_ _. True)
     (\<lambda>_ c'. snd (backend c') = [(Validate, True), (InstallHold, True), (VerifyHold, False), (ReleaseHold, True)]
        \<longrightarrow> network_blocked (state c') \<and> no_fallback_routes rt (machine (fst (backend c')))) c"
  by (rule wp_mono [OF blocked_hold_failure [OF assms(1)]])
     (simp_all add: assms no_active_def settled_state_def backend_opened_def)

lemma blocked_hold_failure_opens_witness:
  "\<exists>e c'. connect (logging (windows_ops (working_system flaky_netsh sample_documents))) 9 working_request blocked_idle = (Err e, c')
     \<and> snd (backend c') = [(Validate, True), (InstallHold, True), (VerifyHold, False), (ReleaseHold, True)]
     \<and> network_blocked (state c') \<and> no_fallback_routes (set \<circ> snd) (machine (fst (backend c')))"
proof -
  from given_up obtain e c' where run: "connect (logging (windows_ops (working_system flaky_netsh sample_documents)))
      9 working_request blocked_idle = (Err e, c')"
    and log: "snd (backend c') = [(Validate, True), (InstallHold, True), (VerifyHold, False), (ReleaseHold, True)]"
    by fastforce
  have "active_request (fst (backend blocked_idle)) = None" "snd (backend blocked_idle) = []"
    "state blocked_idle = settled_state 3 True"
    by (simp_all add: blocked_idle_def idle_backend_def)
  from wp_ErrD [OF blocked_hold_failure_opens [OF flaky_law this] run] run log show ?thesis by blast
qed

end
