(* ===== verification/Pipe_Policy.thy ===== *)
theory Pipe_Policy
  imports Rust_Strings
begin

text \<open>
  \<open>service/src/pipe_policy.rs\<close>: which user the service's pipe admits. A SID text is parsed
  into its canonical spelling, which is all that reaches the security descriptor, and a
  client is admitted by comparing canonical spellings.
\<close>

definition MAX_CONCURRENT_CLIENTS :: nat where "MAX_CONCURRENT_CLIENTS = 16"

datatype installed_user_sid = InstalledUserSid string

fun sid_as_str :: "installed_user_sid \<Rightarrow> string" where
  "sid_as_str (InstalledUserSid s) = s"

text \<open>\<open>format!("S-1-{authority}")\<close> and the loop that pushes the subauthorities.\<close>

definition canonical_sid :: "nat \<Rightarrow> nat list \<Rightarrow> string" where
  "canonical_sid authority subauthorities =
     foldl (\<lambda>acc s. acc @ ''-'' @ dec s) (''S-1-'' @ dec authority) subauthorities"

definition parse_sid :: "string \<Rightarrow> string + installed_user_sid" where
  "parse_sid v =
     (if v = [] \<or> 184 < length v \<or> trim v \<noteq> v \<or> CHR 0x00 \<in> set v then Err ''invalid SID text''
      else let parts = split_char CHR ''-'' v in
        if length parts < 4 \<or> 18 < length parts \<or> parts ! 0 \<noteq> ''S'' \<or> parts ! 1 \<noteq> ''1''
        then Err ''invalid SID structure''
        else
          rbind (ok_or ''invalid SID authority'' (parse_uint (2 ^ 64 - 1) (parts ! 2))) (\<lambda>authority.
          rbind (rtraverse (\<lambda>part.
              if part = [] then Err ''empty SID subauthority''
              else ok_or ''invalid SID subauthority'' (parse_uint (2 ^ 32 - 1) part)) (drop 3 parts))
            (\<lambda>subauthorities.
          Ok (InstalledUserSid (canonical_sid authority subauthorities)))))"

datatype client_origin = Local installed_user_sid | LocalSystem | Remote

record pipe_client_identity = origin :: client_origin

definition local_client :: "installed_user_sid \<Rightarrow> pipe_client_identity" where
  "local_client sid = \<lparr>origin = Local sid\<rparr>"

definition local_system_client :: pipe_client_identity where
  "local_system_client = \<lparr>origin = LocalSystem\<rparr>"

definition remote_client :: "installed_user_sid \<Rightarrow> pipe_client_identity" where
  "remote_client sid = \<lparr>origin = Remote\<rparr>"

definition authorize :: "pipe_client_identity \<Rightarrow> installed_user_sid \<Rightarrow> bool" where
  "authorize client installed_user =
     (case origin client of
        Local sid \<Rightarrow> sid = installed_user
      | LocalSystem \<Rightarrow> True
      | Remote \<Rightarrow> False)"

definition pipe_security_descriptor_sddl :: "installed_user_sid \<Rightarrow> string" where
  "pipe_security_descriptor_sddl u =
     ''D:P(A;;GA;;;SY)(A;;GA;;;BA)(A;;GRGW;;;'' @ sid_as_str u @ '')''"

section \<open>The numbers a SID text stands for\<close>

definition valid_sid_numbers :: "nat \<Rightarrow> nat list \<Rightarrow> bool" where
  "valid_sid_numbers a ss \<longleftrightarrow> a < 2 ^ 64 \<and> (\<forall>s\<in>set ss. s < 2 ^ 32) \<and> length ss \<in> {1..15}"

text \<open>\<open>v\<close> spells the SID with authority \<open>a\<close> and subauthorities \<open>ss\<close>, in some way.\<close>

definition sid_text :: "string \<Rightarrow> nat \<Rightarrow> nat list \<Rightarrow> bool" where
  "sid_text v a ss \<longleftrightarrow>
     length v \<le> 184 \<and> trim v = v \<and> CHR 0x00 \<notin> set v \<and> length ss \<in> {1..15}
     \<and> (\<exists>p ps. split_char CHR ''-'' v = ''S'' # ''1'' # p # ps
          \<and> parse_uint (2 ^ 64 - 1) p = Some a
          \<and> list_all2 (\<lambda>q s. parse_uint (2 ^ 32 - 1) q = Some s) ps ss)"

lemma parse_uint_nonempty: "parse_uint b s = Some n \<Longrightarrow> s \<noteq> []"
  by (elim parse_uint_Some) auto

lemma traverse_subauthorities:
  "rtraverse (\<lambda>part. if part = [] then Err e1 else ok_or e2 (parse_uint b part)) ps = Ok ss
     \<longleftrightarrow> list_all2 (\<lambda>q s. parse_uint b q = Some s) ps ss"
proof -
  have "(if q = [] then Err e1 else ok_or e2 (parse_uint b q)) = Ok s \<longleftrightarrow> parse_uint b q = Some s" for q s
    by (auto dest: parse_uint_nonempty)
  then show ?thesis by (simp only: rtraverse_Ok_iff)
qed

lemma list_all2_set2D: "list_all2 P xs ys \<Longrightarrow> y \<in> set ys \<Longrightarrow> \<exists>x. P x y"
  by (induction rule: list_all2_induct) auto

lemma sid_text_numbers: "sid_text v a ss \<Longrightarrow> valid_sid_numbers a ss"
proof -
  assume v: "sid_text v a ss"
  then obtain p ps where p: "parse_uint (2 ^ 64 - 1) p = Some a"
    and ps: "list_all2 (\<lambda>q s. parse_uint (2 ^ 32 - 1) q = Some s) ps ss"
    unfolding sid_text_def by blast
  have "s < 2 ^ 32" if "s \<in> set ss" for s
  proof -
    from list_all2_set2D [OF ps that] obtain q where "parse_uint (2 ^ 32 - 1) q = Some s" by blast
    from parse_uint_bound [OF this] show ?thesis by simp
  qed
  moreover have "a < 2 ^ 64" using parse_uint_bound [OF p] by simp
  ultimately show ?thesis using v by (simp add: valid_sid_numbers_def sid_text_def)
qed

lemma sid_parts:
  "\<not> (length xs < 4 \<or> 18 < length xs \<or> xs ! 0 \<noteq> a \<or> xs ! 1 \<noteq> b) \<Longrightarrow>
     \<exists>p ps. xs = a # b # p # ps \<and> length ps \<in> {1..15}"
  by (cases xs; cases "tl xs"; cases "tl (tl xs)") (auto simp: Suc_le_eq)

lemma parse_sid_Ok:
  "parse_sid v = Ok u \<longleftrightarrow> (\<exists>a ss. sid_text v a ss \<and> u = InstalledUserSid (canonical_sid a ss))"
proof
  let ?parts = "split_char CHR ''-'' v"
  assume "parse_sid v = Ok u"
  then obtain a ss where *: "\<not> (v = [] \<or> 184 < length v \<or> trim v \<noteq> v \<or> CHR 0x00 \<in> set v)"
    "\<not> (length ?parts < 4 \<or> 18 < length ?parts \<or> ?parts ! 0 \<noteq> ''S'' \<or> ?parts ! 1 \<noteq> ''1'')"
    "parse_uint (2 ^ 64 - 1) (?parts ! 2) = Some a"
    "list_all2 (\<lambda>q s. parse_uint (2 ^ 32 - 1) q = Some s) (drop 3 ?parts) ss"
    "Ok (InstalledUserSid (canonical_sid a ss)) = (Ok u :: string + installed_user_sid)"
    unfolding parse_sid_def Let_def if_Err_Ok_iff rbind_Ok_iff ok_or_Ok_iff traverse_subauthorities
    by blast
  from sid_parts [OF *(2)]
  obtain p ps where parts: "?parts = ''S'' # ''1'' # p # ps" "length ps \<in> {1..15}" by blast
  with *(3,4) have "parse_uint (2 ^ 64 - 1) p = Some a"
    "list_all2 (\<lambda>q s. parse_uint (2 ^ 32 - 1) q = Some s) ps ss" by simp_all
  moreover from this(2) parts(2) have "length ss \<in> {1..15}" by (simp add: list_all2_lengthD)
  ultimately have "sid_text v a ss"
    unfolding sid_text_def using *(1) parts(1) by (simp add: not_less)
  with *(5) show "\<exists>a ss. sid_text v a ss \<and> u = InstalledUserSid (canonical_sid a ss)" by blast
next
  assume "\<exists>a ss. sid_text v a ss \<and> u = InstalledUserSid (canonical_sid a ss)"
  then obtain a ss p ps where *: "sid_text v a ss" "u = InstalledUserSid (canonical_sid a ss)"
    "split_char CHR ''-'' v = ''S'' # ''1'' # p # ps" "parse_uint (2 ^ 64 - 1) p = Some a"
    "list_all2 (\<lambda>q s. parse_uint (2 ^ 32 - 1) q = Some s) ps ss"
    unfolding sid_text_def by blast
  have "v \<noteq> []" using *(3) by auto
  moreover have "length ps = length ss" using *(5) by (rule list_all2_lengthD)
  moreover have "rtraverse (\<lambda>part. if part = [] then Err e1
      else ok_or e2 (parse_uint (2 ^ 32 - 1) part)) ps = Ok ss" for e1 e2 :: string
    using *(5) by (simp only: traverse_subauthorities)
  ultimately show "parse_sid v = Ok u"
    using *(1,2,4) unfolding parse_sid_def Let_def *(3) by (auto simp: sid_text_def)
qed

section \<open>The canonical spelling\<close>

lemma canonical_sid_join:
  "canonical_sid a ss = join_with ''-'' (''S'' # ''1'' # dec a # map dec ss)"
proof -
  have join: "xs \<noteq> [] \<Longrightarrow> join_with d (xs @ [x]) = join_with d xs @ d @ x" for d xs x
    by (induction d xs rule: join_with.induct) auto
  show ?thesis
  proof (induction ss rule: rev_induct)
    case (snoc s ss)
    then show ?case
      using join [of "''S'' # ''1'' # dec a # map dec ss" "''-''" "dec s"] by (simp add: canonical_sid_def)
  qed (simp add: canonical_sid_def)
qed

lemma dec_no_dash: "CHR ''-'' \<notin> set (dec n)"
  using dec_digits [of n] by (auto simp: list_all_iff is_digit_def dest!: bspec)

lemma split_canonical_sid:
  "split_char CHR ''-'' (canonical_sid a ss) = ''S'' # ''1'' # dec a # map dec ss"
  unfolding canonical_sid_join by (subst split_char_join) (auto simp: dec_no_dash)

lemma set_canonical_sid:
  "c \<in> set (canonical_sid a ss) \<Longrightarrow> c = CHR ''S'' \<or> c = CHR ''-'' \<or> is_digit c"
proof -
  have join: "c \<in> set (join_with d ps) \<Longrightarrow> c \<in> set d \<or> (\<exists>p\<in>set ps. c \<in> set p)" for d ps
    by (induction d ps rule: join_with.induct) auto
  assume "c \<in> set (canonical_sid a ss)"
  then have "c = CHR ''-'' \<or> (\<exists>p \<in> set (''S'' # ''1'' # dec a # map dec ss). c \<in> set p)"
    unfolding canonical_sid_join by (auto dest!: join)
  moreover have "is_digit CHR ''1''" by (simp add: is_digit_def)
  ultimately show ?thesis
    using dec_digits by (auto simp: list_all_iff)
qed

lemma length_canonical_sid:
  "sid_text v a ss \<Longrightarrow> length (canonical_sid a ss) \<le> length v"
proof -
  have join: "list_all2 (\<lambda>p q. length p \<le> length q) ps qs \<Longrightarrow>
      length (join_with d ps) \<le> length (join_with d qs)" for d ps qs
  proof (induction d ps arbitrary: qs rule: join_with.induct)
    case (3 d p q ps)
    then show ?case by (cases qs; cases "tl qs") (auto intro: add_le_mono)
  qed (auto simp: list_all2_Cons1)
  assume "sid_text v a ss"
  then obtain p ps where *: "split_char CHR ''-'' v = ''S'' # ''1'' # p # ps"
    "parse_uint (2 ^ 64 - 1) p = Some a"
    "list_all2 (\<lambda>q s. parse_uint (2 ^ 32 - 1) q = Some s) ps ss"
    unfolding sid_text_def by blast
  have "list_all2 (\<lambda>p q. length p \<le> length q) (map dec ss) ps"
    using *(3) by (induction rule: list_all2_induct) (auto dest: parse_uint_length)
  then have "length (canonical_sid a ss) \<le> length (join_with ''-'' (split_char CHR ''-'' v))"
    unfolding canonical_sid_join *(1) using parse_uint_length [OF *(2)] by (intro join) simp
  then show ?thesis by (simp add: join_split_char)
qed

lemma trim_canonical_sid: "trim (canonical_sid a ss) = canonical_sid a ss"
proof (rule trim_graphic)
  obtain s where s: "canonical_sid a ss = CHR ''S'' # s" by (cases ss) (simp_all add: canonical_sid_join)
  then show "canonical_sid a ss \<noteq> []" and "graphic (hd (canonical_sid a ss))"
    by (simp_all add: graphic_def)
  have "last (canonical_sid a ss) \<in> set (canonical_sid a ss)" by (simp add: s)
  then show "graphic (last (canonical_sid a ss))"
    by (auto dest!: set_canonical_sid simp: graphic_def is_digit_def)
qed

text \<open>The canonical spelling is a spelling of its own numbers, and determines them.\<close>

lemma sid_text_canonical: "sid_text v a ss \<Longrightarrow> sid_text (canonical_sid a ss) a ss"
proof -
  assume v: "sid_text v a ss"
  then have bounds: "valid_sid_numbers a ss" by (rule sid_text_numbers)
  then have "parse_uint (2 ^ 64 - 1) (dec a) = Some a" by (simp add: valid_sid_numbers_def)
  moreover have "list_all2 (\<lambda>q s. parse_uint (2 ^ 32 - 1) q = Some s) (map dec ss) ss"
    using bounds by (auto simp: valid_sid_numbers_def list_all2_map1 intro!: list_all2_same [THEN iffD2])
  moreover have "CHR 0x00 \<notin> set (canonical_sid a ss)"
    by (auto dest!: set_canonical_sid simp: is_digit_def)
  ultimately show ?thesis
    using v length_canonical_sid [OF v] unfolding sid_text_def split_canonical_sid
    by (auto simp: trim_canonical_sid)
qed

lemma canonical_sid_inject: "canonical_sid a ss = canonical_sid b ts \<longleftrightarrow> a = b \<and> ss = ts"
proof
  assume eq: "canonical_sid a ss = canonical_sid b ts"
  have dec_inject: "dec m = dec n \<longleftrightarrow> m = n" for m n by (metis digits_value_dec)
  then have "map dec ss = map dec ts \<longleftrightarrow> ss = ts"
    by (intro inj_map_eq_map) (simp add: inj_def)
  moreover have "dec a # map dec ss = dec b # map dec ts"
    using split_canonical_sid [of a ss] split_canonical_sid [of b ts] by (simp add: eq)
  ultimately show "a = b \<and> ss = ts" using dec_inject by simp
qed simp

section \<open>Properties\<close>

text \<open>
  Two texts name the same user for the service exactly when both parse and spell the
  same authority and subauthorities; a client is then admitted by its numbers, whatever the
  spelling (leading zeros, plus signs).
\<close>

theorem sid_comparison:
  "(\<exists>u. parse_sid v = Ok u \<and> parse_sid w = Ok u)
     \<longleftrightarrow> (\<exists>a ss. sid_text v a ss \<and> sid_text w a ss)"
  unfolding parse_sid_Ok by (auto simp: canonical_sid_inject) blast+

text \<open>
  The stored SID text is a fixed point: parsing it again gives the same SID.
\<close>

theorem parse_sid_idempotent:
  assumes "parse_sid v = Ok u"
  shows "parse_sid (sid_as_str u) = Ok u"
  using assms unfolding parse_sid_Ok by (auto simp: canonical_sid_inject dest: sid_text_canonical)

lemma parse_sid_idempotent_witness:
  "parse_sid (sid_as_str (InstalledUserSid ''S-1-5-21-7'')) = Ok (InstalledUserSid ''S-1-5-21-7'')"
  by (rule parse_sid_idempotent [where v = "''S-1-05-+21-7''"]) code_simp

text \<open>
  An accepted SID cannot inject an access rule: the descriptor has exactly the three
  rules of the format string, the last one's trustee being the SID.
\<close>

theorem sddl_three_rules:
  assumes "parse_sid v = Ok u"
  shows "split_char CHR '')'' (pipe_security_descriptor_sddl u)
    = [''D:P(A;;GA;;;SY'', ''(A;;GA;;;BA'', ''(A;;GRGW;;;'' @ sid_as_str u, []]
    \<and> CHR '';'' \<notin> set (sid_as_str u) \<and> CHR ''('' \<notin> set (sid_as_str u)"
proof -
  from assms obtain a ss where u: "sid_as_str u = canonical_sid a ss"
    by (auto simp: parse_sid_Ok)
  then have chars: "c \<notin> set (sid_as_str u)" if "c \<in> {CHR '')'', CHR ''('', CHR '';''}" for c
    using that by (auto dest!: set_canonical_sid simp: is_digit_def)
  then have "split_char CHR '')'' (''(A;;GRGW;;;'' @ sid_as_str u @ '')'')
      = [''(A;;GRGW;;;'' @ sid_as_str u, []]"
    using split_char_append [of "CHR '')''" "''(A;;GRGW;;;'' @ sid_as_str u" "[]"] by simp
  then show ?thesis
    using chars by (simp add: pipe_security_descriptor_sddl_def)
qed

lemma sddl_three_rules_witness:
  "split_char CHR '')'' (pipe_security_descriptor_sddl (InstalledUserSid ''S-1-5-18''))
    = [''D:P(A;;GA;;;SY'', ''(A;;GA;;;BA'', ''(A;;GRGW;;;'' @ sid_as_str (InstalledUserSid ''S-1-5-18''), []]
    \<and> CHR '';'' \<notin> set (sid_as_str (InstalledUserSid ''S-1-5-18''))
    \<and> CHR ''('' \<notin> set (sid_as_str (InstalledUserSid ''S-1-5-18''))"
  by (rule sddl_three_rules [where v = "''S-1-5-18''"]) code_simp

end
