(* ===== verification/Executor.thy ===== *)
theory Executor
  imports Backend Framing Pipe_Policy
begin

text \<open>
  \<open>RuntimeExecutor\<close> of \<open>service/src/pipe.rs\<close>: the recovery at start-up from the journal, and
  the execution of every command. A request holds the locks of what it uses for as long as
  it runs, so it is one step on the executor's state here.
\<close>

record 'x runtime_executor =
  controller :: "'x windows_backend controller"
  core_layout :: runtime_layout
  log_path :: string

definition on_controller ::
  "('x windows_backend controller, 'e, 'a) prog \<Rightarrow> ('x runtime_executor, 'e, 'a) prog" where
  "on_controller m = szoom controller (\<lambda>c x. x\<lparr>controller := c\<rparr>) m"

text \<open>The core manager and the log work on the machine the backend works on.\<close>

definition on_world :: "('x world, 'e, 'a) prog \<Rightarrow> ('x runtime_executor, 'e, 'a) prog" where
  "on_world m = on_controller (szoom backend (\<lambda>b c. c\<lparr>backend := b\<rparr>) (on_machine m))"

section \<open>Recovery\<close>

fun keep_blocked_on_failure :: "desired_state_phase \<Rightarrow> bool" where
  "keep_blocked_on_failure (DConnected request) = killswitch request"
| "keep_blocked_on_failure (DConnecting candidate previous requested) =
     (requested \<or> killswitch candidate \<or> wants_killswitch previous)"
| "keep_blocked_on_failure (DDisconnecting keep_blocked) = keep_blocked"
| "keep_blocked_on_failure (DBlocked reason) = True"
| "keep_blocked_on_failure DDisconnected = False"

fun recover_phase ::
  "'b backend_ops \<Rightarrow> u64 \<Rightarrow> desired_state_phase \<Rightarrow> ('b controller, service_error, service_state) prog" where
  "recover_phase ops op (DConnected request) = connect ops op request"
| "recover_phase ops op (DConnecting candidate (Some previous) requested) = connect ops op previous"
| "recover_phase ops op (DConnecting candidate None requested) = disconnect ops op requested"
| "recover_phase ops op (DDisconnecting keep_blocked) = disconnect ops op keep_blocked"
| "recover_phase ops op (DBlocked reason) = disconnect ops op True"
| "recover_phase ops op DDisconnected = disconnect ops op False"

text \<open>What the journal asks for: the operation, what to do on failure, and the recovery.\<close>

definition recovery_plan ::
  "'b backend_ops \<Rightarrow> io_error + desired_state_record option \<Rightarrow>
   u64 \<times> bool \<times> ('b controller, service_error, service_state) prog" where
  "recovery_plan ops desired =
     (case desired of
        Ok (Some r) \<Rightarrow> (rec_operation_id r, keep_blocked_on_failure (rec_phase r),
                       recover_phase ops (rec_operation_id r) (rec_phase r))
      | Ok None \<Rightarrow> (0, False, disconnect ops 0 False)
      | Err _ \<Rightarrow> (0, False, disconnect ops 0 False))"

definition recover ::
  "'b backend_ops \<Rightarrow> io_error + desired_state_record option \<Rightarrow> 'b controller \<Rightarrow> 'b controller" where
  "recover ops desired c =
     (case recovery_plan ops desired of (op, keep, recovery) \<Rightarrow>
        case recovery c of
          (Ok _, c) \<Rightarrow> c
        | (Err _, c) \<Rightarrow>
            (case disconnect ops op keep c of
               (Ok _, c) \<Rightarrow> c
             | (Err _, c) \<Rightarrow> force_blocked op c))"

definition executor_open ::
  "'x system \<Rightarrow> io_error + string \<Rightarrow> string option \<Rightarrow> 'x world \<Rightarrow> io_error + 'x runtime_executor" where
  "executor_open Y current_exe program_data w =
     (case backend_open current_exe program_data w of
        (Err e, _) \<Rightarrow> Err e
      | (Ok b, _) \<Rightarrow>
          (case load_desired_state (os Y) (states Y) (wb_layout b) (machine b) of (desired, w) \<Rightarrow>
             let c = recover (windows_ops Y) desired (disconnected (b\<lparr>machine := w\<rparr>)) in
             Ok \<lparr>controller = c, core_layout = wb_layout (backend c), log_path = log_file (wb_layout b)\<rparr>))"

section \<open>Commands\<close>

definition core_error :: "string \<Rightarrow> service_error" where
  "core_error = service_error_new Internal"

definition active_version :: "('x runtime_executor, 'e, string) prog" where
  "active_version = sbind (sgets core_layout) (\<lambda>l. on_world (on_disk (active_tag l)))"

text \<open>Switching a running connection to the version just activated, or back.\<close>

definition reconnect_with ::
  "'x system \<Rightarrow> u64 \<Rightarrow> string \<Rightarrow> string \<Rightarrow> ('x runtime_executor, service_error, service_response) prog" where
  "reconnect_with Y op old_tag new_tag =
     sbind (sgets (\<lambda>x. (state (controller x), active_request (backend (controller x)), core_layout x)))
     (\<lambda>(s, current, l).
     if phase s \<noteq> Connected then sret Ack
     else case current of
       None \<Rightarrow>
         sbind (sattempt (on_world (activate_core (os Y) l old_tag))) (\<lambda>rollback.
         sfail (service_error_new Internal (case rollback of
             Ok _ \<Rightarrow> ''connected service has no active connection request''
           | Err e \<Rightarrow> ''connected service has no active connection request; also failed to restore Xray ''
               @ old_tag @ '': '' @ e)))
     | Some request \<Rightarrow>
         sseq (scatch (on_controller (connect (windows_ops Y) op (request\<lparr>xray_version := new_tag\<rparr>)))
           (\<lambda>error.
             sbind (sattempt (on_world (activate_core (os Y) l old_tag))) (\<lambda>rollback.
             sfail (case rollback of
                 Ok _ \<Rightarrow> error
               | Err e \<Rightarrow> service_error_new RestoreFailed (err_message error
                   @ ''; also failed to restore Xray '' @ old_tag @ '': '' @ e)))))
         (sret Ack))"

fun execute_core ::
  "'x system \<Rightarrow> 'x web \<Rightarrow> u64 \<Rightarrow> core_command \<Rightarrow> ('x runtime_executor, service_error, service_response) prog" where
  "execute_core Y W op Info =
     sbind (sattempt (on_world (list_releases W))) (\<lambda>releases.
     let latest_tag = (case result_ok releases of Some (r # _) \<Rightarrow> Some (rel_tag r) | _ \<Rightarrow> None) in
     sbind (sgets core_layout) (\<lambda>l.
     sbind (on_world (on_disk (local_info l latest_tag))) (\<lambda>info. sret (RCoreInfo info))))"
| "execute_core Y W op Active = sbind active_version (\<lambda>tag. sret (RCoreActive tag))"
| "execute_core Y W op ListReleases =
     sbind (smap_err core_error (on_world (list_releases W))) (\<lambda>rs. sret (RCoreReleases rs))"
| "execute_core Y W op (Install tag) =
     sbind (sgets core_layout) (\<lambda>l.
     sbind (smap_err core_error (on_world (install_core (os Y) W l tag))) (\<lambda>t. sret (RCoreInstalled t)))"
| "execute_core Y W op (Activate tag) =
     sbind active_version (\<lambda>old_tag.
     sbind (sgets core_layout) (\<lambda>l.
     sseq (smap_err core_error (on_world (activate_core (os Y) l tag)))
     (sbind active_version (\<lambda>new_tag.
     if new_tag = old_tag then sret Ack else reconnect_with Y op old_tag new_tag))))"
| "execute_core Y W op (Uninstall tag) =
     sbind (sgets core_layout) (\<lambda>l.
     sseq (smap_err core_error (on_world (on_disk (uninstall l tag)))) (sret Ack))"

definition internal_io :: "('s, io_error, 'a) prog \<Rightarrow> ('s, service_error, 'a) prog" where
  "internal_io m = smap_err (\<lambda>e. service_error_new Internal (io_message e)) m"

fun execute ::
  "'x system \<Rightarrow> 'x web \<Rightarrow> u64 \<Rightarrow> service_command \<Rightarrow> ('x runtime_executor, service_error, service_response) prog" where
  "execute Y W op Status = sbind (sgets (\<lambda>x. state (controller x))) (\<lambda>s. sret (RState s))"
| "execute Y W op (Connect request) =
     sbind active_version (\<lambda>tag.
     sbind (on_controller (connect (windows_ops Y) op (request\<lparr>xray_version := tag\<rparr>))) (\<lambda>s. sret (RState s)))"
| "execute Y W op (Disconnect keep_blocked) =
     sbind (on_controller (disconnect (windows_ops Y) op keep_blocked)) (\<lambda>s. sret (RState s))"
| "execute Y W op (LogTail max_bytes) =
     sbind (sgets log_path) (\<lambda>p.
     sbind (internal_io (on_world (on_disk (tail_log p (unat max_bytes))))) (\<lambda>t. sret (RLogTail t)))"
| "execute Y W op ClearLog =
     sbind (sgets log_path) (\<lambda>p. sseq (internal_io (on_world (on_disk (clear_logs p)))) (sret Ack))"
| "execute Y W op (Core command) = execute_core Y W op command"

section \<open>The contract with the application\<close>

text \<open>A command that is a call of the controller, and what the controller guarantees of the call.\<close>

lemma wp_controller_state:
  assumes "\<And>c. wp m (\<lambda>s c'. s = state c' \<and> P s (backend c')) (\<lambda>_ _. True) c"
  shows "wp (sbind (on_controller m) (\<lambda>s. sret (RState s)))
     (\<lambda>a x. \<forall>s. a = RState s \<longrightarrow> s = state (controller x) \<and> P s (backend (controller x))) (\<lambda>_ _. True) x"
  unfolding on_controller_def by (simp only: wp_simps, rule wp_mono [OF assms]) simp_all

interpretation ex: tunnel_executor "execute Y W" "routes_law (os Y) rt" "\<lambda>x. state (controller x)"
    "\<lambda>x. fallback_routes rt (machine (backend (controller x)))"
    "\<lambda>x. no_fallback_routes rt (machine (backend (controller x)))"
proof
  fix op r keep and x :: "'a runtime_executor"
  assume law: "routes_law (os Y) rt"
  show "wp (execute Y W op (Connect r))
     (\<lambda>a x. \<forall>s. a = RState s \<longrightarrow> s = state (controller x) \<and> phase s = Connected
        \<and> (if killswitch r then fallback_routes rt (machine (backend (controller x)))
           else no_fallback_routes rt (machine (backend (controller x))))) (\<lambda>_ _. True) x"
    unfolding execute.simps
    by (rule wp_final, rule wp_controller_state, rule wp_mono [OF wp_conj [OF wb.connect_routes [OF law] connect_outcome]])
       (auto simp: backend_closed_def backend_opened_def connected_state_def)
  show "wp (execute Y W op (Disconnect keep))
     (\<lambda>a x. \<forall>s. a = RState s \<longrightarrow> s = state (controller x) \<and> phase s = (if keep then Blocked else Disconnected)
        \<and> (if keep then fallback_routes rt (machine (backend (controller x)))
           else no_fallback_routes rt (machine (backend (controller x))))) (\<lambda>_ _. True) x"
    unfolding execute.simps
    by (rule wp_controller_state, rule wp_mono [OF wp_conj [OF wb.disconnect_routes [OF law] disconnect_outcome]])
       (auto simp: backend_closed_def backend_opened_def settled_state_def)
qed (simp add: prog_defs)

section \<open>The monitor\<close>

text \<open>One tick of \<open>run_runtime_monitor\<close>; its result is discarded.\<close>

definition monitor_tick :: "'x system \<Rightarrow> 'x runtime_executor \<Rightarrow> 'x runtime_executor" where
  "monitor_tick Y x = x\<lparr>controller := snd (audit_runtime (windows_ops Y) (controller x))\<rparr>"

section \<open>What recovery guarantees\<close>

text \<open>Whether the journal says that the network must not be open after a restart.\<close>

fun must_stay_closed :: "desired_state_phase \<Rightarrow> bool" where
  "must_stay_closed (DConnected request) = killswitch request"
| "must_stay_closed (DConnecting candidate (Some previous) requested) = killswitch previous"
| "must_stay_closed (DConnecting candidate None requested) = requested"
| "must_stay_closed (DDisconnecting keep_blocked) = keep_blocked"
| "must_stay_closed (DBlocked reason) = True"
| "must_stay_closed DDisconnected = False"

lemma must_stay_closed_keep: "must_stay_closed p \<Longrightarrow> keep_blocked_on_failure p"
  by (cases p rule: must_stay_closed.cases) auto

lemma connect_closed:
  assumes "routes_law (os Y) rt" and "killswitch q"
    and "connect (windows_ops Y) op q c = (Ok s, c')"
  shows "phase (state c') = Connected \<and> backend_closed rt (backend c')"
  using wp_OkD [OF wb.connect_routes [OF assms(1)] assms(3)] wp_OkD [OF connect_outcome assms(3)] assms(2)
  by (simp add: connected_state_def)

lemma disconnect_closed:
  assumes "routes_law (os Y) rt" and "disconnect (windows_ops Y) op True c = (Ok s, c')"
  shows "network_blocked (state c') \<and> backend_closed rt (backend c')"
  using wp_OkD [OF wb.disconnect_routes [OF assms(1)] assms(2)] wp_OkD [OF disconnect_outcome assms(2)]
  by (simp add: settled_state_def)

text \<open>A successful recovery of such a journal.\<close>

lemma recover_phase_closed:
  assumes "routes_law (os Y) rt" and "must_stay_closed p"
    and "recover_phase (windows_ops Y) op p c = (Ok s, c')"
  shows "(phase (state c') = Connected \<or> network_blocked (state c')) \<and> backend_closed rt (backend c')"
proof (cases p rule: must_stay_closed.cases)
  case (1 request)
  with connect_closed [OF assms(1), of request op c s c'] assms(2,3) show ?thesis by simp
next
  case (2 candidate previous requested)
  with connect_closed [OF assms(1), of previous op c s c'] assms(2,3) show ?thesis by simp
qed (use disconnect_closed [OF assms(1), of op c s c'] assms(2,3) in simp_all)

lemma recover_plan_some:
  "recover ops (Ok (Some r)) c =
     (case recover_phase ops (rec_operation_id r) (rec_phase r) c of
        (Ok _, c) \<Rightarrow> c
      | (Err _, c) \<Rightarrow>
          (case disconnect ops (rec_operation_id r) (keep_blocked_on_failure (rec_phase r)) c of
             (Ok _, c) \<Rightarrow> c | (Err _, c) \<Rightarrow> force_blocked (rec_operation_id r) c))"
  by (simp add: recover_def recovery_plan_def)

text \<open>Every way a recovery of such a journal can end.\<close>

lemma recovered_closed:
  assumes law: "routes_law (os Y) rt" and closed: "must_stay_closed (rec_phase r)"
    and c': "c' = recover (windows_ops Y) (Ok (Some r)) c"
  shows "(phase (state c') = Connected \<or> network_blocked (state c'))
     \<and> (fallback_routes rt (machine (backend c'))
        \<or> (\<exists>c1 e c2. disconnect (windows_ops Y) (rec_operation_id r) True c1 = (Err e, c2)
             \<and> c' = force_blocked (rec_operation_id r) c2))"
proof -
  obtain x c1 where first: "recover_phase (windows_ops Y) (rec_operation_id r) (rec_phase r) c = (x, c1)"
    by (cases "recover_phase (windows_ops Y) (rec_operation_id r) (rec_phase r) c")
  show ?thesis
  proof (cases x)
    case (Inr s)
    with recover_phase_closed [OF law closed, of "rec_operation_id r" c s c1] first c' show ?thesis
      by (simp add: recover_plan_some backend_closed_def)
  next
    case (Inl e)
    obtain y c2 where second: "disconnect (windows_ops Y) (rec_operation_id r) True c1 = (y, c2)"
      by (cases "disconnect (windows_ops Y) (rec_operation_id r) True c1")
    show ?thesis
    proof (cases y)
      case (Inr s)
      with disconnect_closed [OF law, of "rec_operation_id r" c1 s c2] first second Inl c' show ?thesis
        by (simp add: recover_plan_some must_stay_closed_keep [OF closed] backend_closed_def)
    next
      case e2: (Inl e')
      then have "c' = force_blocked (rec_operation_id r) c2"
        using first second Inl c' by (simp add: recover_plan_some must_stay_closed_keep [OF closed])
      with second e2 show ?thesis by (auto simp: force_blocked_def settled_state_def)
    qed
  qed
qed

section \<open>Properties\<close>

text \<open>
  C3: a restart never reports an open network when the journal says it must be closed: it
  ends connected or blocked, and with the fallback routes in place unless the final attempt
  to install them failed, in which case the controller is forced to \<open>Blocked\<close>.
\<close>

theorem recovery_stays_closed:
  assumes law: "routes_law (os Y) rt" and closed: "must_stay_closed (rec_phase r)"
    and c': "c' = recover (windows_ops Y) (Ok (Some r)) c"
  shows "(phase (state c') = Connected \<or> network_blocked (state c'))
     \<and> (fallback_routes rt (machine (backend c'))
        \<or> (\<exists>c1 e c2. disconnect (windows_ops Y) (rec_operation_id r) True c1 = (Err e, c2)
             \<and> c' = force_blocked (rec_operation_id r) c2))"
  by (rule recovered_closed [OF assms])

definition demo_recovered :: "bench windows_backend controller" where
  "demo_recovered = recover (windows_ops demo_system) (Ok (Some (record_blocked 5 ''x'')))
     (disconnected demo_backend)"

lemma recovery_stays_closed_witness:
  "(phase (state demo_recovered) = Connected \<or> network_blocked (state demo_recovered))
     \<and> (fallback_routes set (machine (backend demo_recovered))
        \<or> (\<exists>c1 e c2. disconnect (windows_ops demo_system) (rec_operation_id (record_blocked 5 ''x'')) True c1
             = (Err e, c2) \<and> demo_recovered = force_blocked (rec_operation_id (record_blocked 5 ''x'')) c2))"
  by (rule recovery_stays_closed [OF demo_law _ demo_recovered_def]) (simp add: record_blocked_def)

text \<open>
  C9: a journal that cannot be read or decrypted opens the network: the service starts
  \<open>Disconnected\<close> with every fallback route removed, whatever the journal had asked for; only
  when both attempts to open it fail is the controller forced to \<open>Blocked\<close>.
\<close>

theorem unreadable_journal_opens:
  assumes law: "routes_law (os Y) rt" and c': "c' = recover (windows_ops Y) (Err e) c"
  shows "(state c' = settled_state 0 False \<and> no_fallback_routes rt (machine (backend c')))
     \<or> (state c' = settled_state 0 True \<and>
         (\<exists>c1 e1 c2 e2 c3. disconnect (windows_ops Y) 0 False c1 = (Err e1, c2)
            \<and> disconnect (windows_ops Y) 0 False c2 = (Err e2, c3)))"
proof -
  have ok: "state d' = settled_state 0 False \<and> no_fallback_routes rt (machine (backend d'))"
    if "disconnect (windows_ops Y) 0 False d = (Ok s, d')" for d s d'
    using wp_OkD [OF wb.disconnect_routes [OF law] that] wp_OkD [OF disconnect_outcome that]
    by (simp add: backend_opened_def)
  obtain x c1 where first: "disconnect (windows_ops Y) 0 False c = (x, c1)"
    by (cases "disconnect (windows_ops Y) 0 False c")
  obtain y c2 where second: "disconnect (windows_ops Y) 0 False c1 = (y, c2)"
    by (cases "disconnect (windows_ops Y) 0 False c1")
  show ?thesis
  proof (cases "is_ok x \<or> is_ok y")
    case True
    then show ?thesis
      using first second ok [of c _ c1] ok [of c1 _ c2] c'
      by (auto simp: recover_def recovery_plan_def split: sum.splits)
  next
    case False
    then obtain e1 e2 where "x = Err e1" "y = Err e2" by (cases x; cases y) auto
    then show ?thesis
      using first second c'
      by (intro disjI2 conjI exI [of _ c] exI [of _ e1] exI [of _ c1] exI [of _ e2] exI [of _ c2])
         (simp_all add: recover_def recovery_plan_def force_blocked_def)
  qed
qed

definition demo_reopened :: "bench windows_backend controller" where
  "demo_reopened = recover (windows_ops demo_system) (Err not_found) (disconnected demo_backend)"

lemma unreadable_journal_opens_witness:
  "(state demo_reopened = settled_state 0 False \<and> no_fallback_routes set (machine (backend demo_reopened)))
     \<or> (state demo_reopened = settled_state 0 True \<and>
         (\<exists>c1 e1 c2 e2 c3. disconnect (windows_ops demo_system) 0 False c1 = (Err e1, c2)
            \<and> disconnect (windows_ops demo_system) 0 False c2 = (Err e2, c3)))"
  by (rule unreadable_journal_opens [OF demo_law demo_reopened_def])

end
