(* ===== verification/Pipe_Server.thy ===== *)
theory Pipe_Server
  imports Executor
begin

text \<open>
  The rest of \<open>service/src/pipe.rs\<close>: who is connected, serving one client, the accept loop
  with its slots, and the health check; \<open>--cleanup\<close> of \<open>main.rs\<close> and what \<open>windows_service.rs\<close>
  reports. What a client does is data: the bytes it sends, where its connection breaks, and
  which of the service's timeouts strikes.
\<close>

section \<open>The installed user\<close>

definition INSTALLED_USER_SID_FILE :: string where "INSTALLED_USER_SID_FILE = ''installed-user.sid''"
definition LOCAL_SYSTEM_SID :: string where "LOCAL_SYSTEM_SID = ''S-1-5-18''"

definition installed_user_sid_path :: "string option \<Rightarrow> io_error + string" where
  "installed_user_sid_path program_data =
     rbind (ok_or (io_new NotFound ''ProgramData is not set'') program_data) (\<lambda>d.
     Ok (path_join (path_join d ''Varmlen'') INSTALLED_USER_SID_FILE))"

definition trim_newlines :: "string \<Rightarrow> string" where
  "trim_newlines s = rev (dropWhile (\<lambda>c. c = CHR 0x0D \<or> c = CHR 0x0A) (rev s))"

definition load_installed_user_sid :: "string option \<Rightarrow> installed_user_sid fs_io" where
  "load_installed_user_sid program_data =
     sbind (slift (installed_user_sid_path program_data)) (\<lambda>path.
     sbind (fs_metadata path) (\<lambda>m.
     if 512 < file_len m then sfail (io_new InvalidData ''installed user SID file is too large'')
     else
       sbind (fs_read path) (\<lambda>bytes.
       sbind (slift (ok_or (io_new InvalidData ''stream did not contain valid UTF-8'') (from_utf8 bytes))) (\<lambda>sid.
       slift (map_err (\<lambda>e. io_new InvalidData (''invalid installed user SID: '' @ e))
         (parse_sid (trim_newlines sid)))))))"

section \<open>One client\<close>

text \<open>
  A connected client: its token's SID text as Windows gives it, what it sends, how much it
  takes of the answer, and whether the service's timeouts strike.
\<close>

record pipe_client =
  token_sid :: "io_error + string"
  sends :: bytes
  takes :: "nat option"
  request_times_out :: bool
  response_times_out :: bool

definition connected_client_identity :: "pipe_client \<Rightarrow> io_error + pipe_client_identity" where
  "connected_client_identity client =
     rbind (token_sid client) (\<lambda>text.
     rbind (map_err (io_new InvalidData) (parse_sid text)) (\<lambda>sid.
     Ok (if sid_as_str sid = LOCAL_SYSTEM_SID then local_system_client else local_client sid)))"

definition service_code_to_io :: "service_error_code \<Rightarrow> io_error" where
  "service_code_to_io code =
     io_new (if code = Unauthorized then PermissionDenied
             else if code \<in> {FrameTooLarge, InvalidFrame, InvalidRequest, UnsupportedVersion} then InvalidData
             else Other)
       (''service protocol error: '' @ debug_code code)"

text \<open>The result, what was sent to the client, and the executor's state after it.\<close>

definition serve_client ::
  "protocol_serde \<Rightarrow> 'x executor \<Rightarrow> installed_user_sid \<Rightarrow> pipe_client \<Rightarrow> 'x \<Rightarrow> (io_error + unit) \<times> bytes \<times> 'x" where
  "serve_client sd exec user client x =
     (case connected_client_identity client of
        Err e \<Rightarrow> (Err e, [], x)
      | Ok identity \<Rightarrow>
          if \<not> authorize identity user
          then (Err (io_new PermissionDenied ''named-pipe client is not authorized''), [], x)
          else if request_times_out client then (Err (io_new TimedOut ''pipe request timed out''), [], x)
          else case fst (read_payload (sends client)) of
            Err code \<Rightarrow> (Err (service_code_to_io code), [], x)
          | Ok request \<Rightarrow>
              (case handle_payload sd exec request x of
                 (Err code, y) \<Rightarrow> (Err (service_code_to_io code), [], y)
               | (Ok response, y) \<Rightarrow>
                   (case write_payload response \<lparr>sent = [], room = takes client\<rparr> of (r, out) \<Rightarrow>
                      (if response_times_out client then Err (io_new TimedOut ''pipe response timed out'')
                       else map_err service_code_to_io r, sent out, y))))"

section \<open>The listener\<close>

record pipe_options =
  po_name :: string
  po_first_instance :: bool
  po_reject_remote :: bool
  po_in_buffer :: nat
  po_out_buffer :: nat
  po_sddl :: string

definition SERVICE_PIPE_NAME :: string where
  "SERVICE_PIPE_NAME = [backslash, backslash] @ ''.'' @ [backslash] @ ''pipe'' @ [backslash] @ ''Varmlen''
     @ [backslash] @ ''Service'' @ [backslash] @ ''v1''"

definition create_pipe_server :: "installed_user_sid \<Rightarrow> bool \<Rightarrow> pipe_options" where
  "create_pipe_server user first_instance =
     \<lparr>po_name = SERVICE_PIPE_NAME, po_first_instance = first_instance, po_reject_remote = True,
      po_in_buffer = MAX_FRAME_BYTES, po_out_buffer = MAX_FRAME_BYTES,
      po_sddl = pipe_security_descriptor_sddl user\<rparr>"

text \<open>
  The accept loop of \<open>PipeHost::run\<close>, as steps: a client is taken when a slot is free and
  dropped otherwise, a taken client is served in any order with the others, and the monitor
  ticks. One step is the whole stay of a task in the controller's lock, which every operation
  holds from its first to its last \<open>await\<close>. The shutdown aborts the tasks of the clients and the
  monitor wherever they are, also inside an operation: what the abort leaves of the controller,
  the machine and the disk is any state \<open>x\<close>, of which nothing is claimed. After it the host does
  nothing more; the next start reads the journal (\<open>Restart\<close>).
\<close>

record 'x host =
  host_executor :: "'x runtime_executor"
  host_user :: installed_user_sid
  host_clients :: "pipe_client list"
  host_listening :: bool

inductive host_step ::
  "'x system \<Rightarrow> 'x web \<Rightarrow> protocol_serde \<Rightarrow> 'x host \<Rightarrow> 'x host \<Rightarrow> bool" for Y W sd where
  accept: "host_listening h \<Longrightarrow> length (host_clients h) < MAX_CONCURRENT_CLIENTS \<Longrightarrow>
     host_step Y W sd h (h\<lparr>host_clients := client # host_clients h\<rparr>)"
| refuse: "host_listening h \<Longrightarrow> MAX_CONCURRENT_CLIENTS \<le> length (host_clients h) \<Longrightarrow> host_step Y W sd h h"
| serve: "host_listening h \<Longrightarrow> client \<in> set (host_clients h) \<Longrightarrow>
     serve_client sd (execute Y W) (host_user h) client (host_executor h) = (r, out, x) \<Longrightarrow>
     host_step Y W sd h (h\<lparr>host_clients := remove1 client (host_clients h), host_executor := x\<rparr>)"
| tick: "host_listening h \<Longrightarrow> host_step Y W sd h (h\<lparr>host_executor := monitor_tick Y (host_executor h)\<rparr>)"
| shutdown: "host_listening h \<Longrightarrow>
     host_step Y W sd h (h\<lparr>host_clients := [], host_listening := False, host_executor := x\<rparr>)"

definition host_open :: "installed_user_sid \<Rightarrow> 'x runtime_executor \<Rightarrow> 'x host" where
  "host_open user x = \<lparr>host_executor = x, host_user = user, host_clients = [], host_listening = True\<rparr>"

text \<open>\<open>PipeHost::open\<close>: the SID first, then the recovery, then the listener.\<close>

definition pipe_host_open ::
  "'x system \<Rightarrow> io_error + string \<Rightarrow> string option \<Rightarrow> io_error + unit \<Rightarrow> 'x world \<Rightarrow> io_error + 'x host" where
  "pipe_host_open Y current_exe program_data listener w =
     (case on_disk (load_installed_user_sid program_data) w of
        (Err e, _) \<Rightarrow> Err e
      | (Ok user, w) \<Rightarrow>
          rbind (executor_open Y current_exe program_data w) (\<lambda>x.
          rbind listener (\<lambda>_. Ok (host_open user x))))"

inductive host_reachable ::
  "'x system \<Rightarrow> 'x web \<Rightarrow> protocol_serde \<Rightarrow> 'x host \<Rightarrow> bool" for Y W sd where
  opened: "pipe_host_open Y current_exe program_data listener w = Ok h \<Longrightarrow> host_reachable Y W sd h"
| stepped: "host_reachable Y W sd h \<Longrightarrow> host_step Y W sd h h' \<Longrightarrow> host_reachable Y W sd h'"

inductive_cases host_stepE: "host_step Y W sd h h'"

section \<open>The health check\<close>

record service_connection =
  open_result :: "io_error + unit"
  write_result :: "service_error_code + unit"
  flush_result :: "io_error + unit"
  arrives :: bytes
  write_times_out :: bool
  flush_times_out :: bool
  read_times_out :: bool

definition service_health_check :: "protocol_serde \<Rightarrow> service_connection \<Rightarrow> io_error + service_state" where
  "service_health_check sd pipe =
     rbind (open_result pipe) (\<lambda>_.
     let op = 18446744073709551615 in
     rbind (map_err service_code_to_io (encode_payload (write_request sd)
       \<lparr>req_version = PROTOCOL_VERSION, req_operation_id = op, req_command = Status\<rparr>)) (\<lambda>request.
     rbind (if write_times_out pipe then Err (io_new TimedOut ''service health write timed out'')
            else map_err service_code_to_io (write_result pipe)) (\<lambda>_.
     rbind (if flush_times_out pipe then Err (io_new TimedOut ''service health flush timed out'')
            else flush_result pipe) (\<lambda>_.
     rbind (if read_times_out pipe then Err (io_new TimedOut ''service health read timed out'')
            else map_err service_code_to_io (fst (read_payload (arrives pipe)))) (\<lambda>response.
     rbind (map_err service_code_to_io (decode_response (read_response sd) response)) (\<lambda>response.
     if resp_operation_id response \<noteq> op
     then Err (io_new InvalidData ''service health response has a mismatched operation ID'')
     else rbind (map_err (\<lambda>e. io_other (err_message e)) (resp_result response)) (\<lambda>r. case r of
       RState s \<Rightarrow> Ok s
     | _ \<Rightarrow> Err (io_new InvalidData ''service health returned the wrong response type''))))))))"

section \<open>The process\<close>

text \<open>\<open>--cleanup\<close>: the network is opened before the journal is removed.\<close>

definition cleanup ::
  "'x system \<Rightarrow> io_error + string \<Rightarrow> string option \<Rightarrow> ('x world, io_error, unit) prog" where
  "cleanup Y current_exe program_data =
     sbind (slift (service_layout current_exe program_data)) (\<lambda>l.
     sseq (remove_killswitch_routes (os Y) (routes Y) l)
     (on_disk (clear_desired_state l)))"

datatype svc_state = StartPending | Running | Stopped
datatype exit_code = Win32 nat | ServiceSpecific nat

record svc_status =
  svc_current :: svc_state
  svc_accepts_stop :: bool
  svc_exit :: exit_code
  svc_checkpoint :: nat
  svc_wait_ms :: nat

definition stopped_status :: "bool \<Rightarrow> svc_status" where
  "stopped_status clean = \<lparr>svc_current = Stopped, svc_accepts_stop = False,
     svc_exit = (if clean then Win32 0 else ServiceSpecific 1), svc_checkpoint = 0, svc_wait_ms = 0\<rparr>"

text \<open>
  What the service reports to the service manager, and its result, from the result of the
  start-up, of every report, and of the host's run.
\<close>

definition run_service ::
  "(svc_status \<Rightarrow> io_error + unit) \<Rightarrow> io_error + 'h \<Rightarrow> ('h \<Rightarrow> io_error + unit) \<Rightarrow> svc_status list \<times> (io_error + unit)" where
  "run_service report startup run =
     (let pending = \<lparr>svc_current = StartPending, svc_accepts_stop = False, svc_exit = Win32 0,
            svc_checkpoint = 1, svc_wait_ms = 30000\<rparr>;
          running = \<lparr>svc_current = Running, svc_accepts_stop = True, svc_exit = Win32 0,
            svc_checkpoint = 0, svc_wait_ms = 0\<rparr>
      in case report pending of
        Err e \<Rightarrow> ([pending], Err e)
      | Ok _ \<Rightarrow>
          (case startup of
             Err error \<Rightarrow> ([pending, stopped_status False],
               rbind (report (stopped_status False)) (\<lambda>_. Err error))
           | Ok host \<Rightarrow>
               (case report running of
                  Err e \<Rightarrow> ([pending, running], Err e)
                | Ok _ \<Rightarrow>
                    let host_result = run host in
                    ([pending, running, stopped_status (is_ok host_result)],
                     rbind (report (stopped_status (is_ok host_result))) (\<lambda>_. host_result)))))"

section \<open>The executor keeps the controller consistent\<close>

definition executor_consistent :: "'x runtime_executor \<Rightarrow> bool" where
  "executor_consistent x \<longleftrightarrow> consistent (state (controller x))"

lemma keeps_on_controller:
  assumes "keeps (\<lambda>c. consistent (state c)) m"
  shows "keeps executor_consistent (on_controller m)"
  using assms by (auto simp: keeps_def on_controller_def szoom_def executor_consistent_def split: prod.splits)

lemma keeps_on_world [hoare_rules]: "keeps executor_consistent (on_world m)"
  unfolding on_world_def
  by (rule keeps_on_controller) (auto simp: keeps_def szoom_def split: prod.splits)

lemma keeps_connect [hoare_rules]: "keeps executor_consistent (on_controller (connect ops op r))"
  by (rule keeps_on_controller, rule keepsI)
     (use connect_consistent in \<open>metis prod.collapse\<close>)

lemma keeps_disconnect [hoare_rules]: "keeps executor_consistent (on_controller (disconnect ops op k))"
  by (rule keeps_on_controller, rule keepsI)
     (use disconnect_consistent in \<open>metis prod.collapse\<close>)

lemma execute_consistent: "keeps executor_consistent (execute Y W op cmd)"
proof (cases cmd)
  case (Core c)
  have "keeps executor_consistent (execute_core Y W op c)"
    by (cases c) (simp_all only: execute_core.simps active_version_def reconnect_with_def Let_def,
        (intro hoare_rules)+)
  with Core show ?thesis by simp
qed (simp_all only: execute.simps active_version_def internal_io_def, (intro hoare_rules)+)

lemma tick_consistent: "executor_consistent x \<Longrightarrow> executor_consistent (monitor_tick Y x)"
  unfolding executor_consistent_def monitor_tick_def
  by (cases "audit_runtime (windows_ops Y) (controller x)") (auto dest: audit_consistent)

lemma handle_state:
  "snd (handle_payload sd exec p x) = x
     \<or> (\<exists>r. decode_request (read_request sd) p = Ok r
          \<and> snd (handle_payload sd exec p x) = snd (exec (req_operation_id r) (req_command r) x))"
  by (auto simp: handle_payload_eq split: sum.split)

text \<open>Serving a client runs at most one command, and only a decoded, valid one.\<close>

lemma serve_state:
  assumes "serve_client sd exec user client x = (r, out, y)"
  shows "y = x \<or> (\<exists>p q. read_payload (sends client) = (Ok p, q) \<and> y = snd (handle_payload sd exec p x))"
  using assms unfolding serve_client_def
  by (auto simp: prod_eq_iff split: sum.splits if_splits prod.splits)

lemma serve_consistent:
  assumes "serve_client sd (execute Y W) user client x = (r, out, y)" and "executor_consistent x"
  shows "executor_consistent y"
  using serve_state [OF assms(1)] handle_state [of sd "execute Y W"] execute_consistent assms(2)
  unfolding keeps_def by metis

lemma recover_consistent: "consistent (state (recover ops desired (disconnected b)))"
proof -
  have plan: "consistent (state c')" if "recovery_plan ops desired = (op, keep, m)"
    "m (disconnected b) = (r, c')" for op keep m r c'
  proof -
    have start: "consistent (state (disconnected b))" by (simp add: disconnected_def)
    have phase: "recover_phase ops op p (disconnected b) = (r, c') \<Longrightarrow> consistent (state c')" for p
      by (cases p rule: must_stay_closed.cases)
         (auto intro: connect_consistent [OF start] disconnect_consistent)
    show ?thesis
      using that phase by (auto simp: recovery_plan_def intro: disconnect_consistent
          split: sum.splits option.splits)
  qed
  show ?thesis
    unfolding recover_def
    by (auto dest: plan disconnect_consistent simp: force_blocked_def split: prod.split sum.split)
qed

lemma open_consistent:
  "pipe_host_open Y exe pd listener w = Ok h \<Longrightarrow> executor_consistent (host_executor h) \<and> host_clients h = []"
  by (auto simp: pipe_host_open_def host_open_def executor_open_def executor_consistent_def Let_def
      recover_consistent split: prod.splits sum.splits)

lemma opened_listens: "pipe_host_open Y e d l w = Ok h \<Longrightarrow> host_listening h"
  by (auto simp: pipe_host_open_def host_open_def rbind_Ok_iff split: prod.splits sum.splits)

section \<open>Properties\<close>

lemma system_sid: "LOCAL_SYSTEM_SID = canonical_sid 5 [18]"
  by code_simp

lemma identity_Ok:
  assumes "connected_client_identity client = Ok identity"
  obtains t a ss where "token_sid client = Ok t" and "sid_text t a ss"
    and "identity = (if (a, ss) = (5, [18]) then local_system_client
                     else local_client (InstalledUserSid (canonical_sid a ss)))"
  using assms by (auto simp: connected_client_identity_def parse_sid_Ok system_sid canonical_sid_inject)

lemma sid_text_numbers_unique:
  assumes "parse_sid v = Ok (InstalledUserSid (canonical_sid b ts))"
  shows "sid_text v a ss \<longleftrightarrow> a = b \<and> ss = ts"
proof
  assume "sid_text v a ss"
  then have "parse_sid v = Ok (InstalledUserSid (canonical_sid a ss))" unfolding parse_sid_Ok by blast
  with assms show "a = b \<and> ss = ts" by (simp add: canonical_sid_inject)
next
  assume "a = b \<and> ss = ts"
  with assms show "sid_text v a ss" by (auto simp: parse_sid_Ok canonical_sid_inject)
qed

text \<open>
  C11: Only the installed user and the system are served. Let \<open>w\<close> be the stored text of the
  installed user. A client whose token has no SID, a text that is no SID, or the text of a SID
  whose numbers are neither those that \<open>w\<close> spells nor those of the system account (authority 5,
  subauthority 18) gets an error before a byte of its request is read: it is sent nothing, and
  the executor's state is unchanged, whatever it sends and whatever the executor would do.
\<close>

theorem unauthorized_client_gets_nothing:
  assumes "parse_sid w = Ok user"
    and "\<And>t a ss. token_sid client = Ok t \<Longrightarrow> sid_text t a ss \<Longrightarrow>
       \<not> sid_text w a ss \<and> (a, ss) \<noteq> (5, [18])"
  shows "\<exists>e. \<forall>exec x. serve_client sd exec user client x = (Err e, [], x)"
proof -
  have "\<not> authorize identity user" if identity: "connected_client_identity client = Ok identity" for identity
    using identity
  proof (rule identity_Ok)
    fix t a ss
    assume *: "token_sid client = Ok t" "sid_text t a ss"
      "identity = (if (a, ss) = (5, [18]) then local_system_client
         else local_client (InstalledUserSid (canonical_sid a ss)))"
    from assms(2) [OF *(1,2)] *(3) assms(1) show "\<not> authorize identity user"
      by (auto simp: parse_sid_Ok authorize_def local_client_def canonical_sid_inject)
  qed
  then show ?thesis by (cases "connected_client_identity client") (auto simp: serve_client_def)
qed

definition stranger :: pipe_client where
  "stranger = \<lparr>token_sid = Ok ''S-1-5-21-7'', sends = [0, 0, 0, 1, 1], takes = None,
     request_times_out = False, response_times_out = False\<rparr>"

lemma unauthorized_client_gets_nothing_witness:
  "\<exists>e. \<forall>exec x. serve_client sample_protocol_serde exec (InstalledUserSid ''S-1-5-21-8'') stranger (x :: nat)
     = (Err e, [], x)"
proof (rule unauthorized_client_gets_nothing)
  show user: "parse_sid ''S-1-5-21-8'' = Ok (InstalledUserSid ''S-1-5-21-8'')" by code_simp
  have "parse_sid ''S-1-5-21-8'' = Ok (InstalledUserSid (canonical_sid 5 [21, 8]))"
    and "parse_sid ''S-1-5-21-7'' = Ok (InstalledUserSid (canonical_sid 5 [21, 7]))"
    by code_simp+
  note sids = this [THEN sid_text_numbers_unique]
  fix t a ss
  assume "token_sid stranger = Ok t" and "sid_text t a ss"
  then show "\<not> sid_text ''S-1-5-21-8'' a ss \<and> (a, ss) \<noteq> (5, [18])"
    by (auto simp: stranger_def sids)
qed


text \<open>
  The health check reports a state only from an answer of the right version and
  operation id.
\<close>

theorem health_check_sound:
  assumes "service_health_check sd pipe = Ok s"
  shows "\<exists>bs rest response. read_payload (arrives pipe) = (Ok bs, rest)
     \<and> read_response sd bs = Ok response \<and> resp_version response = 3
     \<and> resp_operation_id response = 18446744073709551615 \<and> resp_result response = Ok (RState s)"
  using assms unfolding service_health_check_def Let_def
  by (auto simp: decode_response_def PROTOCOL_VERSION_def prod_eq_iff split: if_splits service_response.splits)

text \<open>
  The whole way of a health check: a client of the system account that sends the status
  request is answered by the service with a frame from which the check reads the
  controller's state, and nothing is changed.
\<close>

theorem health_check_end_to_end:
  fixes x :: "'x runtime_executor"
  defines "request \<equiv> \<lparr>req_version = PROTOCOL_VERSION, req_operation_id = 18446744073709551615,
     req_command = Status\<rparr>"
    and "response \<equiv> \<lparr>resp_version = PROTOCOL_VERSION, resp_operation_id = 18446744073709551615,
     resp_result = Ok (RState (state (controller x)))\<rparr>"
  assumes "encode_payload (write_request sd) request = Ok req" and "serde_law (write_request sd) (read_request sd) request"
    and "encode_payload (write_response sd) response = Ok resp" and "serde_law (write_response sd) (read_response sd) response"
    and "client = \<lparr>token_sid = Ok ''S-1-5-18'', sends = be_bytes32 (length req) @ req, takes = None,
      request_times_out = False, response_times_out = False\<rparr>"
    and "pipe = \<lparr>open_result = Ok (), write_result = Ok (), flush_result = Ok (), arrives = out,
      write_times_out = False, flush_times_out = False, read_times_out = False\<rparr>"
    and "serve_client sd (execute Y W) user client x = (r, out, y)"
  shows "r = Ok () \<and> y = x \<and> service_health_check sd pipe = Ok (state (controller x))"
proof -
  have len: "length req \<le> MAX_FRAME_BYTES" "length resp \<le> MAX_FRAME_BYTES"
    and ser: "write_request sd request = Ok req" "write_response sd response = Ok resp"
    using assms(3,5) by (simp_all add: encode_payload_Ok)
  have de: "read_request sd req = Ok request" "read_response sd resp = Ok response"
    using assms(4,6) ser by (simp_all add: serde_law_def)
  have "connected_client_identity client = Ok local_system_client"
    unfolding assms(7) by code_simp
  then have identity: "connected_client_identity client = Ok local_system_client"
    "authorize local_system_client user"
    by (simp_all add: authorize_def local_system_client_def)
  have frame: "read_payload (be_bytes32 (length req) @ req) = (Ok req, [])"
    "read_payload (be_bytes32 (length resp) @ resp) = (Ok resp, [])"
    using read_payload_frame [OF len(1), of "[]"] read_payload_frame [OF len(2), of "[]"] by simp_all
  have handled: "handle_payload sd (execute Y W) req x = (Ok resp, x)"
    using len de assms(5) by (simp add: handle_payload_eq response_for_def decode_request_def request_def
        response_def validate_request_def wp_simps prog_defs)
  obtain w where w: "write_payload resp \<lparr>sent = [], room = None\<rparr> = (Ok (), w)"
    using write_payload_unlimited [of "\<lparr>sent = [], room = None\<rparr>" resp] len(2) by auto
  have out: "r = Ok ()" "out = be_bytes32 (length resp) @ resp" "y = x"
    using assms(9) identity frame handled w write_payload_sent(1) [OF w]
    by (simp_all add: serve_client_def assms(7))
  have "service_health_check sd pipe = Ok (state (controller x))"
    using ser len de frame assms(3)
    by (simp add: service_health_check_def assms(8) out decode_response_def response_def request_def)
  with out show ?thesis by simp
qed

text \<open>An executor, and a machine with an installed user, for concrete runs.\<close>

definition demo_executor :: "bench runtime_executor" where
  "demo_executor = \<lparr>controller = disconnected demo_backend, core_layout = sample_layout, log_path = ''C:/s/xray.log''\<rparr>"

lemma health_check_end_to_end_witness:
  "\<exists>r out y pipe. serve_client sample_protocol_serde (execute demo_system sample_web)
       (InstalledUserSid ''S-1-5-21-8'')
       \<lparr>token_sid = Ok ''S-1-5-18'', sends = be_bytes32 (length [1 :: u8]) @ [1], takes = None,
        request_times_out = False, response_times_out = False\<rparr> demo_executor = (r, out, y)
     \<and> arrives pipe = out
     \<and> r = Ok () \<and> y = demo_executor \<and> service_health_check sample_protocol_serde pipe
        = Ok (state (controller demo_executor))"
proof -
  let ?client = "\<lparr>token_sid = Ok ''S-1-5-18'', sends = be_bytes32 (length [1 :: u8]) @ [1], takes = None,
        request_times_out = False, response_times_out = False\<rparr> :: pipe_client"
  obtain r out y where run: "serve_client sample_protocol_serde (execute demo_system sample_web)
      (InstalledUserSid ''S-1-5-21-8'') ?client demo_executor = (r, out, y)"
    by (cases "serve_client sample_protocol_serde (execute demo_system sample_web)
      (InstalledUserSid ''S-1-5-21-8'') ?client demo_executor")
  have "r = Ok () \<and> y = demo_executor \<and> service_health_check sample_protocol_serde
      \<lparr>open_result = Ok (), write_result = Ok (), flush_result = Ok (), arrives = out,
       write_times_out = False, flush_times_out = False, read_times_out = False\<rparr>
    = Ok (state (controller demo_executor))"
    by (rule health_check_end_to_end [OF _ _ _ _ refl refl run, where resp = "[2]"])
       (simp_all add: sample_protocol_serde_def encode_payload_def MAX_FRAME_BYTES_def serde_law_def
         PROTOCOL_VERSION_def demo_executor_def disconnected_def)
  with run show ?thesis
    by (intro exI [of _ r] exI [of _ out] exI [of _ y] exI [of _ "\<lparr>open_result = Ok (), write_result = Ok (),
       flush_result = Ok (), arrives = out, write_times_out = False, flush_times_out = False,
       read_times_out = False\<rparr>"]) simp
qed

definition sample_connection :: service_connection where
  "sample_connection = \<lparr>open_result = Ok (), write_result = Ok (), flush_result = Ok (),
     arrives = [0, 0, 0, 1, 2], write_times_out = False, flush_times_out = False, read_times_out = False\<rparr>"

lemma health_check_sound_witness:
  "\<exists>bs rest response. read_payload (arrives sample_connection) = (Ok bs, rest)
     \<and> read_response sample_protocol_serde bs = Ok response \<and> resp_version response = 3
     \<and> resp_operation_id response = 18446744073709551615
     \<and> resp_result response = Ok (RState disconnected_state)"
  by (rule health_check_sound) code_simp

definition installed_world :: "bench world" where
  "installed_world = \<lparr>disk = \<lparr>files = [(''d'' @ backslash # ''Varmlen'' @ backslash # ''installed-user.sid'',
       as_bytes ''S-1-5-21-8'')], dirs = [''d''], faults = [], temp_counter = 1, process_id = 4\<rparr>, ext = []\<rparr>"


text \<open>
  The uninstaller's clean-up, when it succeeds, leaves no fallback route and no journal,
  so nothing blocks the network or brings the kill switch back.
\<close>

theorem cleanup_opens_network:
  assumes "routes_law (os Y) rt"
  shows "wp (cleanup Y exe program_data)
     (\<lambda>_ w'. no_fallback_routes rt w' \<and> (\<exists>l. service_layout exe program_data = Ok l
        \<and> file_at (desired_state l) (disk w') = None)) (\<lambda>_ _. True) w"
proof (cases "service_layout exe program_data")
  case (Inr l)
  have clear: "wp (on_disk (clear_desired_state l))
     (\<lambda>_ w'. no_fallback_routes rt w' \<and> file_at (desired_state l) (disk w') = None) (\<lambda>_ _. True) t"
    if "no_fallback_routes rt t" for t
    using that unfolding clear_desired_state_def wp_on_disk wp_scatch
    by (intro wp_remove_file) (auto simp: wp_simps no_fallback_routes_def)
  show ?thesis
    by (simp add: cleanup_def Inr wp_simps)
       (rule wp_mono [OF remove_outcome [OF routes_lawD(1) [OF assms]]], rule wp_mono [OF clear], auto)
qed (simp add: cleanup_def wp_simps)

lemma cleanup_opens_network_witness:
  "wp (cleanup demo_system (Ok ''v/s.exe'') (Some ''d''))
     (\<lambda>_ w'. no_fallback_routes set w' \<and> (\<exists>l. service_layout (Ok ''v/s.exe'') (Some ''d'') = Ok l
        \<and> file_at (desired_state l) (disk w') = None)) (\<lambda>_ _. True) installed_world"
  using demo_law by (rule cleanup_opens_network)

text \<open>
  The service reports a clean exit only when its host ran and returned without an error,
  and says that it is running only after a successful start-up.
\<close>

theorem service_reports:
  "(stopped_status True \<in> set (fst (run_service report startup run))
      \<longleftrightarrow> (\<exists>h. startup = Ok h \<and> is_ok (run h) \<and> length (fst (run_service report startup run)) = 3))
   \<and> (2 \<le> length (fst (run_service report startup run)) \<and> svc_current (fst (run_service report startup run) ! 1) = Running
      \<longrightarrow> is_ok startup)"
  by (auto simp: run_service_def Let_def stopped_status_def is_ok_def split: sum.splits)

lemma service_reports_witness:
  "(stopped_status True \<in> set (fst (run_service (\<lambda>s. Ok ()) (Ok ()) (\<lambda>h. Ok ())))
      \<longleftrightarrow> (\<exists>h. (Ok () :: io_error + unit) = Ok h \<and> is_ok (Ok () :: io_error + unit)
            \<and> length (fst (run_service (\<lambda>s. Ok ()) (Ok ()) (\<lambda>h. Ok ()))) = 3))
   \<and> (2 \<le> length (fst (run_service (\<lambda>s. Ok ()) (Ok ()) (\<lambda>h. Ok ())))
        \<and> svc_current (fst (run_service (\<lambda>s. Ok ()) (Ok ()) (\<lambda>h. Ok ())) ! 1) = Running
      \<longrightarrow> is_ok (Ok () :: io_error + unit))"
  by (rule service_reports)

end
