(* ===== verification/Service_Client.thy ===== *)
theory Service_Client
  imports Pipe_Server
begin

text \<open>
  The application's side of the pipe: \<open>src-tauri/src/service_client.rs\<close> (the Windows
  \<open>platform\<close> module) and the core commands of \<open>core.rs\<close>. What happens to one connection is a
  record of outcomes and delays in seconds; the service that answers is a parameter, which
  \<open>service_peer\<close> instantiates with the service's own pipe server.
\<close>

section \<open>One connection\<close>

record client_connection =
  opened :: "io_error + unit"
  written :: "service_error_code + unit"
  write_delay :: nat
  flushed :: "io_error + unit"
  flush_delay :: nat
  answer :: bytes
  answer_delay :: nat

text \<open>A service: the connection it gives to a payload, and its state after it.\<close>

type_synonym 'x peer = "bytes \<Rightarrow> 'x \<Rightarrow> client_connection \<times> 'x"

text \<open>The static counter and the service.\<close>

record 'x client =
  next_operation_id :: u64
  service :: 'x

definition response_timeout :: "service_command \<Rightarrow> nat" where
  "response_timeout command = (case command of
      Core (Install _) \<Rightarrow> 600 | Core (Activate _) \<Rightarrow> 120 | _ \<Rightarrow> 60)"

definition io_timeout :: nat where "io_timeout = 5"

text \<open>\<open>tokio::time::timeout\<close>: the result, unless it takes longer than the limit.\<close>

definition within :: "nat \<Rightarrow> nat \<Rightarrow> string \<Rightarrow> string + 'a \<Rightarrow> string + 'a" where
  "within limit delay message r = (if limit \<le> delay then Err message else r)"

definition read_answer :: "protocol_serde \<Rightarrow> u64 \<Rightarrow> service_command \<Rightarrow> client_connection \<Rightarrow> string + service_response" where
  "read_answer sd op command pipe =
     rbind (map_err (\<lambda>e. ''VarmlenService is unavailable: '' @ io_message e) (opened pipe)) (\<lambda>_.
     rbind (within io_timeout (write_delay pipe) ''timed out writing the service request''
       (map_err (\<lambda>e. ''failed to write service request: '' @ debug_code e) (written pipe))) (\<lambda>_.
     rbind (within io_timeout (flush_delay pipe) ''timed out flushing the service request''
       (map_err (\<lambda>e. ''failed to flush service request: '' @ io_message e) (flushed pipe))) (\<lambda>_.
     rbind (within (response_timeout command) (answer_delay pipe) ''VarmlenService command timed out''
       (map_err (\<lambda>e. ''failed to read service response: '' @ debug_code e)
         (fst (read_payload (answer pipe))))) (\<lambda>payload.
     rbind (map_err (\<lambda>e. ''invalid service response: '' @ debug_code e)
       (decode_response (read_response sd) payload)) (\<lambda>response.
     if resp_operation_id response \<noteq> op
     then Err ''VarmlenService returned a mismatched operation ID''
     else map_err err_message (resp_result response))))))"

definition call_service ::
  "protocol_serde \<Rightarrow> 'x peer \<Rightarrow> service_command \<Rightarrow> ('x client, string, service_response) prog" where
  "call_service sd peer command =
     sbind (sgets next_operation_id) (\<lambda>op.
     sseq (smodify (\<lambda>c. c\<lparr>next_operation_id := op + 1\<rparr>))
     (sbind (slift (map_err (\<lambda>e. ''failed to encode service request: '' @ debug_code e)
        (encode_payload (write_request sd)
          \<lparr>req_version = PROTOCOL_VERSION, req_operation_id = op, req_command = command\<rparr>))) (\<lambda>payload.
      \<lambda>c. (case peer payload (service c) of
         (pipe, x) \<Rightarrow> (read_answer sd op command pipe, c\<lparr>service := x\<rparr>)))))"

section \<open>The commands\<close>

definition expect_state :: "service_response \<Rightarrow> string + service_state" where
  "expect_state r = (case r of RState s \<Rightarrow> Ok s
    | _ \<Rightarrow> Err ''VarmlenService returned the wrong state response type'')"

definition expect_ack :: "string \<Rightarrow> service_response \<Rightarrow> string + unit" where
  "expect_ack message r = (case r of Ack \<Rightarrow> Ok () | _ \<Rightarrow> Err message)"

definition service_status :: "protocol_serde \<Rightarrow> 'x peer \<Rightarrow> ('x client, string, service_state) prog" where
  "service_status sd peer = sbind (call_service sd peer Status) (\<lambda>r. slift (expect_state r))"

definition client_connect :: "protocol_serde \<Rightarrow> 'x peer \<Rightarrow> connect_request \<Rightarrow> ('x client, string, service_state) prog" where
  "client_connect sd peer body = sbind (call_service sd peer (Connect body)) (\<lambda>r. slift (expect_state r))"

definition client_disconnect :: "protocol_serde \<Rightarrow> 'x peer \<Rightarrow> bool \<Rightarrow> ('x client, string, service_state) prog" where
  "client_disconnect sd peer keep_blocked =
     sbind (call_service sd peer (Disconnect keep_blocked)) (\<lambda>r. slift (expect_state r))"

definition client_log_tail :: "protocol_serde \<Rightarrow> 'x peer \<Rightarrow> ('x client, string, string) prog" where
  "client_log_tail sd peer =
     sbind (call_service sd peer (LogTail MAX_LOG_TAIL_BYTES)) (\<lambda>r. slift (case r of
       RLogTail log \<Rightarrow> Ok log | _ \<Rightarrow> Err ''VarmlenService returned the wrong log response type''))"

definition client_clear_log :: "protocol_serde \<Rightarrow> 'x peer \<Rightarrow> ('x client, string, unit) prog" where
  "client_clear_log sd peer =
     sbind (call_service sd peer ClearLog) (\<lambda>r. slift (expect_ack
       ''VarmlenService returned the wrong clear-log response type'' r))"

definition client_core :: "protocol_serde \<Rightarrow> 'x peer \<Rightarrow> core_command \<Rightarrow> ('x client, string, service_response) prog" where
  "client_core sd peer command = call_service sd peer (Core command)"

text \<open>\<open>core.rs\<close>\<close>

definition validate_kind :: "string \<Rightarrow> string + unit" where
  "validate_kind kind = (if kind = ''xray'' then Ok () else Err (''unknown core kind: '' @ kind))"

definition core_info_command :: "protocol_serde \<Rightarrow> 'x peer \<Rightarrow> string \<Rightarrow> ('x client, string, core_info) prog" where
  "core_info_command sd peer kind =
     sseq (slift (validate_kind kind))
     (sbind (client_core sd peer Info) (\<lambda>r. slift (case r of
       RCoreInfo info \<Rightarrow> Ok info | _ \<Rightarrow> Err ''VarmlenService returned the wrong core-info response'')))"

definition list_core_releases :: "protocol_serde \<Rightarrow> 'x peer \<Rightarrow> string \<Rightarrow> ('x client, string, core_release list) prog" where
  "list_core_releases sd peer kind =
     sseq (slift (validate_kind kind))
     (sbind (client_core sd peer ListReleases) (\<lambda>r. slift (case r of
       RCoreReleases releases \<Rightarrow> Ok releases
     | _ \<Rightarrow> Err ''VarmlenService returned the wrong release-list response'')))"

definition core_install :: "protocol_serde \<Rightarrow> 'x peer \<Rightarrow> string \<Rightarrow> string option \<Rightarrow> ('x client, string, string) prog" where
  "core_install sd peer kind version =
     sseq (slift (validate_kind kind))
     (sbind (client_core sd peer (Install version)) (\<lambda>r. slift (case r of
       RCoreInstalled tag \<Rightarrow> Ok tag | _ \<Rightarrow> Err ''VarmlenService returned the wrong core-install response'')))"

definition core_activate :: "protocol_serde \<Rightarrow> 'x peer \<Rightarrow> string \<Rightarrow> string \<Rightarrow> ('x client, string, unit) prog" where
  "core_activate sd peer kind tag =
     sseq (slift (validate_kind kind))
     (sbind (client_core sd peer (Activate tag)) (\<lambda>r. slift (expect_ack
       ''VarmlenService returned the wrong core-activate response'' r)))"

definition core_uninstall :: "protocol_serde \<Rightarrow> 'x peer \<Rightarrow> string \<Rightarrow> string \<Rightarrow> ('x client, string, unit) prog" where
  "core_uninstall sd peer kind tag =
     sseq (slift (validate_kind kind))
     (sbind (client_core sd peer (Uninstall tag)) (\<lambda>r. slift (expect_ack
       ''VarmlenService returned the wrong core-uninstall response'' r)))"

section \<open>The application and the service together\<close>

text \<open>The service behind the pipe, for a client of a given token: no limit and no delay.\<close>

definition service_peer ::
  "protocol_serde \<Rightarrow> 'x executor \<Rightarrow> installed_user_sid \<Rightarrow> io_error + string \<Rightarrow> 'x peer" where
  "service_peer sd exec user token payload x =
     (case serve_client sd exec user
        \<lparr>token_sid = token, sends = be_bytes32 (length payload) @ payload, takes = None,
         request_times_out = False, response_times_out = False\<rparr> x of
      (r, out, y) \<Rightarrow> (\<lparr>opened = Ok (), written = Ok (), write_delay = 0, flushed = Ok (), flush_delay = 0,
        answer = out, answer_delay = 0\<rparr>, y))"

definition authorized_token :: "io_error + string \<Rightarrow> installed_user_sid \<Rightarrow> bool" where
  "authorized_token token user \<longleftrightarrow>
     (\<forall>rest. \<exists>identity. connected_client_identity (rest\<lparr>token_sid := token\<rparr>) = Ok identity
        \<and> authorize identity user)"

text \<open>The service's answer to a request.\<close>

definition service_result ::
  "'x executor \<Rightarrow> request_envelope \<Rightarrow> 'x \<Rightarrow> (service_error + service_response) \<times> 'x" where
  "service_result exec request x =
     (case validate_request request of
        Err code \<Rightarrow> (Err (service_error_new code (debug_code code)), x)
      | Ok _ \<Rightarrow> exec (req_operation_id request) (req_command request) x)"

lemma serve_client_answers:
  assumes "authorized_token token user"
    and "encode_payload (write_request sd) request = Ok payload" "serde_law (write_request sd) (read_request sd) request"
    and "service_result exec request x = (result, y)"
    and "encode_payload (write_response sd) \<lparr>resp_version = PROTOCOL_VERSION,
      resp_operation_id = req_operation_id request, resp_result = result\<rparr> = Ok bs"
  shows "service_peer sd exec user token payload x =
    (\<lparr>opened = Ok (), written = Ok (), write_delay = 0, flushed = Ok (), flush_delay = 0,
      answer = be_bytes32 (length bs) @ bs, answer_delay = 0\<rparr>, y)"
proof -
  let ?client = "\<lparr>token_sid = token, sends = be_bytes32 (length payload) @ payload, takes = None,
    request_times_out = False, response_times_out = False\<rparr>"
  have len: "length payload \<le> MAX_FRAME_BYTES" "length bs \<le> MAX_FRAME_BYTES"
    and read: "read_request sd payload = Ok request"
    using assms(2,3,5) by (simp_all add: encode_payload_Ok serde_law_def)
  obtain identity where identity: "connected_client_identity ?client = Ok identity" "authorize identity user"
    using assms(1) [unfolded authorized_token_def, THEN spec [where x = ?client]] by auto
  have frame: "read_payload (be_bytes32 (length payload) @ payload) = (Ok payload, [])"
    using read_payload_frame [OF len(1), of "[]"] by simp
  have "handle_payload sd exec payload x = (Ok bs, y)"
    using len(1) read assms(4,5)
    by (auto simp: handle_payload_def service_result_def encode_error_def prog_defs split: sum.splits prod.splits)
  moreover obtain w where "write_payload bs \<lparr>sent = [], room = None\<rparr> = (Ok (), w)"
    using write_payload_unlimited [of "\<lparr>sent = [], room = None\<rparr>" bs] len(2) by auto
  ultimately show ?thesis
    using identity frame write_payload_sent(1) [of bs "\<lparr>sent = [], room = None\<rparr>" w]
    by (simp add: service_peer_def serve_client_def)
qed

lemma serve_client_unanswered:
  assumes "authorized_token token user"
    and "encode_payload (write_request sd) request = Ok payload" "serde_law (write_request sd) (read_request sd) request"
    and "service_result exec request x = (result, y)"
    and "encode_payload (write_response sd) \<lparr>resp_version = PROTOCOL_VERSION,
      resp_operation_id = req_operation_id request, resp_result = result\<rparr> = Err code"
  shows "answer (fst (service_peer sd exec user token payload x)) = []"
proof -
  let ?client = "\<lparr>token_sid = token, sends = be_bytes32 (length payload) @ payload, takes = None,
    request_times_out = False, response_times_out = False\<rparr>"
  have len: "length payload \<le> MAX_FRAME_BYTES" and read: "read_request sd payload = Ok request"
    using assms(2,3) by (simp_all add: encode_payload_Ok serde_law_def)
  obtain identity where identity: "connected_client_identity ?client = Ok identity" "authorize identity user"
    using assms(1) [unfolded authorized_token_def, THEN spec [where x = ?client]] by auto
  have frame: "read_payload (be_bytes32 (length payload) @ payload) = (Ok payload, [])"
    using read_payload_frame [OF len, of "[]"] by simp
  have "handle_payload sd exec payload x = (Err code, y)"
    using len read assms(4,5)
    by (auto simp: handle_payload_def service_result_def encode_error_def prog_defs split: sum.splits prod.splits)
  then show ?thesis using identity frame by (simp add: service_peer_def serve_client_def)
qed

text \<open>A call that succeeds was executed by the service, once and with that result.\<close>

lemma call_reaches:
  assumes "authorized_token token user"
    and "\<And>v. serde_law (write_request sd) (read_request sd) v" "\<And>v. serde_law (write_response sd) (read_response sd) v"
    and "call_service sd (service_peer sd exec user token) command c = (Ok r, c')"
  shows "exec (next_operation_id c) command (service c) = (Ok r, service c')"
proof -
  let ?request = "\<lparr>req_version = PROTOCOL_VERSION, req_operation_id = next_operation_id c, req_command = command\<rparr>"
  obtain payload pipe where call: "encode_payload (write_request sd) ?request = Ok payload"
    "service_peer sd exec user token payload (service c) = (pipe, service c')"
    "read_answer sd (next_operation_id c) command pipe = Ok r"
    using assms(4) by (auto simp: call_service_def prog_defs split: sum.splits prod.splits)
  obtain result y where run: "service_result exec ?request (service c) = (result, y)"
    by (cases "service_result exec ?request (service c)")
  show ?thesis
  proof (cases "encode_payload (write_response sd) \<lparr>resp_version = PROTOCOL_VERSION,
      resp_operation_id = next_operation_id c, resp_result = result\<rparr>")
    case (Inl code)
    then have "answer pipe = []"
      using serve_client_unanswered [OF assms(1) call(1) assms(2) run] call(2) by simp
    moreover have "read_payload [] = (Err InvalidFrame, [])"
      by (simp add: read_payload_def read_exact_def prog_defs)
    ultimately have False using call(3)
      by (auto simp: read_answer_def within_def map_err_def split: if_splits sum.splits)
    then show ?thesis ..
  next
    case (Inr bs)
    then have bs: "length bs \<le> MAX_FRAME_BYTES" "read_response sd bs = Ok \<lparr>resp_version = PROTOCOL_VERSION,
        resp_operation_id = next_operation_id c, resp_result = result\<rparr>"
      using assms(3) by (simp_all add: encode_payload_Ok serde_law_def)
    have frame: "read_payload (be_bytes32 (length bs) @ bs) = (Ok bs, [])"
      using read_payload_frame [OF bs(1), of "[]"] by simp
    have "pipe = \<lparr>opened = Ok (), written = Ok (), write_delay = 0, flushed = Ok (), flush_delay = 0,
        answer = be_bytes32 (length bs) @ bs, answer_delay = 0\<rparr>" "service c' = y"
      using serve_client_answers [OF assms(1) call(1) assms(2) run, of bs] Inr call(2) by simp_all
    moreover have "0 < response_timeout command"
      by (simp add: response_timeout_def split: service_command.split core_command.split)
    ultimately have "result = Ok r" "service c' = y"
      using call(3) bs frame
      by (simp_all add: read_answer_def within_def io_timeout_def decode_response_def map_err_def split: sum.splits)
    then show ?thesis using run by (auto simp: service_result_def split: sum.splits)
  qed
qed

lemma wp_call_state:
  assumes "authorized_token token user"
    and "\<And>v. serde_law (write_request sd) (read_request sd) v" "\<And>v. serde_law (write_response sd) (read_response sd) v"
    and "\<And>x. wp (exec (next_operation_id c) command) (\<lambda>a y. \<forall>s. a = RState s \<longrightarrow> Q s y) (\<lambda>_ _. True) x"
  shows "wp (sbind (call_service sd (service_peer sd exec user token) command) (\<lambda>r. slift (expect_state r)))
    (\<lambda>s c'. Q s (service c')) (\<lambda>_ _. True) c"
proof (cases "call_service sd (service_peer sd exec user token) command c")
  case (Pair a c')
  show ?thesis
  proof (cases a)
    case (Inl e)
    then show ?thesis using Pair by (simp add: wp_def prog_defs)
  next
    case (Inr b)
    with call_reaches [OF assms(1-3)] Pair
    have "exec (next_operation_id c) command (service c) = (Ok b, service c')" by simp
    with wp_OkD [OF assms(4)] have "\<forall>s. b = RState s \<longrightarrow> Q s (service c')" by blast
    then show ?thesis using Pair Inr
      by (auto simp: wp_def prog_defs expect_state_def split: service_response.splits)
  qed
qed

text \<open>What the application gets from an executor that keeps the contract.\<close>

context tunnel_executor
begin

lemma client_connects:
  assumes usable and "authorized_token token user"
    and "\<And>v. serde_law (write_request sd) (read_request sd) v" "\<And>v. serde_law (write_response sd) (read_response sd) v"
  shows "wp (client_connect sd (service_peer sd exec user token) r)
    (\<lambda>s c'. s = reported (service c') \<and> phase s = Connected
       \<and> (if killswitch r then is_sealed (service c') else is_open (service c'))) (\<lambda>_ _. True) c"
  unfolding client_connect_def by (rule wp_call_state [OF assms(2-4)], rule connect_settles [OF assms(1)])

lemma client_disconnects:
  assumes usable and "authorized_token token user"
    and "\<And>v. serde_law (write_request sd) (read_request sd) v" "\<And>v. serde_law (write_response sd) (read_response sd) v"
  shows "wp (client_disconnect sd (service_peer sd exec user token) keep)
    (\<lambda>s c'. s = reported (service c') \<and> phase s = (if keep then Blocked else Disconnected)
       \<and> (if keep then is_sealed (service c') else is_open (service c'))) (\<lambda>_ _. True) c"
  unfolding client_disconnect_def by (rule wp_call_state [OF assms(2-4)], rule disconnect_settles [OF assms(1)])

lemma client_status:
  assumes "authorized_token token user"
    and "\<And>v. serde_law (write_request sd) (read_request sd) v" "\<And>v. serde_law (write_response sd) (read_response sd) v"
  shows "wp (service_status sd (service_peer sd exec user token))
    (\<lambda>s c'. s = reported (service c')) (\<lambda>_ _. True) c"
  unfolding service_status_def
  by (rule wp_call_state [OF assms]) (simp add: wp_def status_reports)

end

section \<open>Properties\<close>

text \<open>C0: The application only takes an answer for its own: a call that succeeds returns what a
  response of the protocol's version with the operation number of the request carries, which
  arrived within the command's limit, and the number is used up.\<close>

theorem call_takes_own_answer:
  assumes "call_service sd peer command c = (Ok r, c')"
  shows "\<exists>payload pipe rest bs response.
     encode_payload (write_request sd) \<lparr>req_version = PROTOCOL_VERSION,
       req_operation_id = next_operation_id c, req_command = command\<rparr> = Ok payload
     \<and> peer payload (service c) = (pipe, service c')
     \<and> read_payload (answer pipe) = (Ok bs, rest) \<and> read_response sd bs = Ok response
     \<and> resp_version response = PROTOCOL_VERSION \<and> resp_operation_id response = next_operation_id c
     \<and> resp_result response = Ok r \<and> answer_delay pipe < response_timeout command
     \<and> next_operation_id c' = next_operation_id c + 1"
  using assms
  by (auto simp: call_service_def prog_defs read_answer_def within_def decode_response_def prod_eq_iff
      split: sum.splits prod.splits if_splits)

text \<open>
  C14: The whole way of a command: whatever the application sends, an authorised service decodes,
  checks and executes once with the same operation number, and the application gets the result,
  or the message of the error, with the service in the state that the execution left.\<close>

theorem call_end_to_end:
  fixes c :: "'x client" and command :: service_command
  defines "request \<equiv> \<lparr>req_version = PROTOCOL_VERSION, req_operation_id = next_operation_id c,
     req_command = command\<rparr>"
  assumes "authorized_token token user"
    and "encode_payload (write_request sd) request = Ok payload"
    and "serde_law (write_request sd) (read_request sd) request"
    and "service_result exec request (service c) = (result, y)"
    and "response = \<lparr>resp_version = PROTOCOL_VERSION, resp_operation_id = next_operation_id c, resp_result = result\<rparr>"
    and "encode_payload (write_response sd) response = Ok bs"
    and "serde_law (write_response sd) (read_response sd) response"
  shows "call_service sd (service_peer sd exec user token) command c
    = (map_err err_message result, c\<lparr>next_operation_id := next_operation_id c + 1, service := y\<rparr>)"
proof -
  have bs: "length bs \<le> MAX_FRAME_BYTES" "read_response sd bs = Ok response"
    using assms(7,8) by (simp_all add: encode_payload_Ok serde_law_def)
  have frame: "read_payload (be_bytes32 (length bs) @ bs) = (Ok bs, [])"
    using read_payload_frame [OF bs(1), of "[]"] by simp
  have id: "req_operation_id request = next_operation_id c" by (simp add: request_def)
  have "service_peer sd exec user token payload (service c) =
    (\<lparr>opened = Ok (), written = Ok (), write_delay = 0, flushed = Ok (), flush_delay = 0,
      answer = be_bytes32 (length bs) @ bs, answer_delay = 0\<rparr>, y)"
    using assms(7) unfolding assms(6)
    by (intro serve_client_answers [OF assms(2-5)]) (simp only: id)
  moreover have "0 < response_timeout command"
    by (simp add: response_timeout_def split: service_command.split core_command.split)
  ultimately show ?thesis
    using assms(3,6) bs frame unfolding request_def
    by (simp add: call_service_def prog_defs read_answer_def within_def io_timeout_def decode_response_def map_err_def)
qed

text \<open>A client of the system account, for concrete runs with a service that counts its executions.\<close>

definition counting_client :: "nat client" where
  "counting_client = \<lparr>next_operation_id = 18446744073709551615, service = 0\<rparr>"

definition counting_executor :: "nat executor" where
  "counting_executor op command x = (Ok (RState disconnected_state), Suc x)"

lemma system_token: "authorized_token (Ok ''S-1-5-18'') user"
proof -
  have "parse_sid ''S-1-5-18'' = Ok (InstalledUserSid ''S-1-5-18'')" by code_simp
  then show ?thesis
    by (simp add: authorized_token_def connected_client_identity_def LOCAL_SYSTEM_SID_def
        authorize_def local_system_client_def)
qed

text \<open>One call of the counting service.\<close>

lemma counting_call:
  "call_service sample_protocol_serde (service_peer sample_protocol_serde counting_executor
      (InstalledUserSid ''S-1-5-21-8'') (Ok ''S-1-5-18'')) Status counting_client
   = (Ok (RState disconnected_state), \<lparr>next_operation_id = 0, service = 1\<rparr>)"
  by code_simp

theorem call_end_to_end_witness:
  "call_service sample_protocol_serde (service_peer sample_protocol_serde counting_executor
      (InstalledUserSid ''S-1-5-21-8'') (Ok ''S-1-5-18'')) Status counting_client
   = (Ok (RState disconnected_state), \<lparr>next_operation_id = 0, service = 1\<rparr>)"
proof -
  have "call_service sample_protocol_serde (service_peer sample_protocol_serde counting_executor
      (InstalledUserSid ''S-1-5-21-8'') (Ok ''S-1-5-18'')) Status counting_client
    = (map_err (err_message :: service_error \<Rightarrow> string) (Ok (RState disconnected_state)),
       counting_client\<lparr>next_operation_id := next_operation_id counting_client + 1, service := 1\<rparr>)"
    by (rule call_end_to_end [where c = counting_client and command = Status and payload = "[1]" and bs = "[2]",
        OF system_token _ _ _ refl])
      (simp_all add: sample_protocol_serde_def encode_payload_def MAX_FRAME_BYTES_def serde_law_def
        PROTOCOL_VERSION_def counting_client_def counting_executor_def service_result_def validate_request_def)
  then show ?thesis by (simp add: counting_client_def map_err_def)
qed

theorem call_takes_own_answer_witness:
  "\<exists>payload pipe rest bs response.
     encode_payload (write_request sample_protocol_serde) \<lparr>req_version = PROTOCOL_VERSION,
       req_operation_id = next_operation_id counting_client, req_command = Status\<rparr> = Ok payload
     \<and> service_peer sample_protocol_serde counting_executor (InstalledUserSid ''S-1-5-21-8'') (Ok ''S-1-5-18'')
         payload (service counting_client) = (pipe, service \<lparr>next_operation_id = 0, service = 1\<rparr>)
     \<and> read_payload (answer pipe) = (Ok bs, rest) \<and> read_response sample_protocol_serde bs = Ok response
     \<and> resp_version response = PROTOCOL_VERSION
     \<and> resp_operation_id response = next_operation_id counting_client
     \<and> resp_result response = Ok (RState disconnected_state)
     \<and> answer_delay pipe < response_timeout Status
     \<and> next_operation_id \<lparr>next_operation_id = 0, service = 1 :: nat\<rparr> = next_operation_id counting_client + 1"
  by (rule call_takes_own_answer [OF counting_call])

end
