(* ===== verification/Vless_Server.thy ===== *)
theory Vless_Server
  imports Json "HOL-Library.AList"
begin

text \<open>
  The location model of \<open>src-tauri/src/subscription.rs\<close>, \<open>VlessServer\<close>, which both the
  subscription parser and the configuration generator work on, with the helpers on options
  and maps that they share.
\<close>

section \<open>Options and maps\<close>

definition unwrap_or :: "'a \<Rightarrow> 'a option \<Rightarrow> 'a" where
  "unwrap_or d x = (case x of Some v \<Rightarrow> v | None \<Rightarrow> d)"

text \<open>\<open>filter(|s| !s.is_empty())\<close> on an optional string.\<close>

definition nonempty :: "'a list option \<Rightarrow> 'a list option" where
  "nonempty x = (case x of Some [] \<Rightarrow> None | _ \<Rightarrow> x)"

text \<open>\<open>iter().find_map(f)\<close>\<close>

fun find_map :: "('a \<Rightarrow> 'b option) \<Rightarrow> 'a list \<Rightarrow> 'b option" where
  "find_map f [] = None"
| "find_map f (x # xs) = (case f x of Some y \<Rightarrow> Some y | None \<Rightarrow> find_map f xs)"

lemma unwrap_or_simps [simp]: "unwrap_or d None = d" "unwrap_or d (Some v) = v"
  by (simp_all add: unwrap_or_def)

lemma nonempty_Some [simp]: "nonempty x = Some s \<longleftrightarrow> x = Some s \<and> s \<noteq> []"
  by (auto simp: nonempty_def split: option.splits list.splits)

lemma nonempty_None: "nonempty x = None \<longleftrightarrow> x = None \<or> x = Some []"
  by (auto simp: nonempty_def split: option.splits list.splits)

lemma find_map_Some: "find_map f xs = Some y \<Longrightarrow> \<exists>x\<in>set xs. f x = Some y"
  by (induction xs) (auto split: option.splits)

lemma find_map_None: "find_map f xs = None \<longleftrightarrow> (\<forall>x\<in>set xs. f x = None)"
  by (induction xs) (auto split: option.splits)

lemma set_map_filter [simp]: "y \<in> set (List.map_filter f xs) \<longleftrightarrow> (\<exists>x\<in>set xs. f x = Some y)"
  by (force simp: map_filter_def)

text \<open>
  A \<open>HashMap<String, String>\<close> is a list of its entries with each key once; \<open>insert\<close> is
  \<open>AList.update\<close>. The order of its iterator is the standard library's choice: the one place where
  it matters, \<open>query_value\<close> of \<open>Share_Links\<close>, takes it as a parameter.
\<close>

type_synonym params = "(string \<times> string) list"

abbreviation hm_insert :: "string \<Rightarrow> string \<Rightarrow> params \<Rightarrow> params" where
  "hm_insert \<equiv> AList.update"

text \<open>Collecting pairs into a map: a later pair replaces an earlier one.\<close>

definition hm_collect :: "(string \<times> string) list \<Rightarrow> params" where
  "hm_collect kvs = foldl (\<lambda>m kv. hm_insert (fst kv) (snd kv) m) [] kvs"

lemma map_of_hm_insert [simp]: "map_of (hm_insert k v m) = (map_of m)(k \<mapsto> v)"
  by (rule update_conv')

lemma map_of_foldl_hm:
  "map_of (foldl (\<lambda>m kv. hm_insert (fst kv) (snd kv) m) m kvs) = map_of m ++ map_of (rev kvs)"
  by (induction kvs arbitrary: m) (auto simp: map_add_def fun_eq_iff split: option.splits)

lemma map_of_hm_collect: "map_of (hm_collect kvs) = map_of (rev kvs)"
  by (simp add: hm_collect_def map_of_foldl_hm)

section \<open>The location\<close>

record vless_server =
  s_id :: string
  s_protocol :: string
  s_uuid :: string
  s_password :: "string option"
  s_method :: "string option"
  s_host :: string
  s_port :: u16
  s_label :: string
  s_transport :: string
  s_security :: string
  s_sni :: "string option"
  s_fingerprint :: "string option"
  s_public_key :: "string option"
  s_short_id :: "string option"
  s_flow :: "string option"
  s_path :: "string option"
  s_mode :: "string option"
  s_packet_encoding :: "string option"
  s_raw_params :: params
  s_source_json :: "string option"
  s_raw_outbound :: "json option"
  s_raw_profile :: "json option"

definition default_protocol :: string where
  "default_protocol = ''vless''"

text \<open>\<open>de_protocol\<close>, on the optional string that was read.\<close>

definition de_protocol :: "string option \<Rightarrow> string" where
  "de_protocol opt = unwrap_or default_protocol (nonempty opt)"

definition server_base :: "string \<Rightarrow> string \<Rightarrow> u16 \<Rightarrow> string \<Rightarrow> vless_server" where
  "server_base protocol host port label =
     \<lparr>s_id = host @ ''_'' @ dec (unat port), s_protocol = protocol, s_uuid = [], s_password = None,
      s_method = None, s_host = host, s_port = port, s_label = label, s_transport = ''tcp'',
      s_security = ''none'', s_sni = None, s_fingerprint = None, s_public_key = None,
      s_short_id = None, s_flow = None, s_path = None, s_mode = None, s_packet_encoding = None,
      s_raw_params = [], s_source_json = None, s_raw_outbound = None, s_raw_profile = None\<rparr>"

definition is_balancer_sentinel :: "string \<Rightarrow> bool" where
  "is_balancer_sentinel host \<longleftrightarrow> ascii_lower (trim host) = ''balancer.host''"

text \<open>\<open>s.trim_matches(['[', ']'])\<close>\<close>

definition trim_brackets :: "string \<Rightarrow> string" where
  "trim_brackets s =
     rev (dropWhile (\<lambda>c. c \<in> set ''[]'') (rev (dropWhile (\<lambda>c. c \<in> set ''[]'') s)))"

lemma server_base_sel [simp]:
  "s_protocol (server_base p h n l) = p" "s_host (server_base p h n l) = h"
  "s_port (server_base p h n l) = n" "s_label (server_base p h n l) = l"
  "s_uuid (server_base p h n l) = []" "s_transport (server_base p h n l) = ''tcp''"
  "s_security (server_base p h n l) = ''none''" "s_raw_params (server_base p h n l) = []"
  "s_raw_outbound (server_base p h n l) = None" "s_raw_profile (server_base p h n l) = None"
  "s_flow (server_base p h n l) = None" "s_sni (server_base p h n l) = None"
  by (simp_all add: server_base_def)

end
