(* ===== verification/Json_Locations.thy ===== *)
theory Json_Locations
  imports Share_Links
begin

text \<open>
  The JSON locations of \<open>src-tauri/src/subscription.rs\<close>: Xray outbounds and profiles, read
  back into the location model, and the search for them in a document.
\<close>

section \<open>JSON locations\<close>

text \<open>The parser's own list of protocols, the first non-empty string among some keys, a port.\<close>

definition is_json_proxy_protocol :: "string \<Rightarrow> bool" where
  "is_json_proxy_protocol p \<longleftrightarrow> p \<in> {''vless'', ''vmess'', ''trojan'', ''shadowsocks'', ''hysteria'',
     ''wireguard'', ''http'', ''socks''}"

definition json_str_any :: "json \<Rightarrow> string list \<Rightarrow> string option" where
  "json_str_any v keys = find_map (\<lambda>k. nonempty (map_option trim (get_str k v))) keys"

definition json_str :: "json \<Rightarrow> string \<Rightarrow> string option" where
  "json_str v key = nonempty (get_str key v)"

definition json_port :: "json option \<Rightarrow> u16 option" where
  "json_port v = (case v of
      Some (JNum n) \<Rightarrow> (case as_u64 (JNum n) of
          Some p \<Rightarrow> if p \<le> 65535 then Some (ucast p) else None
        | None \<Rightarrow> None)
    | Some (JStr st) \<Rightarrow> parse_u16 st
    | _ \<Rightarrow> None)"

definition first_of :: "string \<Rightarrow> json \<Rightarrow> json option" where
  "first_of key v = (case get_array key v of Some (x # _) \<Rightarrow> Some x | _ \<Rightarrow> None)"

definition direct_or_first :: "json \<Rightarrow> string \<Rightarrow> json option" where
  "direct_or_first settings array_key =
     (if jget ''address'' settings \<noteq> None then Some settings else first_of array_key settings)"

definition normalize_network :: "string \<Rightarrow> string" where
  "normalize_network net =
     (if net \<in> {''raw'', ''tcp''} then ''tcp''
      else if net \<in> {''splithttp'', ''xhttp''} then ''xhttp''
      else if net = ''h2'' then ''http'' else net)"

text \<open>The host and the port of an address-bearing object.\<close>

definition json_address :: "json \<Rightarrow> (string \<times> u16) option" where
  "json_address v =
     Option.bind (json_str v ''address'') (\<lambda>host.
     Option.bind (json_port (jget ''port'' v)) (\<lambda>port. Some (host, port)))"

definition outbound_label :: "json \<Rightarrow> string \<Rightarrow> u16 \<Rightarrow> string" where
  "outbound_label ob host port =
     (let tag = unwrap_or [] (get_str ''tag'' ob) in
      if tag \<noteq> [] \<and> tag \<notin> {''proxy'', ''direct'', ''block'', ''dns-out''} then tag
      else host_port host port)"

text \<open>\<open>apply_stream\<close>, in the order of its steps.\<close>

definition apply_reality :: "json \<Rightarrow> vless_server \<Rightarrow> vless_server" where
  "apply_reality st s = (case jget ''realitySettings'' st of
      None \<Rightarrow> s
    | Some r \<Rightarrow> s\<lparr>s_sni := json_str r ''serverName'', s_public_key := json_str r ''publicKey'',
        s_short_id := json_str r ''shortId'', s_fingerprint := json_str r ''fingerprint'',
        s_raw_params := hm_insert_option ''spx'' (json_str r ''spiderX'') (s_raw_params s)\<rparr>)"

definition or_option :: "'a option \<Rightarrow> 'a option \<Rightarrow> 'a option" where
  "or_option x y = (case x of None \<Rightarrow> y | _ \<Rightarrow> x)"

definition apply_tls :: "json \<Rightarrow> vless_server \<Rightarrow> vless_server" where
  "apply_tls st s = (case jget ''tlsSettings'' st of
      None \<Rightarrow> s
    | Some tls \<Rightarrow>
        let raw = s_raw_params s;
            raw = (if Option.bind (jget ''allowInsecure'' tls) as_bool = Some True
              then hm_insert ''allowInsecure'' ''1'' raw else raw);
            raw = hm_insert_option ''alpn'' (map_option (join_with '','')
              (nonempty (map_option (List.map_filter as_str) (get_array ''alpn'' tls)))) raw
        in s\<lparr>s_sni := or_option (s_sni s) (json_str tls ''serverName''),
             s_fingerprint := or_option (s_fingerprint s) (json_str tls ''fingerprint''),
             s_raw_params := raw\<rparr>)"

definition apply_transport :: "json \<Rightarrow> vless_server \<Rightarrow> vless_server" where
  "apply_transport st s =
     (let put = (\<lambda>k v. s_raw_params_update (hm_insert_option k v)) in
      if s_transport s = ''ws'' then
        (case jget ''wsSettings'' st of None \<Rightarrow> s | Some ws \<Rightarrow>
          put ''host'' (Option.bind (jget ''headers'' ws) (get_str ''Host'')) (s\<lparr>s_path := json_str ws ''path''\<rparr>))
      else if s_transport s = ''xhttp'' then
        (case or_option (jget ''xhttpSettings'' st) (jget ''splithttpSettings'' st) of None \<Rightarrow> s | Some x \<Rightarrow>
          put ''host'' (json_str x ''host'') (s\<lparr>s_path := json_str x ''path'', s_mode := json_str x ''mode''\<rparr>))
      else if s_transport s = ''httpupgrade'' then
        (case jget ''httpupgradeSettings'' st of None \<Rightarrow> s | Some hu \<Rightarrow>
          put ''host'' (json_str hu ''host'') (s\<lparr>s_path := json_str hu ''path''\<rparr>))
      else if s_transport s = ''grpc'' then
        (case jget ''grpcSettings'' st of None \<Rightarrow> s | Some g \<Rightarrow>
          let s = put ''serviceName'' (json_str g ''serviceName'') s;
              s = (if Option.bind (jget ''multiMode'' g) as_bool = Some True
                then s\<lparr>s_mode := Some ''multi''\<rparr> else s)
          in put ''authority'' (json_str g ''authority'') s)
      else s)"

definition apply_stream :: "json option \<Rightarrow> vless_server \<Rightarrow> vless_server" where
  "apply_stream stream s = (case stream of
      None \<Rightarrow> s
    | Some st \<Rightarrow>
        let s = (case get_str ''network'' st of
              Some net \<Rightarrow> s\<lparr>s_transport := normalize_network net\<rparr> | None \<Rightarrow> s);
            s = s\<lparr>s_security := unwrap_or ''none'' (get_str ''security'' st)\<rparr>
        in apply_transport st (apply_tls st (apply_reality st s)))"

text \<open>The protocol-specific part of \<open>parse_outbound\<close>, before its stream settings.\<close>

definition outbound_base :: "json \<Rightarrow> string \<Rightarrow> string \<times> u16 \<Rightarrow> vless_server" where
  "outbound_base ob protocol addr = (case addr of (host, port) \<Rightarrow>
     server_base protocol host port (outbound_label ob host port))"

definition outbound_vnext :: "json \<Rightarrow> string \<Rightarrow> vless_server option" where
  "outbound_vnext ob protocol =
     Option.bind (jget ''settings'' ob) (\<lambda>settings.
     Option.bind (direct_or_first settings ''vnext'') (\<lambda>ep.
     Option.bind (json_address ep) (\<lambda>addr.
     let user = unwrap_or ep (first_of ''users'' ep) in
     Option.bind (json_str user ''id'') (\<lambda>uuid.
     let s = (outbound_base ob protocol addr)\<lparr>s_uuid := uuid, s_flow := json_str user ''flow''\<rparr>
     in Some (if protocol = ''vmess''
       then s\<lparr>s_raw_params := hm_insert_option ''aid''
           (map_option (\<lambda>n. dec (unat n)) (Option.bind (jget ''alterId'' user) as_u64))
           (hm_insert_option ''scy'' (json_str user ''security'') [])\<rparr>
       else s)))))"

definition outbound_servers :: "json \<Rightarrow> (json \<times> (string \<times> u16)) option" where
  "outbound_servers ob =
     Option.bind (jget ''settings'' ob) (\<lambda>settings.
     Option.bind (direct_or_first settings ''servers'') (\<lambda>srv.
     Option.bind (json_address srv) (\<lambda>addr. Some (srv, addr))))"

definition outbound_trojan :: "json \<Rightarrow> vless_server option" where
  "outbound_trojan ob =
     Option.bind (outbound_servers ob) (\<lambda>(srv, addr).
     Option.bind (json_str srv ''password'') (\<lambda>pw.
     Some ((outbound_base ob ''trojan'' addr)
       \<lparr>s_uuid := pw, s_password := Some pw, s_flow := json_str srv ''flow''\<rparr>)))"

definition outbound_shadowsocks :: "json \<Rightarrow> vless_server option" where
  "outbound_shadowsocks ob =
     Option.bind (outbound_servers ob) (\<lambda>(srv, addr).
     Some ((outbound_base ob ''shadowsocks'' addr)
       \<lparr>s_method := json_str srv ''method'', s_password := json_str srv ''password''\<rparr>))"

definition outbound_hysteria :: "json \<Rightarrow> vless_server option" where
  "outbound_hysteria ob =
     Option.bind (jget ''settings'' ob) (\<lambda>settings.
     Option.bind (json_address settings) (\<lambda>addr.
     Some ((outbound_base ob ''hysteria'' addr)
       \<lparr>s_uuid := unwrap_or [] (or_option
          (Option.bind (Option.bind (jget ''streamSettings'' ob) (jget ''hysteriaSettings''))
             (\<lambda>h. json_str h ''auth''))
          (json_str settings ''auth''))\<rparr>)))"

definition outbound_wireguard :: "codecs \<Rightarrow> json \<Rightarrow> vless_server option" where
  "outbound_wireguard cd ob =
     Option.bind (jget ''settings'' ob) (\<lambda>settings.
     Option.bind (first_of ''peers'' settings) (\<lambda>peer.
     Option.bind (json_str peer ''endpoint'') (\<lambda>ep.
     Option.bind (endpoint_host_port cd ep) (\<lambda>addr.
     Some ((outbound_base ob ''wireguard'' addr)
       \<lparr>s_uuid := unwrap_or [] (json_str settings ''secretKey''), s_transport := ''wireguard''\<rparr>)))))"

definition outbound_simple :: "json \<Rightarrow> string \<Rightarrow> vless_server option" where
  "outbound_simple ob protocol =
     Option.bind (outbound_servers ob) (\<lambda>(srv, addr).
     let user = unwrap_or srv (first_of ''users'' srv) in
     Some ((outbound_base ob protocol addr)
       \<lparr>s_uuid := unwrap_or [] (json_str_any user [''user'', ''username'']),
        s_password := json_str_any user [''pass'', ''password'']\<rparr>))"

definition outbound_server :: "codecs \<Rightarrow> json \<Rightarrow> string \<Rightarrow> vless_server option" where
  "outbound_server cd ob protocol =
     (if protocol \<in> {''vless'', ''vmess''} then outbound_vnext ob protocol
      else if protocol = ''trojan'' then outbound_trojan ob
      else if protocol = ''shadowsocks'' then outbound_shadowsocks ob
      else if protocol = ''hysteria'' then outbound_hysteria ob
      else if protocol = ''wireguard'' then outbound_wireguard cd ob
      else if protocol \<in> {''http'', ''socks''} then outbound_simple ob protocol
      else None)"

definition parse_outbound :: "codecs \<Rightarrow> json \<Rightarrow> vless_server option" where
  "parse_outbound cd ob =
     Option.bind (get_str ''protocol'' ob) (\<lambda>protocol.
     Option.bind (outbound_server cd ob protocol) (\<lambda>s.
     let s = apply_stream (jget ''streamSettings'' ob) s in
     if is_balancer_sentinel (s_host s) then None else Some s))"

text \<open>\<open>server_endpoints\<close>: the endpoints in the order of the \<open>BTreeSet\<close>, each once.\<close>

fun endpoint_insert :: "string \<times> u16 \<Rightarrow> (string \<times> u16) list \<Rightarrow> (string \<times> u16) list" where
  "endpoint_insert e [] = [e]"
| "endpoint_insert e (f # fs) =
     (if fst e < fst f \<or> fst e = fst f \<and> snd e < snd f then e # f # fs
      else if e = f then f # fs
      else f # endpoint_insert e fs)"

definition server_endpoints_of :: "codecs \<Rightarrow> vless_server \<Rightarrow> (string \<times> u16) list" where
  "server_endpoints_of cd server =
     (let address = (\<lambda>s. (s_host s, s_port s));
          parsed = (case s_raw_profile server of
              Some profile \<Rightarrow> List.map_filter (parse_outbound cd) (unwrap_or [] (get_array ''outbounds'' profile))
            | None \<Rightarrow> (case s_raw_outbound server of
                Some ob \<Rightarrow> List.map_filter (parse_outbound cd) [ob] | None \<Rightarrow> []));
          endpoints = fold endpoint_insert (map address parsed) []
      in if endpoints = [] then [address server] else endpoints)"

definition has_proxy_protocol :: "json \<Rightarrow> bool" where
  "has_proxy_protocol v \<longleftrightarrow> (case get_str ''protocol'' v of
      Some p \<Rightarrow> is_json_proxy_protocol p | None \<Rightarrow> False)"

text \<open>The proxy outbounds of a complete profile.\<close>

definition profile_outbounds :: "(string \<times> json) list \<Rightarrow> json list option" where
  "profile_outbounds obj = nonempty (map_option (filter has_proxy_protocol)
     (Option.bind (map_of obj ''outbounds'') as_array))"

definition named_from :: "codecs \<Rightarrow> json \<Rightarrow> vless_server \<Rightarrow> vless_server" where
  "named_from cd source s =
     s\<lparr>s_label := unwrap_or (s_label s) (json_str_any source [''remarks'', ''name'', ''ps'', ''title'']),
       s_source_json := result_ok (to_string (cd_json cd) source)\<rparr>"

definition wrapper_keys :: "string list" where
  "wrapper_keys = [''servers'', ''links'', ''proxies'', ''configs'', ''list'']"

text \<open>
  The recursion pushes the servers it finds; here it returns them in the same order. The
  depth is bounded by the first guard, and \<open>location_source\<close> is the object that the user
  edits for a location.
\<close>

function collect_json_servers :: "codecs \<Rightarrow> json \<Rightarrow> nat \<Rightarrow> json option \<Rightarrow> vless_server list" where
  "collect_json_servers cd v depth location_source =
     (if 6 < depth then []
      else case v of
          JArr arr \<Rightarrow> concat (map (\<lambda>el. collect_json_servers cd el (depth + 1)
              (or_option location_source (if is_object el then Some el else None))) arr)
        | JStr s \<Rightarrow>
            if is_supported_uri (trim s) then
              (case parse_proxy_uri cd (trim s) of Inr srv \<Rightarrow> [srv] | Inl _ \<Rightarrow> [])
            else []
        | JObj obj \<Rightarrow>
            (case profile_outbounds obj of
               Some outs \<Rightarrow>
                 (case find_map (parse_outbound cd) outs of
                    Some server \<Rightarrow> [(named_from cd (unwrap_or v location_source) server)
                        \<lparr>s_raw_outbound := Some (hd outs), s_raw_profile := Some v\<rparr>]
                  | None \<Rightarrow> [])
             | None \<Rightarrow>
                 if has_proxy_protocol v then
                   (case parse_outbound cd v of
                      Some s \<Rightarrow> [(named_from cd (unwrap_or v location_source) s)
                          \<lparr>s_raw_outbound := Some v\<rparr>]
                    | None \<Rightarrow> [])
                 else
                   (case map_of obj ''outbounds'' of
                      Some child \<Rightarrow> collect_json_servers cd child (depth + 1)
                        (Some (unwrap_or v location_source))
                    | None \<Rightarrow> [])
                   @ concat (map (\<lambda>key. case map_of obj key of
                       Some child \<Rightarrow> collect_json_servers cd child (depth + 1) None | None \<Rightarrow> [])
                     wrapper_keys))
        | _ \<Rightarrow> [])"
  by pat_completeness auto
termination by (relation "measure (\<lambda>(cd, v, depth, source). 7 - depth)") auto

declare collect_json_servers.simps [simp del]

definition parse_json_subscription :: "codecs \<Rightarrow> string \<Rightarrow> string option \<times> vless_server list" where
  "parse_json_subscription cd body =
     (case from_str (cd_json cd) body of
        Inl _ \<Rightarrow> (None, [])
      | Inr v \<Rightarrow>
          let name = json_str_any v [''remarks'', ''name'', ''ps'', ''title'', ''Profile-Title''];
              out = collect_json_servers cd v 0 None
          in (name, if length out = 1 then map (\<lambda>s. s\<lparr>s_label := unwrap_or (s_label s) name\<rparr>) out else out))"

end
