(* ===== verification/Subscription.thy ===== *)
theory Subscription
  imports Json_Locations
begin

text \<open>
  Subscription bodies of \<open>src-tauri/src/subscription.rs\<close>: the choice of the format, WireGuard
  files, lists of links, and the metadata in headers and comments.
\<close>

section \<open>WireGuard files\<close>

text \<open>
  The state of the loop over the lines: the interface's entries, those of each peer, and the
  section that the next entry belongs to (0 the interface, n the n-th peer).
\<close>

record wg_scan =
  wg_interface :: params
  wg_peers :: "params list"
  wg_section :: "nat option"

text \<open>\<open>raw_value.split(['#', ';']).next()\<close>\<close>

definition strip_comment :: "string \<Rightarrow> string" where
  "strip_comment s = takeWhile (\<lambda>c. c \<noteq> CHR ''#'' \<and> c \<noteq> CHR '';'') s"

definition wg_entry :: "string \<Rightarrow> string \<Rightarrow> wg_scan \<Rightarrow> wg_scan" where
  "wg_entry key value w = (case wg_section w of
      Some 0 \<Rightarrow> w\<lparr>wg_interface := hm_insert key value (wg_interface w)\<rparr>
    | Some (Suc i) \<Rightarrow> (if i < length (wg_peers w)
        then w\<lparr>wg_peers := (wg_peers w)[i := hm_insert key value (wg_peers w ! i)]\<rparr> else w)
    | None \<Rightarrow> w)"

definition wg_line :: "string \<Rightarrow> wg_scan \<Rightarrow> wg_scan" where
  "wg_line raw_line w =
     (let line = trim raw_line in
      if line = [] \<or> starts_with ''#'' line \<or> starts_with '';'' line then w
      else if eq_ignore_case line ''[Interface]'' then w\<lparr>wg_section := Some 0\<rparr>
      else if eq_ignore_case line ''[Peer]''
      then w\<lparr>wg_peers := wg_peers w @ [[]], wg_section := Some (Suc (length (wg_peers w)))\<rparr>
      else if starts_with ''['' line then w\<lparr>wg_section := None\<rparr>
      else case split_once ''='' line of
          None \<Rightarrow> w
        | Some (key, raw_value) \<Rightarrow>
            let value = trim (strip_comment raw_value) in
            if value = [] then w else wg_entry (ascii_lower (trim key)) value w)"

definition wg_scan_lines :: "string \<Rightarrow> wg_scan" where
  "wg_scan_lines body = fold wg_line (str_lines body)
     \<lparr>wg_interface = [], wg_peers = [], wg_section = None\<rparr>"

definition wg_server :: "codecs \<Rightarrow> params \<Rightarrow> string \<Rightarrow> nat \<Rightarrow> params \<Rightarrow> vless_server option" where
  "wg_server cd interface private_key index peer =
     Option.bind (map_of peer ''endpoint'') (\<lambda>ep.
     Option.bind (endpoint_host_port cd ep) (\<lambda>(host, port).
     Option.bind (nonempty (map_of peer ''publickey'')) (\<lambda>public_key.
     let raw = hm_insert_option ''localAddress'' (map_of interface ''address'') [];
         raw = hm_insert_option ''mtu'' (map_of interface ''mtu'') raw;
         raw = hm_insert_option ''preSharedKey'' (map_of peer ''presharedkey'') raw;
         raw = hm_insert_option ''reserved'' (map_of peer ''reserved'') raw;
         raw = hm_insert_option ''allowedIPs'' (map_of peer ''allowedips'') raw;
         raw = hm_insert_option ''keepAlive'' (map_of peer ''persistentkeepalive'') raw
     in Some ((server_base ''wireguard'' host port
         (''WireGuard Peer '' @ dec (index + 1) @ '' ('' @ host_port host port @ '')''))
       \<lparr>s_uuid := private_key, s_public_key := Some public_key, s_transport := ''wireguard'',
        s_raw_params := raw\<rparr>))))"

definition parse_wireguard_config :: "codecs \<Rightarrow> string \<Rightarrow> vless_server list" where
  "parse_wireguard_config cd body =
     (let w = wg_scan_lines body in
      case nonempty (map_of (wg_interface w) ''privatekey'') of
        None \<Rightarrow> []
      | Some private_key \<Rightarrow>
          List.map_filter (\<lambda>(index, peer). wg_server cd (wg_interface w) private_key index peer)
            (List.enumerate 0 (wg_peers w)))"

definition looks_like_wireguard_config :: "string \<Rightarrow> bool" where
  "looks_like_wireguard_config body \<longleftrightarrow>
     (let ls = map trim (str_lines body) in
      list_ex (\<lambda>l. eq_ignore_case l ''[Interface]'') ls \<and> list_ex (\<lambda>l. eq_ignore_case l ''[Peer]'') ls)"

section \<open>Bodies\<close>

definition decode_body :: "codecs \<Rightarrow> string \<Rightarrow> string" where
  "decode_body cd body =
     (if list_ex (\<lambda>line. is_supported_uri (trim line)) (str_lines body) \<or> looks_like_wireguard_config body
      then body
      else unwrap_or body (find_map (b64_text cd (remove_whitespace body)) b64_engines))"

definition looks_like_json :: "string \<Rightarrow> bool" where
  "looks_like_json s \<longleftrightarrow> starts_with ''{'' s
     \<or> starts_with ''['' s \<and> \<not> looks_like_wireguard_config s"

text \<open>The links of a text, line by line.\<close>

definition link_of_line :: "codecs \<Rightarrow> string \<Rightarrow> vless_server option" where
  "link_of_line cd line =
     (let trimmed = trim line in
      if trimmed = [] \<or> starts_with ''#'' trimmed \<or> \<not> is_supported_uri trimmed then None
      else result_ok (parse_proxy_uri cd trimmed))"

definition parse_subscription :: "codecs \<Rightarrow> string \<Rightarrow> vless_server list" where
  "parse_subscription cd body =
     (let original = trim_start (strip_bom body) in
      if looks_like_json original then snd (parse_json_subscription cd original)
      else
        let content = decode_body cd body;
            trimmed = trim_start (strip_bom content)
        in if looks_like_json trimmed then snd (parse_json_subscription cd trimmed)
           else if looks_like_wireguard_config trimmed then parse_wireguard_config cd trimmed
           else List.map_filter (link_of_line cd) (str_lines content))"

section \<open>Metadata\<close>

definition is_meta_key :: "string \<Rightarrow> bool" where
  "is_meta_key key \<longleftrightarrow> key \<in> set [''profile-title'', ''profile-update-interval'', ''support-url'',
     ''profile-web-page-url'', ''subscription-userinfo'', ''announce'', ''hide-settings'',
     ''subscriptions-collapse'', ''subscriptions-expand-now'', ''encrypted-subscription'',
     ''allow-insecure'', ''subscription-ping-onopen-enabled'', ''mux-enable'', ''mux-tcp-connections'',
     ''mux-xudp-connections'', ''mux-quic'', ''routing'', ''dns'']"

text \<open>The loop over the leading comment lines, with the headers and description lines so far.\<close>

fun body_meta_loop :: "params \<Rightarrow> string list \<Rightarrow> string list \<Rightarrow> params \<times> string list" where
  "body_meta_loop headers desc [] = (headers, desc)"
| "body_meta_loop headers desc (raw # lines) =
     (let line = trim raw in
      if line = [] then
        (if headers = [] \<and> desc = [] then body_meta_loop headers desc lines else (headers, desc))
      else case strip_prefix ''#'' line of
          None \<Rightarrow> (headers, desc)
        | Some rest \<Rightarrow>
            let rest = trim rest in
            (case split_once '':'' rest of
               Some (k, v) \<Rightarrow>
                 let key = ascii_lower (trim k) in
                 if is_meta_key key then body_meta_loop (hm_insert key (trim v) headers) desc lines
                 else body_meta_loop headers (desc @ [rest]) lines
             | None \<Rightarrow> body_meta_loop headers (desc @ [rest]) lines))"

definition parse_body_meta :: "codecs \<Rightarrow> string \<Rightarrow> params \<times> string option" where
  "parse_body_meta cd body =
     (case body_meta_loop [] [] (str_lines (decode_body cd body)) of (headers, desc) \<Rightarrow>
       (headers, if desc = [] then None else Some (join_with [CHR 0x0A] desc)))"

definition decode_maybe_b64 :: "codecs \<Rightarrow> string \<Rightarrow> string" where
  "decode_maybe_b64 cd value =
     (let trimmed = trim value;
          payload = map_option trim (or_option (strip_prefix ''base64:'' trimmed) (strip_prefix ''Base64:'' trimmed));
          candidate = unwrap_or trimmed payload;
          explicit = (payload \<noteq> None)
      in unwrap_or trimmed (find_map (\<lambda>engine.
           case map_option trim (b64_text cd candidate engine) of
             Some s \<Rightarrow> if explicit \<or> s \<noteq> [] \<and> s \<noteq> trimmed \<and> \<not> has_control s then Some s else None
           | None \<Rightarrow> None) b64_engines))"

record subscription_meta =
  title :: "string option"
  update_interval_hours :: "nat option"
  upload_bytes :: "nat option"
  download_bytes :: "nat option"
  total_bytes :: "nat option"
  expires_at_unix :: "int option"
  has_userinfo :: bool
  support_url :: "string option"
  web_page_url :: "string option"

text \<open>\<open>v.parse::<i64>()\<close>\<close>

definition parse_i64 :: "string \<Rightarrow> int option" where
  "parse_i64 s = (case strip_prefix ''-'' s of
      Some d \<Rightarrow> (if d \<noteq> [] \<and> list_all is_digit d \<and> digits_value d \<le> 2 ^ 63
        then Some (- int (digits_value d)) else None)
    | None \<Rightarrow> map_option int (parse_uint (2 ^ 63 - 1) s))"

definition positive :: "'a :: {zero, ord} option \<Rightarrow> 'a option" where
  "positive x = (case x of Some n \<Rightarrow> if 0 < n then Some n else None | None \<Rightarrow> None)"

definition userinfo_field :: "string \<Rightarrow> subscription_meta \<Rightarrow> subscription_meta" where
  "userinfo_field kv meta = (case split_once ''='' (trim kv) of
      None \<Rightarrow> meta
    | Some (k, v) \<Rightarrow>
        let k = trim k; v = trim v in
        if k = ''upload'' then meta\<lparr>upload_bytes := parse_uint (2 ^ 64 - 1) v\<rparr>
        else if k = ''download'' then meta\<lparr>download_bytes := parse_uint (2 ^ 64 - 1) v\<rparr>
        else if k = ''total'' then meta\<lparr>total_bytes := positive (parse_uint (2 ^ 64 - 1) v)\<rparr>
        else if k = ''expire'' then meta\<lparr>expires_at_unix := positive (parse_i64 v)\<rparr>
        else meta)"

definition parse_headers :: "codecs \<Rightarrow> (string \<Rightarrow> string option) \<Rightarrow> subscription_meta" where
  "parse_headers cd get =
     (let meta = \<lparr>title = nonempty (map_option (decode_maybe_b64 cd) (get ''profile-title'')),
            update_interval_hours = Option.bind (get ''profile-update-interval'')
              (\<lambda>s. parse_uint (2 ^ 32 - 1) (trim s)),
            upload_bytes = None, download_bytes = None, total_bytes = None, expires_at_unix = None,
            has_userinfo = False,
            support_url = nonempty (map_option trim (get ''support-url'')),
            web_page_url = nonempty (map_option trim (get ''profile-web-page-url''))\<rparr>
      in case get ''subscription-userinfo'' of
           None \<Rightarrow> meta
         | Some info \<Rightarrow> fold userinfo_field (split_char CHR '';'' info) (meta\<lparr>has_userinfo := True\<rparr>))"

record import_result =
  import_meta :: subscription_meta
  import_servers :: "vless_server list"
  import_description :: "string option"
  import_source_json :: "string option"

end
