(* ===== verification/Xray_Config.thy ===== *)
theory Xray_Config
  imports Vless_Server Runtime
begin

text \<open>
  \<open>src-tauri/src/xray.rs\<close> and \<open>split.rs\<close>: the desktop application's generator of Xray
  configurations. It checks a location, builds its proxy outbounds, the routing rules of the
  split tunnel and the two configurations that the application sends to the service.

  An \<open>expect\<close> that can fail makes the result \<open>None\<close>: the command panics. The only other
  parameters are \<open>js\<close>, the JSON reader, and \<open>pick\<close>, the first element of a \<open>HashSet\<close>'s
  iterator, whose order Rust leaves open.
\<close>

section \<open>The split tunnel's selection\<close>

record split_input =
  apps_mode :: string
  sites_mode :: string
  split_apps :: "string list"
  split_sites :: "string list"

definition apps_selective :: "split_input \<Rightarrow> bool" where
  "apps_selective sp \<longleftrightarrow> apps_mode sp = ''selective''"

definition sites_selective :: "split_input \<Rightarrow> bool" where
  "sites_selective sp \<longleftrightarrow> sites_mode sp = ''selective''"

definition enabled_apps :: "split_input \<Rightarrow> string list" where
  "enabled_apps sp = filter (\<lambda>a. a \<noteq> []) (split_apps sp)"

section \<open>Constants\<close>

definition PROXY_PROTOCOLS :: "string list" where
  "PROXY_PROTOCOLS = [''http'', ''socks'', ''shadowsocks'', ''vmess'', ''vless'', ''trojan'',
     ''hysteria'', ''wireguard'']"

definition RESERVED_OUTBOUND_TAGS :: "string list" where
  "RESERVED_OUTBOUND_TAGS = [''direct'', ''dns-out'', ''block'']"

definition TUN_NAME :: string where "TUN_NAME = ''Varmlen''"
definition TUN_MTU :: u32 where "TUN_MTU = 1500"
definition CONNECTION_PROBE_PORT :: u16 where "CONNECTION_PROBE_PORT = 20810"

definition PRIVATE_CIDRS :: "string list" where
  "PRIVATE_CIDRS = [''10.0.0.0/8'', ''172.16.0.0/12'', ''192.168.0.0/16'', ''127.0.0.0/8'',
     ''169.254.0.0/16'', ''100.64.0.0/10'', ''::1/128'', ''fc00::/7'', ''fe80::/10'']"

definition is_proxy_protocol :: "string \<Rightarrow> bool" where
  "is_proxy_protocol protocol \<longleftrightarrow> protocol \<in> set PROXY_PROTOCOLS"

text \<open>\<open>json!\<close> of a list of strings and of an unsigned number.\<close>

abbreviation jstrs :: "string list \<Rightarrow> json" where
  "jstrs ss \<equiv> JArr (map JStr ss)"

abbreviation jnat :: "nat \<Rightarrow> json" where
  "jnat n \<equiv> JNum (PosInt (of_nat n))"

abbreviation jport :: "u16 \<Rightarrow> json" where
  "jport p \<equiv> JNum (PosInt (ucast p))"

section \<open>The choices of the location editor\<close>

type_synonym editor_choice = "string \<times> string"

record location_editor_options =
  protocols :: "editor_choice list"
  transports :: "editor_choice list"
  securities :: "editor_choice list"
  fingerprints :: "editor_choice list"
  flows :: "editor_choice list"
  xhttp_modes :: "editor_choice list"
  grpc_modes :: "editor_choice list"
  packet_encodings :: "editor_choice list"
  shadowsocks_methods :: "editor_choice list"
  wireguard_domain_strategies :: "editor_choice list"

definition protocol_label :: "string \<Rightarrow> string" where
  "protocol_label p =
     (if p = ''http'' then ''HTTP'' else if p = ''socks'' then ''SOCKS''
      else if p = ''shadowsocks'' then ''Shadowsocks'' else if p = ''vmess'' then ''VMess''
      else if p = ''vless'' then ''VLESS'' else if p = ''trojan'' then ''Trojan''
      else if p = ''hysteria'' then ''Hysteria2'' else if p = ''wireguard'' then ''WireGuard''
      else p)"

definition editor_options :: location_editor_options where
  "editor_options = \<lparr>
     protocols = map (\<lambda>v. (v, protocol_label v)) PROXY_PROTOCOLS,
     transports = [(''tcp'', ''RAW / TCP''), (''xhttp'', ''XHTTP''), (''grpc'', ''gRPC''),
       (''ws'', ''WebSocket''), (''httpupgrade'', ''HTTPUpgrade''), (''kcp'', ''mKCP''),
       (''hysteria'', ''Hysteria'')],
     securities = [(''none'', ''None''), (''tls'', ''TLS''), (''reality'', ''REALITY'')],
     fingerprints = [(''chrome'', ''Chrome''), (''firefox'', ''Firefox''), (''safari'', ''Safari''),
       (''ios'', ''iOS''), (''android'', ''Android''), (''edge'', ''Edge''), (''360'', ''360''),
       (''qq'', ''QQ''), (''random'', ''Random browser''), (''randomized'', ''Randomized''),
       (''unsafe'', ''Native Go TLS'')],
     flows = [([], ''None''), (''xtls-rprx-vision'', ''XTLS Vision'')],
     xhttp_modes = [(''auto'', ''Auto''), (''packet-up'', ''Packet up''),
       (''stream-up'', ''Stream up''), (''stream-one'', ''Stream one'')],
     grpc_modes = [([], ''Standard''), (''multi'', ''Multi'')],
     packet_encodings = [([], ''None''), (''packetaddr'', ''PacketAddr''), (''xudp'', ''XUDP'')],
     shadowsocks_methods = [(''2022-blake3-aes-128-gcm'', ''2022 BLAKE3 AES-128-GCM''),
       (''2022-blake3-aes-256-gcm'', ''2022 BLAKE3 AES-256-GCM''),
       (''2022-blake3-chacha20-poly1305'', ''2022 BLAKE3 ChaCha20-Poly1305''),
       (''aes-128-gcm'', ''AES-128-GCM''), (''aes-256-gcm'', ''AES-256-GCM''),
       (''chacha20-poly1305'', ''ChaCha20-Poly1305''), (''none'', ''None'')],
     wireguard_domain_strategies = [(''ForceIP'', ''Force IP''), (''ForceIPv4'', ''Force IPv4''),
       (''ForceIPv6'', ''Force IPv6''), (''ForceIPv4v6'', ''Prefer IPv4''),
       (''ForceIPv6v4'', ''Prefer IPv6'')]\<rparr>"

section \<open>Checking a provider's outbound\<close>

definition forbidden_key :: "string \<Rightarrow> bool" where
  "forbidden_key key \<longleftrightarrow> ends_with ''file'' key \<or> ends_with ''filepath'' key \<or> key = ''masterkeylog''"

fun contains_forbidden_provider_file_reference :: "json \<Rightarrow> bool" where
  "contains_forbidden_provider_file_reference (JObj kvs) =
     list_ex (\<lambda>kv. forbidden_key (ascii_lower (fst kv))
        \<or> contains_forbidden_provider_file_reference (snd kv)) kvs"
| "contains_forbidden_provider_file_reference (JArr items) =
     list_ex contains_forbidden_provider_file_reference items"
| "contains_forbidden_provider_file_reference _ = False"

definition insecure_json_value :: "json \<Rightarrow> bool" where
  "insecure_json_value v \<longleftrightarrow> as_bool v = Some True
     \<or> (case as_u64 v of Some n \<Rightarrow> n \<noteq> 0 | None \<Rightarrow> False)
     \<or> (case as_str v of Some s \<Rightarrow> ascii_lower s \<in> {''1'', ''true''} | None \<Rightarrow> False)"

fun contains_insecure_tls_override :: "json \<Rightarrow> bool" where
  "contains_insecure_tls_override (JObj kvs) =
     list_ex (\<lambda>kv. (eq_ignore_case (fst kv) ''allowInsecure'' \<and> insecure_json_value (snd kv))
        \<or> contains_insecure_tls_override (snd kv)) kvs"
| "contains_insecure_tls_override (JArr items) = list_ex contains_insecure_tls_override items"
| "contains_insecure_tls_override _ = False"

text \<open>\<open>entry(k).or_insert_with(json!({}))\<close> and the replacement of a value that is no object.\<close>

definition object_entry :: "string \<Rightarrow> (string \<times> json) list \<Rightarrow> (string \<times> json) list" where
  "object_entry k kvs = (case Option.bind (map_of kvs k) as_object of Some o' \<Rightarrow> o' | None \<Rightarrow> [])"

definition sanitize_raw_outbound :: "json \<Rightarrow> bool \<Rightarrow> string + json" where
  "sanitize_raw_outbound outbound preserve_tag_and_chains =
     (if contains_forbidden_provider_file_reference outbound
      then Err ''JSON proxy outbound may not reference local files''
      else if contains_insecure_tls_override outbound
      then Err ''JSON proxy outbound may not disable TLS certificate validation''
      else
        rbind (ok_or ''JSON proxy outbound must be an object'' (as_object outbound)) (\<lambda>object.
        rbind (ok_or ''JSON proxy outbound has no protocol''
          (Option.bind (map_of object ''protocol'') as_str)) (\<lambda>p.
        let protocol = ascii_lower p in
        if \<not> is_proxy_protocol protocol
        then Err (''unsupported proxy protocol in JSON: '' @ protocol)
        else
          let object = obj_remove ''sendThrough'' object;
              object = (if preserve_tag_and_chains then object
                else obj_insert ''tag'' (JStr ''proxy'') (obj_remove ''proxySettings'' object))
          in if protocol = ''wireguard'' then Ok (JObj (obj_remove ''streamSettings'' object))
          else
            let stream = object_entry ''streamSettings'' object;
                sockopt = object_entry ''sockopt'' stream;
                sockopt = (if preserve_tag_and_chains then sockopt else obj_remove ''dialerProxy'' sockopt);
                sockopt = obj_remove ''mark'' sockopt
            in Ok (JObj (obj_insert ''streamSettings''
              (JObj (obj_insert ''sockopt'' (JObj sockopt) stream)) object)))))"

section \<open>A provider's profile\<close>

datatype proxy_target = Outbound string | Balancer string

text \<open>\<open>ProxyTarget::apply\<close>\<close>

fun apply_target :: "proxy_target \<Rightarrow> json \<Rightarrow> json" where
  "apply_target (Outbound tag) rule = jset ''outboundTag'' (JStr tag) rule"
| "apply_target (Balancer tag) rule = jset ''balancerTag'' (JStr tag) rule"

record outbound_plan =
  plan_proxies :: "json list"
  plan_target :: proxy_target
  plan_balancers :: "json option"
  plan_observatory :: "json option"
  plan_burst_observatory :: "json option"

text \<open>The tag an outbound keeps, or the one it gets by its position.\<close>

definition provider_tag :: "nat \<Rightarrow> json \<Rightarrow> string" where
  "provider_tag index outbound = (case nonempty (get_str ''tag'' outbound) of
      Some t \<Rightarrow> t
    | None \<Rightarrow> if index = 0 then ''proxy'' else ''proxy-'' @ dec (index + 1))"

text \<open>The loop over the outbounds, with the index and the set of the tags so far.\<close>

fun proxy_outbounds_from :: "nat \<Rightarrow> string list \<Rightarrow> json list \<Rightarrow> string + json list" where
  "proxy_outbounds_from index tags [] = Ok []"
| "proxy_outbounds_from index tags (outbound # outbounds) =
     (let protocol = ascii_lower (unwrap_or [] (get_str ''protocol'' outbound)) in
      if \<not> is_proxy_protocol protocol then proxy_outbounds_from (Suc index) tags outbounds
      else rbind (sanitize_raw_outbound outbound True) (\<lambda>sane.
        let tag = provider_tag index sane in
        if tag \<in> set RESERVED_OUTBOUND_TAGS \<or> tag \<in> set tags
        then Err (''unsafe or duplicate proxy outbound tag: '' @ tag)
        else rbind (proxy_outbounds_from (Suc index) (tag # tags) outbounds) (\<lambda>rest.
          Ok (jset ''tag'' (JStr tag) sane # rest))))"

definition provider_proxy_outbounds :: "json \<Rightarrow> string + json list" where
  "provider_proxy_outbounds profile =
     rbind (ok_or ''Xray profile has no outbounds array'' (get_array ''outbounds'' profile)) (\<lambda>outbounds.
     rbind (proxy_outbounds_from 0 [] outbounds) (\<lambda>proxies.
     if proxies = [] then Err ''Xray profile has no supported proxy outbounds'' else Ok proxies))"

definition check_balancer :: "string list \<Rightarrow> json \<Rightarrow> string + unit" where
  "check_balancer proxy_tags balancer =
     rbind (ok_or ''profile balancer has no tag'' (get_str ''tag'' balancer)) (\<lambda>tag.
     rbind (ok_or (''profile balancer '' @ tag @ '' has no selectors'')
       (get_array ''selector'' balancer)) (\<lambda>selectors.
     if list_ex (\<lambda>selector. list_ex (starts_with selector) proxy_tags)
          (List.map_filter as_str selectors)
     then Ok ()
     else Err (''profile balancer '' @ tag @ '' does not select a proxy outbound'')))"

definition rule_target :: "string list \<Rightarrow> string list \<Rightarrow> json \<Rightarrow> proxy_target option" where
  "rule_target balancer_tags proxy_tags rule =
     (case get_str ''balancerTag'' rule of
        Some b \<Rightarrow> if b \<in> set balancer_tags then Some (Balancer b)
          else (case get_str ''outboundTag'' rule of
              Some t \<Rightarrow> if t \<in> set proxy_tags then Some (Outbound t) else None
            | None \<Rightarrow> None)
      | None \<Rightarrow> (case get_str ''outboundTag'' rule of
              Some t \<Rightarrow> if t \<in> set proxy_tags then Some (Outbound t) else None
            | None \<Rightarrow> None))"

text \<open>
  The target is that of the last rule with a known one; it falls back to any balancer, in the
  order of the hash set, and then to the first outbound, which has a tag by then.
\<close>

definition effective_target ::
  "(string list \<Rightarrow> string) \<Rightarrow> string list \<Rightarrow> string list \<Rightarrow> json list \<Rightarrow> json list \<Rightarrow> proxy_target" where
  "effective_target pick balancer_tags proxy_tags rules proxies =
     (case find_map (rule_target balancer_tags proxy_tags) (rev rules) of
        Some t \<Rightarrow> t
      | None \<Rightarrow> if balancer_tags \<noteq> [] then Balancer (pick balancer_tags)
          else Outbound (unwrap_or [] (get_str ''tag'' (hd proxies))))"

definition routing_list :: "json \<Rightarrow> string \<Rightarrow> json list option" where
  "routing_list profile k = Option.bind (jget ''routing'' profile) (get_array k)"

text \<open>
  A profile with one proxy outbound, no balancer and no observatory is not composite: its
  location is generated from its fields.
\<close>

definition composite :: "json \<Rightarrow> json list \<Rightarrow> bool" where
  "composite profile proxies \<longleftrightarrow>
     1 < length proxies \<or> nonempty (routing_list profile ''balancers'') \<noteq> None
     \<or> jget ''observatory'' profile \<noteq> None \<or> jget ''burstObservatory'' profile \<noteq> None"

definition profile_plan ::
  "(string list \<Rightarrow> string) \<Rightarrow> vless_server \<Rightarrow> string + outbound_plan option" where
  "profile_plan pick server =
     (case s_raw_profile server of
        None \<Rightarrow> Ok None
      | Some profile \<Rightarrow>
          rbind (provider_proxy_outbounds profile) (\<lambda>proxies.
          if \<not> composite profile proxies then Ok None
          else
            let balancers = nonempty (routing_list profile ''balancers'');
                items = unwrap_or [] balancers;
                proxy_tags = List.map_filter (get_str ''tag'') proxies;
                balancer_tags = List.map_filter (get_str ''tag'') items
            in rbind (rfor_each (check_balancer proxy_tags) items) (\<lambda>_.
               Ok (Some \<lparr>plan_proxies = proxies,
                 plan_target = effective_target pick balancer_tags proxy_tags
                   (unwrap_or [] (routing_list profile ''rules'')) proxies,
                 plan_balancers = map_option JArr balancers,
                 plan_observatory = jget ''observatory'' profile,
                 plan_burst_observatory = jget ''burstObservatory'' profile\<rparr>))))"

section \<open>Stream settings\<close>

definition xray_network :: "string \<Rightarrow> string" where
  "xray_network transport =
     (let t = ascii_lower transport in
      if t \<in> {''xhttp'', ''splithttp''} then ''xhttp''
      else if t \<in> {''ws'', ''websocket''} then ''ws''
      else if t \<in> {''grpc'', ''gun''} then ''grpc''
      else if t = ''httpupgrade'' then ''httpupgrade''
      else if t \<in> {''http'', ''h2'', ''h3''} then ''http''
      else if t \<in> {''kcp'', ''mkcp''} then ''kcp''
      else if t = ''hysteria'' then ''hysteria''
      else ''tcp'')"

definition split_list :: "string \<Rightarrow> string list" where
  "split_list raw = filter (\<lambda>p. p \<noteq> []) (map trim (split_char CHR '','' raw))"

abbreviation param :: "vless_server \<Rightarrow> string \<Rightarrow> string option" where
  "param s k \<equiv> map_of (s_raw_params s) k"

definition server_name :: "vless_server \<Rightarrow> string" where
  "server_name s = unwrap_or (s_host s) (nonempty (s_sni s))"

definition fingerprint_or_chrome :: "vless_server \<Rightarrow> string" where
  "fingerprint_or_chrome s = unwrap_or ''chrome'' (nonempty (s_fingerprint s))"

text \<open>The fields that the security layer adds.\<close>

definition reality_settings :: "vless_server \<Rightarrow> json" where
  "reality_settings s = jobj
     [(''show'', JBool False), (''serverName'', JStr (server_name s)),
      (''fingerprint'', JStr (fingerprint_or_chrome s)),
      (''publicKey'', JStr (unwrap_or [] (s_public_key s))),
      (''shortId'', JStr (unwrap_or [] (s_short_id s))),
      (''spiderX'', JStr (unwrap_or ''/'' (param s ''spx'')))]"

definition optional_field :: "string \<Rightarrow> json option \<Rightarrow> (string \<times> json) list" where
  "optional_field k v = (case v of Some x \<Rightarrow> [(k, x)] | None \<Rightarrow> [])"

definition tls_settings :: "vless_server \<Rightarrow> json" where
  "tls_settings s = jobj
     ([(''serverName'', JStr (server_name s)), (''fingerprint'', JStr (fingerprint_or_chrome s)),
       (''allowInsecure'', JBool False)]
      @ optional_field ''alpn'' (map_option (\<lambda>a. jstrs (split_list a)) (nonempty (param s ''alpn''))))"

definition security_fields :: "vless_server \<Rightarrow> (string \<times> json) list" where
  "security_fields s =
     (if s_security s = ''reality''
      then [(''security'', JStr ''reality''), (''realitySettings'', reality_settings s)]
      else if s_security s = ''tls''
      then [(''security'', JStr ''tls''), (''tlsSettings'', tls_settings s)]
      else [(''security'', JStr ''none'')])"

text \<open>
  The block of the transport. An \<open>xhttp\<close> block starts from the share link's \<open>extra\<close>, when
  that is the text of a JSON object.
\<close>

definition host_header :: "vless_server \<Rightarrow> string option" where
  "host_header s = nonempty (param s ''host'')"

definition path_or_root :: "vless_server \<Rightarrow> string" where
  "path_or_root s = unwrap_or ''/'' (s_path s)"

definition extra_object :: "json_text \<Rightarrow> vless_server \<Rightarrow> (string \<times> json) list" where
  "extra_object js s =
     unwrap_or [] (Option.bind (Option.bind (param s ''extra'') (\<lambda>raw. result_ok (from_str js raw))) as_object)"

definition xhttp_settings :: "json_text \<Rightarrow> vless_server \<Rightarrow> json" where
  "xhttp_settings js s =
     (let xs = extra_object js s;
          xs = (case s_path s of Some p \<Rightarrow> obj_insert ''path'' (JStr p) xs
            | None \<Rightarrow> obj_or_insert ''path'' (JStr (path_or_root s)) xs);
          xs = (case s_mode s of Some m \<Rightarrow> obj_insert ''mode'' (JStr m) xs
            | None \<Rightarrow> obj_or_insert ''mode'' (JStr ''auto'') xs);
          xs = (case host_header s of Some h \<Rightarrow> obj_insert ''host'' (JStr h) xs | None \<Rightarrow> xs)
      in JObj xs)"

definition ws_settings :: "vless_server \<Rightarrow> json" where
  "ws_settings s = jobj ((''path'', JStr (path_or_root s))
     # optional_field ''headers'' (map_option (\<lambda>h. jobj [(''Host'', JStr h)]) (host_header s)))"

definition httpupgrade_settings :: "vless_server \<Rightarrow> json" where
  "httpupgrade_settings s = jobj ((''path'', JStr (path_or_root s))
     # optional_field ''host'' (map_option JStr (host_header s)))"

definition grpc_settings :: "vless_server \<Rightarrow> json" where
  "grpc_settings s = jobj
     ([(''serviceName'', JStr (unwrap_or [] (param s ''serviceName''))),
       (''multiMode'', JBool (s_mode s \<in> {Some ''multi'', Some ''gun''}))]
      @ optional_field ''authority'' (map_option JStr (nonempty (param s ''authority''))))"

definition http_settings :: "vless_server \<Rightarrow> json" where
  "http_settings s = jobj ((''path'', JStr (path_or_root s))
     # optional_field ''host'' (map_option (\<lambda>h. jstrs (split_list h)) (host_header s)))"

definition kcp_settings :: "vless_server \<Rightarrow> json" where
  "kcp_settings s = jobj
     ((''header'', jobj [(''type'', JStr (unwrap_or ''none'' (param s ''headerType'')))])
      # optional_field ''seed'' (map_option JStr (nonempty (param s ''seed''))))"

definition hysteria_settings :: "vless_server \<Rightarrow> json" where
  "hysteria_settings s = jobj [(''version'', jnat 2), (''auth'', JStr (s_uuid s))]"

definition tcp_settings :: "vless_server \<Rightarrow> json" where
  "tcp_settings s = jobj [(''header'', jobj [(''type'', JStr ''http''), (''request'', jobj
     (optional_field ''headers'' (map_option (\<lambda>h. jobj [(''Host'', jstrs (split_list h))]) (host_header s))
      @ (if s_path s \<noteq> None then [(''path'', jstrs (split_list (path_or_root s)))] else [])))])]"

definition transport_fields :: "json_text \<Rightarrow> vless_server \<Rightarrow> string \<Rightarrow> (string \<times> json) list" where
  "transport_fields js s network =
     (if network = ''xhttp'' then [(''xhttpSettings'', xhttp_settings js s)]
      else if network = ''ws'' then [(''wsSettings'', ws_settings s)]
      else if network = ''httpupgrade'' then [(''httpupgradeSettings'', httpupgrade_settings s)]
      else if network = ''grpc'' then [(''grpcSettings'', grpc_settings s)]
      else if network = ''http'' then [(''httpSettings'', http_settings s)]
      else if network = ''kcp'' then [(''kcpSettings'', kcp_settings s)]
      else if network = ''hysteria'' then [(''hysteriaSettings'', hysteria_settings s)]
      else if network = ''tcp'' \<and> param s ''headerType'' = Some ''http''
      then [(''tcpSettings'', tcp_settings s)]
      else [])"

definition build_stream_settings :: "json_text \<Rightarrow> vless_server \<Rightarrow> json" where
  "build_stream_settings js s =
     (let network = xray_network (s_transport s)
      in jobj ((''network'', JStr network) # security_fields s @ transport_fields js s network))"

section \<open>The proxy outbound\<close>

definition endpoint :: "string \<Rightarrow> u16 \<Rightarrow> string" where
  "endpoint host port =
     (let host = trim_brackets host in
      if CHR '':'' \<in> set host then ''['' @ host @ '']:'' @ dec (unat port)
      else host @ '':'' @ dec (unat port))"

definition wireguard_peer :: "vless_server \<Rightarrow> json" where
  "wireguard_peer s = jobj
     ([(''endpoint'', JStr (endpoint (s_host s) (s_port s))),
       (''publicKey'', JStr (unwrap_or [] (s_public_key s)))]
      @ optional_field ''preSharedKey'' (map_option JStr (nonempty (param s ''preSharedKey'')))
      @ optional_field ''allowedIPs''
          (map_option jstrs (nonempty (map_option split_list (param s ''allowedIPs''))))
      @ optional_field ''keepAlive''
          (map_option jnat (Option.bind (param s ''keepAlive'') (parse_uint (2 ^ 32 - 1)))))"

definition wireguard_settings :: "vless_server \<Rightarrow> json" where
  "wireguard_settings s = jobj
     ([(''secretKey'', JStr (s_uuid s)),
       (''address'', jstrs (unwrap_or [''10.0.0.1/32'']
          (nonempty (map_option split_list (param s ''localAddress''))))),
       (''peers'', JArr [wireguard_peer s]), (''noKernelTun'', JBool True)]
      @ optional_field ''mtu'' (map_option jnat (Option.bind (param s ''mtu'') (parse_uint (2 ^ 32 - 1))))
      @ optional_field ''reserved''
          (map_option (\<lambda>bs. JArr (map jnat bs)) (nonempty (map_option
             (\<lambda>r. List.map_filter (\<lambda>v. parse_uint 255 (trim v)) (split_char CHR '','' r))
             (param s ''reserved''))))
      @ [(''domainStrategy'', JStr (unwrap_or ''ForceIP'' (param s ''domainStrategy'')))])"

definition build_wireguard_outbound :: "vless_server \<Rightarrow> json" where
  "build_wireguard_outbound s = jobj
     [(''tag'', JStr ''proxy''), (''protocol'', JStr ''wireguard''), (''settings'', wireguard_settings s)]"

text \<open>\<open>json!({"tag": "proxy", ...})\<close>, which the other protocols share.\<close>

definition tagged_outbound :: "string \<Rightarrow> json \<Rightarrow> json \<Rightarrow> json" where
  "tagged_outbound protocol settings stream = jobj
     [(''tag'', JStr ''proxy''), (''protocol'', JStr protocol), (''settings'', settings),
      (''streamSettings'', stream)]"

definition build_simple_proxy_outbound :: "vless_server \<Rightarrow> json \<Rightarrow> json" where
  "build_simple_proxy_outbound s stream =
     tagged_outbound (s_protocol s)
       (jobj ([(''address'', JStr (s_host s)), (''port'', jport (s_port s))]
          @ optional_field ''user'' (map_option JStr (nonempty (Some (s_uuid s))))
          @ optional_field ''pass'' (map_option JStr (nonempty (s_password s))))) stream"

definition vmess_settings :: "vless_server \<Rightarrow> json" where
  "vmess_settings s = jobj [(''vnext'', JArr [jobj
     [(''address'', JStr (s_host s)), (''port'', jport (s_port s)),
      (''users'', JArr [jobj [(''id'', JStr (s_uuid s)),
         (''security'', JStr (unwrap_or ''auto'' (param s ''scy''))),
         (''alterId'', jnat (unwrap_or 0 (Option.bind (param s ''aid'') (parse_uint (2 ^ 32 - 1)))))]])]])]"

definition trojan_settings :: "vless_server \<Rightarrow> json" where
  "trojan_settings s = jobj [(''servers'', JArr [jobj
     [(''address'', JStr (s_host s)), (''port'', jport (s_port s)),
      (''password'', JStr (unwrap_or (s_uuid s) (s_password s))),
      (''flow'', JStr (unwrap_or [] (s_flow s)))]])]"

definition shadowsocks_settings :: "vless_server \<Rightarrow> json" where
  "shadowsocks_settings s = jobj [(''servers'', JArr [jobj
     [(''address'', JStr (s_host s)), (''port'', jport (s_port s)),
      (''method'', JStr (unwrap_or [] (s_method s))),
      (''password'', JStr (unwrap_or [] (s_password s))), (''uot'', JBool True)]])]"

definition hysteria_outbound_settings :: "vless_server \<Rightarrow> json" where
  "hysteria_outbound_settings s = jobj
     [(''version'', jnat 2), (''address'', JStr (s_host s)), (''port'', jport (s_port s))]"

definition vless_settings :: "vless_server \<Rightarrow> json" where
  "vless_settings s = jobj [(''vnext'', JArr [jobj
     [(''address'', JStr (s_host s)), (''port'', jport (s_port s)),
      (''users'', JArr [jobj [(''id'', JStr (s_uuid s)), (''encryption'', JStr ''none''),
         (''flow'', JStr (unwrap_or [] (s_flow s)))]])]])]"

definition build_proxy_outbound :: "json_text \<Rightarrow> vless_server \<Rightarrow> json option" where
  "build_proxy_outbound js s =
     (case s_raw_outbound s of
        Some outbound \<Rightarrow> result_ok (sanitize_raw_outbound outbound False)
      | None \<Rightarrow>
          let stream = build_stream_settings js s in
          Some (if s_protocol s = ''wireguard'' then build_wireguard_outbound s
            else if s_protocol s = ''vmess'' then tagged_outbound ''vmess'' (vmess_settings s) stream
            else if s_protocol s = ''trojan'' then tagged_outbound ''trojan'' (trojan_settings s) stream
            else if s_protocol s = ''shadowsocks''
            then tagged_outbound ''shadowsocks'' (shadowsocks_settings s) stream
            else if s_protocol s = ''hysteria''
            then tagged_outbound ''hysteria'' (hysteria_outbound_settings s) stream
            else if s_protocol s \<in> {''http'', ''socks''} then build_simple_proxy_outbound s stream
            else tagged_outbound ''vless'' (vless_settings s) stream))"

text \<open>\<open>outbound_plan\<close>; it panics where \<open>build_proxy_outbound\<close> does.\<close>

definition outbound_plan_of ::
  "json_text \<Rightarrow> (string list \<Rightarrow> string) \<Rightarrow> vless_server \<Rightarrow> (string + outbound_plan) option" where
  "outbound_plan_of js pick server =
     (case profile_plan pick server of
        Inl e \<Rightarrow> Some (Err e)
      | Inr (Some plan) \<Rightarrow> Some (Ok plan)
      | Inr None \<Rightarrow> map_option (\<lambda>p. Ok \<lparr>plan_proxies = [p], plan_target = Outbound ''proxy'',
          plan_balancers = None, plan_observatory = None, plan_burst_observatory = None\<rparr>)
          (build_proxy_outbound js server))"

section \<open>Checking a location\<close>

definition accepted_transports :: "string list" where
  "accepted_transports = [[], ''raw'', ''tcp'', ''xhttp'', ''splithttp'', ''ws'', ''websocket'',
     ''grpc'', ''gun'', ''httpupgrade'', ''http'', ''h2'', ''h3'', ''kcp'', ''mkcp'', ''hysteria'']"

definition validate_fields :: "vless_server \<Rightarrow> string + unit" where
  "validate_fields s =
     (let protocol = ascii_lower (s_protocol s);
          transport = ascii_lower (s_transport s)
      in if list_ex (\<lambda>(k, v). eq_ignore_case k ''allowInsecure'' \<and> ascii_lower v \<in> {''1'', ''true''})
              (s_raw_params s)
         then Err ''TLS certificate validation cannot be disabled''
         else if \<not> is_proxy_protocol protocol
         then Err (''unsupported protocol: '' @ s_protocol s)
         else if protocol = ''wireguard''
         then (if trim (s_uuid s) = [] then Err ''WireGuard private key is required''
           else if trim (unwrap_or [] (s_public_key s)) = []
           then Err ''WireGuard peer public key is required'' else Ok ())
         else if transport \<notin> set accepted_transports
         then Err (''unsupported transport: '' @ s_transport s)
         else if protocol = ''hysteria''
           \<and> (transport \<noteq> ''hysteria'' \<or> \<not> eq_ignore_case (s_security s) ''tls'')
         then Err ''Hysteria2 requires the Hysteria transport with TLS''
         else Ok ())"

definition validate_server ::
  "json_text \<Rightarrow> (string list \<Rightarrow> string) \<Rightarrow> vless_server \<Rightarrow> (string + unit) option" where
  "validate_server js pick s =
     (if s_raw_profile s \<noteq> None
      then map_option (\<lambda>r. rbind r (\<lambda>_. Ok ())) (outbound_plan_of js pick s)
      else case s_raw_outbound s of
          Some raw \<Rightarrow> Some (rbind (sanitize_raw_outbound raw False) (\<lambda>_. Ok ()))
        | None \<Rightarrow> Some (validate_fields s))"

section \<open>The rules and the configurations\<close>

definition direct_outbound :: json where
  "direct_outbound = jobj [(''tag'', JStr ''direct''), (''protocol'', JStr ''freedom''),
     (''settings'', jobj [(''domainStrategy'', JStr ''UseIP'')])]"

definition build_dns :: json where
  "build_dns = jobj [(''servers'', jstrs [''https://1.1.1.1/dns-query'']),
     (''queryStrategy'', JStr ''UseIPv4'')]"

definition build_inbounds :: "json list" where
  "build_inbounds = [jobj
     [(''tag'', JStr ''tun-in''), (''protocol'', JStr ''tun''),
      (''settings'', jobj
        [(''name'', JStr TUN_NAME), (''desc'', JStr ''Varmlen''), (''mtu'', jnat (unat TUN_MTU)),
         (''gateway'', jstrs [''10.255.0.1/30'', ''fd00:7661:726d:6c65::1/64'']),
         (''dns'', jstrs [''1.1.1.1'']),
         (''autoSystemRoutingTable'', jstrs [''0.0.0.0/0'', ''::/0'']),
         (''autoOutboundsInterface'', JStr ''auto'')]),
      (''sniffing'', jobj [(''enabled'', JBool True),
         (''destOverride'', jstrs [''http'', ''tls'', ''quic'']), (''routeOnly'', JBool True)])]]"

definition dns_rule :: json where
  "dns_rule = jobj [(''type'', JStr ''field''), (''inboundTag'', jstrs [''tun-in'']),
     (''port'', jnat 53), (''outboundTag'', JStr ''dns-out'')]"

definition lan_rule :: json where
  "lan_rule = jobj [(''type'', JStr ''field''), (''ip'', jstrs PRIVATE_CIDRS),
     (''outboundTag'', JStr ''direct'')]"

text \<open>A rule that goes to the proxy target or directly.\<close>

definition aim :: "bool \<Rightarrow> proxy_target \<Rightarrow> json \<Rightarrow> json" where
  "aim use_proxy target rule =
     (if use_proxy then apply_target target rule else jset ''outboundTag'' (JStr ''direct'') rule)"

definition app_rule :: "bool \<Rightarrow> proxy_target \<Rightarrow> string \<Rightarrow> json" where
  "app_rule use_proxy target app =
     aim use_proxy target (jobj [(''type'', JStr ''field''), (''process'', jstrs [app])])"

definition site_pattern :: "string \<Rightarrow> string" where
  "site_pattern site = (case strip_prefix ''*.'' site of
      Some suffix \<Rightarrow> ''domain:'' @ suffix | None \<Rightarrow> ''full:'' @ site)"

definition site_domains :: "split_input \<Rightarrow> string list" where
  "site_domains sp = map site_pattern (filter (\<lambda>s. s \<noteq> []) (map trim (split_sites sp)))"

definition site_rule :: "bool \<Rightarrow> proxy_target \<Rightarrow> string list \<Rightarrow> json" where
  "site_rule use_proxy target domains =
     aim use_proxy target (jobj [(''type'', JStr ''field''), (''domain'', jstrs domains)])"

definition doh_rule :: "proxy_target \<Rightarrow> json" where
  "doh_rule target = apply_target target (jobj [(''type'', JStr ''field''), (''ip'', jstrs [''1.1.1.1''])])"

definition default_rule :: "bool \<Rightarrow> proxy_target \<Rightarrow> json" where
  "default_rule use_proxy target =
     aim use_proxy target (jobj [(''type'', JStr ''field''), (''network'', JStr ''tcp,udp'')])"

definition build_route_rules :: "split_input \<Rightarrow> bool \<Rightarrow> proxy_target \<Rightarrow> json list" where
  "build_route_rules split allow_lan target =
     (let apps_use_proxy = apps_selective split;
          sites_use_proxy = sites_selective split;
          default_uses_proxy = \<not> apps_selective split;
          domains = site_domains split
      in [dns_rule]
         @ (if allow_lan then [lan_rule] else [])
         @ map (app_rule apps_use_proxy target) (enabled_apps split)
         @ (if domains \<noteq> [] then [site_rule sites_use_proxy target domains] else [])
         @ [doh_rule target, default_rule default_uses_proxy target])"

definition xray_loglevel :: "string \<Rightarrow> string" where
  "xray_loglevel level =
     (if level \<in> {''debug'', ''info'', ''error'', ''none''} then level else ''warning'')"

text \<open>\<open>if let Some(x) = value { target[key] = x }\<close>\<close>

definition jset_option :: "string \<Rightarrow> json option \<Rightarrow> json \<Rightarrow> json" where
  "jset_option k x v = (case x of Some y \<Rightarrow> jset k y v | None \<Rightarrow> v)"

definition utility_outbounds :: "json list" where
  "utility_outbounds = [direct_outbound,
     jobj [(''tag'', JStr ''dns-out''), (''protocol'', JStr ''dns'')],
     jobj [(''tag'', JStr ''block''), (''protocol'', JStr ''blackhole'')]]"

definition config_of_plan :: "outbound_plan \<Rightarrow> split_input \<Rightarrow> bool \<Rightarrow> string \<Rightarrow> json" where
  "config_of_plan plan split allow_lan log_level =
     (let rules = build_route_rules split allow_lan (plan_target plan);
          routing = jset_option ''balancers'' (plan_balancers plan) (jobj [(''rules'', JArr rules)]);
          config = jobj
            [(''log'', jobj [(''loglevel'', JStr (xray_loglevel log_level))]), (''dns'', build_dns),
             (''inbounds'', JArr build_inbounds),
             (''outbounds'', JArr (plan_proxies plan @ utility_outbounds)), (''routing'', routing)]
      in jset_option ''burstObservatory'' (plan_burst_observatory plan)
           (jset_option ''observatory'' (plan_observatory plan) config))"

definition build_xray_config ::
  "json_text \<Rightarrow> (string list \<Rightarrow> string) \<Rightarrow> vless_server \<Rightarrow> split_input \<Rightarrow> bool \<Rightarrow> string \<Rightarrow> json option" where
  "build_xray_config js pick server split allow_lan log_level =
     Option.bind (Option.bind (outbound_plan_of js pick server) result_ok) (\<lambda>plan.
       Some (config_of_plan plan split allow_lan log_level))"

definition probe_inbound :: json where
  "probe_inbound = jobj [(''tag'', JStr ''socks-in-0''), (''listen'', JStr ''127.0.0.1''),
     (''port'', jport CONNECTION_PROBE_PORT), (''protocol'', JStr ''socks''),
     (''settings'', jobj [(''udp'', JBool False), (''auth'', JStr ''noauth'')])]"

definition probe_of_plan :: "outbound_plan \<Rightarrow> json" where
  "probe_of_plan plan =
     (let route = apply_target (plan_target plan)
            (jobj [(''type'', JStr ''field''), (''inboundTag'', jstrs [''socks-in-0'']),
               (''network'', JStr ''tcp,udp'')]);
          routing = jset_option ''balancers'' (plan_balancers plan) (jobj [(''rules'', JArr [route])]);
          config = jobj
            [(''log'', jobj [(''loglevel'', JStr ''warning'')]), (''inbounds'', JArr [probe_inbound]),
             (''outbounds'', JArr (plan_proxies plan
                @ [jobj [(''tag'', JStr ''direct''), (''protocol'', JStr ''freedom'')]])),
             (''routing'', routing)]
      in jset_option ''burstObservatory'' (plan_burst_observatory plan)
           (jset_option ''observatory'' (plan_observatory plan) config))"

definition build_connection_probe_config ::
  "json_text \<Rightarrow> (string list \<Rightarrow> string) \<Rightarrow> vless_server \<Rightarrow> (string + json) option" where
  "build_connection_probe_config js pick server =
     map_option (\<lambda>r. rbind r (\<lambda>plan. Ok (probe_of_plan plan))) (outbound_plan_of js pick server)"

end
