(* ===== verification/Xray_Safety.thy ===== *)
theory Xray_Safety
  imports Xray_Config
begin

text \<open>
  What the configuration generator of \<open>Xray_Config\<close> guarantees: nothing it produces names a
  file or disables TLS verification unless the parts that it copies unchecked do, its tags
  and targets fit together, the service accepts the result, and the rules implement the
  split tunnel's policy.
\<close>

section \<open>Properties of every field of a value\<close>

fun all_fields :: "(string \<Rightarrow> json \<Rightarrow> bool) \<Rightarrow> json \<Rightarrow> bool" where
  "all_fields P (JObj kvs) = list_all (\<lambda>kv. P (fst kv) (snd kv) \<and> all_fields P (snd kv)) kvs"
| "all_fields P (JArr xs) = list_all (all_fields P) xs"
| "all_fields P _ = True"

lemma all_fields_obj_insert:
  "P k v \<Longrightarrow> all_fields P v \<Longrightarrow> all_fields P (JObj kvs) \<Longrightarrow> all_fields P (JObj (obj_insert k v kvs))"
  using set_obj_insert_subset [of k v kvs] by (auto simp: list_all_iff)

lemma all_fields_obj_remove: "all_fields P (JObj kvs) \<Longrightarrow> all_fields P (JObj (obj_remove k kvs))"
  by (auto simp: list_all_iff obj_remove_def)

lemma all_fields_obj_or_insert:
  "P k d \<Longrightarrow> all_fields P d \<Longrightarrow> all_fields P (JObj kvs) \<Longrightarrow> all_fields P (JObj (obj_or_insert k d kvs))"
  by (simp add: obj_or_insert_def all_fields_obj_insert del: all_fields.simps(1) split: option.split)

lemma all_fields_map_of: "all_fields P (JObj kvs) \<Longrightarrow> map_of kvs k = Some v \<Longrightarrow> all_fields P v"
  by (drule map_of_SomeD) (auto simp: list_all_iff)

lemma all_fields_jget: "all_fields P w \<Longrightarrow> jget k w = Some v \<Longrightarrow> all_fields P v"
  by (cases w) (auto intro: all_fields_map_of simp del: all_fields.simps(1))

lemma all_fields_jobj:
  "list_all (\<lambda>kv. P (fst kv) (snd kv) \<and> all_fields P (snd kv)) kvs \<Longrightarrow> all_fields P (jobj kvs)"
  using set_foldl_insert_subset [of "[]" kvs] by (auto simp: jobj_def list_all_iff)

lemma all_fields_jset: "P k x \<Longrightarrow> all_fields P x \<Longrightarrow> all_fields P v \<Longrightarrow> all_fields P (jset k x v)"
  by (cases v) (auto simp: all_fields_obj_insert simp del: all_fields.simps(1))

lemma all_fields_jset_option:
  "(\<And>y. x = Some y \<Longrightarrow> P k y \<and> all_fields P y) \<Longrightarrow> all_fields P v \<Longrightarrow> all_fields P (jset_option k x v)"
  by (auto simp: jset_option_def all_fields_jset split: option.split)

lemma all_fields_jstrs [simp]: "list_all (all_fields P) (map JStr ss)"
  by (simp add: list_all_iff)

lemma all_fields_object_entry: "all_fields P (JObj kvs) \<Longrightarrow> all_fields P (JObj (object_entry k kvs))"
  by (auto simp: object_entry_def bind_eq_Some_conv intro: all_fields_map_of
      simp del: all_fields.simps(1) split: option.split)
    simp

lemma list_all_optional_field [simp]:
  "list_all Q (optional_field k v) \<longleftrightarrow> (\<forall>x. v = Some x \<longrightarrow> Q (k, x))"
  by (auto simp: optional_field_def split: option.split)

text \<open>
  A harmless field neither names a file nor disables TLS verification; a key can be harmless
  with any value.
\<close>

definition harmless :: "string \<Rightarrow> json \<Rightarrow> bool" where
  "harmless k v \<longleftrightarrow> \<not> forbidden_key (ascii_lower k)
     \<and> \<not> (eq_ignore_case k ''allowInsecure'' \<and> insecure_json_value v)"

definition harmless_key :: "string \<Rightarrow> bool" where
  "harmless_key k \<longleftrightarrow> \<not> forbidden_key (ascii_lower k) \<and> \<not> eq_ignore_case k ''allowInsecure''"

abbreviation tame :: "json \<Rightarrow> bool" where
  "tame \<equiv> all_fields harmless"

definition generated_keys :: "string list" where
  "generated_keys = [''network'', ''security'', ''realitySettings'', ''show'', ''serverName'',
     ''fingerprint'', ''publicKey'', ''shortId'', ''spiderX'', ''alpn'', ''tlsSettings'',
     ''path'', ''mode'', ''host'', ''headers'', ''Host'', ''xhttpSettings'', ''wsSettings'',
     ''httpupgradeSettings'', ''serviceName'', ''multiMode'', ''authority'', ''grpcSettings'',
     ''httpSettings'', ''header'', ''type'', ''seed'', ''kcpSettings'', ''version'', ''auth'',
     ''hysteriaSettings'', ''request'', ''tcpSettings'', ''endpoint'', ''preSharedKey'',
     ''allowedIPs'', ''keepAlive'', ''secretKey'', ''address'', ''peers'', ''noKernelTun'', ''mtu'',
     ''reserved'', ''domainStrategy'', ''tag'', ''protocol'', ''settings'', ''streamSettings'',
     ''port'', ''user'', ''pass'', ''vnext'', ''users'', ''id'', ''alterId'', ''servers'',
     ''password'', ''flow'', ''method'', ''uot'', ''encryption'', ''queryStrategy'', ''name'',
     ''desc'', ''gateway'', ''dns'', ''autoSystemRoutingTable'', ''autoOutboundsInterface'',
     ''sniffing'', ''enabled'', ''destOverride'', ''routeOnly'', ''inboundTag'', ''outboundTag'',
     ''ip'', ''balancerTag'', ''process'', ''domain'', ''rules'', ''balancers'', ''log'',
     ''loglevel'', ''inbounds'', ''outbounds'', ''routing'', ''observatory'',
     ''burstObservatory'', ''listen'', ''udp'', ''sockopt'', ''interface'']"

lemma harmless_generated: "list_all harmless_key generated_keys"
  by code_simp

lemma harmless_keyD [simp]: "harmless_key k \<Longrightarrow> harmless k v"
  by (simp add: harmless_def harmless_key_def)

lemmas harmless_fields [simp] = harmless_generated [unfolded generated_keys_def list.pred_inject]

lemma harmless_no_override [simp]: "harmless ''allowInsecure'' (JBool False)"
  by code_simp

lemma tame_iff:
  "tame v \<longleftrightarrow> \<not> contains_forbidden_provider_file_reference v \<and> \<not> contains_insecure_tls_override v"
  unfolding harmless_def [abs_def]
proof (induction v)
  case (JObj kvs)
  then show ?case by (fastforce simp: list_all_iff list_ex_iff)
qed (auto simp: list_all_iff list_ex_iff)

lemma privileged_not_harmless: "harmless k v \<Longrightarrow> \<not> privileged_key k"
  by (auto simp: harmless_def privileged_key_def forbidden_key_def ends_with_def starts_with_def)

lemma tame_no_file_keys: "tame v \<Longrightarrow> no_file_keys v"
  by (induction v) (auto simp: list_all_iff dest: privileged_not_harmless)

section \<open>The pieces that are generated\<close>

lemmas tame_intros = all_fields_jobj all_fields_jset all_fields_obj_insert all_fields_obj_remove
  all_fields_obj_or_insert all_fields_jset_option all_fields_object_entry

lemma tame_security_fields [simp]:
  "list_all (\<lambda>kv. harmless (fst kv) (snd kv) \<and> tame (snd kv)) (security_fields s)"
  by (auto simp: security_fields_def reality_settings_def tls_settings_def intro!: all_fields_jobj)

lemma tame_case_option:
  "(x = None \<Longrightarrow> tame (JObj d)) \<Longrightarrow> (\<And>y. x = Some y \<Longrightarrow> tame (JObj (f y))) \<Longrightarrow> tame (JObj (case_option d f x))"
  by (cases x) auto

lemma tame_xhttp_settings: "tame (JObj (extra_object js s)) \<Longrightarrow> tame (xhttp_settings js s)"
  unfolding xhttp_settings_def Let_def
  by (intro tame_case_option all_fields_obj_insert all_fields_obj_or_insert;
      simp)

lemma tame_plain_settings [simp]:
  "tame (ws_settings s)" "tame (httpupgrade_settings s)" "tame (grpc_settings s)"
  "tame (http_settings s)" "tame (kcp_settings s)" "tame (hysteria_settings s)" "tame (tcp_settings s)"
  unfolding ws_settings_def httpupgrade_settings_def grpc_settings_def http_settings_def
    kcp_settings_def hysteria_settings_def tcp_settings_def
  by (intro all_fields_jobj; force simp: optional_field_def intro!: all_fields_jobj split: option.split)+

lemma tame_transport_fields:
  assumes "tame (JObj (extra_object js s))"
  shows "list_all (\<lambda>kv. harmless (fst kv) (snd kv) \<and> tame (snd kv)) (transport_fields js s network)"
  using tame_xhttp_settings [OF assms] by (simp add: transport_fields_def del: all_fields.simps)

lemma tame_stream_settings:
  "tame (JObj (extra_object js s)) \<Longrightarrow> tame (build_stream_settings js s)"
  by (auto simp: build_stream_settings_def Let_def intro!: all_fields_jobj tame_transport_fields)

lemma tame_tagged_outbound [intro]: "tame settings \<Longrightarrow> tame stream \<Longrightarrow> tame (tagged_outbound p settings stream)"
  by (auto simp: tagged_outbound_def intro!: all_fields_jobj)

lemma tame_wireguard: "tame (build_wireguard_outbound s)"
  by (auto simp: build_wireguard_outbound_def wireguard_settings_def wireguard_peer_def list.pred_map comp_def list.pred_True
      intro!: all_fields_jobj)

text \<open>What the generator copies from the provider without checking it.\<close>

definition unchecked_part :: "json_text \<Rightarrow> vless_server \<Rightarrow> json \<Rightarrow> bool" where
  "unchecked_part js s v \<longleftrightarrow>
     v = JObj (extra_object js s)
     \<or> (case s_raw_profile s of None \<Rightarrow> False | Some profile \<Rightarrow>
          Some v \<in> {Option.bind (jget ''routing'' profile) (jget ''balancers''),
            jget ''observatory'' profile, jget ''burstObservatory'' profile})"

section \<open>Sanitised outbounds\<close>

text \<open>
  An outbound object that can be tagged and bound to an interface: its \<open>streamSettings\<close>
  and its \<open>sockopt\<close>, where present, are objects.
\<close>

definition outbound_object :: "json \<Rightarrow> bool" where
  "outbound_object v \<longleftrightarrow> is_object v \<and>
     (\<forall>st. jget ''streamSettings'' v = Some st \<longrightarrow>
        is_object st \<and> (\<forall>so. jget ''sockopt'' st = Some so \<longrightarrow> is_object so))"

lemma is_objectE: "is_object v \<Longrightarrow> (\<And>kvs. v = JObj kvs \<Longrightarrow> P) \<Longrightarrow> P"
  by (cases v) (auto simp: is_object_def)

lemma is_object_JObj [simp]: "is_object (JObj kvs)"
  by (simp add: is_object_def)

lemma bind_outbound_total:
  assumes "outbound_object v"
  shows "\<exists>w. bind_outbound name v = Ok w"
proof -
  from assms obtain kvs where v: "v = JObj kvs" by (auto simp: outbound_object_def elim: is_objectE)
  let ?ob = "obj_or_insert ''streamSettings'' (JObj []) kvs"
  obtain stream where stream: "map_of ?ob ''streamSettings'' = Some (JObj stream)"
    using assms
    by (cases "map_of kvs ''streamSettings''")
      (auto simp: v outbound_object_def map_of_obj_or_insert elim: is_objectE)
  then have "is_object so" if "map_of stream ''sockopt'' = Some so" for so
    using that assms by (auto simp: v outbound_object_def map_of_obj_or_insert split: if_splits)
  then obtain sockopt where
    "map_of (obj_or_insert ''sockopt'' (JObj []) stream) ''sockopt'' = Some (JObj sockopt)"
    by (cases "map_of stream ''sockopt''") (auto simp: map_of_obj_or_insert elim: is_objectE)
  with v stream show ?thesis by (simp add: bind_outbound_def Let_def)
qed

lemma sanitize_raw_outbound_Ok:
  assumes "sanitize_raw_outbound v b = Ok w"
  shows "tame w" and "outbound_object w" and "b \<or> get_str ''tag'' w = Some ''proxy''"
proof -
  from assms have v: "tame v" by (auto simp: tame_iff sanitize_raw_outbound_def split: if_splits)
  from assms obtain kvs where kvs: "v = JObj kvs"
    by (auto simp: sanitize_raw_outbound_def split: if_splits)
  let ?object = "if b then obj_remove ''sendThrough'' kvs else
    obj_insert ''tag'' (JStr ''proxy'') (obj_remove ''proxySettings'' (obj_remove ''sendThrough'' kvs))"
  let ?stream = "object_entry ''streamSettings'' ?object"
  let ?sock = "object_entry ''sockopt'' ?stream"
  let ?sockopt = "obj_remove ''mark'' (if b then ?sock else obj_remove ''dialerProxy'' ?sock)"
  from assms kvs have w: "w = JObj (obj_remove ''streamSettings'' ?object)
      \<or> w = JObj (obj_insert ''streamSettings'' (JObj (obj_insert ''sockopt'' (JObj ?sockopt) ?stream)) ?object)"
    by (auto simp: sanitize_raw_outbound_def Let_def split: if_splits)
  have object: "tame (JObj ?object)"
    using v unfolding kvs by (cases b) (simp_all add: tame_intros del: all_fields.simps(1))
  then have sock: "tame (JObj ?sock)" "tame (JObj ?stream)"
    by (blast intro: all_fields_object_entry)+
  then have "tame (JObj ?sockopt)"
    by (cases b) (simp_all add: tame_intros del: all_fields.simps(1))
  with w object sock show "tame w"
    by (auto simp del: all_fields.simps(1) intro!: all_fields_obj_insert all_fields_obj_remove)
  show "outbound_object w"
    using w by (auto simp: outbound_object_def is_object_def)
  show "b \<or> get_str ''tag'' w = Some ''proxy''"
    using w by (cases b) auto
qed

section \<open>Plans\<close>

definition outbound_tags :: "json list \<Rightarrow> string list \<Rightarrow> bool" where
  "outbound_tags vs tags \<longleftrightarrow> map (get_str ''tag'') vs = map Some tags"

lemma outbound_tags_Cons [simp]:
  "outbound_tags (v # vs) (t # ts) \<longleftrightarrow> get_str ''tag'' v = Some t \<and> outbound_tags vs ts"
  by (simp add: outbound_tags_def)

lemma outbound_tags_Nil [simp]: "outbound_tags [] ts \<longleftrightarrow> ts = []" "outbound_tags vs [] \<longleftrightarrow> vs = []"
  by (auto simp: outbound_tags_def)

lemma outbound_tags_collect: "outbound_tags vs ts \<Longrightarrow> List.map_filter (get_str ''tag'') vs = ts"
  by (induction vs arbitrary: ts) (auto simp: outbound_tags_def map_filter_simps simp del: get_str_Some)

lemma outbound_object_jset: "k \<noteq> ''streamSettings'' \<Longrightarrow> outbound_object v \<Longrightarrow> outbound_object (jset k x v)"
  by (auto simp: outbound_object_def jget_jset_object)

lemma proxy_outbounds_from_Ok:
  assumes "proxy_outbounds_from i tags vs = Ok ps"
  shows "\<exists>ts. outbound_tags ps ts \<and> distinct ts \<and> set ts \<inter> (set RESERVED_OUTBOUND_TAGS \<union> set tags) = {}
     \<and> (\<forall>p\<in>set ps. tame p \<and> outbound_object p)"
  using assms
proof (induction i tags vs arbitrary: ps rule: proxy_outbounds_from.induct)
  case (2 i tags v vs)
  show ?case
  proof (cases "is_proxy_protocol (ascii_lower (unwrap_or [] (get_str ''protocol'' v)))")
    case True
    with 2(3) obtain sane rest where sane: "sanitize_raw_outbound v True = Ok sane"
      and tag: "provider_tag i sane \<notin> set RESERVED_OUTBOUND_TAGS" "provider_tag i sane \<notin> set tags"
      and rest: "proxy_outbounds_from (Suc i) (provider_tag i sane # tags) vs = Ok rest"
      and ps: "ps = jset ''tag'' (JStr (provider_tag i sane)) sane # rest"
      by (auto simp: Let_def split: if_splits)
    obtain ts where ts: "outbound_tags rest ts" "distinct ts"
      "set ts \<inter> (set RESERVED_OUTBOUND_TAGS \<union> set (provider_tag i sane # tags)) = {}"
      "\<forall>p\<in>set rest. tame p \<and> outbound_object p"
      using 2(2) [OF refl _ sane refl _ rest] True tag by auto
    note ok = sanitize_raw_outbound_Ok [OF sane]
    then have "is_object sane" by (simp add: outbound_object_def)
    then have "get_str ''tag'' (jset ''tag'' (JStr (provider_tag i sane)) sane) = Some (provider_tag i sane)"
      by (simp add: jget_jset_object)
    with ts tag ok show ?thesis
      unfolding ps by (intro exI [of _ "provider_tag i sane # ts"])
        (auto simp: outbound_object_jset intro!: all_fields_jset)
  qed (use 2 in \<open>auto simp: Let_def\<close>)
qed simp

text \<open>
  A plan is sound when its outbounds can be bound, carry distinct tags that no utility
  outbound has, and its target is one of them or a balancer that selects one.
\<close>

definition balancer_selects :: "string list \<Rightarrow> json \<Rightarrow> bool" where
  "balancer_selects tags b \<longleftrightarrow> (\<exists>selectors t p.
     get_array ''selector'' b = Some selectors \<and> JStr p \<in> set selectors \<and> t \<in> set tags \<and> starts_with p t)"

definition target_exists :: "json list \<Rightarrow> string list \<Rightarrow> proxy_target \<Rightarrow> bool" where
  "target_exists balancers tags target \<longleftrightarrow>
     (case target of
        Outbound t \<Rightarrow> t \<in> set tags
      | Balancer b \<Rightarrow> \<exists>x\<in>set balancers. get_str ''tag'' x = Some b \<and> balancer_selects tags x)"

definition plan_balancer_list :: "outbound_plan \<Rightarrow> json list" where
  "plan_balancer_list plan = unwrap_or [] (Option.bind (plan_balancers plan) as_array)"

definition sound_plan :: "outbound_plan \<Rightarrow> bool" where
  "sound_plan plan \<longleftrightarrow>
     (\<forall>p\<in>set (plan_proxies plan). outbound_object p)
     \<and> (\<exists>tags. outbound_tags (plan_proxies plan) tags \<and> distinct tags
          \<and> set tags \<inter> set RESERVED_OUTBOUND_TAGS = {}
          \<and> target_exists (plan_balancer_list plan) tags (plan_target plan))"

text \<open>The first element of a hash set is one of its elements.\<close>

definition picks_member :: "(string list \<Rightarrow> string) \<Rightarrow> bool" where
  "picks_member pick \<longleftrightarrow> (\<forall>ts. ts \<noteq> [] \<longrightarrow> pick ts \<in> set ts)"

lemma check_balancer_Ok:
  "check_balancer tags b = Ok () \<longleftrightarrow> (\<exists>t. get_str ''tag'' b = Some t) \<and> balancer_selects tags b"
  by (cases "get_array ''selector'' b"; cases "get_str ''tag'' b")
    (auto simp: check_balancer_def balancer_selects_def list_ex_iff if_Err_Ok_iff, blast+)

lemma rule_target_exists:
  assumes "rule_target (List.map_filter (get_str ''tag'') items) tags rule = Some target"
    and "\<forall>b\<in>set items. balancer_selects tags b"
  shows "target_exists items tags target"
  using assms by (auto simp: rule_target_def target_exists_def split: option.splits if_splits)

lemma effective_target_exists:
  assumes "outbound_tags proxies tags" and "proxies \<noteq> []" and "picks_member pick"
    and "\<forall>b\<in>set items. balancer_selects tags b"
  shows "target_exists items tags
     (effective_target pick (List.map_filter (get_str ''tag'') items) tags rules proxies)"
proof (cases "find_map (rule_target (List.map_filter (get_str ''tag'') items) tags) (rev rules)")
  case (Some t)
  with find_map_Some [OF Some] show ?thesis
    using rule_target_exists [OF _ assms(4)] by (auto simp: effective_target_def)
next
  case None
  let ?btags = "List.map_filter (get_str ''tag'') items"
  show ?thesis
  proof (cases "?btags = []")
    case True
    obtain t ts where "tags = t # ts" "get_str ''tag'' (hd proxies) = Some t"
      using assms(1,2) by (cases proxies; cases tags) (auto simp: outbound_tags_def)
    with None True show ?thesis
      by (simp add: effective_target_def target_exists_def del: get_str_Some)
  next
    case False
    with assms(3) have "pick ?btags \<in> set ?btags" unfolding picks_member_def by blast
    then obtain b where "b \<in> set items" "get_str ''tag'' b = Some (pick ?btags)"
      by (auto simp del: get_str_Some)
    with None False assms(4) show ?thesis by (auto simp: effective_target_def target_exists_def)
  qed
qed

lemma profile_plan_Ok:
  assumes "profile_plan pick server = Ok (Some plan)"
  obtains profile proxies tags items where
    "s_raw_profile server = Some profile" "provider_proxy_outbounds profile = Ok proxies"
    "proxies \<noteq> []" "outbound_tags proxies tags" "distinct tags"
    "set tags \<inter> set RESERVED_OUTBOUND_TAGS = {}" "\<forall>p\<in>set proxies. tame p \<and> outbound_object p"
    "items = unwrap_or [] (nonempty (routing_list profile ''balancers''))"
    "\<forall>b\<in>set items. balancer_selects tags b"
    "plan = \<lparr>plan_proxies = proxies,
       plan_target = effective_target pick (List.map_filter (get_str ''tag'') items) tags
         (unwrap_or [] (routing_list profile ''rules'')) proxies,
       plan_balancers = map_option JArr (nonempty (routing_list profile ''balancers'')),
       plan_observatory = jget ''observatory'' profile,
       plan_burst_observatory = jget ''burstObservatory'' profile\<rparr>"
proof -
  from assms obtain profile where profile: "s_raw_profile server = Some profile"
    by (cases "s_raw_profile server") (auto simp: profile_plan_def)
  with assms obtain proxies where proxies: "provider_proxy_outbounds profile = Ok proxies"
    and "composite profile proxies"
    by (auto simp: profile_plan_def split: if_splits)
  from proxies obtain vs where loop: "proxy_outbounds_from 0 [] vs = Ok proxies" and "proxies \<noteq> []"
    by (auto simp: provider_proxy_outbounds_def split: if_splits)
  from proxy_outbounds_from_Ok [OF loop] obtain tags where
    tags: "outbound_tags proxies tags" "distinct tags" "set tags \<inter> set RESERVED_OUTBOUND_TAGS = {}"
    and tame: "\<forall>p\<in>set proxies. tame p \<and> outbound_object p" by auto
  with assms profile proxies \<open>composite profile proxies\<close> show ?thesis
    using that [OF profile proxies \<open>proxies \<noteq> []\<close> tags tame refl]
    by (simp add: profile_plan_def Let_def outbound_tags_collect check_balancer_Ok del: as_str_Some)
qed

lemma sound_profile_plan:
  assumes "profile_plan pick server = Ok (Some plan)" and "picks_member pick"
  shows "sound_plan plan"
  using assms(1)
proof (cases rule: profile_plan_Ok)
  case (1 profile proxies tags items)
  have "plan_balancer_list plan = items"
    by (cases "nonempty (routing_list profile ''balancers'')")
      (simp_all add: 1 plan_balancer_list_def del: nonempty_Some)
  then show ?thesis
    unfolding sound_plan_def using 1 effective_target_exists [OF 1(4,3) assms(2) 1(9)] by auto
qed

lemma profile_plan_parts:
  assumes "profile_plan pick server = Ok (Some plan)"
  shows "\<forall>p\<in>set (plan_proxies plan). tame p"
    and "Some v \<in> {plan_balancers plan, plan_observatory plan, plan_burst_observatory plan}
      \<Longrightarrow> unchecked_part js server v"
proof -
  from assms obtain profile where *: "s_raw_profile server = Some profile"
    "\<forall>p\<in>set (plan_proxies plan). tame p"
    "plan_balancers plan = map_option JArr (nonempty (routing_list profile ''balancers''))"
    "plan_observatory plan = jget ''observatory'' profile"
    "plan_burst_observatory plan = jget ''burstObservatory'' profile"
    by (rule profile_plan_Ok) auto
  have "Option.bind (jget ''routing'' profile) (jget ''balancers'') = Some v"
    if "plan_balancers plan = Some v"
    using that by (auto simp: * routing_list_def bind_eq_Some_conv)
  then show "Some v \<in> {plan_balancers plan, plan_observatory plan, plan_burst_observatory plan}
      \<Longrightarrow> unchecked_part js server v"
    using *(1,4,5) by (auto simp: unchecked_part_def)
  show "\<forall>p\<in>set (plan_proxies plan). tame p" by (rule *(2))
qed

section \<open>Generated outbounds\<close>

lemma stream_settings_no_sockopt: "jget ''sockopt'' (build_stream_settings js s) = None"
proof -
  have "''sockopt'' \<notin> fst ` set (security_fields s)" by (auto simp: security_fields_def)
  moreover have "''sockopt'' \<notin> fst ` set (transport_fields js s n)" for n
    by (auto simp: transport_fields_def)
  ultimately have "map_of (rev ((''network'', n) # security_fields s @ transport_fields js s m)) ''sockopt'' = None"
    for n m by (simp add: map_of_eq_None_iff image_Un)
  then show ?thesis unfolding build_stream_settings_def Let_def jget_jobj .
qed

lemma stream_security:
  "jget ''security'' (build_stream_settings js s)
     = Some (JStr (if s_security s \<in> {''reality'', ''tls''} then s_security s else ''none''))"
proof -
  have "map_of (rev (transport_fields js s n)) ''security'' = None" for n
    by (auto simp: map_of_eq_None_iff transport_fields_def)
  then show ?thesis
    by (simp add: build_stream_settings_def Let_def map_add_def security_fields_def)
qed

lemma outbound_object_tagged: "jget ''sockopt'' (jobj fs) = None \<Longrightarrow> outbound_object (tagged_outbound p st (jobj fs))"
  by (simp add: outbound_object_def tagged_outbound_def del: jget_jobj) simp

lemma build_proxy_outbound_cases:
  assumes "build_proxy_outbound js s = Some v"
  obtains raw where "sanitize_raw_outbound raw False = Ok v"
    | "v = build_wireguard_outbound s"
    | p settings where "v = tagged_outbound p settings (build_stream_settings js s)" "tame settings"
  using assms
proof (cases "s_raw_outbound s")
  case None
  have "tame (vmess_settings s)" "tame (trojan_settings s)" "tame (shadowsocks_settings s)"
    "tame (hysteria_outbound_settings s)" "tame (vless_settings s)"
    by (simp_all add: vmess_settings_def trojan_settings_def shadowsocks_settings_def
        hysteria_outbound_settings_def vless_settings_def all_fields_jobj)
  moreover have "tame (jobj ([(''address'', JStr (s_host s)), (''port'', jport (s_port s))]
          @ optional_field ''user'' (map_option JStr (nonempty (Some (s_uuid s))))
          @ optional_field ''pass'' (map_option JStr (nonempty (s_password s)))))"
    by (auto intro!: all_fields_jobj)
  moreover note assms None
  ultimately show ?thesis
    by (auto simp: build_proxy_outbound_def Let_def build_simple_proxy_outbound_def intro: that split: if_splits)
qed (auto simp: build_proxy_outbound_def result_ok_def split: sum.splits intro: that)

lemma build_proxy_outbound_Some:
  assumes "build_proxy_outbound js s = Some v"
  shows "outbound_object v" and "get_str ''tag'' v = Some ''proxy''"
    and "tame (JObj (extra_object js s)) \<Longrightarrow> tame v"
proof -
  have "outbound_object v \<and> get_str ''tag'' v = Some ''proxy''
      \<and> (tame (JObj (extra_object js s)) \<longrightarrow> tame v)"
    using assms
  proof (cases rule: build_proxy_outbound_cases)
    case (1 raw)
    with sanitize_raw_outbound_Ok [OF 1] show ?thesis by simp
  next
    case 2
    have "outbound_object (build_wireguard_outbound s)"
      by (simp add: outbound_object_def build_wireguard_outbound_def)
    with tame_wireguard 2 show ?thesis by (simp add: build_wireguard_outbound_def)
  next
    case (3 p settings)
    have "outbound_object v"
      unfolding 3 using stream_settings_no_sockopt [of js s]
      by (simp add: build_stream_settings_def Let_def outbound_object_tagged)
    then show ?thesis
      using 3 tame_stream_settings [of js s]
      by (auto simp: tame_tagged_outbound simp del: all_fields.simps) (simp add: tagged_outbound_def)
  qed
  then show "outbound_object v" "get_str ''tag'' v = Some ''proxy''"
    "tame (JObj (extra_object js s)) \<Longrightarrow> tame v" by blast+
qed

lemma outbound_plan_of_cases:
  assumes "outbound_plan_of js pick server = Some (Ok plan)"
  obtains (composite) "profile_plan pick server = Ok (Some plan)"
    | (single) v where "profile_plan pick server = Ok None" "build_proxy_outbound js server = Some v"
        "plan = \<lparr>plan_proxies = [v], plan_target = Outbound ''proxy'', plan_balancers = None,
           plan_observatory = None, plan_burst_observatory = None\<rparr>"
  using assms by (auto simp: outbound_plan_of_def split: sum.splits option.splits)

lemma sound_outbound_plan:
  assumes "outbound_plan_of js pick server = Some (Ok plan)" and "picks_member pick"
  shows "sound_plan plan"
  using assms(1)
proof (cases rule: outbound_plan_of_cases)
  case (single v)
  note v = build_proxy_outbound_Some [OF single(2)]
  have "outbound_tags [v] [''proxy'']" using v(2) by (simp only: outbound_tags_Cons outbound_tags_Nil)
  with v show ?thesis
    unfolding sound_plan_def single(3)
    by (intro conjI exI [of _ "[''proxy'']"]) (simp_all add: target_exists_def RESERVED_OUTBOUND_TAGS_def)
qed (use sound_profile_plan assms in blast)

definition tame_plan :: "outbound_plan \<Rightarrow> bool" where
  "tame_plan plan \<longleftrightarrow> list_all tame (plan_proxies plan) \<and> pred_option tame (plan_balancers plan)
     \<and> pred_option tame (plan_observatory plan) \<and> pred_option tame (plan_burst_observatory plan)"

lemma tame_outbound_plan:
  assumes "outbound_plan_of js pick server = Some (Ok plan)"
    and "\<And>v. unchecked_part js server v \<Longrightarrow> tame v"
  shows "tame_plan plan"
  using assms(1)
proof (cases rule: outbound_plan_of_cases)
  case composite
  from profile_plan_parts [OF this] assms(2) show ?thesis
    by (auto simp: tame_plan_def list_all_iff option.pred_set)
next
  case (single v)
  have "tame (JObj (extra_object js server))" by (rule assms(2)) (simp add: unchecked_part_def)
  with build_proxy_outbound_Some(3) [OF single(2)] show ?thesis
    by (simp add: tame_plan_def single)
qed

section \<open>Generated configurations\<close>

lemma jget_jset_option:
  "is_object v \<Longrightarrow> jget l (jset_option k x v) = (if l = k \<and> x \<noteq> None then x else jget l v)"
  by (auto simp: jset_option_def jget_jset_object split: option.split)

lemma is_object_jset_option [simp]: "is_object (jset_option k x v) = is_object v"
  by (simp add: jset_option_def split: option.split)

lemma tame_apply_target: "tame rule \<Longrightarrow> tame (apply_target target rule)"
  by (cases target) (simp_all add: all_fields_jset)

lemma tame_aim: "tame rule \<Longrightarrow> tame (aim b target rule)"
  by (simp add: aim_def tame_apply_target all_fields_jset)

lemma tame_route_rules: "\<forall>r\<in>set (build_route_rules split allow_lan target). tame r"
  by (auto simp: build_route_rules_def Let_def dns_rule_def lan_rule_def app_rule_def site_rule_def
      doh_rule_def default_rule_def intro!: tame_aim tame_apply_target all_fields_jobj)

lemma tame_utility_outbounds: "list_all tame utility_outbounds"
  by (simp add: utility_outbounds_def direct_outbound_def all_fields_jobj)

lemma tame_inbounds: "list_all tame build_inbounds" "tame probe_inbound"
  by (simp_all add: build_inbounds_def probe_inbound_def all_fields_jobj)

lemma list_all_set: "\<forall>x\<in>set xs. P x \<Longrightarrow> list_all P xs"
  by (simp add: list_all_iff)

lemma tame_jset_option:
  "harmless_key k \<Longrightarrow> pred_option tame x \<Longrightarrow> tame v \<Longrightarrow> tame (jset_option k x v)"
  by (cases x) (simp_all add: jset_option_def all_fields_jset)

lemma tame_configs:
  assumes "tame_plan plan"
  shows "tame (config_of_plan plan split allow_lan level)" and "tame (probe_of_plan plan)"
  using assms tame_utility_outbounds tame_inbounds
    list_all_set [OF tame_route_rules [of split allow_lan "plan_target plan"]]
  by (simp_all add: tame_plan_def config_of_plan_def probe_of_plan_def Let_def build_dns_def
      tame_jset_option all_fields_jobj tame_apply_target)

lemma config_field:
  "jget k (config_of_plan plan split allow_lan level) =
     (if k = ''log'' then Some (jobj [(''loglevel'', JStr (xray_loglevel level))])
      else if k = ''dns'' then Some build_dns
      else if k = ''inbounds'' then Some (JArr build_inbounds)
      else if k = ''outbounds'' then Some (JArr (plan_proxies plan @ utility_outbounds))
      else if k = ''routing'' then Some (jset_option ''balancers'' (plan_balancers plan)
        (jobj [(''rules'', JArr (build_route_rules split allow_lan (plan_target plan)))]))
      else if k = ''observatory'' then plan_observatory plan
      else if k = ''burstObservatory'' then plan_burst_observatory plan
      else None)"
  by (simp add: config_of_plan_def Let_def jget_jset_option)

lemma probe_field:
  "jget k (probe_of_plan plan) =
     (if k = ''log'' then Some (jobj [(''loglevel'', JStr ''warning'')])
      else if k = ''inbounds'' then Some (JArr [probe_inbound])
      else if k = ''outbounds'' then Some (JArr (plan_proxies plan
        @ [jobj [(''tag'', JStr ''direct''), (''protocol'', JStr ''freedom'')]]))
      else if k = ''routing'' then Some (jset_option ''balancers'' (plan_balancers plan)
        (jobj [(''rules'', JArr [apply_target (plan_target plan) (jobj [(''type'', JStr ''field''),
           (''inboundTag'', jstrs [''socks-in-0'']), (''network'', JStr ''tcp,udp'')])])]))
      else if k = ''observatory'' then plan_observatory plan
      else if k = ''burstObservatory'' then plan_burst_observatory plan
      else None)"
  by (simp add: probe_of_plan_def Let_def jget_jset_option)

lemma is_object_configs: "is_object (config_of_plan plan split allow_lan level)" "is_object (probe_of_plan plan)"
  by (simp_all add: config_of_plan_def probe_of_plan_def Let_def)

lemma safe_root_fields:
  assumes "tame (JObj root)" and "\<And>k. map_of root k \<noteq> None \<Longrightarrow> k \<in> set allowed_fields"
    and "map_of root ''log'' = Some (jobj [(''loglevel'', v)])"
  shows "safe_root root"
proof -
  have "fst ` set root \<subseteq> set allowed_fields"
    using assms(2) by (auto simp: map_of_eq_None_iff)
  with assms show ?thesis
    by (auto simp: safe_root_def jobj_def dest: tame_no_file_keys simp del: all_keys.simps all_fields.simps)
qed

lemma validated_plan:
  assumes "validate_server js pick s = Some (Ok ())"
  shows "\<exists>plan. outbound_plan_of js pick s = Some (Ok plan)"
proof (cases "s_raw_profile s")
  case None
  then have "profile_plan pick s = Ok None" by (simp add: profile_plan_def)
  moreover have "\<exists>v. build_proxy_outbound js s = Some v"
    using assms None
    by (auto simp: validate_server_def build_proxy_outbound_def Let_def split: option.splits)
  ultimately show ?thesis by (auto simp: outbound_plan_of_def)
next
  case (Some profile)
  with assms show ?thesis by (auto simp: validate_server_def)
qed

lemma bindable_plan:
  assumes "outbound_plan_of js pick server = Some (Ok plan)"
  shows "\<forall>p\<in>set (plan_proxies plan). outbound_object p"
  using assms
proof (cases rule: outbound_plan_of_cases)
  case composite
  then show ?thesis by (rule profile_plan_Ok) simp
qed (simp add: build_proxy_outbound_Some)

text \<open>The report of the service on a generated configuration.\<close>

definition generated_inspection :: native_tun_inspection where
  "generated_inspection = \<lparr>adapter_name = ''Varmlen'', adapter_description = ''Varmlen'',
     has_ipv4_gateway = True, has_ipv6_gateway = True, dns_servers = [''1.1.1.1'']\<rparr>"

lemma tun_inbound:
  "\<exists>tun settings. build_inbounds = [tun] \<and> has_protocol ''tun'' tun
     \<and> jget ''settings'' tun = Some (JObj settings)
     \<and> map_of settings ''name'' = Some (JStr ''Varmlen'') \<and> map_of settings ''desc'' = Some (JStr ''Varmlen'')
     \<and> map_of settings ''gateway'' = Some (jstrs [''10.255.0.1/30'', ''fd00:7661:726d:6c65::1/64''])
     \<and> map_of settings ''dns'' = Some (jstrs [''1.1.1.1''])
     \<and> map_of settings ''autoSystemRoutingTable'' = Some (jstrs [''0.0.0.0/0'', ''::/0''])
     \<and> map_of settings ''autoOutboundsInterface'' = Some (JStr ''auto'')"
proof -
  obtain settings where "jobj
        [(''name'', JStr TUN_NAME), (''desc'', JStr ''Varmlen''), (''mtu'', jnat (unat TUN_MTU)),
         (''gateway'', jstrs [''10.255.0.1/30'', ''fd00:7661:726d:6c65::1/64'']),
         (''dns'', jstrs [''1.1.1.1'']),
         (''autoSystemRoutingTable'', jstrs [''0.0.0.0/0'', ''::/0'']),
         (''autoOutboundsInterface'', JStr ''auto'')] = JObj settings"
    and "map_of settings = map_of (rev
        [(''name'', JStr TUN_NAME), (''desc'', JStr ''Varmlen''), (''mtu'', jnat (unat TUN_MTU)),
         (''gateway'', jstrs [''10.255.0.1/30'', ''fd00:7661:726d:6c65::1/64'']),
         (''dns'', jstrs [''1.1.1.1'']),
         (''autoSystemRoutingTable'', jstrs [''0.0.0.0/0'', ''::/0'']),
         (''autoOutboundsInterface'', JStr ''auto'')])"
    using jobj_object by blast
  then show ?thesis
    by (intro exI [of _ "hd build_inbounds"] exI [of _ settings])
      (simp add: build_inbounds_def has_protocol_def TUN_NAME_def)
qed

lemma native_tun_generated:
  assumes "safe_root root" and "map_of root ''inbounds'' = Some (JArr build_inbounds)"
  shows "native_tun root generated_inspection"
proof -
  obtain tun settings where *: "build_inbounds = [tun]" "has_protocol ''tun'' tun"
     "jget ''settings'' tun = Some (JObj settings)"
     "map_of settings ''name'' = Some (JStr ''Varmlen'')" "map_of settings ''desc'' = Some (JStr ''Varmlen'')"
     "map_of settings ''gateway'' = Some (jstrs [''10.255.0.1/30'', ''fd00:7661:726d:6c65::1/64''])"
     "map_of settings ''dns'' = Some (jstrs [''1.1.1.1''])"
     "map_of settings ''autoSystemRoutingTable'' = Some (jstrs [''0.0.0.0/0'', ''::/0''])"
     "map_of settings ''autoOutboundsInterface'' = Some (JStr ''auto'')"
    using tun_inbound by blast
  then show ?thesis
    unfolding native_tun_def
    by (intro conjI exI [of _ tun] exI [of _ settings] assms(1)
        exI [of _ "[''10.255.0.1/30'', ''fd00:7661:726d:6c65::1/64'']"] exI [of _ "[''0.0.0.0/0'', ''::/0'']"])
      (simp_all add: assms(2) strings_at_def tun_constants generated_inspection_def has_protocol_def)
qed

lemma bind_outbounds_total:
  assumes "\<forall>p\<in>set ps. outbound_object p"
  shows "\<exists>ws. rtraverse (bind_outbound name) ps = Ok ws"
  using assms
proof (induction ps)
  case (Cons p ps)
  then show ?case using bind_outbound_total [of p name] by auto
qed simp

lemma rewrite_generated:
  assumes "map_of root ''inbounds'' = Some (JArr build_inbounds)"
    and "map_of root ''outbounds'' = Some (JArr outs)" and "\<forall>p\<in>set outs. outbound_object p"
  shows "\<exists>root'. rewrite_native_tree name root = Ok root'"
proof -
  obtain tun settings where tun: "build_inbounds = [tun]" "has_protocol ''tun'' tun"
     "jget ''settings'' tun = Some (JObj settings)"
    using tun_inbound by blast
  obtain ws where ws: "rtraverse (bind_outbound name) outs = Ok ws"
    using bind_outbounds_total [OF assms(3)] by blast
  have "map_of root ''inbounds'' = Some (JArr [tun])" using assms(1) unfolding tun(1) .
  with tun(2,3) ws assms(2) show ?thesis
    by (simp add: rewrite_native_tree_def Let_def strip_tun_settings_def)
qed

lemma outbound_object_utility: "\<forall>p\<in>set utility_outbounds. outbound_object p"
  by (simp add: utility_outbounds_def direct_outbound_def outbound_object_def)

lemma validation_root_generated:
  assumes "safe_root root" and "map_of root ''inbounds'' = Some (JArr [probe_inbound])"
  shows "validation_root root 20810"
  unfolding validation_root_def
proof (intro conjI exI)
  show "map_of root ''inbounds'' = Some (JArr ([] @ probe_inbound # []))" using assms by simp
qed (use assms in \<open>auto simp: probe_inbound_def has_protocol_def CONNECTION_PROBE_PORT_def\<close>)

lemma safe_configs:
  assumes "tame_plan plan"
  shows "config_of_plan plan split allow_lan level = JObj root \<Longrightarrow> safe_root root"
    and "probe_of_plan plan = JObj root \<Longrightarrow> safe_root root"
proof -
  have root: "jget k (JObj root) = map_of root k" for k by simp
  show "safe_root root" if v: "config_of_plan plan split allow_lan level = JObj root"
  proof (rule safe_root_fields)
    show "tame (JObj root)" using tame_configs(1) [OF assms] unfolding v [symmetric] .
    show "k \<in> set allowed_fields" if "map_of root k \<noteq> None" for k
      using that unfolding root [symmetric] v [symmetric] config_field
      by (auto simp: allowed_fields_def split: if_splits)
    show "map_of root ''log'' = Some (jobj [(''loglevel'', JStr (xray_loglevel level))])"
      unfolding root [symmetric] v [symmetric] config_field by simp
  qed
  show "safe_root root" if v: "probe_of_plan plan = JObj root"
  proof (rule safe_root_fields)
    show "tame (JObj root)" using tame_configs(2) [OF assms] unfolding v [symmetric] .
    show "k \<in> set allowed_fields" if "map_of root k \<noteq> None" for k
      using that unfolding root [symmetric] v [symmetric] probe_field
      by (auto simp: allowed_fields_def split: if_splits)
    show "map_of root ''log'' = Some (jobj [(''loglevel'', JStr ''warning'')])"
      unfolding root [symmetric] v [symmetric] probe_field by simp
  qed
qed

lemma build_config_Some:
  "build_xray_config js pick s split allow_lan level = Some v
     \<longleftrightarrow> (\<exists>plan. outbound_plan_of js pick s = Some (Ok plan) \<and> v = config_of_plan plan split allow_lan level)"
  "build_connection_probe_config js pick s = Some (Ok v)
     \<longleftrightarrow> (\<exists>plan. outbound_plan_of js pick s = Some (Ok plan) \<and> v = probe_of_plan plan)"
  by (cases "outbound_plan_of js pick s"; cases "the (outbound_plan_of js pick s)";
      auto simp: build_xray_config_def build_connection_probe_config_def)+

section \<open>Properties\<close>

text \<open>A location that passes the check, with its configurations in the service's checks.\<close>

lemma checked_location_configs:
  assumes "validate_server js pick s = Some (Ok ())"
    and "\<forall>v. unchecked_part js s v \<longrightarrow>
      \<not> contains_forbidden_provider_file_reference v \<and> \<not> contains_insecure_tls_override v"
  shows "\<exists>root root' probe.
     build_xray_config js pick s split allow_lan level = Some (JObj root)
     \<and> inspect_native_tree root = Ok generated_inspection
     \<and> rewrite_native_tree name root = Ok root'
     \<and> build_connection_probe_config js pick s = Some (Ok (JObj probe))
     \<and> inspect_validation_tree probe = Ok [20810]"
proof -
  obtain plan where plan: "outbound_plan_of js pick s = Some (Ok plan)"
    using validated_plan [OF assms(1)] by blast
  then have tame: "tame_plan plan" using assms(2) by (intro tame_outbound_plan) (auto simp: tame_iff)
  obtain root where root: "config_of_plan plan split allow_lan level = JObj root"
    using is_object_configs by (blast elim: is_objectE)
  obtain probe where probe: "probe_of_plan plan = JObj probe"
    using is_object_configs by (blast elim: is_objectE)
  have fields: "map_of root ''inbounds'' = Some (JArr build_inbounds)"
    "map_of root ''outbounds'' = Some (JArr (plan_proxies plan @ utility_outbounds))"
    "map_of probe ''inbounds'' = Some (JArr [probe_inbound])"
    using config_field [of "''inbounds''" plan split allow_lan level]
      config_field [of "''outbounds''" plan split allow_lan level] probe_field [of "''inbounds''" plan]
    unfolding root probe by simp_all
  obtain root' where "rewrite_native_tree name root = Ok root'"
    using rewrite_generated [OF fields(1,2)] bindable_plan [OF plan] outbound_object_utility by force
  then show ?thesis
    using plan root probe fields safe_configs [OF tame]
    by (auto simp: build_xray_config_def build_connection_probe_config_def inspect_native_tree_Ok
        inspect_validation_tree_Ok native_tun_generated validation_root_generated)
qed

text \<open>
  A location that passes the application's check gets a configuration that the service
  accepts, with the expected report, and can bind to any interface, and a probe
  configuration that the service accepts with its one port; provided that the parts that the
  generator copies unchecked name no file and disable no TLS verification.
\<close>

theorem generated_config_accepted:
  assumes "validate_server js pick s = Some (Ok ())"
    and "\<forall>v. unchecked_part js s v \<longrightarrow>
      \<not> contains_forbidden_provider_file_reference v \<and> \<not> contains_insecure_tls_override v"
  shows "\<exists>root root' probe.
     build_xray_config js pick s split allow_lan level = Some (JObj root)
     \<and> inspect_native_tree root = Ok generated_inspection
     \<and> rewrite_native_tree name root = Ok root'
     \<and> build_connection_probe_config js pick s = Some (Ok (JObj probe))
     \<and> inspect_validation_tree probe = Ok [20810]"
  using assms by (rule checked_location_configs)

text \<open>
  C18: under the same condition nothing in the two configurations names a file or disables TLS
  verification, whatever the provider's outbounds and the share link's other parameters say.
\<close>

theorem generated_config_verifies_tls:
  assumes "\<forall>v. unchecked_part js s v \<longrightarrow>
      \<not> contains_forbidden_provider_file_reference v \<and> \<not> contains_insecure_tls_override v"
    and "build_xray_config js pick s split allow_lan level = Some v
       \<or> build_connection_probe_config js pick s = Some (Ok v)"
  shows "\<not> contains_insecure_tls_override v \<and> \<not> contains_forbidden_provider_file_reference v"
proof -
  from assms(2) obtain plan where plan: "outbound_plan_of js pick s = Some (Ok plan)"
    and v: "v = config_of_plan plan split allow_lan level \<or> v = probe_of_plan plan"
    by (auto simp: build_config_Some)
  from plan have "tame_plan plan" using assms(1) by (intro tame_outbound_plan) (auto simp: tame_iff)
  with v have "tame v" using tame_configs by blast
  then show ?thesis by (simp add: tame_iff)
qed

text \<open>A VLESS location over XHTTP, and a reader that knows its \<open>extra\<close> parameter.\<close>

definition sample_location :: vless_server where
  "sample_location = (server_base ''vless'' ''vpn.example'' 443 ''Location'')
     \<lparr>s_uuid := ''u'', s_transport := ''xhttp'', s_security := ''tls'',
      s_raw_params := [(''type'', ''xhttp''), (''extra'', ''{}'')]\<rparr>"

definition extra_reader :: "(string \<times> json) list \<Rightarrow> json_text" where
  "extra_reader extra = \<lparr>from_str = (\<lambda>t. if t = ''{}'' then Ok (JObj extra) else Err ''EOF''),
     to_string = (\<lambda>v. Ok []), to_string_pretty = (\<lambda>v. Ok [])\<rparr>"

definition all_traffic :: split_input where
  "all_traffic = \<lparr>apps_mode = ''general'', sites_mode = ''general'', split_apps = [], split_sites = []\<rparr>"

lemma validated_sample: "validate_server (extra_reader extra) hd sample_location = Some (Ok ())"
proof -
  have "validate_fields sample_location = Ok ()" by code_simp
  then show ?thesis by (simp add: validate_server_def sample_location_def server_base_def)
qed

lemma generated_config_accepted_witness:
  "\<exists>root root' probe.
     build_xray_config (extra_reader []) hd sample_location all_traffic True ''warn'' = Some (JObj root)
     \<and> inspect_native_tree root = Ok generated_inspection
     \<and> rewrite_native_tree ''Ethernet'' root = Ok root'
     \<and> build_connection_probe_config (extra_reader []) hd sample_location = Some (Ok (JObj probe))
     \<and> inspect_validation_tree probe = Ok [20810]"
proof (rule generated_config_accepted)
  show "validate_server (extra_reader []) hd sample_location = Some (Ok ())" by (rule validated_sample)
  show "\<forall>v. unchecked_part (extra_reader []) sample_location v \<longrightarrow>
      \<not> contains_forbidden_provider_file_reference v \<and> \<not> contains_insecure_tls_override v"
    by (simp add: unchecked_part_def extra_object_def extra_reader_def sample_location_def server_base_def)
qed

lemma generated_config_verifies_tls_witness:
  "\<exists>v. build_connection_probe_config (extra_reader []) hd sample_location = Some (Ok v)
     \<and> \<not> contains_insecure_tls_override v \<and> \<not> contains_forbidden_provider_file_reference v"
proof -
  let ?js = "extra_reader []"
  obtain v where v: "build_connection_probe_config ?js hd sample_location = Some (Ok v)"
    using validated_plan [OF validated_sample [of "[]"]] by (auto simp: build_config_Some)
  have "\<forall>v. unchecked_part ?js sample_location v \<longrightarrow>
      \<not> contains_forbidden_provider_file_reference v \<and> \<not> contains_insecure_tls_override v"
    by (simp add: unchecked_part_def extra_object_def extra_reader_def sample_location_def server_base_def)
  with v generated_config_verifies_tls [of ?js sample_location hd all_traffic True "''warn''" v]
  show ?thesis by blast
qed

text \<open>
  The condition is needed. A share link's \<open>extra\<close> parameter is merged into the XHTTP
  settings unchecked: this one passes the check of the location, which looks for
  \<open>allowInsecure\<close> only among the link's own parameters, and the service's inspection, whose
  list of file keys lacks \<open>masterKeyLog\<close>; the core that the service runs then skips the
  certificate check and writes its TLS keys to the named file.
\<close>

theorem unchecked_extra_reaches_core:
  "let js = extra_reader [(''downloadSettings'', JObj [(''tlsSettings'', JObj
        [(''allowInsecure'', JBool True), (''masterKeyLog'', JStr ''C:/Windows/keys'')])])]
   in validate_server js hd sample_location = Some (Ok ())
    \<and> (case build_xray_config js hd sample_location all_traffic True ''warn'' of
         Some (JObj root) \<Rightarrow> inspect_native_tree root = Ok generated_inspection
           \<and> contains_insecure_tls_override (JObj root)
           \<and> contains_forbidden_provider_file_reference (JObj root)
       | _ \<Rightarrow> False)"
  by code_simp

text \<open>
  The check of a location and the generator disagree on letter case. A location whose
  security is written \<open>TLS\<close> passes the check like one with \<open>tls\<close>, but its outbound is
  generated without TLS; one whose protocol is written \<open>Trojan\<close> becomes a VLESS outbound.
\<close>

theorem letter_case_is_reinterpreted:
  "validate_fields (s\<lparr>s_security := ''TLS''\<rparr>) = validate_fields (s\<lparr>s_security := ''tls''\<rparr>)
   \<and> jget ''security'' (build_stream_settings js (s\<lparr>s_security := ''TLS''\<rparr>)) = Some (JStr ''none'')
   \<and> validate_fields (s\<lparr>s_protocol := ''Trojan''\<rparr>) = validate_fields (s\<lparr>s_protocol := ''trojan''\<rparr>)
   \<and> map_option (get_str ''protocol'')
       (build_proxy_outbound js (s\<lparr>s_protocol := ''Trojan'', s_raw_outbound := None\<rparr>)) = Some (Some ''vless'')"
proof -
  have "ascii_lower ''TLS'' = ''tls''" "ascii_lower ''tls'' = ''tls''"
    "ascii_lower ''Trojan'' = ''trojan''" "ascii_lower ''trojan'' = ''trojan''"
    "is_proxy_protocol ''trojan''" by code_simp+
  note case_facts = this
  show ?thesis
  proof (intro conjI)
    show "jget ''security'' (build_stream_settings js (s\<lparr>s_security := ''TLS''\<rparr>)) = Some (JStr ''none'')"
      by (simp only: stream_security) simp
    show "map_option (get_str ''protocol'')
       (build_proxy_outbound js (s\<lparr>s_protocol := ''Trojan'', s_raw_outbound := None\<rparr>)) = Some (Some ''vless'')"
      by (simp add: build_proxy_outbound_def Let_def tagged_outbound_def get_str_def)
  qed (simp_all add: validate_fields_def Let_def eq_ignore_case_def case_facts)
qed

text \<open>
  The generator leaves \<open>streamSettings\<close> out of a WireGuard outbound, because Xray forbids
  them there, and the service's binding to the interface puts them back.
\<close>

theorem wireguard_gets_stream_settings:
  "\<exists>v w. build_proxy_outbound js (s\<lparr>s_protocol := ''wireguard'', s_raw_outbound := None\<rparr>) = Some v
     \<and> jget ''streamSettings'' v = None
     \<and> bind_outbound name v = Ok w \<and> jpath interface_path w = Some (JStr name)"
proof -
  let ?s = "s\<lparr>s_protocol := ''wireguard'', s_raw_outbound := None\<rparr>"
  have v: "build_proxy_outbound js ?s = Some (build_wireguard_outbound ?s)"
    by (simp add: build_proxy_outbound_def Let_def)
  obtain w where w: "bind_outbound name (build_wireguard_outbound ?s) = Ok w"
    using bind_outbound_total build_proxy_outbound_Some(1) [OF v] by blast
  have "bound_outbound name (build_wireguard_outbound ?s) w" by (rule bind_outbound_bound [OF w])
  then have "jpath interface_path w = Some (JStr name)"
    by (simp add: bound_outbound_def has_protocol_def build_wireguard_outbound_def)
  moreover have "jget ''streamSettings'' (build_wireguard_outbound ?s) = None"
    by (simp add: build_wireguard_outbound_def)
  ultimately show ?thesis using v w by blast
qed

text \<open>
  Every choice of the location editor is one the generator knows: the protocols are
  accepted as they are, every transport is accepted by the check and maps to itself, and the
  securities other than \<open>none\<close> select their settings.
\<close>

theorem editor_choices_supported:
  "list_all (\<lambda>p. is_proxy_protocol p \<and> ascii_lower p = p) (map fst (protocols editor_options))
   \<and> list_all (\<lambda>t. t \<in> set accepted_transports \<and> xray_network t = t) (map fst (transports editor_options))
   \<and> map (\<lambda>c. get_str ''security'' (build_stream_settings js (s\<lparr>s_security := c\<rparr>)))
       (map fst (securities editor_options)) = [Some ''none'', Some ''tls'', Some ''reality'']"
proof (intro conjI)
  show "list_all (\<lambda>p. is_proxy_protocol p \<and> ascii_lower p = p) (map fst (protocols editor_options))"
    by code_simp
  show "list_all (\<lambda>t. t \<in> set accepted_transports \<and> xray_network t = t) (map fst (transports editor_options))"
    by code_simp
qed (simp add: editor_options_def get_str_def stream_security)

end
