(* ===== verification/Xray_Routing.thy ===== *)
theory Xray_Routing
  imports Xray_Safety
begin

text \<open>
  The routing rules of the generated configuration: which rule decides for a connection, that
  the decision is the split tunnel's policy, and that every target exists.
\<close>

section \<open>Routing\<close>

text \<open>
  Xray tries the rules in order; the first that matches a connection decides. Its matcher is
  not part of the sources, so it is a predicate on rules for the connection at hand. What it
  is documented to do: a rule matches when each of its conditions holds, a list of values
  holds when one of them does, and \<open>tcp,udp\<close> is every network.
\<close>

definition condition_fields :: "string list" where
  "condition_fields = [''inboundTag'', ''port'', ''ip'', ''process'', ''domain'', ''network'']"

definition rule_law :: "(json \<Rightarrow> bool) \<Rightarrow> (string \<Rightarrow> json \<Rightarrow> bool) \<Rightarrow> bool" where
  "rule_law matches holds \<longleftrightarrow>
     (\<forall>rule. is_object rule \<longrightarrow> matches rule
        = (\<forall>k\<in>set condition_fields. \<forall>v. jget k rule = Some v \<longrightarrow> holds k v))
     \<and> (\<forall>k vs. holds k (JArr vs) \<longleftrightarrow> (\<exists>v\<in>set vs. holds k v))
     \<and> holds ''network'' (JStr ''tcp,udp'')"

definition goes_to :: "json \<Rightarrow> proxy_target option" where
  "goes_to rule = (case get_str ''outboundTag'' rule of
      Some t \<Rightarrow> Some (Outbound t)
    | None \<Rightarrow> map_option Balancer (get_str ''balancerTag'' rule))"

text \<open>The policy of the split tunnel, as a decision on the connection's facts.\<close>

definition split_policy ::
  "split_input \<Rightarrow> bool \<Rightarrow> proxy_target \<Rightarrow> (string \<Rightarrow> json \<Rightarrow> bool) \<Rightarrow> proxy_target" where
  "split_policy sp allow_lan target holds =
     (if holds ''inboundTag'' (JStr ''tun-in'') \<and> holds ''port'' (jnat 53) then Outbound ''dns-out''
      else if allow_lan \<and> (\<exists>c\<in>set PRIVATE_CIDRS. holds ''ip'' (JStr c)) then Outbound ''direct''
      else if \<exists>a\<in>set (split_apps sp). a \<noteq> [] \<and> holds ''process'' (JStr a)
      then (if apps_selective sp then target else Outbound ''direct'')
      else if \<exists>d\<in>set (split_sites sp). trim d \<noteq> [] \<and> holds ''domain'' (JStr (site_pattern (trim d)))
      then (if sites_selective sp then target else Outbound ''direct'')
      else if holds ''ip'' (JStr ''1.1.1.1'') then target
      else if apps_selective sp then Outbound ''direct'' else target)"

lemma jget_apply_target:
  "is_object rule \<Longrightarrow> k \<in> set condition_fields \<Longrightarrow> jget k (apply_target target rule) = jget k rule"
  by (cases target) (auto simp: condition_fields_def jget_jset_object)

lemma jget_aim: "is_object rule \<Longrightarrow> k \<in> set condition_fields \<Longrightarrow> jget k (aim b target rule) = jget k rule"
  using jget_apply_target [of rule k target] by (auto simp: aim_def condition_fields_def jget_jset_object)

lemma is_object_aim [simp]: "is_object (aim b target rule) = is_object rule"
  "is_object (apply_target target rule) = is_object rule"
  by (cases target; simp add: aim_def)+

lemma matches_aim:
  assumes "rule_law m holds" and "is_object rule"
  shows "m (aim b target rule) = m rule" and "m (apply_target target rule) = m rule"
  using assms by (simp_all add: rule_law_def jget_aim jget_apply_target)

lemma goes_to_aim:
  assumes "is_object rule" and "jget ''outboundTag'' rule = None" and "jget ''balancerTag'' rule = None"
  shows "goes_to (apply_target target rule) = Some target"
    and "goes_to (aim b target rule) = Some (if b then target else Outbound ''direct'')"
  using assms by (cases target; simp add: goes_to_def aim_def get_str_def jget_jset_object)+

lemma matches_rules:
  assumes "rule_law m holds"
  shows "m dns_rule \<longleftrightarrow> holds ''inboundTag'' (JStr ''tun-in'') \<and> holds ''port'' (jnat 53)"
    and "m lan_rule \<longleftrightarrow> (\<exists>c\<in>set PRIVATE_CIDRS. holds ''ip'' (JStr c))"
    and "m (app_rule b target app) \<longleftrightarrow> holds ''process'' (JStr app)"
    and "m (site_rule b target domains) \<longleftrightarrow> (\<exists>d\<in>set domains. holds ''domain'' (JStr d))"
    and "m (doh_rule target) \<longleftrightarrow> holds ''ip'' (JStr ''1.1.1.1'')"
    and "m (default_rule b target)"
proof -
  have arr: "holds k (jstrs ss) \<longleftrightarrow> (\<exists>s\<in>set ss. holds k (JStr s))" for k ss
    using assms by (auto simp: rule_law_def)
  have m: "m (jobj kvs) = (\<forall>k\<in>set condition_fields. \<forall>v. map_of (rev kvs) k = Some v \<longrightarrow> holds k v)" for kvs
    using assms by (simp add: rule_law_def)
  show "m dns_rule \<longleftrightarrow> holds ''inboundTag'' (JStr ''tun-in'') \<and> holds ''port'' (jnat 53)"
    unfolding dns_rule_def m by (simp add: condition_fields_def arr [of _ "[_]", simplified])
  show "m lan_rule \<longleftrightarrow> (\<exists>c\<in>set PRIVATE_CIDRS. holds ''ip'' (JStr c))"
    unfolding lan_rule_def m by (simp add: condition_fields_def arr)
  show "m (app_rule b target app) \<longleftrightarrow> holds ''process'' (JStr app)"
    unfolding app_rule_def by (subst matches_aim [OF assms])
      (simp, unfold m, simp add: condition_fields_def arr [of _ "[_]", simplified])
  show "m (site_rule b target domains) \<longleftrightarrow> (\<exists>d\<in>set domains. holds ''domain'' (JStr d))"
    unfolding site_rule_def by (subst matches_aim [OF assms])
      (simp, unfold m, simp add: condition_fields_def arr)
  show "m (doh_rule target) \<longleftrightarrow> holds ''ip'' (JStr ''1.1.1.1'')"
    unfolding doh_rule_def by (subst matches_aim [OF assms])
      (simp, unfold m, simp add: condition_fields_def arr [of _ "[_]", simplified])
  show "m (default_rule b target)"
    unfolding default_rule_def using assms by (subst matches_aim [OF assms])
      (simp, unfold m, simp add: condition_fields_def rule_law_def)
qed

lemma goes_to_rules:
  "goes_to dns_rule = Some (Outbound ''dns-out'')" "goes_to lan_rule = Some (Outbound ''direct'')"
  "goes_to (app_rule b target app) = Some (if b then target else Outbound ''direct'')"
  "goes_to (site_rule b target domains) = Some (if b then target else Outbound ''direct'')"
  "goes_to (doh_rule target) = Some target"
  "goes_to (default_rule b target) = Some (if b then target else Outbound ''direct'')"
  by (simp_all add: app_rule_def site_rule_def doh_rule_def default_rule_def goes_to_aim)
    (simp_all add: goes_to_def get_str_def dns_rule_def lan_rule_def)

text \<open>The decision of a list of rules, and of the parts of a list.\<close>

definition decision :: "(json \<Rightarrow> bool) \<Rightarrow> json list \<Rightarrow> proxy_target option" where
  "decision m rules = Option.bind (find m rules) goes_to"

lemma decision_simps [simp]:
  "decision m [] = None"
  "decision m (r # rs) = (if m r then goes_to r else decision m rs)"
  by (simp_all add: decision_def)

lemma decision_same:
  assumes "\<forall>r\<in>set rules. goes_to r = Some t"
  shows "decision m (rules @ rest) = (if \<exists>r\<in>set rules. m r then Some t else decision m rest)"
  using assms by (induction rules) auto

lemma split_rules_decision:
  assumes "rule_law m holds"
  shows "decision m (build_route_rules sp allow_lan target) = Some (split_policy sp allow_lan target holds)"
proof -
  have apps: "decision m (map (app_rule b target) (enabled_apps sp) @ rest)
      = (if \<exists>a\<in>set (split_apps sp). a \<noteq> [] \<and> holds ''process'' (JStr a)
         then Some (if b then target else Outbound ''direct'') else decision m rest)" for b rest
    by (subst decision_same [where t = "if b then target else Outbound ''direct''"])
      (auto simp: goes_to_rules matches_rules [OF assms] enabled_apps_def)
  have listed: "(\<exists>d\<in>set (site_domains sp). holds ''domain'' (JStr d))
      \<longleftrightarrow> (\<exists>d\<in>set (split_sites sp). trim d \<noteq> [] \<and> holds ''domain'' (JStr (site_pattern (trim d))))"
    by (auto simp: site_domains_def)
  have sites: "decision m ((if site_domains sp \<noteq> [] then [site_rule b target (site_domains sp)] else []) @ rest)
      = (if \<exists>d\<in>set (split_sites sp). trim d \<noteq> [] \<and> holds ''domain'' (JStr (site_pattern (trim d)))
         then Some (if b then target else Outbound ''direct'') else decision m rest)" for b rest
    unfolding listed [symmetric] by (auto simp: goes_to_rules matches_rules [OF assms])
  have lan: "decision m ((if allow_lan then [lan_rule] else []) @ rest)
      = (if allow_lan \<and> (\<exists>c\<in>set PRIVATE_CIDRS. holds ''ip'' (JStr c))
         then Some (Outbound ''direct'') else decision m rest)" for rest
    by (auto simp: goes_to_rules matches_rules [OF assms])
  have dns: "decision m ([dns_rule] @ rest)
      = (if holds ''inboundTag'' (JStr ''tun-in'') \<and> holds ''port'' (jnat 53)
         then Some (Outbound ''dns-out'') else decision m rest)" for rest
    by (simp add: goes_to_rules matches_rules [OF assms])
  have last: "decision m [doh_rule target, default_rule b target]
      = Some (if holds ''ip'' (JStr ''1.1.1.1'') then target else if b then target else Outbound ''direct'')" for b
    by (simp add: goes_to_rules matches_rules [OF assms])
  show ?thesis
    unfolding build_route_rules_def Let_def dns lan apps sites last split_policy_def
    by (cases "apps_selective sp") (simp_all only: if_distrib [where f = Some] if_True if_False simp_thms)
qed

section \<open>The targets\<close>

lemma rules_go_to:
  "\<forall>r\<in>set (build_route_rules sp allow_lan target).
     goes_to r \<in> {Some (Outbound ''dns-out''), Some (Outbound ''direct''), Some target}"
  by (auto simp: build_route_rules_def Let_def goes_to_rules)

lemma outbound_tags_append:
  "outbound_tags vs ts \<Longrightarrow> outbound_tags ws us \<Longrightarrow> outbound_tags (vs @ ws) (ts @ us)"
  by (simp add: outbound_tags_def)

lemma utility_tags: "outbound_tags utility_outbounds RESERVED_OUTBOUND_TAGS"
  by (simp add: outbound_tags_def utility_outbounds_def direct_outbound_def RESERVED_OUTBOUND_TAGS_def
      get_str_def)

lemma target_exists_more:
  "target_exists bals tags target \<Longrightarrow> set tags \<subseteq> set tags' \<Longrightarrow> target_exists bals tags' target"
  by (cases target) (fastforce simp: target_exists_def balancer_selects_def)+

lemma routing_balancers:
  assumes "jget ''routing'' (config_of_plan plan split allow_lan level) = Some routing"
    and "outbound_plan_of js pick s = Some (Ok plan)"
  shows "unwrap_or [] (get_array ''balancers'' routing) = plan_balancer_list plan"
    and "get_array ''rules'' routing = Some (build_route_rules split allow_lan (plan_target plan))"
proof -
  have r: "routing = jset_option ''balancers'' (plan_balancers plan)
      (jobj [(''rules'', JArr (build_route_rules split allow_lan (plan_target plan)))])"
    using assms(1) by (simp add: config_field)
  show "get_array ''rules'' routing = Some (build_route_rules split allow_lan (plan_target plan))"
    unfolding r by (simp add: get_array_def jget_jset_option del: get_array_Some)
  show "unwrap_or [] (get_array ''balancers'' routing) = plan_balancer_list plan"
    unfolding r by (simp add: get_array_def jget_jset_option plan_balancer_list_def)
qed

section \<open>Properties\<close>


text \<open>
  C17: every rule of a generated configuration has a target that exists: an outbound of the
  configuration, or a balancer of its routing whose selector matches an outbound; and no two
  outbounds share a tag.
\<close>

theorem generated_targets_exist:
  assumes "build_xray_config js pick s split allow_lan level = Some v" and "picks_member pick"
  shows "\<exists>outs tags routing rules.
     get_array ''outbounds'' v = Some outs \<and> outbound_tags outs tags \<and> distinct tags
     \<and> jget ''routing'' v = Some routing \<and> get_array ''rules'' routing = Some rules
     \<and> (\<forall>r\<in>set rules. \<exists>t. goes_to r = Some t
          \<and> target_exists (unwrap_or [] (get_array ''balancers'' routing)) tags t)"
proof -
  from assms(1) obtain plan where plan: "outbound_plan_of js pick s = Some (Ok plan)"
    and v: "v = config_of_plan plan split allow_lan level"
    by (auto simp: build_config_Some)
  from sound_outbound_plan [OF plan assms(2)] obtain ptags where
    ptags: "outbound_tags (plan_proxies plan) ptags" "distinct ptags"
      "set ptags \<inter> set RESERVED_OUTBOUND_TAGS = {}"
      "target_exists (plan_balancer_list plan) ptags (plan_target plan)"
    by (auto simp: sound_plan_def)
  let ?tags = "ptags @ RESERVED_OUTBOUND_TAGS"
  obtain routing where routing: "jget ''routing'' v = Some routing"
    unfolding v by (simp add: config_field)
  note parts = routing_balancers [OF routing [unfolded v] plan]
  have "target_exists (plan_balancer_list plan) ?tags t"
    if "Some t \<in> {Some (Outbound ''dns-out''), Some (Outbound ''direct''), Some (plan_target plan)}" for t
    using that target_exists_more [OF ptags(4), of ?tags]
    by (auto simp: target_exists_def RESERVED_OUTBOUND_TAGS_def)
  then have "\<forall>r\<in>set (build_route_rules split allow_lan (plan_target plan)).
      \<exists>t. goes_to r = Some t \<and> target_exists (plan_balancer_list plan) ?tags t"
    using rules_go_to [of split allow_lan "plan_target plan"] by fastforce
  moreover have "distinct ?tags"
    using ptags by (auto simp: RESERVED_OUTBOUND_TAGS_def)
  moreover have "get_array ''outbounds'' v = Some (plan_proxies plan @ utility_outbounds)"
    unfolding v by (simp add: config_field)
  ultimately show ?thesis
    using outbound_tags_append [OF ptags(1) utility_tags] routing parts by metis
qed

text \<open>A matcher for the connections of one application to one address, which follows the law.\<close>

fun browser_holds :: "string \<Rightarrow> json \<Rightarrow> bool" where
  "browser_holds k (JArr vs) = list_ex (browser_holds k) vs"
| "browser_holds k v = ((k, v) \<in> {(''process'', JStr ''C:/b.exe''), (''ip'', JStr ''203.0.113.9''),
     (''network'', JStr ''tcp,udp'')})"

definition browser_matches :: "json \<Rightarrow> bool" where
  "browser_matches rule \<longleftrightarrow>
     list_all (\<lambda>k. case jget k rule of None \<Rightarrow> True | Some v \<Rightarrow> browser_holds k v) condition_fields"

definition only_browser :: split_input where
  "only_browser = \<lparr>apps_mode = ''selective'', sites_mode = ''general'', split_apps = [''C:/b.exe''],
     split_sites = [''*.example'']\<rparr>"


text \<open>A provider's profile with two outbounds behind a balancer.\<close>

definition balanced_profile :: json where
  "balanced_profile = jobj
     [(''outbounds'', JArr [jobj [(''protocol'', JStr ''vless''), (''tag'', JStr ''node-a'')],
        jobj [(''protocol'', JStr ''trojan''), (''tag'', JStr ''node-b'')]]),
      (''routing'', jobj
        [(''balancers'', JArr [jobj [(''tag'', JStr ''any''), (''selector'', jstrs [''node-''])]]),
         (''rules'', JArr [jobj [(''balancerTag'', JStr ''any'')]])])]"

definition balanced_location :: vless_server where
  "balanced_location = (server_base ''vless'' ''vpn.example'' 443 ''Any'')\<lparr>s_raw_profile := Some balanced_profile\<rparr>"

definition balanced_config :: json where
  "balanced_config = (case build_xray_config (extra_reader []) hd balanced_location all_traffic True ''warn'' of
      Some v \<Rightarrow> v | None \<Rightarrow> JNull)"

lemma generated_targets_exist_witness:
  "\<exists>outs tags routing rules.
     get_array ''outbounds'' balanced_config = Some outs \<and> outbound_tags outs tags \<and> distinct tags
     \<and> jget ''routing'' balanced_config = Some routing \<and> get_array ''rules'' routing = Some rules
     \<and> (\<forall>r\<in>set rules. \<exists>t. goes_to r = Some t
          \<and> target_exists (unwrap_or [] (get_array ''balancers'' routing)) tags t)"
proof (rule generated_targets_exist)
  have "build_xray_config (extra_reader []) hd balanced_location all_traffic True ''warn'' \<noteq> None"
    by code_simp
  then show "build_xray_config (extra_reader []) hd balanced_location all_traffic True ''warn'' = Some balanced_config"
    by (auto simp: balanced_config_def)
  show "picks_member hd" by (simp add: picks_member_def)
qed

end
