(* ===== verification/Location_Properties.thy ===== *)
theory Location_Properties
  imports Subscription Xray_Routing
begin

text \<open>
  What the parsers of share links, JSON locations and subscriptions guarantee, and how they
  fit the configuration generator: imported links carry their credentials and pass its check
  where their format fixes it, and reading a generated outbound gives the location back.
\<close>

section \<open>Share links\<close>

text \<open>A location as a share link gives it: a protocol with its credentials and no JSON source.\<close>

definition link_location :: "vless_server \<Rightarrow> bool" where
  "link_location s \<longleftrightarrow>
     is_proxy_protocol (s_protocol s)
     \<and> s_raw_outbound s = None \<and> s_raw_profile s = None \<and> s_source_json s = None
     \<and> (s_protocol s \<in> {''vmess'', ''trojan'', ''hysteria'', ''wireguard''} \<longrightarrow> s_uuid s \<noteq> [])
     \<and> (s_protocol s \<in> {''trojan'', ''hysteria''} \<longrightarrow> s_password s = Some (s_uuid s))
     \<and> (s_protocol s = ''wireguard'' \<longrightarrow> (\<exists>k. s_public_key s = Some k \<and> k \<noteq> []))
     \<and> (s_protocol s = ''shadowsocks'' \<longrightarrow> s_method s \<noteq> None \<and> s_password s \<noteq> None)"

lemma server_base_source [simp]: "s_source_json (server_base p h n l) = None"
  by (simp add: server_base_def)

lemma proxy_protocols [simp]:
  "is_proxy_protocol ''http''" "is_proxy_protocol ''socks''" "is_proxy_protocol ''shadowsocks''"
  "is_proxy_protocol ''vmess''" "is_proxy_protocol ''vless''" "is_proxy_protocol ''trojan''"
  "is_proxy_protocol ''hysteria''" "is_proxy_protocol ''wireguard''"
  by (simp_all add: is_proxy_protocol_def PROXY_PROTOCOLS_def)

lemma parse_vless_link: "parse_vless cd uri = Ok s \<Longrightarrow> link_location s"
  by (auto simp: parse_vless_def Let_def link_location_def)

lemma parse_trojan_link: "parse_trojan cd uri = Ok s \<Longrightarrow> link_location s"
  by (auto simp: parse_trojan_def Let_def link_location_def)

lemma parse_vmess_link: "parse_vmess cd uri = Ok s \<Longrightarrow> link_location s"
  by (auto simp: parse_vmess_def Let_def link_location_def if_distrib [where f = s_protocol]
      if_distrib [where f = s_uuid] if_distrib [where f = s_raw_outbound]
      if_distrib [where f = s_raw_profile] if_distrib [where f = s_source_json] cong: if_cong)

lemma parse_shadowsocks_link: "parse_shadowsocks cd uri = Ok s \<Longrightarrow> link_location s"
  by (auto simp: parse_shadowsocks_def Let_def link_location_def split_def)

lemma parse_hysteria2_link: "parse_hysteria2 cd uri = Ok s \<Longrightarrow> link_location s"
  by (auto simp: parse_hysteria2_def Let_def link_location_def)

lemma parse_wireguard_link: "parse_wireguard_uri cd uri = Ok s \<Longrightarrow> link_location s"
  by (auto simp: parse_wireguard_uri_def Let_def link_location_def)

lemma parse_simple_link:
  "parse_simple_proxy_uri cd uri p = Ok s \<Longrightarrow> p \<in> {''http'', ''socks''} \<Longrightarrow> link_location s"
  by (auto simp: parse_simple_proxy_uri_def Let_def link_location_def split_def)

lemma parse_socks_link: "parse_socks_uri cd uri = Ok s \<Longrightarrow> link_location s"
  by (cases "parse_simple_proxy_uri cd uri ''socks''")
    (auto simp: parse_socks_uri_def Let_def split_def link_location_def dest: parse_simple_link)

lemmas link_parsers = parse_vless_link parse_trojan_link parse_vmess_link parse_shadowsocks_link
  parse_hysteria2_link parse_wireguard_link parse_simple_link parse_socks_link

lemma parse_proxy_uri_link:
  "parse_proxy_uri cd uri = Ok s \<Longrightarrow> link_location s \<and> \<not> is_balancer_sentinel (s_host s)"
  by (auto simp: parse_proxy_uri_def parse_by_scheme_def Let_def if_Err_Ok_iff
      intro: link_parsers split: if_splits)

section \<open>Formats that fix what the check needs\<close>

lemma graphic_lower: "graphic (lower_char c) \<Longrightarrow> graphic c"
  by (auto simp: lower_char_def graphic_def is_upper_def split: if_splits)

lemma not_insecure_params:
  assumes "\<not> query_has params [''insecure'', ''allowInsecure'']
      (\<lambda>value. ascii_lower (trim value) \<in> {''1'', ''true'', ''yes''})"
  shows "\<not> list_ex (\<lambda>(k, v). eq_ignore_case k ''allowInsecure'' \<and> ascii_lower v \<in> {''1'', ''true''}) params"
proof -
  have t: "trim v = v" if "ascii_lower v \<in> {''1'', ''true''}" for v
  proof -
    have "\<forall>c\<in>set (ascii_lower v). graphic c" "ascii_lower v \<noteq> []" using that by (auto simp: graphic_def)
    then have "\<forall>c\<in>set v. graphic c" "v \<noteq> []" by (auto simp: ascii_lower_def dest: graphic_lower)
    then show ?thesis by (simp add: trim_graphic)
  qed
  show ?thesis
    using assms t by (fastforce simp: query_has_def list_ex_iff)
qed

lemma lower_names [simp]:
  "ascii_lower ''hysteria'' = ''hysteria''" "ascii_lower ''shadowsocks'' = ''shadowsocks''"
  "ascii_lower ''tcp'' = ''tcp''" "eq_ignore_case ''tls'' ''tls''"
  by code_simp+

lemma accepted_names [simp]: "''tcp'' \<in> set accepted_transports" "''hysteria'' \<in> set accepted_transports"
  by code_simp+

lemma parse_hysteria2_valid:
  assumes "parse_hysteria2 cd uri = Ok s"
  shows "validate_fields s = Ok ()"
proof -
  from assms have "\<not> query_has (s_raw_params s) [''insecure'', ''allowInsecure'']
      (\<lambda>value. ascii_lower (trim value) \<in> {''1'', ''true'', ''yes''})"
    and "s_protocol s = ''hysteria''" "s_transport s = ''hysteria''" "s_security s = ''tls''"
    by (auto simp: parse_hysteria2_def Let_def)
  then show ?thesis using not_insecure_params [of "s_raw_params s"]
    by (simp add: validate_fields_def)
qed

lemma parse_shadowsocks_valid: "parse_shadowsocks cd uri = Ok s \<Longrightarrow> validate_fields s = Ok ()"
  by (auto simp: parse_shadowsocks_def Let_def split_def validate_fields_def)

section \<open>Endpoints\<close>

definition endpoint_less :: "string \<times> u16 \<Rightarrow> string \<times> u16 \<Rightarrow> bool" where
  "endpoint_less e f \<longleftrightarrow> fst e < fst f \<or> fst e = fst f \<and> snd e < snd f"

lemma set_endpoint_insert [simp]: "set (endpoint_insert e es) = insert e (set es)"
  by (induction e es rule: endpoint_insert.induct) auto

lemma endpoint_insert_sorted:
  "sorted_wrt endpoint_less es \<Longrightarrow> sorted_wrt endpoint_less (endpoint_insert e es)"
  by (induction e es rule: endpoint_insert.induct) (auto simp: endpoint_less_def prod_eq_iff)

lemma fold_endpoint_insert:
  "sorted_wrt endpoint_less acc \<Longrightarrow> sorted_wrt endpoint_less (fold endpoint_insert es acc)"
  "set (fold endpoint_insert es acc) = set es \<union> set acc"
  by (induction es arbitrary: acc) (auto simp: endpoint_insert_sorted)

section \<open>JSON locations\<close>

text \<open>
  Where a location of a document comes from: a share link, with its label, or an outbound
  object, which the generator will use.
\<close>

definition located :: "codecs \<Rightarrow> vless_server \<Rightarrow> bool" where
  "located cd s \<longleftrightarrow>
     (\<exists>line t l. parse_proxy_uri cd line = Ok t \<and> s = t\<lparr>s_label := l\<rparr>)
     \<or> (\<exists>ob. s_raw_outbound s = Some ob \<and> has_proxy_protocol ob) \<and> \<not> is_balancer_sentinel (s_host s)"

lemma parse_outbound_host: "parse_outbound cd ob = Some s \<Longrightarrow> \<not> is_balancer_sentinel (s_host s)"
  by (auto simp: parse_outbound_def Let_def bind_eq_Some_conv split: if_splits)

lemma find_outbound_host: "find_map (parse_outbound cd) outs = Some s \<Longrightarrow> \<not> is_balancer_sentinel (s_host s)"
  by (auto dest: find_map_Some parse_outbound_host)

lemma named_from_host [simp]: "s_host (named_from cd source s) = s_host s"
  by (simp add: named_from_def)

lemma profile_outbounds_hd: "profile_outbounds obj = Some outs \<Longrightarrow> has_proxy_protocol (hd outs)"
proof -
  assume "profile_outbounds obj = Some outs"
  then obtain vs where "outs = filter has_proxy_protocol vs" "outs \<noteq> []"
    by (auto simp: profile_outbounds_def)
  then show ?thesis using hd_in_set [of outs] by auto
qed

lemma located_raw:
  "s_raw_outbound s = Some ob \<Longrightarrow> has_proxy_protocol ob \<Longrightarrow> \<not> is_balancer_sentinel (s_host s) \<Longrightarrow> located cd s"
  by (auto simp: located_def)

lemma collect_string:
  assumes "s \<in> set (collect_json_servers cd (JStr line) depth source)"
  shows "parse_proxy_uri cd (trim line) = Ok s"
proof -
  have "collect_json_servers cd (JStr line) depth source
      = (if 6 < depth then [] else if is_supported_uri (trim line)
         then (case parse_proxy_uri cd (trim line) of Inr srv \<Rightarrow> [srv] | Inl _ \<Rightarrow> []) else [])"
    by (subst collect_json_servers.simps) (simp only: json.case)
  with assms show ?thesis
    by (simp only: split: if_split_asm sum.split_asm) (simp_all only: list.set empty_iff insert_iff sum.inject sum.distinct simp_thms)
qed

lemma collect_located: "s \<in> set (collect_json_servers cd v depth source) \<Longrightarrow> located cd s"
proof (induction cd v depth source arbitrary: s rule: collect_json_servers.induct)
  case (1 cd v depth source)
  note s = 1(4) [unfolded collect_json_servers.simps [of cd v depth source]]
  show ?case
  proof (cases v)
    case (JArr arr)
    with s 1(1) show ?thesis by (auto split: if_splits)
  next
    case (JStr line)
    with 1(4) have "parse_proxy_uri cd (trim line) = Ok s" by (simp only: collect_string)
    moreover have "s = s\<lparr>s_label := s_label s\<rparr>" by (cases s) simp
    ultimately show ?thesis unfolding located_def by blast
  next
    case (JObj obj)
    show ?thesis
    proof (cases "profile_outbounds obj")
      case (Some outs)
      with JObj s have "s_raw_outbound s = Some (hd outs) \<and> \<not> is_balancer_sentinel (s_host s)"
        by (cases "find_map (parse_outbound cd) outs") (simp_all add: find_outbound_host split: if_splits)
      then show ?thesis using profile_outbounds_hd [OF Some] by (simp add: located_raw)
    next
      case None
      show ?thesis
      proof (cases "has_proxy_protocol v")
        case True
        with JObj None s have "s_raw_outbound s = Some v \<and> \<not> is_balancer_sentinel (s_host s)"
          by (cases "parse_outbound cd v") (simp_all add: parse_outbound_host split: if_splits)
        then show ?thesis using True by (simp add: located_raw)
      next
        case False
        with JObj None s 1(2,3) show ?thesis
          by (auto simp: eq_commute [of "Some u" "map_of obj k" for u k] split: if_splits option.splits)
      qed
    qed
  qed (use s in \<open>auto split: if_splits\<close>)
qed

section \<open>Metadata\<close>

definition meta_bounded :: "subscription_meta \<Rightarrow> bool" where
  "meta_bounded m \<longleftrightarrow>
     (\<forall>n. upload_bytes m = Some n \<or> download_bytes m = Some n \<longrightarrow> n < 2 ^ 64)
     \<and> (\<forall>n. total_bytes m = Some n \<longrightarrow> 0 < n \<and> n < 2 ^ 64)
     \<and> (\<forall>t. expires_at_unix m = Some t \<longrightarrow> 0 < t \<and> t < 2 ^ 63)"

lemma parse_uint_less: "parse_uint (2 ^ k - 1) s = Some n \<Longrightarrow> n < 2 ^ k"
  using parse_uint_bound [of "2 ^ k - 1" s n] zero_less_power [of "2 :: nat" k] by linarith

lemma parse_i64_less: "parse_i64 s = Some t \<Longrightarrow> t < 2 ^ 63"
proof -
  have "parse_uint (2 ^ 63 - 1) s = Some n \<Longrightarrow> int n < 2 ^ 63" for n
    using parse_uint_less [of 63 s n] by simp
  then show "parse_i64 s = Some t \<Longrightarrow> t < 2 ^ 63"
    by (auto simp: parse_i64_def split: option.splits if_splits)
qed

lemma userinfo_field_bounded: "meta_bounded m \<Longrightarrow> meta_bounded (userinfo_field kv m)"
  using parse_uint_less [of 64] parse_i64_less
  by (auto simp: userinfo_field_def Let_def meta_bounded_def positive_def split: option.splits if_splits)

lemma fold_userinfo_bounded: "meta_bounded m \<Longrightarrow> meta_bounded (fold userinfo_field kvs m)"
  by (induction kvs arbitrary: m) (simp_all add: userinfo_field_bounded)

section \<open>Reading a generated outbound\<close>

lemma apply_transport_keeps [simp]:
  "s_protocol (apply_transport st s) = s_protocol s" "s_uuid (apply_transport st s) = s_uuid s"
  "s_password (apply_transport st s) = s_password s" "s_method (apply_transport st s) = s_method s"
  "s_host (apply_transport st s) = s_host s" "s_port (apply_transport st s) = s_port s"
  "s_transport (apply_transport st s) = s_transport s" "s_security (apply_transport st s) = s_security s"
  "s_sni (apply_transport st s) = s_sni s" "s_flow (apply_transport st s) = s_flow s"
  by (simp_all add: apply_transport_def Let_def split: option.splits)

lemma apply_tls_keeps [simp]:
  "s_protocol (apply_tls st s) = s_protocol s" "s_uuid (apply_tls st s) = s_uuid s"
  "s_password (apply_tls st s) = s_password s" "s_method (apply_tls st s) = s_method s"
  "s_host (apply_tls st s) = s_host s" "s_port (apply_tls st s) = s_port s"
  "s_transport (apply_tls st s) = s_transport s" "s_security (apply_tls st s) = s_security s"
  "s_flow (apply_tls st s) = s_flow s"
  by (simp_all add: apply_tls_def Let_def split: option.splits)

lemma apply_reality_keeps [simp]:
  "s_protocol (apply_reality st s) = s_protocol s" "s_uuid (apply_reality st s) = s_uuid s"
  "s_password (apply_reality st s) = s_password s" "s_method (apply_reality st s) = s_method s"
  "s_host (apply_reality st s) = s_host s" "s_port (apply_reality st s) = s_port s"
  "s_transport (apply_reality st s) = s_transport s" "s_security (apply_reality st s) = s_security s"
  "s_flow (apply_reality st s) = s_flow s"
  by (simp_all add: apply_reality_def Let_def split: option.splits)

text \<open>What a location's security is for the generator: anything but \<open>reality\<close> and \<open>tls\<close> is none.\<close>

definition effective_security :: "vless_server \<Rightarrow> string" where
  "effective_security s = (if s_security s \<in> {''reality'', ''tls''} then s_security s else ''none'')"

lemma normalize_xray_network [simp]: "normalize_network (xray_network t) = xray_network t"
  by (simp add: xray_network_def Let_def normalize_network_def)

lemma stream_network: "jget ''network'' (build_stream_settings js s) = Some (JStr (xray_network (s_transport s)))"
  by (simp add: build_stream_settings_def Let_def security_fields_def transport_fields_def)

lemma generated_stream_security: "jget ''security'' (build_stream_settings js s) = Some (JStr (effective_security s))"
  by (simp add: build_stream_settings_def Let_def security_fields_def transport_fields_def effective_security_def)

lemma stream_reality: "jget ''realitySettings'' (build_stream_settings js s)
    = (if s_security s = ''reality'' then Some (reality_settings s) else None)"
  by (simp add: build_stream_settings_def Let_def security_fields_def transport_fields_def)

lemma stream_tls: "jget ''tlsSettings'' (build_stream_settings js s)
    = (if s_security s = ''tls'' then Some (tls_settings s) else None)"
  by (simp add: build_stream_settings_def Let_def security_fields_def transport_fields_def)

lemma stream_hysteria: "jget ''hysteriaSettings'' (build_stream_settings js s)
    = (if xray_network (s_transport s) = ''hysteria'' then Some (hysteria_settings s) else None)"
  by (simp add: build_stream_settings_def Let_def security_fields_def transport_fields_def)

lemma get_str_jget: "jget k v = Some (JStr s) \<Longrightarrow> get_str k v = Some s"
  by simp

lemma json_str_jget: "jget k v = Some (JStr s) \<Longrightarrow> json_str v k = (if s = [] then None else Some s)"
  by (cases s) (simp_all add: json_str_def nonempty_def get_str_jget del: get_str_Some)

lemma server_name_read:
  "json_str (reality_settings s) ''serverName'' = nonempty (Some (server_name s))"
  "json_str (tls_settings s) ''serverName'' = nonempty (Some (server_name s))"
  by (subst json_str_jget [where s = "server_name s"];
      simp add: reality_settings_def tls_settings_def optional_field_def nonempty_def split: option.splits list.splits)+

lemma apply_reality_sni: "s_sni (apply_reality st s)
    = (case jget ''realitySettings'' st of None \<Rightarrow> s_sni s | Some r \<Rightarrow> json_str r ''serverName'')"
  by (simp add: apply_reality_def split: option.splits)

lemma apply_tls_sni: "s_sni (apply_tls st s)
    = or_option (s_sni s) (case jget ''tlsSettings'' st of None \<Rightarrow> None | Some r \<Rightarrow> json_str r ''serverName'')"
  by (simp add: apply_tls_def Let_def or_option_def split: option.splits)

text \<open>The location that the generated stream settings describe, read over \<open>t\<close>.\<close>

lemma apply_stream_generated:
  assumes "u = apply_stream (Some (build_stream_settings js s)) t" and "s_sni t = None"
  shows "s_protocol u = s_protocol t" "s_uuid u = s_uuid t" "s_password u = s_password t"
    "s_method u = s_method t" "s_host u = s_host t" "s_port u = s_port t" "s_flow u = s_flow t"
    "s_transport u = xray_network (s_transport s)" "s_security u = effective_security s"
    "effective_security s \<noteq> ''none'' \<Longrightarrow> s_sni u = nonempty (Some (server_name s))"
proof -
  note read = stream_network generated_stream_security get_str_jget
  have u: "u = apply_transport (build_stream_settings js s) (apply_tls (build_stream_settings js s)
      (apply_reality (build_stream_settings js s)
        (t\<lparr>s_transport := xray_network (s_transport s), s_security := effective_security s\<rparr>)))"
    unfolding assms(1) apply_stream_def by (simp add: read del: get_str_Some)
  show "s_protocol u = s_protocol t" "s_uuid u = s_uuid t" "s_password u = s_password t"
    "s_method u = s_method t" "s_host u = s_host t" "s_port u = s_port t" "s_flow u = s_flow t"
    "s_transport u = xray_network (s_transport s)" "s_security u = effective_security s"
    by (simp_all add: u)
  show "effective_security s \<noteq> ''none'' \<Longrightarrow> s_sni u = nonempty (Some (server_name s))"
    using assms(2) by (auto simp: u apply_tls_sni apply_reality_sni stream_reality stream_tls
      server_name_read effective_security_def or_option_def split: if_splits option.splits)
qed

text \<open>The credentials that a location's protocol uses.\<close>

definition same_credentials :: "vless_server \<Rightarrow> vless_server \<Rightarrow> bool" where
  "same_credentials s t \<longleftrightarrow>
     (if s_protocol s \<in> {''vless'', ''vmess'', ''hysteria''} then s_uuid t = s_uuid s
      else if s_protocol s = ''trojan'' then s_password t = Some (unwrap_or (s_uuid s) (s_password s))
      else s_method t = nonempty (s_method s) \<and> s_password t = nonempty (s_password s))
     \<and> (s_protocol s \<in> {''vless'', ''trojan''} \<longrightarrow> s_flow t = nonempty (s_flow s))"

lemma json_port_jport: "json_port (Some (jport p)) = Some p"
proof -
  have p: "unat p < 2 ^ 16" using unsigned_less [of p] by simp
  then have "unat (ucast p :: u64) = unat p"
    by (simp add: unsigned_ucast_eq take_bit_nat_eq_self)
  with p have "(ucast p :: u64) \<le> 65535" by (simp add: word_le_nat_alt)
  moreover have "ucast (ucast p :: u64) = p" by (rule ucast_up_ucast_id) (simp add: is_up)
  ultimately show ?thesis by (simp add: json_port_def)
qed

lemma json_address_fields:
  "jget ''address'' v = Some (JStr host) \<Longrightarrow> host \<noteq> [] \<Longrightarrow> jget ''port'' v = Some (jport p) \<Longrightarrow>
   json_address v = Some (host, p)"
  by (simp add: json_address_def json_str_jget json_port_jport)

lemma first_of_single: "jget key v = Some (JArr (x # xs)) \<Longrightarrow> first_of key v = Some x"
  by (simp add: first_of_def get_array_def)

lemmas read_fields = json_address_fields json_str_jget first_of_single get_str_jget

lemma outbound_base_sel [simp]:
  "s_protocol (outbound_base ob p a) = p" "s_host (outbound_base ob p a) = fst a"
  "s_port (outbound_base ob p a) = snd a" "s_sni (outbound_base ob p a) = None"
  "s_flow (outbound_base ob p a) = None"
  by (simp_all add: outbound_base_def split_def)

text \<open>Each protocol's settings, read back.\<close>

lemma nonempty_unwrap [simp]:
  "(if unwrap_or [] x = [] then None else Some (unwrap_or [] x)) = nonempty x"
  by (simp add: nonempty_def unwrap_or_def split: option.splits list.splits)

definition read_back_as :: "vless_server \<Rightarrow> vless_server option \<Rightarrow> bool" where
  "read_back_as s r \<longleftrightarrow> (\<exists>t. r = Some t \<and> s_protocol t = s_protocol s \<and> s_host t = s_host s
    \<and> s_port t = s_port s \<and> s_sni t = None \<and> same_credentials s t)"

lemmas generated_settings = tagged_outbound_def vless_settings_def vmess_settings_def
  trojan_settings_def shadowsocks_settings_def hysteria_outbound_settings_def hysteria_settings_def
lemmas outbound_parsers = outbound_server_def outbound_vnext_def outbound_servers_def
  outbound_trojan_def outbound_shadowsocks_def outbound_hysteria_def direct_or_first_def Let_def

lemma vless_read:
  "s_protocol s = ''vless'' \<Longrightarrow> s_host s \<noteq> [] \<Longrightarrow> s_uuid s \<noteq> [] \<Longrightarrow>
   read_back_as s (outbound_server cd (tagged_outbound ''vless'' (vless_settings s) stream) ''vless'')"
  by (simp add: outbound_parsers generated_settings read_fields read_back_as_def same_credentials_def)

lemma vmess_read:
  "s_protocol s = ''vmess'' \<Longrightarrow> s_host s \<noteq> [] \<Longrightarrow> s_uuid s \<noteq> [] \<Longrightarrow>
   read_back_as s (outbound_server cd (tagged_outbound ''vmess'' (vmess_settings s) stream) ''vmess'')"
  by (simp add: outbound_parsers generated_settings read_fields read_back_as_def same_credentials_def)

lemma trojan_read:
  "s_protocol s = ''trojan'' \<Longrightarrow> s_host s \<noteq> [] \<Longrightarrow> unwrap_or (s_uuid s) (s_password s) \<noteq> [] \<Longrightarrow>
   read_back_as s (outbound_server cd (tagged_outbound ''trojan'' (trojan_settings s) stream) ''trojan'')"
  by (simp add: outbound_parsers generated_settings read_fields read_back_as_def same_credentials_def)

lemma shadowsocks_read:
  "s_protocol s = ''shadowsocks'' \<Longrightarrow> s_host s \<noteq> [] \<Longrightarrow>
   read_back_as s (outbound_server cd
     (tagged_outbound ''shadowsocks'' (shadowsocks_settings s) stream) ''shadowsocks'')"
  by (simp add: outbound_parsers generated_settings read_fields read_back_as_def same_credentials_def)

lemma hysteria_read:
  "s_protocol s = ''hysteria'' \<Longrightarrow> s_host s \<noteq> [] \<Longrightarrow> s_uuid s \<noteq> [] \<Longrightarrow>
   xray_network (s_transport s) = ''hysteria'' \<Longrightarrow>
   read_back_as s (outbound_server cd (tagged_outbound ''hysteria'' (hysteria_outbound_settings s)
     (build_stream_settings js s)) ''hysteria'')"
  by (simp add: outbound_parsers generated_settings read_fields read_back_as_def same_credentials_def
      stream_hysteria or_option_def)


lemma tagged_fields [simp]:
  "jget ''protocol'' (tagged_outbound p settings stream) = Some (JStr p)"
  "jget ''streamSettings'' (tagged_outbound p settings stream) = Some stream"
  by (simp_all add: tagged_outbound_def)

lemma read_tagged:
  assumes "read_back_as s (outbound_server cd (tagged_outbound p settings (build_stream_settings js s)) p)"
    and "s_host s \<noteq> []" "\<not> is_balancer_sentinel (s_host s)"
  shows "\<exists>t. parse_outbound cd (tagged_outbound p settings (build_stream_settings js s)) = Some t
    \<and> s_protocol t = s_protocol s \<and> s_host t = s_host s \<and> s_port t = s_port s \<and> same_credentials s t
    \<and> s_transport t = xray_network (s_transport s) \<and> s_security t = effective_security s
    \<and> (effective_security s \<noteq> ''none'' \<longrightarrow> s_sni t = Some (server_name s))"
proof -
  from assms(1) obtain t where t: "outbound_server cd (tagged_outbound p settings
      (build_stream_settings js s)) p = Some t" "s_protocol t = s_protocol s" "s_host t = s_host s"
    "s_port t = s_port s" "s_sni t = None" "same_credentials s t"
    by (auto simp: read_back_as_def)
  note u = apply_stream_generated [of _ js s t, OF refl t(5)]
  have "server_name s \<noteq> []"
    using assms(2) by (auto simp: server_name_def unwrap_or_def split: option.splits)
  then show ?thesis
    using u t assms(3)
    by (simp add: parse_outbound_def get_str_jget same_credentials_def nonempty_def
        del: get_str_Some split: list.splits)
qed


section \<open>Subscriptions\<close>

lemma located_label: "located cd s \<Longrightarrow> located cd (s\<lparr>s_label := l\<rparr>)"
  by (fastforce simp: located_def)

lemma parse_json_located: "s \<in> set (snd (parse_json_subscription cd body)) \<Longrightarrow> located cd s"
  by (auto simp: parse_json_subscription_def Let_def split: sum.splits if_splits
      intro: located_label dest: collect_located)

text \<open>A peer of a WireGuard file.\<close>

definition wireguard_location :: "vless_server \<Rightarrow> bool" where
  "wireguard_location s \<longleftrightarrow> s_protocol s = ''wireguard'' \<and> s_transport s = ''wireguard'' \<and> s_uuid s \<noteq> []
     \<and> (\<exists>k. s_public_key s = Some k \<and> k \<noteq> []) \<and> s_raw_outbound s = None"

lemma wg_server_location:
  "wg_server cd i k n peer = Some s \<Longrightarrow> k \<noteq> [] \<Longrightarrow> wireguard_location s"
  by (auto simp: wg_server_def Let_def bind_eq_Some_conv wireguard_location_def)

lemma parse_wireguard_config_location:
  "s \<in> set (parse_wireguard_config cd body) \<Longrightarrow> wireguard_location s"
  by (cases "nonempty (map_of (wg_interface (wg_scan_lines body)) ''privatekey'')")
    (auto simp: parse_wireguard_config_def Let_def dest: wg_server_location)

lemma link_of_line_located: "link_of_line cd line = Some s \<Longrightarrow> located cd s"
proof -
  assume "link_of_line cd line = Some s"
  then have "parse_proxy_uri cd (trim line) = Ok s"
    by (cases "parse_proxy_uri cd (trim line)") (auto simp: link_of_line_def result_ok_def Let_def split: if_splits)
  moreover have "s = s\<lparr>s_label := s_label s\<rparr>" by (cases s) simp
  ultimately show ?thesis unfolding located_def by blast
qed

section \<open>Properties\<close>

text \<open>A link of the witnesses, with the reader that knows it.\<close>

definition sample_link :: string where
  "sample_link = ''hysteria2://secret@vpn.example:443/?sni=cdn.example#Home''"

definition sample_codecs :: codecs where
  "sample_codecs = \<lparr>cd_json = extra_reader [], cd_number = (\<lambda>_. []),
     cd_url = (\<lambda>t. if t = sample_link
       then Ok \<lparr>url_scheme = ''hysteria2'', url_username = ''secret'', url_password = None,
         url_host_part = Some (Domain ''vpn.example''), url_port = Some 443, url_path = ''/'',
         url_query_pairs = [(''sni'', ''cdn.example'')], url_fragment = Some ''Home''\<rparr>
       else Err ''relative URL without a base''),
     cd_base64 = (\<lambda>_ _. None), cd_percent = as_bytes, cd_hash_order = id\<rparr>"

definition sample_link_location :: vless_server where
  "sample_link_location = (case parse_proxy_uri sample_codecs sample_link of
     Ok s \<Rightarrow> s | Err _ \<Rightarrow> sample_location)"

lemma sample_link_parsed:
  "parse_proxy_uri sample_codecs sample_link = Ok sample_link_location"
  "parse_hysteria2 sample_codecs sample_link = Ok sample_link_location"
  by code_simp+



text \<open>
  A Hysteria2 or Shadowsocks link that parses passes the generator's \<open>validate_server\<close>:
  the Hysteria2 parser rejects every spelling that the check takes for disabled certificate
  verification, and both formats fix a transport and a security that the check accepts.\<close>

theorem fixed_format_links_valid:
  assumes "parse_hysteria2 cd uri = Ok s \<or> parse_shadowsocks cd uri = Ok s"
  shows "validate_server js pick s = Some (Ok ())"
proof -
  from assms have "link_location s" by (auto dest: link_parsers)
  moreover from assms have "validate_fields s = Ok ()"
    by (auto dest: parse_hysteria2_valid parse_shadowsocks_valid)
  ultimately show ?thesis by (simp add: validate_server_def link_location_def)
qed

theorem fixed_format_links_valid_witness:
  "validate_server (extra_reader []) hd sample_link_location = Some (Ok ())"
  by (rule fixed_format_links_valid [OF disjI1 [OF sample_link_parsed(2)]])



text \<open>
  The endpoints that the application hands to the service are the addresses of the
  profile's parsed outbounds (of the single outbound when there is no profile), sorted and each
  once, and the location's own address when none parses; the list is never empty.\<close>

theorem endpoints_sorted:
  "sorted_wrt endpoint_less (server_endpoints_of cd s)
   \<and> set (server_endpoints_of cd s) =
      (let parsed = List.map_filter (parse_outbound cd) (case s_raw_profile s of
            Some profile \<Rightarrow> unwrap_or [] (get_array ''outbounds'' profile)
          | None \<Rightarrow> (case s_raw_outbound s of Some ob \<Rightarrow> [ob] | None \<Rightarrow> []))
       in if parsed = [] then {(s_host s, s_port s)} else (\<lambda>t. (s_host t, s_port t)) ` set parsed)"
proof -
  have "fold endpoint_insert es [] = [] \<longleftrightarrow> es = []" for es
    using fold_endpoint_insert(2) [of es "[]"] by (cases es) (auto simp flip: set_empty)
  then show ?thesis
    by (auto simp: server_endpoints_of_def Let_def fold_endpoint_insert map_filter_def
        split: option.splits)
qed


lemma sample_link_text [simp]:
  "str_lines sample_link = [sample_link]" "trim sample_link = sample_link"
  "trim_start sample_link = sample_link" "strip_bom sample_link = sample_link"
  "is_supported_uri sample_link" "\<not> starts_with ''['' sample_link" "\<not> starts_with ''{'' sample_link"
  "\<not> eq_ignore_case sample_link ''[Interface]''" "\<not> starts_with ''#'' sample_link" "sample_link \<noteq> []"
  by code_simp+


text \<open>
  The byte counts that \<open>parse_headers\<close> takes from a provider's header fit in 64 bits,
  and a total or an expiry time is positive and below its type's bound: absent, zero, negative
  and overflowing values are dropped.\<close>

theorem parsed_headers_bounded: "meta_bounded (parse_headers cd get)"
proof -
  have "meta_bounded m" if "upload_bytes m = None" "download_bytes m = None" "total_bytes m = None"
    "expires_at_unix m = None" for m
    using that by (simp add: meta_bounded_def)
  then show ?thesis
    by (simp add: parse_headers_def Let_def fold_userinfo_bounded split: option.splits)
qed

end
