(* ===== verification/Desktop.thy ===== *)
theory Desktop
  imports Service_Client Location_Properties "HOL-Library.Product_Lexorder"
begin

text \<open>
  The VPN commands of the application, \<open>src-tauri/src/vpn.rs\<close>: the request that a connection
  sends is built from the location and the split-tunnel selection, and the service's state is
  reported as the UI's words. The file system and the resolver are the record \<open>desktop\<close>; the
  lock around the operations makes each command run alone, so a command is one function.
\<close>

section \<open>Results\<close>

record helper_response =
  hr_ok :: bool
  hr_state :: string
  hr_pid :: "nat option"
  hr_error :: "string option"
  hr_rtt_ms :: "nat option"

definition response :: "service_state \<Rightarrow> helper_response" where
  "response s = \<lparr>hr_ok = True,
     hr_state = (case phase s of
         Connected \<Rightarrow> ''connected''
       | Blocked \<Rightarrow> ''dropped'' | BlockedError \<Rightarrow> ''dropped''
       | Validating \<Rightarrow> ''connecting'' | Holding \<Rightarrow> ''connecting'' | Starting \<Rightarrow> ''connecting''
       | _ \<Rightarrow> ''disconnected''),
     hr_pid = None, hr_error = None, hr_rtt_ms = None\<rparr>"

text \<open>A command fails with a message, or panics where the generator does.\<close>

datatype failure = Panicked | Message string

section \<open>Socket addresses in order\<close>

text \<open>The derived order: IPv4 before IPv6, then by the fields.\<close>

fun socket_key :: "socket_addr \<Rightarrow> nat \<times> nat \<times> nat \<times> nat \<times> nat" where
  "socket_key (SocketV4 a p) = (0, unat a, unat p, 0, 0)"
| "socket_key (SocketV6 a p f s) = (1, unat a, unat p, unat f, unat s)"

lemma socket_key_inject: "socket_key x = socket_key y \<Longrightarrow> x = y"
  by (cases x; cases y) (auto simp: word_unat_eq_iff)

instantiation socket_addr :: linorder
begin

definition less_eq_socket_addr :: "socket_addr \<Rightarrow> socket_addr \<Rightarrow> bool" where
  "x \<le> y \<longleftrightarrow> socket_key x \<le> socket_key y"

definition less_socket_addr :: "socket_addr \<Rightarrow> socket_addr \<Rightarrow> bool" where
  "x < y \<longleftrightarrow> socket_key x < socket_key y"

instance
  by standard (auto simp: less_eq_socket_addr_def less_socket_addr_def dest: socket_key_inject)

end

text \<open>Collecting into a \<open>BTreeSet\<close>\<close>

definition btree_set :: "'a::linorder list \<Rightarrow> 'a list" where
  "btree_set xs = fold insort_insert xs []"

lemma fold_insort_insert:
  "sorted acc \<Longrightarrow> distinct acc \<Longrightarrow> sorted (fold insort_insert xs acc) \<and> distinct (fold insort_insert xs acc)
     \<and> set (fold insort_insert xs acc) = set xs \<union> set acc"
  by (induction xs arbitrary: acc) (auto simp: sorted_insort_insert distinct_insort_insert set_insort_insert)

lemma btree_set_sorted [simp]:
  "sorted (btree_set xs)" "distinct (btree_set xs)" "set (btree_set xs) = set xs"
  using fold_insort_insert [of "[]" xs] by (simp_all add: btree_set_def)

section \<open>Selected applications\<close>

record desktop =
  canonicalize :: "string \<Rightarrow> string + string"
  is_regular_file :: "string \<Rightarrow> bool"
  resolve_host :: "string \<Rightarrow> u16 \<Rightarrow> string + socket_addr list"

definition strip_verbatim_prefix :: "string \<Rightarrow> string" where
  "strip_verbatim_prefix path = unwrap_or path (strip_prefix [backslash, backslash, CHR ''?'', backslash] path)"

definition app_selector_of :: "desktop \<Rightarrow> string \<Rightarrow> string + app_selector" where
  "app_selector_of D raw =
     rbind (map_err (\<lambda>e. ''cannot resolve split-tunnel app '' @ raw @ '': '' @ e) (canonicalize D raw)) (\<lambda>canonical.
     rbind (reject_if (\<not> is_regular_file D canonical) (''split-tunnel app is not a file: '' @ canonical)) (\<lambda>_.
     let canonical = strip_verbatim_prefix canonical in
     rbind (ok_or (''split-tunnel app has no executable name: '' @ raw) (nonempty (path_file_name canonical))) (\<lambda>base.
     Ok \<lparr>canonical_path = canonical, basename = base\<rparr>)))"

text \<open>The selectors, each path once whatever its case; \<open>unique\<close> holds the lower-case paths so far.\<close>

fun select_apps :: "desktop \<Rightarrow> string list \<Rightarrow> string list \<Rightarrow> string + app_selector list" where
  "select_apps D unique [] = Ok []"
| "select_apps D unique (raw # raws) =
     rbind (app_selector_of D raw) (\<lambda>a.
     let key = ascii_lower (canonical_path a) in
     rbind (select_apps D (key # unique) raws) (\<lambda>rest.
     Ok (if key \<in> set unique then rest else a # rest)))"

definition resolve_app_selectors :: "desktop \<Rightarrow> string list \<Rightarrow> string + app_selector list" where
  "resolve_app_selectors D paths = select_apps D [] (filter (\<lambda>p. p \<noteq> []) (map trim paths))"

section \<open>Endpoints\<close>

definition resolve_server_endpoints :: "desktop \<Rightarrow> codecs \<Rightarrow> vless_server \<Rightarrow> string + socket_addr list" where
  "resolve_server_endpoints D cd server =
     rbind (rtraverse (\<lambda>(host, port).
         map_err (\<lambda>e. ''could not resolve VPN endpoint '' @ host_port host port @ '': '' @ e) (resolve_host D host port))
       (server_endpoints_of cd server)) (\<lambda>resolved.
     let endpoints = btree_set (concat resolved) in
     if endpoints = [] then Err (''VPN location '' @ s_label server @ '' did not resolve to an address'')
     else if 64 < length endpoints
     then Err (''VPN location resolves to '' @ dec (length endpoints) @ '' addresses; the safe limit is 64'')
     else Ok endpoints)"

section \<open>Connecting\<close>

definition forward_slashes :: "string \<Rightarrow> string" where
  "forward_slashes path = map (\<lambda>c. if c = backslash then CHR ''/'' else c) path"

text \<open>The body of \<open>vpn_connect\<close> between its two calls of the service.\<close>

definition build_connect_request ::
  "desktop \<Rightarrow> codecs \<Rightarrow> json_text \<Rightarrow> (string list \<Rightarrow> string) \<Rightarrow> vless_server \<Rightarrow> split_input \<Rightarrow>
   bool \<Rightarrow> bool \<Rightarrow> string option \<Rightarrow> string \<Rightarrow> failure + connect_request" where
  "build_connect_request D cd jt pick server split kill lan log_level version =
     rbind (map_err Message (resolve_app_selectors D (split_apps split))) (\<lambda>selectors.
     let selective = Xray_Config.apps_selective split;
         split = split\<lparr>split_apps := map (\<lambda>a. forward_slashes (canonical_path a)) selectors\<rparr>;
         level = unwrap_or ''warn'' log_level
     in
     rbind (ok_or Panicked (build_xray_config jt pick server split lan level)) (\<lambda>config.
     rbind (map_err (\<lambda>e. Message (''serialize Xray config: '' @ e)) (to_string_pretty jt config)) (\<lambda>xray.
     rbind (ok_or Panicked (build_connection_probe_config jt pick server)) (\<lambda>probe.
     rbind (map_err Message probe) (\<lambda>probe.
     rbind (map_err (\<lambda>e. Message (''serialize Xray validation config: '' @ e)) (to_string_pretty jt probe)) (\<lambda>validation.
     rbind (map_err Message (resolve_server_endpoints D cd server)) (\<lambda>endpoints.
     Ok (connect_request.make version xray validation endpoints selectors selective kill lan))))))))"

definition vpn_connect ::
  "desktop \<Rightarrow> codecs \<Rightarrow> json_text \<Rightarrow> (string list \<Rightarrow> string) \<Rightarrow> protocol_serde \<Rightarrow> 'x peer \<Rightarrow>
   vless_server \<Rightarrow> split_input \<Rightarrow> bool \<Rightarrow> bool \<Rightarrow> string option \<Rightarrow> ('x client, failure, helper_response) prog" where
  "vpn_connect D cd jt pick sd peer server split kill lan log_level =
     sbind (slift (ok_or Panicked (validate_server jt pick server))) (\<lambda>checked.
     sseq (slift (map_err Message checked))
     (sbind (smap_err Message (client_core sd peer Active)) (\<lambda>r.
     sbind (slift (case r of RCoreActive tag \<Rightarrow> Ok tag
       | _ \<Rightarrow> Err (Message ''VarmlenService returned the wrong active-core response''))) (\<lambda>version.
     sbind (slift (build_connect_request D cd jt pick server split kill lan log_level version)) (\<lambda>req.
     sbind (smap_err Message (client_connect sd peer req)) (\<lambda>s. sret (response s)))))))"

definition vpn_disconnect :: "protocol_serde \<Rightarrow> 'x peer \<Rightarrow> ('x client, string, helper_response) prog" where
  "vpn_disconnect sd peer = sbind (client_disconnect sd peer False) (\<lambda>s. sret (response s))"

definition vpn_status :: "protocol_serde \<Rightarrow> 'x peer \<Rightarrow> ('x client, string, helper_response) prog" where
  "vpn_status sd peer = sbind (service_status sd peer) (\<lambda>s. sret (response s))"

definition vpn_log :: "protocol_serde \<Rightarrow> 'x peer \<Rightarrow> ('x client, string, string) prog" where
  "vpn_log sd peer = client_log_tail sd peer"

definition clear_vpn_log :: "protocol_serde \<Rightarrow> 'x peer \<Rightarrow> ('x client, string, unit) prog" where
  "clear_vpn_log sd peer = client_clear_log sd peer"

section \<open>TCP ping\<close>

text \<open>What connecting gives within a number of milliseconds.\<close>

datatype ping_outcome = PingTimeout | PingFailed string | PingConnected nat

definition clamp :: "nat \<Rightarrow> nat \<Rightarrow> nat \<Rightarrow> nat" where
  "clamp lo hi n = (if n < lo then lo else if hi < n then hi else n)"

definition tcp_ping_host ::
  "(string \<Rightarrow> u16 \<Rightarrow> nat \<Rightarrow> ping_outcome) \<Rightarrow> string \<Rightarrow> u16 \<Rightarrow> nat option \<Rightarrow> string + nat" where
  "tcp_ping_host dial host port timeout_ms =
     (let host = trim host in
      if host = [] \<or> 253 < length host \<or> CHR 0x00 \<in> set host \<or> port = 0
      then Err ''invalid TCP ping target''
      else case dial host port (clamp 100 10000 (unwrap_or 2500 timeout_ms)) of
          PingTimeout \<Rightarrow> Err ''TCP ping timed out''
        | PingFailed e \<Rightarrow> Err (''TCP ping failed: '' @ e)
        | PingConnected ms \<Rightarrow> Ok (min ms (2 ^ 32 - 1)))"

section \<open>The request\<close>

lemma Ok_bind: "rbind r f = Ok y \<longleftrightarrow> (\<exists>x. r = Ok x \<and> f x = Ok y)"
  by (cases r) auto

lemma select_apps_Ok:
  assumes "select_apps D unique raws = Ok apps"
  shows "distinct (map (\<lambda>a. ascii_lower (canonical_path a)) apps)
    \<and> (\<forall>a\<in>set apps. ascii_lower (canonical_path a) \<notin> set unique \<and> (\<exists>raw\<in>set raws. app_selector_of D raw = Ok a))
    \<and> (\<forall>raw\<in>set raws. \<exists>a. app_selector_of D raw = Ok a
        \<and> ascii_lower (canonical_path a) \<in> set unique \<union> (\<lambda>b. ascii_lower (canonical_path b)) ` set apps)"
  using assms
proof (induction raws arbitrary: unique apps)
  case (Cons raw raws)
  then obtain a rest where a: "app_selector_of D raw = Ok a"
    and rest: "select_apps D (ascii_lower (canonical_path a) # unique) raws = Ok rest"
    and apps: "apps = (if ascii_lower (canonical_path a) \<in> set unique then rest else a # rest)"
    by (auto simp: Ok_bind Let_def)
  show ?case using Cons.IH [OF rest] a unfolding apps by auto
qed simp

lemma rtraverse_Ok_length: "rtraverse f xs = Ok ys \<Longrightarrow> length ys = length xs"
  by (induction xs arbitrary: ys) (auto simp: Ok_bind)

lemma rtraverse_Ok_nth: "rtraverse f xs = Ok ys \<Longrightarrow> y \<in> set ys \<Longrightarrow> \<exists>x\<in>set xs. f x = Ok y"
  by (induction xs arbitrary: ys) (auto simp: Ok_bind)

lemma resolve_server_endpoints_Ok:
  "resolve_server_endpoints D cd s = Ok es \<Longrightarrow> sorted es \<and> distinct es \<and> es \<noteq> [] \<and> length es \<le> 64
     \<and> (\<forall>e\<in>set es. \<exists>(host, port)\<in>set (server_endpoints_of cd s).
          \<exists>found. resolve_host D host port = Ok found \<and> e \<in> set found)"
  by (fastforce simp: resolve_server_endpoints_def Ok_bind Let_def map_err_Ok_iff dest: rtraverse_Ok_nth split: if_splits)

lemma build_connect_request_Ok:
  assumes "build_connect_request D cd jt pick s split kill lan level version = Ok r"
  obtains config probe where
    "resolve_app_selectors D (split_apps split) = Ok (excluded_apps r)"
    "build_xray_config jt pick s
       (split\<lparr>split_apps := map (\<lambda>a. forward_slashes (canonical_path a)) (excluded_apps r)\<rparr>)
       lan (unwrap_or ''warn'' level) = Some config"
    "to_string_pretty jt config = Ok (xray_config r)"
    "build_connection_probe_config jt pick s = Some (Ok probe)"
    "to_string_pretty jt probe = Ok (validation_config r)"
    "resolve_server_endpoints D cd s = Ok (server_endpoints r)"
    "xray_version r = version" "killswitch r = kill" "allow_lan r = lan"
    "Protocol.apps_selective r = Xray_Config.apps_selective split"
  using assms
  by (auto simp: build_connect_request_def Ok_bind Let_def map_err_Ok_iff ok_or_def connect_request.make_def
      split: option.splits)

section \<open>Properties\<close>

text \<open>What the application relies on for the texts it writes: they read back as what was printed.\<close>

definition prints_readably :: "json_text \<Rightarrow> bool" where
  "prints_readably jt \<longleftrightarrow> (\<forall>v t. to_string_pretty jt v = Ok t \<longrightarrow> from_str jt t = Ok v)"

text \<open>
  C15: From the location to the service: both configuration texts of the request that
  \<open>vpn_connect\<close> builds for a location that passed its check are accepted by the service's checks,
  the native one with the expected tunnel, the validation one with the probe's only port, when
  the parts that the generator copies unchecked are harmless.\<close>

theorem connect_request_accepted:
  assumes "build_connect_request D cd jt pick s split kill lan level version = Ok r"
    and "validate_server jt pick s = Some (Ok ())"
    and "\<forall>v. unchecked_part jt s v \<longrightarrow>
      \<not> contains_forbidden_provider_file_reference v \<and> \<not> contains_insecure_tls_override v"
    and "prints_readably jt"
  shows "inspect_native_tun_config jt (xray_config r) = Ok generated_inspection
     \<and> inspect_validation_config jt (validation_config r) = Ok [20810]"
proof -
  from assms(1) obtain config probe where parts:
    "build_xray_config jt pick s
       (split\<lparr>split_apps := map (\<lambda>a. forward_slashes (canonical_path a)) (excluded_apps r)\<rparr>)
       lan (unwrap_or ''warn'' level) = Some config"
    "to_string_pretty jt config = Ok (xray_config r)"
    "build_connection_probe_config jt pick s = Some (Ok probe)"
    "to_string_pretty jt probe = Ok (validation_config r)"
    by (rule build_connect_request_Ok)
  then have read: "from_str jt (xray_config r) = Ok config" "from_str jt (validation_config r) = Ok probe"
    using assms(4) by (simp_all add: prints_readably_def)
  show ?thesis
    using checked_location_configs [OF assms(2,3), of "split\<lparr>split_apps := map (\<lambda>a. forward_slashes (canonical_path a))
        (excluded_apps r)\<rparr>" lan "unwrap_or ''warn'' level" "[]"] parts read
    by (auto simp: inspect_native_tun_config_def inspect_validation_config_def parse_object_def)
qed

text \<open>
  C25: A request that is sent has one to 64 endpoints, in order and each once, each an address
  that a host of the location resolved to, and its applications are distinct whatever their
  case, each with the name of the selected file.\<close>

theorem connect_request_bounded:
  assumes "build_connect_request D cd jt pick s split kill lan level version = Ok r"
  shows "server_endpoints r \<noteq> [] \<and> length (server_endpoints r) \<le> MAX_SERVER_ENDPOINTS
    \<and> sorted (server_endpoints r) \<and> distinct (server_endpoints r)
    \<and> (\<forall>e\<in>set (server_endpoints r). \<exists>(host, port)\<in>set (server_endpoints_of cd s).
        \<exists>found. resolve_host D host port = Ok found \<and> e \<in> set found)
    \<and> distinct (map (\<lambda>a. ascii_lower (canonical_path a)) (excluded_apps r))
    \<and> (\<forall>a\<in>set (excluded_apps r). basename a \<noteq> [] \<and> path_file_name (canonical_path a) = Some (basename a))"
proof -
  from assms have apps: "resolve_app_selectors D (split_apps split) = Ok (excluded_apps r)"
    and endpoints: "resolve_server_endpoints D cd s = Ok (server_endpoints r)"
    by (auto elim: build_connect_request_Ok)
  have "basename a \<noteq> [] \<and> path_file_name (canonical_path a) = Some (basename a)"
    if "app_selector_of D raw = Ok a" for raw a
    using that by (auto simp: app_selector_of_def Ok_bind Let_def ok_or_def split: option.splits)
  then show ?thesis
    using resolve_server_endpoints_Ok [OF endpoints] select_apps_Ok [OF apps [unfolded resolve_app_selectors_def]]
    unfolding MAX_SERVER_ENDPOINTS_def by blast
qed

text \<open>
  C40: An application on a network share gets a selector that is not an absolute path: only the
  four characters of the verbatim prefix are removed from \<open>\\?\UNC\server\share\app.exe\<close>.\<close>

theorem network_share_selector_is_relative:
  assumes "canonicalize D raw = Ok ([backslash, backslash, CHR ''?'', backslash] @ ''UNC'' @ [backslash] @ rest)"
    and "app_selector_of D raw = Ok a"
  shows "canonical_path a = ''UNC'' @ [backslash] @ rest \<and> \<not> path_is_absolute (canonical_path a)"
proof -
  have "strip_prefix [backslash, backslash, CHR ''?'', backslash]
      ([backslash, backslash, CHR ''?'', backslash] @ ''UNC'' @ [backslash] @ rest) = Some (''UNC'' @ [backslash] @ rest)"
    by (simp only: strip_prefix_Some)
  then have "canonical_path a = ''UNC'' @ [backslash] @ rest"
    using assms by (auto simp: app_selector_of_def Ok_bind Let_def ok_or_def strip_verbatim_prefix_def split: option.splits)
  then show ?thesis by (simp add: path_is_absolute_def is_sep_def backslash_def)
qed

section \<open>Concrete requests\<close>

text \<open>A location without transport options, whose configurations do not depend on the reader.\<close>

definition plain_location :: vless_server where
  "plain_location = (server_base ''vless'' ''vpn.example'' 443 ''Location'')\<lparr>s_uuid := ''u''\<rparr>"

lemma plain_plan: "outbound_plan_of jt pick plain_location = outbound_plan_of (extra_reader []) hd plain_location"
proof -
  have network: "xray_network (s_transport plain_location) = ''tcp''" and "s_raw_profile plain_location = None"
    by code_simp+
  have "build_stream_settings jt plain_location = build_stream_settings (extra_reader []) plain_location"
    by (simp add: build_stream_settings_def transport_fields_def network)
  then have "build_proxy_outbound jt plain_location = build_proxy_outbound (extra_reader []) plain_location"
    by (simp only: build_proxy_outbound_def Let_def)
  then show ?thesis
    by (simp add: outbound_plan_of_def profile_plan_def \<open>s_raw_profile plain_location = None\<close>)
qed

definition plain_config :: json where
  "plain_config = unwrap_or JNull (build_xray_config (extra_reader []) hd plain_location all_traffic True ''warn'')"

definition plain_probe :: json where
  "plain_probe = (case build_connection_probe_config (extra_reader []) hd plain_location of
     Some (Inr v) \<Rightarrow> v | _ \<Rightarrow> JNull)"

definition two_printer :: json_text where
  "two_printer = \<lparr>from_str = (\<lambda>t. if t = ''c'' then Ok plain_config else if t = ''p'' then Ok plain_probe else Err []),
     to_string = (\<lambda>_. Err []),
     to_string_pretty = (\<lambda>v. if v = plain_config then Ok ''c'' else if v = plain_probe then Ok ''p'' else Err [])\<rparr>"

lemma prints_readably_two: "prints_readably two_printer"
  by (auto simp: prints_readably_def two_printer_def split: if_splits)

lemma plain_valid: "validate_server jt pick plain_location = Some (Ok ())"
proof -
  have "validate_fields plain_location = Ok ()" by code_simp
  then show ?thesis by (simp add: validate_server_def plain_location_def server_base_def)
qed

lemma plain_unchecked: "unchecked_part jt plain_location v \<Longrightarrow> v = JObj []"
  by (simp add: unchecked_part_def extra_object_def plain_location_def server_base_def)

lemma plain_configs:
  "build_xray_config jt pick plain_location all_traffic True ''warn'' = Some plain_config"
  "build_connection_probe_config jt pick plain_location = Some (Ok plain_probe)"
proof -
  have "\<forall>v. unchecked_part (extra_reader []) plain_location v \<longrightarrow>
      \<not> contains_forbidden_provider_file_reference v \<and> \<not> contains_insecure_tls_override v"
    using plain_unchecked by fastforce
  from checked_location_configs [OF plain_valid this, of hd all_traffic True "''warn''" "[]"]
  show "build_xray_config jt pick plain_location all_traffic True ''warn'' = Some plain_config"
    "build_connection_probe_config jt pick plain_location = Some (Ok plain_probe)"
    unfolding plain_config_def plain_probe_def
    by (auto simp: build_xray_config_def build_connection_probe_config_def plain_plan [of jt pick])
qed

definition plain_desktop :: desktop where
  "plain_desktop = \<lparr>canonicalize = (\<lambda>raw. Ok ([backslash, backslash, CHR ''?'', backslash] @ ''UNC'' @ [backslash] @ raw)),
     is_regular_file = (\<lambda>_. True), resolve_host = (\<lambda>_ p. Ok [SocketV4 0x01010101 p])\<rparr>"

lemma plain_request:
  "\<exists>r. build_connect_request plain_desktop sample_codecs two_printer hd plain_location all_traffic True True None
     ''26.3.27'' = Ok r"
proof -
  have "server_endpoints_of sample_codecs plain_location = [(''vpn.example'', 443)]"
    by (simp add: server_endpoints_of_def plain_location_def server_base_def Let_def)
  then have "\<exists>es. resolve_server_endpoints plain_desktop sample_codecs plain_location = Ok es"
    by (simp add: resolve_server_endpoints_def plain_desktop_def btree_set_def insort_insert_key_def Let_def)
  moreover have "resolve_app_selectors D (split_apps all_traffic) = Ok []" for D
    by (simp add: resolve_app_selectors_def all_traffic_def)
  moreover have "all_traffic\<lparr>split_apps := []\<rparr> = all_traffic" by (simp add: all_traffic_def)
  ultimately show ?thesis
    by (auto simp: build_connect_request_def plain_configs two_printer_def ok_or_def map_err_def Let_def)
qed

theorem connect_request_accepted_witness:
  "\<exists>r :: connect_request. inspect_native_tun_config two_printer (xray_config r) = Ok generated_inspection
     \<and> inspect_validation_config two_printer (validation_config r) = Ok [20810]"
proof -
  from plain_request obtain r where r: "build_connect_request plain_desktop sample_codecs two_printer hd
    plain_location all_traffic True True None ''26.3.27'' = Ok r" by blast
  have "\<forall>v. unchecked_part two_printer plain_location v \<longrightarrow>
      \<not> contains_forbidden_provider_file_reference v \<and> \<not> contains_insecure_tls_override v"
    using plain_unchecked by fastforce
  then show ?thesis
    using connect_request_accepted [OF r plain_valid _ prints_readably_two] by blast
qed

theorem connect_request_bounded_witness:
  "\<exists>r :: connect_request. server_endpoints r \<noteq> [] \<and> length (server_endpoints r) \<le> MAX_SERVER_ENDPOINTS
    \<and> sorted (server_endpoints r) \<and> distinct (server_endpoints r)
    \<and> (\<forall>e\<in>set (server_endpoints r). \<exists>(host, port)\<in>set (server_endpoints_of sample_codecs plain_location).
        \<exists>found. resolve_host plain_desktop host port = Ok found \<and> e \<in> set found)
    \<and> distinct (map (\<lambda>a. ascii_lower (canonical_path a)) (excluded_apps r))
    \<and> (\<forall>a\<in>set (excluded_apps r). basename a \<noteq> [] \<and> path_file_name (canonical_path a) = Some (basename a))"
proof -
  from plain_request obtain r where r: "build_connect_request plain_desktop sample_codecs two_printer hd
    plain_location all_traffic True True None ''26.3.27'' = Ok r" by blast
  show ?thesis by (rule exI, rule connect_request_bounded [OF r])
qed

theorem network_share_selector_is_relative_witness:
  "\<exists>a :: app_selector. canonical_path a = ''UNC'' @ [backslash] @ ''game.exe'' \<and> \<not> path_is_absolute (canonical_path a)"
proof -
  have "is_ok (app_selector_of plain_desktop ''game.exe'')" by code_simp
  then obtain a where a: "app_selector_of plain_desktop ''game.exe'' = Ok a"
    by (cases "app_selector_of plain_desktop ''game.exe''") auto
  have "canonicalize plain_desktop ''game.exe'' =
      Ok ([backslash, backslash, CHR ''?'', backslash] @ ''UNC'' @ [backslash] @ ''game.exe'')"
    by (simp add: plain_desktop_def)
  from network_share_selector_is_relative [OF this a] show ?thesis by blast
qed

end
