(* ===== verification/Version_Resource.thy ===== *)
theory Version_Resource
  imports Net_Text File_System
begin

text \<open>
  The name of an executable from its version resource, \<open>executable_display_name\<close> of
  \<open>src-tauri/src/apps.rs\<close>, with the UTF-16 conversions of the standard library that it uses. The
  three Win32 calls are the parameter \<open>version_api\<close>.
\<close>

section \<open>UTF-16\<close>

definition utf8_of_scalar :: "nat \<Rightarrow> string" where
  "utf8_of_scalar n = map char_of
     (if n < 0x80 then [n]
      else if n < 0x800 then [0xC0 + n div 0x40, 0x80 + n mod 0x40]
      else if n < 0x10000 then [0xE0 + n div 0x1000, 0x80 + n div 0x40 mod 0x40, 0x80 + n mod 0x40]
      else [0xF0 + n div 0x40000, 0x80 + n div 0x1000 mod 0x40, 0x80 + n div 0x40 mod 0x40, 0x80 + n mod 0x40])"

text \<open>The scalar of one well-formed sequence of bytes.\<close>

definition scalar_of_utf8 :: "bytes \<Rightarrow> nat" where
  "scalar_of_utf8 bs = (case map unat bs of
       [a] \<Rightarrow> a
     | [a, b] \<Rightarrow> (a - 0xC0) * 0x40 + (b - 0x80)
     | [a, b, c] \<Rightarrow> (a - 0xE0) * 0x1000 + (b - 0x80) * 0x40 + (c - 0x80)
     | [a, b, c, d] \<Rightarrow> (a - 0xF0) * 0x40000 + (b - 0x80) * 0x1000 + (c - 0x80) * 0x40 + (d - 0x80)
     | _ \<Rightarrow> 0)"

definition scalars :: "string \<Rightarrow> nat list" where
  "scalars s = map (\<lambda>(ok, bs). scalar_of_utf8 bs) (utf8_chunks (as_bytes s))"

definition utf16_units :: "nat \<Rightarrow> u16 list" where
  "utf16_units n =
     (if n < 0x10000 then [of_nat n]
      else [of_nat (0xD800 + (n - 0x10000) div 0x400), of_nat (0xDC00 + (n - 0x10000) mod 0x400)])"

definition high_surrogate :: "u16 \<Rightarrow> bool" where
  "high_surrogate u \<longleftrightarrow> 0xD800 \<le> unat u \<and> unat u < 0xDC00"

definition low_surrogate :: "u16 \<Rightarrow> bool" where
  "low_surrogate u \<longleftrightarrow> 0xDC00 \<le> unat u \<and> unat u < 0xE000"

text \<open>\<open>char::decode_utf16\<close>, with U+FFFD for each surrogate that has no partner.\<close>

fun utf16_scalars :: "u16 list \<Rightarrow> nat list" where
  "utf16_scalars [] = []"
| "utf16_scalars [u] = [if high_surrogate u \<or> low_surrogate u then 0xFFFD else unat u]"
| "utf16_scalars (u # v # us) =
     (if high_surrogate u then
        if low_surrogate v
        then (0x10000 + (unat u - 0xD800) * 0x400 + (unat v - 0xDC00)) # utf16_scalars us
        else 0xFFFD # utf16_scalars (v # us)
      else (if low_surrogate u then 0xFFFD else unat u) # utf16_scalars (v # us))"

definition from_utf16_lossy :: "u16 list \<Rightarrow> string" where
  "from_utf16_lossy us = concat (map utf8_of_scalar (utf16_scalars us))"

definition wide_null :: "string \<Rightarrow> u16 list" where
  "wide_null s = concat (map utf16_units (scalars s)) @ [0]"

section \<open>The version resource\<close>

text \<open>
  The size of a file's version block, whether it can be read, and a query of it by a
  NUL-terminated name: nothing, or the memory that the returned pointer points to, unless it is
  null, and the returned length.
\<close>

record version_api =
  version_size :: "string \<Rightarrow> u32"
  version_loads :: "string \<Rightarrow> u32 \<Rightarrow> bool"
  query_value :: "string \<Rightarrow> u16 list \<Rightarrow> (u16 list option \<times> u32) option"

fun unit_pairs :: "u16 list \<Rightarrow> (u16 \<times> u16) list" where
  "unit_pairs (a # b # us) = (a, b) # unit_pairs us"
| "unit_pairs us = []"

definition version_translations :: "version_api \<Rightarrow> string \<Rightarrow> (u16 \<times> u16) list" where
  "version_translations V path =
     (let found = (case query_value V path
            (wide_null ([backslash] @ ''VarFileInfo'' @ [backslash] @ ''Translation'')) of
          Some (Some words, bytes) \<Rightarrow>
            if 4 \<le> bytes then unit_pairs (take (unat bytes div 2) words) else []
        | _ \<Rightarrow> [])
      in if found = [] then [(0x0409, 0x04B0)] else found)"

definition hex4 :: "u16 \<Rightarrow> string" where
  "hex4 u = (let d = hex_digits (unat u) in replicate (4 - length d) CHR ''0'' @ d)"

definition trim_nul :: "string \<Rightarrow> string" where
  "trim_nul s = rev (dropWhile (\<lambda>c. c = CHR 0x00) (rev (dropWhile (\<lambda>c. c = CHR 0x00) s)))"

definition version_text :: "version_api \<Rightarrow> string \<Rightarrow> string \<times> u16 \<times> u16 \<Rightarrow> string option" where
  "version_text V path = (\<lambda>(key, language, codepage).
     case query_value V path (wide_null ([backslash] @ ''StringFileInfo'' @ [backslash]
            @ hex4 language @ hex4 codepage @ [backslash] @ key)) of
       Some (Some chars, n) \<Rightarrow>
         if n = 0 \<or> 512 < n then None
         else
           let value = trim (trim_nul (from_utf16_lossy (take (unat n) chars))) in
           if value \<noteq> [] \<and> length value \<le> 160 \<and> \<not> has_control value then Some value else None
     | _ \<Rightarrow> None)"

fun first_some :: "('a \<Rightarrow> 'b option) \<Rightarrow> 'a list \<Rightarrow> 'b option" where
  "first_some f [] = None"
| "first_some f (x # xs) = (case f x of None \<Rightarrow> first_some f xs | Some y \<Rightarrow> Some y)"

definition executable_display_name :: "version_api \<Rightarrow> string \<Rightarrow> string option" where
  "executable_display_name V path =
     (let size = version_size V path in
      if size = 0 \<or> 16 * 1024 * 1024 < size then None
      else if \<not> version_loads V path size then None
      else
        let translations = version_translations V path in
        first_some (version_text V path)
          (concat (map (\<lambda>key. map (Pair key) translations) [''ProductName'', ''FileDescription''])))"

section \<open>Lemmas\<close>

definition scalar :: "nat \<Rightarrow> bool" where
  "scalar n \<longleftrightarrow> n < 0xD800 \<or> 0xE000 \<le> n \<and> n < 0x110000"

lemma unat_unit [simp]: "n < 0x10000 \<Longrightarrow> unat (of_nat n :: u16) = n"
  by (simp add: unat_of_nat)

lemma utf16_scalars_BMP: "\<not> high_surrogate u \<Longrightarrow> \<not> low_surrogate u \<Longrightarrow> utf16_scalars (u # us) = unat u # utf16_scalars us"
  by (cases us) simp_all

lemma utf16_scalars_units:
  assumes "scalar n"
  shows "utf16_scalars (utf16_units n @ us) = n # utf16_scalars us"
proof (cases "n < 0x10000")
  case True
  then have "\<not> high_surrogate (of_nat n)" "\<not> low_surrogate (of_nat n)"
    using assms by (auto simp: scalar_def high_surrogate_def low_surrogate_def)
  from utf16_scalars_BMP [OF this] True show ?thesis by (simp add: utf16_units_def)
next
  case False
  define m where "m = n - 0x10000"
  have n: "n = 0x10000 + m" "m < 0x100000" using False assms by (auto simp: m_def scalar_def)
  then have "m div 0x400 < 0x400" by (simp add: less_mult_imp_div_less)
  then have "unat (of_nat (0xD800 + m div 0x400) :: u16) = 0xD800 + m div 0x400"
    and "unat (of_nat (0xDC00 + m mod 0x400) :: u16) = 0xDC00 + m mod 0x400"
    by (intro unat_unit; simp)+ 
  moreover have "m mod 0x400 < 0x400" by simp
  ultimately show ?thesis
    using \<open>m div 0x400 < 0x400\<close> False
    unfolding utf16_units_def m_def [symmetric]
    by (simp add: high_surrogate_def low_surrogate_def n(1) del: of_nat_add)
qed

lemma first_some_Some: "first_some f xs = Some y \<Longrightarrow> \<exists>x\<in>set xs. f x = Some y"
  by (induction xs) (auto split: option.splits)

lemma display_name_clean:
  assumes "executable_display_name V path = Some name"
  shows "name \<noteq> []" and "length name \<le> 160" and "\<not> has_control name"
proof -
  from assms obtain t where "version_text V path t = Some name"
    by (auto simp: executable_display_name_def Let_def split: if_splits dest: first_some_Some)
  then show "name \<noteq> []" "length name \<le> 160" "\<not> has_control name"
    by (auto simp: version_text_def Let_def split: prod.splits option.splits if_splits)
qed

lemma utf16_round_trip:
  assumes "list_all scalar ns"
  shows "utf16_scalars (concat (map utf16_units ns)) = ns"
  using assms by (induction ns) (simp_all add: utf16_scalars_units)


text \<open>A well-formed sequence of bytes is the encoding of its scalar.\<close>

lemma cont_range: "cont b \<longleftrightarrow> 0x80 \<le> unat b \<and> unat b \<le> 0xBF"
  by (simp add: cont_def word_le_nat_alt)

lemma div_mod_64: "z < (0x40 :: nat) \<Longrightarrow> (k * 0x40 + z) div 0x40 = k \<and> (k * 0x40 + z) mod 0x40 = z"
  by simp

lemma two_bytes:
  assumes "2 \<le> x" "x < 0x20" "y < (0x40 :: nat)"
  shows "scalar (x * 0x40 + y) \<and> utf8_of_scalar (x * 0x40 + y) = map char_of [0xC0 + x, 0x80 + y]"
proof -
  have "(x * 0x40 + y) div 0x40 = x" "(x * 0x40 + y) mod 0x40 = y" using assms(3) by simp_all
  moreover have "x * 0x40 + y < 0x800" "0x80 \<le> x * 0x40 + y" using assms by simp_all
  ultimately show ?thesis by (simp add: utf8_of_scalar_def scalar_def)
qed

lemma three_bytes:
  assumes "x < 0x10" "y < (0x40 :: nat)" "z < 0x40" "x = 0 \<longrightarrow> 0x20 \<le> y" "x = 0xD \<longrightarrow> y < 0x20"
  shows "scalar (x * 0x1000 + y * 0x40 + z)
    \<and> utf8_of_scalar (x * 0x1000 + y * 0x40 + z) = map char_of [0xE0 + x, 0x80 + y, 0x80 + z]"
proof -
  let ?n = "x * 0x1000 + y * 0x40 + z"
  have n: "?n = (x * 0x40 + y) * 0x40 + z" by simp
  have "?n div 0x40 = x * 0x40 + y" "?n mod 0x40 = z" using div_mod_64 [OF assms(3), of "x * 0x40 + y"] by (simp_all only: n)
  moreover have "?n div 0x1000 = x" using assms(2,3) by (simp add: add.assoc)
  moreover have "(x * 0x40 + y) mod 0x40 = y" using assms(2) by simp
  moreover have "?n < 0x10000" "0x800 \<le> ?n" using assms by (cases "x = 0"; simp)+
  moreover have "?n < 0xD800 \<or> 0xE000 \<le> ?n"
  proof (cases "x < 0xE")
    case True
    then show ?thesis using assms by (cases "x = 0xD") simp_all
  qed (use assms in simp)
  ultimately show ?thesis by (simp add: utf8_of_scalar_def scalar_def)
qed

lemma four_bytes:
  assumes "x < 5" "y < (0x40 :: nat)" "z < 0x40" "w < 0x40" "x = 0 \<longrightarrow> 0x10 \<le> y" "x = 4 \<longrightarrow> y < 0x10"
  shows "scalar (x * 0x40000 + y * 0x1000 + z * 0x40 + w)
    \<and> utf8_of_scalar (x * 0x40000 + y * 0x1000 + z * 0x40 + w)
       = map char_of [0xF0 + x, 0x80 + y, 0x80 + z, 0x80 + w]"
proof -
  let ?n = "x * 0x40000 + y * 0x1000 + z * 0x40 + w"
  have n: "?n = ((x * 0x40 + y) * 0x40 + z) * 0x40 + w" by simp
  have "?n div 0x40 = (x * 0x40 + y) * 0x40 + z" "?n mod 0x40 = w" using div_mod_64 [OF assms(4), of "(x * 0x40 + y) * 0x40 + z"] by (simp_all only: n)
  moreover have "((x * 0x40 + y) * 0x40 + z) mod 0x40 = z"
    using div_mod_64 [OF assms(3), of "x * 0x40 + y"] by (simp only:)
  moreover have "?n div 0x1000 = x * 0x40 + y" using assms(3,4) by (simp add: add.assoc)
  moreover have "(x * 0x40 + y) mod 0x40 = y" using assms(2) by simp
  moreover have "?n div 0x40000 = x" using assms(2-4) by (simp add: add.assoc)
  moreover have "0x10000 \<le> ?n" using assms by (cases "x = 0") simp_all
  moreover have "?n < 0x110000" using assms by (cases "x = 4") simp_all
  ultimately show ?thesis by (simp add: utf8_of_scalar_def scalar_def)
qed


lemma sequence_lengths:
  "sequence_length a = 1 \<longleftrightarrow> unat a < 0x80"
  "sequence_length a = 2 \<longleftrightarrow> 0xC2 \<le> unat a \<and> unat a \<le> 0xDF"
  "sequence_length a = 3 \<longleftrightarrow> 0xE0 \<le> unat a \<and> unat a \<le> 0xEF"
  "sequence_length a = 4 \<longleftrightarrow> 0xF0 \<le> unat a \<and> unat a \<le> 0xF4"
  by (auto simp: sequence_length_def word_le_nat_alt word_less_nat_alt)

lemma second_ok_nat:
  "second_ok a b \<longleftrightarrow> 0x80 \<le> unat b \<and> unat b \<le> 0xBF \<and> (unat a = 0xE0 \<longrightarrow> 0xA0 \<le> unat b)
     \<and> (unat a = 0xED \<longrightarrow> unat b \<le> 0x9F) \<and> (unat a = 0xF0 \<longrightarrow> 0x90 \<le> unat b) \<and> (unat a = 0xF4 \<longrightarrow> unat b \<le> 0x8F)"
  by (auto simp: second_ok_def cont_def word_le_nat_alt word_unat_eq_iff)

lemma valid_sequence:
  assumes "utf8_chunk (a # r) = (True, n)"
  obtains (1) "unat a < 0x80" "take n (a # r) = [a]"
    | (2) b where "0xC2 \<le> unat a" "unat a \<le> 0xDF" "take n (a # r) = [a, b]" "second_ok a b"
    | (3) b c where "0xE0 \<le> unat a" "unat a \<le> 0xEF" "take n (a # r) = [a, b, c]" "second_ok a b" "cont c"
    | (4) b c d where "0xF0 \<le> unat a" "unat a \<le> 0xF4" "take n (a # r) = [a, b, c, d]" "second_ok a b" "cont c" "cont d"
proof -
  let ?n = "sequence_length a"
  have cases: "?n = 0 \<or> ?n = 1 \<or> ?n = 2 \<or> ?n = 3 \<or> ?n = 4" by (simp add: sequence_length_def)
  with assms have n: "n = ?n" "?n \<noteq> 0" by (auto simp: utf8_chunk_def Let_def split: if_splits)
  have more: "r \<noteq> [] \<and> second_ok a (hd r) \<and> length (takeWhile cont (take (?n - 2) (tl r))) = ?n - 2" if "2 \<le> ?n"
    using assms that by (auto simp: utf8_chunk_def Let_def split: if_splits)
  from n(2) cases consider (A) "?n = 1" | (B) "?n = 2" | (C) "?n = 3" | (D) "?n = 4" by metis
  then show thesis
  proof cases
    case A
    then show thesis using that(1) n sequence_lengths(1) [of a] by simp
  next
    case B
    with more obtain b r' where "r = b # r'" "second_ok a b" by (cases r) auto
    with B that(2) [of b] n sequence_lengths(2) [of a] show thesis by (simp add: numeral_2_eq_2)
  next
    case C
    with more obtain b r1 where "r = b # r1" "second_ok a b" by (cases r) auto
    moreover from this more C obtain c r2 where "r1 = c # r2" "cont c"
      by (cases r1) (auto split: if_splits)
    ultimately show thesis using C that(3) [of b c] n sequence_lengths(3) [of a] by (simp add: numeral_3_eq_3)
  next
    case D
    with more obtain b r1 where b: "r = b # r1" "second_ok a b" by (cases r) auto
    with more D have "length (takeWhile cont (take 2 r1)) = 2" by simp
    then obtain c d r2 where "r1 = c # d # r2" "cont c" "cont d"
      by (cases r1; cases "tl r1") (auto simp: numeral_2_eq_2 split: if_splits)
    then show thesis using b D that(4) [of b c d] n sequence_lengths(4) [of a] by (simp add: numeral_eq_Suc)
  qed
qed

lemma valid_chunk:
  assumes "utf8_chunk (a # r) = (True, n)"
  shows "scalar (scalar_of_utf8 (take n (a # r)))
    \<and> utf8_of_scalar (scalar_of_utf8 (take n (a # r))) = map char_of_byte (take n (a # r))"
  using assms
proof (cases rule: valid_sequence)
  case 1
  then show ?thesis by (simp add: scalar_of_utf8_def scalar_def utf8_of_scalar_def char_of_byte_def)
next
  case (2 b)
  note b = 2(4) [unfolded second_ok_nat]
  have "unat a - 0xC0 < 0x20" "2 \<le> unat a - 0xC0" "unat b - 0x80 < 0x40" using 2 b by auto
  from two_bytes [OF this(2,1,3)] show ?thesis using 2 b by (simp add: scalar_of_utf8_def char_of_byte_def)
next
  case (3 b c)
  note b = 3(4) [unfolded second_ok_nat] and c = 3(5) [unfolded cont_range]
  have "unat a - 0xE0 < 0x10" "unat b - 0x80 < 0x40" "unat c - 0x80 < 0x40"
    "unat a - 0xE0 = 0 \<longrightarrow> 0x20 \<le> unat b - 0x80" "unat a - 0xE0 = 0xD \<longrightarrow> unat b - 0x80 < 0x20"
    using 3(1,2) b c by auto
  from three_bytes [OF this] show ?thesis using 3 b c by (simp add: scalar_of_utf8_def char_of_byte_def)
next
  case (4 b c d)
  note b = 4(4) [unfolded second_ok_nat] and c = 4(5,6) [unfolded cont_range]
  have "unat a - 0xF0 < 5" "unat b - 0x80 < 0x40" "unat c - 0x80 < 0x40" "unat d - 0x80 < 0x40"
    "unat a - 0xF0 = 0 \<longrightarrow> 0x10 \<le> unat b - 0x80" "unat a - 0xF0 = 4 \<longrightarrow> unat b - 0x80 < 0x10"
    using 4(1,2) b c by auto
  from four_bytes [OF this] show ?thesis using 4 b c by (simp add: scalar_of_utf8_def char_of_byte_def)
qed

lemma valid_text:
  assumes "list_all fst (utf8_chunks bs)"
  shows "list_all scalar (map (\<lambda>(ok, c). scalar_of_utf8 c) (utf8_chunks bs))
    \<and> concat (map utf8_of_scalar (map (\<lambda>(ok, c). scalar_of_utf8 c) (utf8_chunks bs))) = map char_of_byte bs"
  using assms
proof (induction bs rule: utf8_chunks.induct)
  case (2 b bs)
  obtain ok n where chunk: "utf8_chunk (b # bs) = (ok, n)" by (cases "utf8_chunk (b # bs)")
  then have n: "max n 1 = n" by (auto simp: utf8_chunk_def Let_def split: if_splits)
  have ok: "ok" using 2(2) chunk by simp
  have rest: "list_all fst (utf8_chunks (drop n (b # bs)))" using 2(2) chunk n by simp
  show ?case
    using 2(1) [OF chunk [symmetric]] rest valid_chunk [of b bs n] chunk ok n
    by (simp add: map_append [symmetric] del: map_append take_Cons' drop_Cons')
qed simp

text \<open>A valid text survives its conversion to UTF-16 and back.\<close>

lemma wide_text:
  assumes "from_utf8 (as_bytes s) = Some t"
  shows "from_utf16_lossy (concat (map utf16_units (scalars s))) = s"
proof -
  have "list_all fst (utf8_chunks (as_bytes s))" using assms by (simp add: from_utf8_def split: if_splits)
  note valid = valid_text [OF this, folded scalars_def]
  from utf16_round_trip [OF valid [THEN conjunct1]] valid show ?thesis by (simp add: from_utf16_lossy_def)
qed

text \<open>A machine whose files have no version resources.\<close>

definition no_versions :: version_api where
  "no_versions = \<lparr>version_size = (\<lambda>_. 0), version_loads = (\<lambda>_ _. False), query_value = (\<lambda>_ _. None)\<rparr>"

text \<open>A file with a name in its resource, in the default language and between spaces.\<close>

definition named_version :: version_api where
  "named_version = \<lparr>version_size = (\<lambda>_. 100), version_loads = (\<lambda>_ _. True),
     query_value = (\<lambda>_ q. if length q = 37 then Some (Some (wide_null '' Game ''), 7) else None)\<rparr>"

section \<open>Properties\<close>

text \<open>
  The name that is shown of an executable with a version resource is never empty, has at most 160
  bytes and no control characters, whatever the resource contains.\<close>

theorem shown_name_clean:
  assumes "executable_display_name V path = Some name"
  shows "name \<noteq> [] \<and> length name \<le> 160 \<and> \<not> has_control name"
  using display_name_clean [OF assms] by simp


text \<open>A Latin letter, a Cyrillic one and a character above U+FFFF.\<close>

definition mixed_text :: string where
  "mixed_text = map char_of [0x41, 0xD0, 0x96, 0xF0, 0x9F, 0x98, 0x80 :: nat]"


lemma shown_name_clean_witness:
  "executable_display_name named_version ''C:/g.exe'' = Some ''Game''
   \<and> ''Game'' \<noteq> [] \<and> length ''Game'' \<le> 160 \<and> \<not> has_control ''Game''"
proof -
  have name: "executable_display_name named_version ''C:/g.exe'' = Some ''Game''" by code_simp
  from name shown_name_clean [OF name] show ?thesis by simp
qed

end
