(* ===== verification/Installed_Apps.thy ===== *)
theory Installed_Apps
  imports Desktop Version_Resource
begin

text \<open>
  The list of applications for split tunnelling, \<open>src-tauri/src/apps.rs\<close>, and the autostart
  entry of \<open>tray.rs\<close>. The registry and the file system are data of the record \<open>machine\<close>;
  the Win32 calls of \<open>Version_Resource\<close>, icons and the Unicode case tables are its functions.
\<close>

section \<open>The machine\<close>

record file_type =
  ft_file :: bool
  ft_dir :: bool
  ft_symlink :: bool

record file_info =
  fi_is_file :: bool
  fi_length :: nat

record uninstall_entry =
  ue_display_name :: "string option"
  ue_display_icon :: "string option"
  ue_install_location :: "string option"

text \<open>One view of one hive: the values of its two subkeys, where they open.\<close>

record registry_view =
  rv_app_paths :: "string option list option"
  rv_uninstall :: "uninstall_entry list option"

record machine =
  real_path :: "string \<Rightarrow> string option"
  path_is_file :: "string \<Rightarrow> bool"
  path_is_dir :: "string \<Rightarrow> bool"
  read_entries :: "string \<Rightarrow> (string \<times> file_type option) list option"
  read_text :: "string \<Rightarrow> string option"
  file_info_of :: "string \<Rightarrow> file_info option"
  file_bytes :: "string \<Rightarrow> bytes option"
  registry_views :: "registry_view list"
  logical_drives :: u32
  versions :: version_api
  icon_base64 :: "string \<Rightarrow> string option"
  base64_encode :: "bytes \<Rightarrow> string"
  lowercase :: "string \<Rightarrow> string"

record installed_app =
  app_id :: string
  app_name :: string
  app_icon :: "string option"

section \<open>Paths and names\<close>

definition file_stem :: "string \<Rightarrow> string option" where
  "file_stem path = map_option (\<lambda>n. case rsplit_once ''.'' n of
      Some (before, _) \<Rightarrow> if before = [] then n else before | None \<Rightarrow> n) (path_file_name path)"

definition path_extension :: "string \<Rightarrow> string option" where
  "path_extension path = Option.bind (path_file_name path) (\<lambda>n. case rsplit_once ''.'' n of
      Some (before, after) \<Rightarrow> if before = [] then None else Some after | None \<Rightarrow> None)"

definition is_executable :: "machine \<Rightarrow> string \<Rightarrow> bool" where
  "is_executable M path \<longleftrightarrow> path_is_file M path
     \<and> (case path_extension path of Some e \<Rightarrow> eq_ignore_case e ''exe'' | None \<Rightarrow> False)"

definition helper_words :: "string list" where
  "helper_words = [''bootstrapper'', ''crash'', ''install'', ''cleaner'', ''helper'', ''report'',
     ''setup'', ''unins'', ''update'', ''redistributable'', ''vcredist'']"

definition is_helper_executable :: "string \<Rightarrow> bool" where
  "is_helper_executable path \<longleftrightarrow>
     (let stem = ascii_lower (unwrap_or [] (file_stem path))
      in list_ex (\<lambda>excluded. contains_str excluded stem) helper_words)"

definition normalized_name :: "string \<Rightarrow> string" where
  "normalized_name s = ascii_lower (filter is_alnum s)"

text \<open>\<open>s.split(|c| !c.is_ascii_alphanumeric())\<close>, empty parts dropped: the words.\<close>

fun alnum_words :: "string \<Rightarrow> string \<Rightarrow> string list" where
  "alnum_words w [] = (if w = [] then [] else [w])"
| "alnum_words w (c # s) =
     (if is_alnum c then alnum_words (w @ [c]) s
      else (if w = [] then [] else [w]) @ alnum_words [] s)"

definition acronym_of :: "string \<Rightarrow> string" where
  "acronym_of s = ascii_lower (map hd (alnum_words [] s))"

definition unquote :: "string \<Rightarrow> string" where
  "unquote s = rev (dropWhile (\<lambda>c. c = CHR 0x22) (rev (dropWhile (\<lambda>c. c = CHR 0x22) s)))"

text \<open>\<open>suffix.parse::<i32>().is_ok()\<close>\<close>

definition is_i32 :: "string \<Rightarrow> bool" where
  "is_i32 s \<longleftrightarrow> (case strip_prefix ''-'' s of
      Some d \<Rightarrow> d \<noteq> [] \<and> list_all is_digit d \<and> digits_value d \<le> 2 ^ 31
    | None \<Rightarrow> parse_uint (2 ^ 31 - 1) s \<noteq> None)"

definition executable_from_display_icon :: "machine \<Rightarrow> string \<Rightarrow> string option" where
  "executable_from_display_icon M text =
     (let v = trim text;
          path = (case strip_prefix [CHR 0x22] v of
              Some quoted \<Rightarrow> map_option fst (split_once [CHR 0x22] quoted)
            | None \<Rightarrow> Some (case rsplit_once '','' v of
                Some (path, suffix) \<Rightarrow> if is_i32 (trim suffix) then path else v
              | None \<Rightarrow> v))
      in Option.bind path (\<lambda>p. if is_executable M (trim p) then Some (trim p) else None))"

definition is_game_install_directory :: "string \<Rightarrow> bool" where
  "is_game_install_directory directory \<longleftrightarrow>
     (let path = ascii_lower (map (\<lambda>c. if c = CHR ''/'' then backslash else c) directory);
          part = (\<lambda>w. contains_str ([backslash] @ w @ [backslash]) path)
      in contains_str ([backslash] @ ''steamapps'' @ [backslash] @ ''common'' @ [backslash]) path
         \<or> part ''xboxgames'' \<or> part ''modifiablewindowsapps'')"

text \<open>\<open>path.components().count()\<close>: the prefix and the root count, \<open>.\<close> only at the front.\<close>

fun path_parts :: "string \<Rightarrow> string \<Rightarrow> string list" where
  "path_parts w [] = [w]"
| "path_parts w (c # s) = (if is_sep c then w # path_parts [] s else path_parts (w @ [c]) s)"

definition components_count :: "string \<Rightarrow> nat" where
  "components_count p =
     length (filter (\<lambda>w. w \<noteq> [] \<and> w \<noteq> ''.'') (path_parts [] p))
     + (if 3 \<le> length p \<and> drive_only (take 2 p) \<and> is_sep (p ! 2)
          \<or> p \<noteq> [] \<and> is_sep (hd p) \<and> \<not> (2 \<le> length p \<and> is_sep (p ! 1)) then 1 else 0)
     + (if hd (path_parts [] p) = ''.'' then 1 else 0)"

section \<open>One application\<close>

definition executable_icon :: "machine \<Rightarrow> string \<Rightarrow> string option" where
  "executable_icon M path = map_option (\<lambda>e. ''data:image/png;base64,'' @ e) (icon_base64 M path)"

definition app_from_path :: "machine \<Rightarrow> string \<Rightarrow> string option \<Rightarrow> installed_app option" where
  "app_from_path M path display_name =
     Option.bind (real_path M path) (\<lambda>path.
     if \<not> is_executable M path then None
     else
       let path = strip_verbatim_prefix path;
           fallback_name = unwrap_or ''Application'' (file_stem path);
           name = unwrap_or fallback_name (or_option (nonempty (map_option trim display_name)) (executable_display_name (versions M) path))
       in Some \<lparr>app_id = path, app_name = name, app_icon = executable_icon M path\<rparr>)"

definition app_from_file :: "machine \<Rightarrow> string \<Rightarrow> installed_app option" where
  "app_from_file M path = app_from_path M path None"

section \<open>The main executable of a directory\<close>

text \<open>The recursion, with the number of levels that are still entered.\<close>

fun collect_executables :: "machine \<Rightarrow> nat \<Rightarrow> string \<Rightarrow> string list \<Rightarrow> string list" where
  "collect_executables M 0 directory out = out"
| "collect_executables M (Suc n) directory out =
     (if 512 \<le> length out then out
      else case read_entries M directory of
          None \<Rightarrow> out
        | Some es \<Rightarrow> fold (\<lambda>(path, kind) out.
            if 512 \<le> length out then out
            else case kind of
                None \<Rightarrow> out
              | Some k \<Rightarrow>
                  if ft_file k \<and> is_executable M path then out @ [path]
                  else if ft_dir k \<and> \<not> ft_symlink k then collect_executables M n path out
                  else out)
          (take 512 es) out)"

definition relationship :: "string \<Rightarrow> string \<Rightarrow> string \<Rightarrow> nat" where
  "relationship wanted acronym stem =
     (if stem = wanted then 0
      else if 3 \<le> length stem \<and> (contains_str stem wanted \<or> contains_str wanted stem) then 1
      else if acronym \<noteq> [] \<and> (stem = acronym \<or> starts_with acronym stem \<or> starts_with stem acronym) then 2
      else 3)"

definition abs_diff :: "nat \<Rightarrow> nat \<Rightarrow> nat" where
  "abs_diff a b = (if a < b then b - a else a - b)"

definition candidate_key :: "string \<Rightarrow> string \<Rightarrow> nat \<times> nat \<times> nat \<times> string" where
  "candidate_key display_name path =
     (let wanted = normalized_name display_name;
          stem = normalized_name (unwrap_or [] (file_stem path))
      in (relationship wanted (acronym_of display_name) stem, components_count path,
          abs_diff (length stem) (length wanted), stem))"

definition main_candidates :: "machine \<Rightarrow> string \<Rightarrow> string list" where
  "main_candidates M directory = filter (\<lambda>p. \<not> is_helper_executable p) (collect_executables M 4 directory [])"

definition find_primary_executable :: "machine \<Rightarrow> string \<Rightarrow> string \<Rightarrow> string option" where
  "find_primary_executable M directory display_name =
     (if \<not> path_is_dir M directory then None
      else case sort_key (candidate_key display_name) (main_candidates M directory) of
          [] \<Rightarrow> None | p # _ \<Rightarrow> Some p)"

section \<open>Games\<close>

definition icon_names :: "string list" where
  "icon_names = [''Square44x44Logo.png'', ''Square150x150Logo.png'', ''StoreLogo.png'']"

text \<open>The first usable picture; one that cannot be read ends the search.\<close>

fun first_icon :: "machine \<Rightarrow> string \<Rightarrow> string list \<Rightarrow> string option" where
  "first_icon M directory [] = None"
| "first_icon M directory (name # names) =
     (let path = path_join directory name in
      case file_info_of M path of
        None \<Rightarrow> first_icon M directory names
      | Some info \<Rightarrow>
          if \<not> fi_is_file info \<or> fi_length info = 0 \<or> 512 * 1024 < fi_length info
          then first_icon M directory names
          else map_option (\<lambda>bs. ''data:image/png;base64,'' @ base64_encode M bs) (file_bytes M path))"

definition directory_icon :: "machine \<Rightarrow> string \<Rightarrow> string option" where
  "directory_icon M directory = first_icon M directory icon_names"

text \<open>\<open>s.replace(from, to)\<close> for a pattern that is not empty\<close>

function replace_all :: "string \<Rightarrow> string \<Rightarrow> string \<Rightarrow> string" where
  "replace_all p r s =
     (if p = [] \<or> s = [] then s
      else if starts_with p s then r @ replace_all p r (drop (length p) s)
      else hd s # replace_all p r (tl s))"
  by pat_completeness auto
termination by (relation "measure (\<lambda>(p, r, s). length s)") auto

declare replace_all.simps [simp del]

definition xbox_display_name :: "machine \<Rightarrow> string \<Rightarrow> string option" where
  "xbox_display_name M directory =
     Option.bind (read_text M (path_join directory ''MicrosoftGame.Config'')) (\<lambda>config.
     Option.bind (split_once (''DefaultDisplayName='' @ [CHR 0x22]) config) (\<lambda>(_, rest).
     Option.bind (split_once [CHR 0x22] rest) (\<lambda>(value, _).
     let v = trim value in
     if v = [] then None
     else Some (replace_all ''&apos;'' [CHR 0x27] (replace_all ''&quot;'' [CHR 0x22] (replace_all ''&amp;'' ''&'' v))))))"

definition app_from_game_directory :: "machine \<Rightarrow> string \<Rightarrow> string option \<Rightarrow> installed_app option" where
  "app_from_game_directory M directory display_name =
     Option.bind (map_option strip_verbatim_prefix (real_path M directory)) (\<lambda>directory.
     if \<not> path_is_dir M directory then None
     else
       let fallback_name = unwrap_or ''Game'' (path_file_name directory);
           name = unwrap_or fallback_name (nonempty (map_option trim display_name))
       in
       Option.bind (find_primary_executable M directory name) (\<lambda>executable.
       Option.bind (app_from_path M executable (Some name)) (\<lambda>app.
       Some (if app_icon app = None then app\<lparr>app_icon := directory_icon M directory\<rparr> else app))))"

section \<open>The list\<close>

text \<open>The \<open>BTreeMap\<close>, as its entries: \<open>entry(..).or_insert(..)\<close> keeps the first value of a key.\<close>

type_synonym app_map = "(string \<times> installed_app) list"

definition insert_app :: "installed_app option \<Rightarrow> app_map \<Rightarrow> app_map" where
  "insert_app app m = (case app of
      None \<Rightarrow> m
    | Some a \<Rightarrow> if ascii_lower (app_id a) \<in> fst ` set m then m else m @ [(ascii_lower (app_id a), a)])"

definition collect_app_paths :: "machine \<Rightarrow> app_map \<Rightarrow> app_map" where
  "collect_app_paths M m = fold (\<lambda>view m. case rv_app_paths view of
      None \<Rightarrow> m
    | Some keys \<Rightarrow> fold (\<lambda>key m. case key of
          None \<Rightarrow> m
        | Some value \<Rightarrow>
            let path = unquote value in
            if \<not> is_helper_executable path then insert_app (app_from_path M path None) m else m) keys m)
     (registry_views M) m"

definition uninstall_app :: "machine \<Rightarrow> uninstall_entry \<Rightarrow> string \<Rightarrow> installed_app option" where
  "uninstall_app M e display_name =
     (let display_icon = (case Option.bind (ue_display_icon e) (executable_from_display_icon M) of
            Some p \<Rightarrow> if is_helper_executable p then None else Some p | None \<Rightarrow> None);
          install_location = (case map_option unquote (ue_install_location e) of
            Some l \<Rightarrow> if path_is_dir M l then Some l else None | None \<Rightarrow> None)
      in case install_location of
           Some l \<Rightarrow>
             if is_game_install_directory l then app_from_game_directory M l (Some display_name)
             else Option.bind (or_option display_icon (find_primary_executable M l display_name))
               (\<lambda>p. app_from_path M p (Some display_name))
         | None \<Rightarrow> Option.bind display_icon (\<lambda>p. app_from_path M p (Some display_name)))"

definition collect_uninstall_entries :: "machine \<Rightarrow> app_map \<Rightarrow> app_map" where
  "collect_uninstall_entries M m = fold (\<lambda>view m. case rv_uninstall view of
      None \<Rightarrow> m
    | Some es \<Rightarrow> fold (\<lambda>e m. case ue_display_name e of
          None \<Rightarrow> m | Some name \<Rightarrow> insert_app (uninstall_app M e name) m) es m)
     (registry_views M) m"

definition xbox_game :: "machine \<Rightarrow> string \<Rightarrow> installed_app option" where
  "xbox_game M game_root =
     (let content = path_join game_root ''Content'';
          selector = (if path_is_dir M content then content else game_root);
          fallback = unwrap_or ''Xbox game'' (path_file_name game_root);
          name = unwrap_or fallback (xbox_display_name M selector)
      in app_from_game_directory M selector (Some name))"

definition collect_xbox_games :: "machine \<Rightarrow> app_map \<Rightarrow> app_map" where
  "collect_xbox_games M m = fold (\<lambda>letter m.
      if and (logical_drives M) (push_bit (ord_of letter - 65) 1) = 0 then m
      else case read_entries M ([letter] @ '':'' @ [backslash] @ ''XboxGames'') of
          None \<Rightarrow> m
        | Some es \<Rightarrow> fold (\<lambda>(game_root, _) m.
            if \<not> path_is_dir M game_root then m else insert_app (xbox_game M game_root) m) (take 512 es) m)
     ''ABCDEFGHIJKLMNOPQRSTUVWXYZ'' m"

definition list_key :: "machine \<Rightarrow> installed_app \<Rightarrow> string \<times> string" where
  "list_key M a = (lowercase M (app_name a), lowercase M (app_id a))"

definition windows_installed_apps :: "machine \<Rightarrow> installed_app list" where
  "windows_installed_apps M =
     sort_key (list_key M) (map snd (sort_key fst
       (collect_xbox_games M (collect_uninstall_entries M (collect_app_paths M [])))))"

text \<open>The command; a search that panics gives the empty list.\<close>

definition list_installed_apps :: "bool \<Rightarrow> machine \<Rightarrow> installed_app list" where
  "list_installed_apps panicked M = (if panicked then [] else windows_installed_apps M)"

section \<open>Autostart\<close>

text \<open>The value \<open>Varmlen\<close> of the current user's \<open>Run\<close> key; what the registry refuses is an error text.\<close>

record run_key =
  run_value :: "string option"
  create_fails :: "string option"
  delete_fails :: bool
  write_fails :: "string option"
  current_executable :: "string + string"

definition autostart_status :: "run_key \<Rightarrow> bool \<times> bool" where
  "autostart_status k = (case run_value k of
      Some c \<Rightarrow> (True, contains_str ''--minimized'' c) | None \<Rightarrow> (False, False))"

definition autostart_command :: "string \<Rightarrow> bool \<Rightarrow> string" where
  "autostart_command exe minimized =
     [CHR 0x22] @ exe @ [CHR 0x22] @ (if minimized then '' --minimized'' else [])"

definition set_autostart :: "bool \<Rightarrow> bool \<Rightarrow> (run_key, string, unit) prog" where
  "set_autostart enabled minimized =
     sbind (sgets (\<lambda>k. k)) (\<lambda>k.
     case create_fails k of
       Some e \<Rightarrow> sfail (''open Windows startup registry: '' @ e)
     | None \<Rightarrow>
         if \<not> enabled then smodify (\<lambda>k. if delete_fails k then k else k\<lparr>run_value := None\<rparr>)
         else sbind (slift (map_err (\<lambda>e. ''current exe: '' @ e) (current_executable k))) (\<lambda>exe.
           case write_fails k of
             Some e \<Rightarrow> sfail (''write Windows startup registry: '' @ e)
           | None \<Rightarrow> smodify (\<lambda>k. k\<lparr>run_value := Some (autostart_command exe minimized)\<rparr>)))"

section \<open>What is listed\<close>

text \<open>A listed application names an executable file, by its path without the verbatim prefix.\<close>

definition executable_app :: "machine \<Rightarrow> installed_app \<Rightarrow> bool" where
  "executable_app M a \<longleftrightarrow>
     (\<exists>p. is_executable M p \<and> app_id a = strip_verbatim_prefix p \<and> p \<in> ran (real_path M))"

lemma app_from_path_executable: "app_from_path M p d = Some a \<Longrightarrow> executable_app M a"
  by (auto simp: app_from_path_def executable_app_def Let_def bind_eq_Some_conv ran_def split: if_splits)

lemma app_from_game_directory_executable:
  "app_from_game_directory M d n = Some a \<Longrightarrow> executable_app M a"
  by (auto simp: app_from_game_directory_def Let_def bind_eq_Some_conv executable_app_def
      split: if_splits dest!: app_from_path_executable)

lemma uninstall_app_executable: "uninstall_app M e n = Some a \<Longrightarrow> executable_app M a"
  by (auto simp: uninstall_app_def Let_def bind_eq_Some_conv split: option.splits if_splits
      dest: app_from_path_executable app_from_game_directory_executable)

lemma xbox_game_executable: "xbox_game M d = Some a \<Longrightarrow> executable_app M a"
  by (auto simp: xbox_game_def Let_def dest: app_from_game_directory_executable)

text \<open>The map's invariant: each lower-case path once, as the key of its application.\<close>

definition app_map_ok :: "machine \<Rightarrow> app_map \<Rightarrow> bool" where
  "app_map_ok M m \<longleftrightarrow> distinct (map fst m)
     \<and> (\<forall>(k, a)\<in>set m. k = ascii_lower (app_id a) \<and> executable_app M a)"

lemma insert_app_ok: "app_map_ok M m \<Longrightarrow> (\<And>a. x = Some a \<Longrightarrow> executable_app M a) \<Longrightarrow> app_map_ok M (insert_app x m)"
  by (auto simp: app_map_ok_def insert_app_def split: option.split)

lemma fold_keeps: "P m \<Longrightarrow> (\<And>x m. P m \<Longrightarrow> P (f x m)) \<Longrightarrow> P (fold f xs m)"
  by (induction xs arbitrary: m) auto

lemma collect_app_paths_ok: "app_map_ok M m \<Longrightarrow> app_map_ok M (collect_app_paths M m)"
  unfolding collect_app_paths_def
  by (intro fold_keeps [where P = "app_map_ok M"])
    (auto split: option.split intro!: fold_keeps [where P = "app_map_ok M"] insert_app_ok app_from_path_executable
      simp: Let_def)

lemma collect_uninstall_entries_ok: "app_map_ok M m \<Longrightarrow> app_map_ok M (collect_uninstall_entries M m)"
  unfolding collect_uninstall_entries_def
  by (intro fold_keeps [where P = "app_map_ok M"])
    (auto split: option.split intro!: fold_keeps [where P = "app_map_ok M"] insert_app_ok uninstall_app_executable)

lemma collect_xbox_games_ok: "app_map_ok M m \<Longrightarrow> app_map_ok M (collect_xbox_games M m)"
  unfolding collect_xbox_games_def
  by (intro fold_keeps [where P = "app_map_ok M"])
    (auto split: option.split intro!: fold_keeps [where P = "app_map_ok M"] insert_app_ok xbox_game_executable)

lemma app_map_ok_empty: "app_map_ok M []"
  by (simp add: app_map_ok_def)

text \<open>The search of a directory.\<close>

definition collected_ok :: "machine \<Rightarrow> string list \<Rightarrow> bool" where
  "collected_ok M out \<longleftrightarrow> length out \<le> 512 \<and> (\<forall>p\<in>set out. is_executable M p)"

lemma collect_executables_ok: "collected_ok M out \<Longrightarrow> collected_ok M (collect_executables M n d out)"
proof (induction n arbitrary: d out)
  case (Suc n)
  have step: "collected_ok M ((\<lambda>(path, kind) out.
            if 512 \<le> length out then out
            else case kind of
                None \<Rightarrow> out
              | Some k \<Rightarrow>
                  if ft_file k \<and> is_executable M path then out @ [path]
                  else if ft_dir k \<and> \<not> ft_symlink k then collect_executables M n path out
                  else out) e out)" if "collected_ok M out" for e out
    using that Suc.IH [OF that] by (auto simp: collected_ok_def split: prod.split option.split)
  show ?case
  proof (cases "512 \<le> length out \<or> read_entries M d = None")
    case False
    then obtain es where "read_entries M d = Some es" "\<not> 512 \<le> length out" by auto
    then show ?thesis
      unfolding collect_executables.simps
      by (simp only: if_False option.case) (rule fold_keeps [where P = "collected_ok M", OF Suc.prems step])
  qed (use Suc.prems in auto)
qed simp

lemma hd_sort_key:
  "sort_key f xs = p # ps \<Longrightarrow> p \<in> set xs \<and> (\<forall>q\<in>set xs. f p \<le> f q)"
proof -
  assume s: "sort_key f xs = p # ps"
  have "sorted (map f (sort_key f xs))" "set (sort_key f xs) = set xs" by simp_all
  then show ?thesis unfolding s by auto
qed

section \<open>Properties\<close>

lemma contains_str_middle: "contains_str p (a @ p @ b)"
proof (induction a)
  case Nil
  have "starts_with p (p @ b)" by simp
  then show ?case by (cases "p @ b") (auto simp: starts_with_def)
qed simp

text \<open>
  C38: The list for split tunnelling is sorted by name and then path, holds each path once
  whatever its case, and each of its entries is an existing executable's resolved path.\<close>

theorem listed_applications:
  "sorted_wrt (\<lambda>a b. list_key M a \<le> list_key M b) (windows_installed_apps M)
   \<and> distinct (map (\<lambda>a. ascii_lower (app_id a)) (windows_installed_apps M))
   \<and> (\<forall>a\<in>set (windows_installed_apps M). executable_app M a)"
proof -
  define m where "m = collect_xbox_games M (collect_uninstall_entries M (collect_app_paths M []))"
  have ok: "app_map_ok M m"
    unfolding m_def
    by (intro collect_xbox_games_ok collect_uninstall_entries_ok collect_app_paths_ok app_map_ok_empty)
  have list: "windows_installed_apps M = sort_key (list_key M) (map snd (sort_key fst m))"
    by (simp add: windows_installed_apps_def m_def)
  have "map (\<lambda>a. ascii_lower (app_id a)) (map snd m) = map fst m"
    using ok by (auto simp: app_map_ok_def)
  then have "distinct (map (\<lambda>a. ascii_lower (app_id a)) (map snd m))"
    using ok by (simp only: app_map_ok_def)
  then have "distinct (map snd m)" "inj_on (\<lambda>a. ascii_lower (app_id a)) (set (map snd m))"
    using distinct_map [of "\<lambda>a. ascii_lower (app_id a)" "map snd m"] by blast+
  then have "distinct (map (\<lambda>a. ascii_lower (app_id a)) (windows_installed_apps M))"
    by (simp add: list distinct_map)
  moreover have "sorted (map (list_key M) (windows_installed_apps M))" by (simp add: list)
  moreover have "\<forall>a\<in>set (windows_installed_apps M). executable_app M a"
    using ok by (auto simp: list app_map_ok_def)
  ultimately show ?thesis by (simp add: sorted_map)
qed

text \<open>
  The search of a directory looks at no more than 512 executables, and the one it picks is
  an executable, no installer or helper, and ranks best of the candidates.\<close>

theorem primary_executable_best:
  assumes "find_primary_executable M directory name = Some p"
  shows "is_executable M p \<and> \<not> is_helper_executable p
    \<and> length (collect_executables M 4 directory []) \<le> 512
    \<and> p \<in> set (main_candidates M directory)
    \<and> (\<forall>q\<in>set (main_candidates M directory). candidate_key name p \<le> candidate_key name q)"
proof -
  have "collected_ok M (collect_executables M 4 directory [])"
    by (rule collect_executables_ok) (simp add: collected_ok_def)
  moreover from assms obtain ps where "sort_key (candidate_key name) (main_candidates M directory) = p # ps"
    by (auto simp: find_primary_executable_def split: if_splits list.splits)
  note hd_sort_key [OF this]
  ultimately show ?thesis by (auto simp: collected_ok_def main_candidates_def)
qed

text \<open>C0: The autostart entry that was written reads back as what was asked for, unless the path of
  the executable itself has the flag's text; disabling reads back as disabled when the value
  could be deleted.\<close>

theorem autostart_round_trip:
  assumes "set_autostart enabled minimized k = (Ok (), k')"
    and "\<not> delete_fails k"
    and "\<And>exe. current_executable k = Ok exe \<Longrightarrow> \<not> contains_str ''--minimized'' (autostart_command exe False)"
  shows "autostart_status k' = (enabled, enabled \<and> minimized)"
proof -
  have flag: "contains_str ''--minimized'' (autostart_command exe True)" for exe
    using contains_str_middle [of "''--minimized''" "[CHR 0x22] @ exe @ [CHR 0x22] @ '' ''" "[]"]
    by (simp add: autostart_command_def)
  show ?thesis
    using assms flag
    by (cases minimized) (auto simp: set_autostart_def autostart_status_def prog_defs split: option.splits sum.splits if_splits)
qed

text \<open>A directory with a game and its installer.\<close>

definition game_directory :: machine where
  "game_directory = \<lparr>real_path = Some, path_is_file = (\<lambda>p. p \<noteq> ''g''), path_is_dir = (\<lambda>p. p = ''g''),
     read_entries = (\<lambda>d. if d = ''g'' then Some (map (\<lambda>p. (p, Some \<lparr>ft_file = True, ft_dir = False, ft_symlink = False\<rparr>))
       [''g/setup.exe'', ''g/tool.exe'', ''g/game.exe'']) else None),
     read_text = (\<lambda>_. None), file_info_of = (\<lambda>_. None), file_bytes = (\<lambda>_. None), registry_views = [],
     logical_drives = 0, versions = no_versions, icon_base64 = (\<lambda>_. None),
     base64_encode = (\<lambda>_. []), lowercase = ascii_lower\<rparr>"

theorem primary_executable_best_witness:
  "is_executable game_directory ''g/game.exe'' \<and> \<not> is_helper_executable ''g/game.exe''
    \<and> length (collect_executables game_directory 4 ''g'' []) \<le> 512
    \<and> ''g/game.exe'' \<in> set (main_candidates game_directory ''g'')
    \<and> list_all (\<lambda>q. candidate_key ''Game'' ''g/game.exe'' \<le> candidate_key ''Game'' q)
        (main_candidates game_directory ''g'')"
proof (rule primary_executable_best [unfolded Ball_set])
  have "main_candidates game_directory ''g'' = [''g/tool.exe'', ''g/game.exe'']" by code_simp
  moreover have "candidate_key ''Game'' ''g/tool.exe'' = (3, 2, 0, ''tool'')"
    "candidate_key ''Game'' ''g/game.exe'' = (0, 2, 0, ''game'')"
    by code_simp+
  ultimately show "find_primary_executable game_directory ''g'' ''Game'' = Some ''g/game.exe''"
    by (simp add: find_primary_executable_def game_directory_def)
qed

theorem autostart_round_trip_witness:
  "autostart_status \<lparr>run_value = Some (autostart_command ''C:/v.exe'' True), create_fails = None,
     delete_fails = False, write_fails = None, current_executable = Ok ''C:/v.exe''\<rparr> = (True, True \<and> True)"
proof (rule autostart_round_trip)
  let ?k = "\<lparr>run_value = None, create_fails = None, delete_fails = False, write_fails = None,
    current_executable = Ok ''C:/v.exe''\<rparr>"
  show "set_autostart True True ?k = (Ok (), \<lparr>run_value = Some (autostart_command ''C:/v.exe'' True),
    create_fails = None, delete_fails = False, write_fails = None, current_executable = Ok ''C:/v.exe''\<rparr>)"
    by (simp add: set_autostart_def prog_defs)
  have "\<not> contains_str ''--minimized'' (autostart_command ''C:/v.exe'' False)" by code_simp
  then show "\<And>exe. current_executable ?k = Ok exe \<Longrightarrow> \<not> contains_str ''--minimized'' (autostart_command exe False)"
    by simp
qed simp

text \<open>A machine whose registry names one program twice, in different case, and another one.\<close>

definition registered_machine :: machine where
  "registered_machine = game_directory\<lparr>registry_views := [\<lparr>rv_app_paths =
     Some [Some ''C:/b.exe'', None, Some ''C:/a.exe'', Some ''c:/A.exe''], rv_uninstall = None\<rparr>]\<rparr>"

lemma registered_list: "map app_id (windows_installed_apps registered_machine) = [''C:/a.exe'', ''C:/b.exe'']"
  by code_simp

theorem listed_applications_witness:
  "map app_id (windows_installed_apps registered_machine) = [''C:/a.exe'', ''C:/b.exe'']
   \<and> sorted_wrt (\<lambda>a b. list_key registered_machine a \<le> list_key registered_machine b)
       (windows_installed_apps registered_machine)
   \<and> distinct (map (\<lambda>a. ascii_lower (app_id a)) (windows_installed_apps registered_machine))
   \<and> list_all (executable_app registered_machine) (windows_installed_apps registered_machine)"
  by (rule conjI [OF registered_list listed_applications [unfolded Ball_set]])

end
