(* ===== verification/Address_Guard.thy ===== *)
theory Address_Guard
  imports Net_Text
begin

text \<open>
  The address check of \<open>src-tauri/src/lib.rs\<close>, which keeps subscription downloads away from
  private networks, with the parser of \<open>std::net::IpAddr\<close> that it uses, and the equivalence
  of its octet tests with a list of networks.
\<close>

section \<open>Reading an address\<close>

text \<open>\<open>Parser::read_number\<close>: digits of a radix, at most so many, below a bound.\<close>

definition hex_value :: "char \<Rightarrow> nat" where
  "hex_value c = (let n = ord_of (lower_char c) in if n < 58 then n - 48 else n - 87)"

definition read_number :: "(char \<Rightarrow> bool) \<Rightarrow> nat \<Rightarrow> nat \<Rightarrow> bool \<Rightarrow> nat \<Rightarrow> string \<Rightarrow> (nat \<times> string) option" where
  "read_number is_d radix max_digits allow_zero_prefix bound s =
     (let ds = takeWhile is_d s; n = foldl (\<lambda>n c. radix * n + hex_value c) 0 ds
      in if ds = [] \<or> max_digits < length ds \<or> bound < n
           \<or> (\<not> allow_zero_prefix \<and> hd ds = CHR ''0'' \<and> 1 < length ds) then None
         else Some (n, dropWhile is_d s))"

definition read_separator ::
  "char \<Rightarrow> nat \<Rightarrow> (string \<Rightarrow> ('a \<times> string) option) \<Rightarrow> string \<Rightarrow> ('a \<times> string) option" where
  "read_separator sep index f s =
     (if index = 0 then f s else case s of c # r \<Rightarrow> if c = sep then f r else None | [] \<Rightarrow> None)"

definition read_octet :: "string \<Rightarrow> (nat \<times> string) option" where
  "read_octet = read_number is_digit 10 3 False 255"

definition read_ipv4 :: "string \<Rightarrow> (32 word \<times> string) option" where
  "read_ipv4 s =
     Option.bind (read_octet s) (\<lambda>(a, s).
     Option.bind (read_separator CHR ''.'' 1 read_octet s) (\<lambda>(b, s).
     Option.bind (read_separator CHR ''.'' 2 read_octet s) (\<lambda>(c, s).
     Option.bind (read_separator CHR ''.'' 3 read_octet s) (\<lambda>(d, s).
     Some (of_nat (((a * 256 + b) * 256 + c) * 256 + d), s)))))"

text \<open>
  \<open>read_groups\<close>: the groups, whether they end in an IPv4 address, and the rest; \<open>limit\<close>
  groups are left, and the next one has the index \<open>i\<close>.
\<close>

fun read_groups :: "nat \<Rightarrow> nat \<Rightarrow> string \<Rightarrow> nat list \<times> bool \<times> string" where
  "read_groups 0 i s = ([], False, s)"
| "read_groups (Suc n) i s =
     (case (if n = 0 then None else read_separator CHR '':'' i read_ipv4 s) of
        Some (a, r) \<Rightarrow> ([unat a div 65536, unat a mod 65536], True, r)
      | None \<Rightarrow>
          (case read_separator CHR '':'' i (read_number is_hex 16 4 True 65535) s of
             Some (g, r) \<Rightarrow> (case read_groups n (i + 1) r of (gs, v4, r) \<Rightarrow> (g # gs, v4, r))
           | None \<Rightarrow> ([], False, s)))"

definition of_groups :: "nat list \<Rightarrow> 128 word" where
  "of_groups gs = of_nat (foldl (\<lambda>n g. 65536 * n + g) 0 gs)"

definition read_ipv6 :: "string \<Rightarrow> (128 word \<times> string) option" where
  "read_ipv6 s =
     (case read_groups 8 0 s of (head, head_ipv4, r) \<Rightarrow>
        if length head = 8 then Some (of_groups head, r)
        else if head_ipv4 then None
        else Option.bind (strip_prefix ''::'' r) (\<lambda>r.
          case read_groups (7 - length head) 0 r of (tail, _, r) \<Rightarrow>
            Some (of_groups (head @ replicate (8 - length head - length tail) 0 @ tail), r)))"

text \<open>\<open>IpAddr::from_str\<close>: the whole text is read.\<close>

definition parse_ip :: "string \<Rightarrow> ip_addr option" where
  "parse_ip s =
     (case (case read_ipv4 s of Some (a, r) \<Rightarrow> Some (V4 a, r)
            | None \<Rightarrow> map_option (\<lambda>(a, r). (V6 a, r)) (read_ipv6 s)) of
        Some (a, []) \<Rightarrow> Some a | _ \<Rightarrow> None)"

section \<open>Blocked addresses\<close>

definition blocked_ipv4 :: "32 word \<Rightarrow> bool" where
  "blocked_ipv4 v4 \<longleftrightarrow>
     octet4 0 v4 = 127
     \<or> ipv4_is_private v4
     \<or> ipv4_is_link_local v4
     \<or> v4 = 0
     \<or> v4 = 0xFFFFFFFF
     \<or> 224 \<le> octet4 0 v4 \<and> octet4 0 v4 \<le> 239
     \<or> octet4 0 v4 = 0
     \<or> octet4 0 v4 = 100 \<and> 64 \<le> octet4 1 v4 \<and> octet4 1 v4 \<le> 127
     \<or> octet4 0 v4 = 192 \<and> octet4 1 v4 = 0 \<and> octet4 2 v4 = 0
     \<or> octet4 0 v4 = 192 \<and> octet4 1 v4 = 0 \<and> octet4 2 v4 = 2
     \<or> octet4 0 v4 = 198 \<and> (octet4 1 v4 = 18 \<or> octet4 1 v4 = 19)
     \<or> octet4 0 v4 = 198 \<and> octet4 1 v4 = 51 \<and> octet4 2 v4 = 100
     \<or> octet4 0 v4 = 203 \<and> octet4 1 v4 = 0 \<and> octet4 2 v4 = 113
     \<or> 240 \<le> octet4 0 v4"

definition to_ipv4_mapped :: "128 word \<Rightarrow> 32 word option" where
  "to_ipv4_mapped v6 =
     (if take 6 (segments v6) = [0, 0, 0, 0, 0, 0xFFFF] then Some (ucast v6) else None)"

fun is_blocked_ip :: "ip_addr \<Rightarrow> bool" where
  "is_blocked_ip (V4 v4) = blocked_ipv4 v4"
| "is_blocked_ip (V6 v6) =
     (case to_ipv4_mapped v6 of
        Some v4 \<Rightarrow> blocked_ipv4 v4
      | None \<Rightarrow>
          v6 = 1
          \<or> v6 = 0
          \<or> octet6 0 v6 = 0xFF
          \<or> and (octet6 0 v6) 0xFE = 0xFC
          \<or> octet6 0 v6 = 0xFE \<and> and (octet6 1 v6) 0xC0 = 0x80
          \<or> octet6 0 v6 = 0x20 \<and> octet6 1 v6 = 0x01 \<and> octet6 2 v6 = 0x0D \<and> octet6 3 v6 = 0xB8)"

definition is_blocked_host :: "string \<Rightarrow> bool" where
  "is_blocked_host host \<longleftrightarrow>
     (let h = dropWhile (\<lambda>c. c = CHR ''['') (trim host);
          h = rev (dropWhile (\<lambda>c. c = CHR '']'') (rev h));
          h = ascii_lower h
      in h = ''localhost'' \<or> ends_with ''.localhost'' h
         \<or> (case parse_ip h of Some address \<Rightarrow> is_blocked_ip address | None \<Rightarrow> False))"

section \<open>The blocked networks\<close>

definition in_net4 :: "32 word \<Rightarrow> nat \<Rightarrow> 32 word \<Rightarrow> bool" where
  "in_net4 base len a \<longleftrightarrow> drop_bit (32 - len) a = drop_bit (32 - len) base"

definition in_net6 :: "128 word \<Rightarrow> nat \<Rightarrow> 128 word \<Rightarrow> bool" where
  "in_net6 base len a \<longleftrightarrow> drop_bit (128 - len) a = drop_bit (128 - len) base"

text \<open>
  0.0.0.0/8, 10.0.0.0/8, 100.64.0.0/10, 127.0.0.0/8, 169.254.0.0/16, 172.16.0.0/12,
  192.0.0.0/24, 192.0.2.0/24, 192.168.0.0/16, 198.18.0.0/15, 198.51.100.0/24,
  203.0.113.0/24, 224.0.0.0/4, 240.0.0.0/4
\<close>

definition blocked_networks4 :: "(32 word \<times> nat) list" where
  "blocked_networks4 =
     [(0x00000000, 8), (0x0A000000, 8), (0x64400000, 10), (0x7F000000, 8), (0xA9FE0000, 16),
      (0xAC100000, 12), (0xC0000000, 24), (0xC0000200, 24), (0xC0A80000, 16), (0xC6120000, 15),
      (0xC6336400, 24), (0xCB007100, 24), (0xE0000000, 4), (0xF0000000, 4)]"

text \<open>::/128, ::1/128, 2001:db8::/32, fc00::/7, fe80::/10, ff00::/8\<close>

definition blocked_networks6 :: "(128 word \<times> nat) list" where
  "blocked_networks6 =
     [(0, 128), (1, 128), (0x20010DB8000000000000000000000000, 32),
      (0xFC000000000000000000000000000000, 7), (0xFE800000000000000000000000000000, 10),
      (0xFF000000000000000000000000000000, 8)]"

text \<open>An address by its first two octets, the upper half, and its third octet.\<close>

lemma div_range:
  assumes "0 < k"
  shows "y div k = q \<longleftrightarrow> k * q \<le> y \<and> y \<le> k * q + (k - (1 :: nat))"
proof -
  have "y div k = q \<longleftrightarrow> q * k \<le> y \<and> y < (q + 1) * k"
    using assms using dividend_less_times_div [of k y] by (auto intro: div_nat_eqI simp: algebra_simps)
  with assms show ?thesis by (auto simp: algebra_simps)
qed

lemma in_net4_short: "len \<le> 16 \<Longrightarrow>
  in_net4 base len a \<longleftrightarrow> upper_half a div 2 ^ (16 - len) = unat base div 2 ^ (32 - len)"
proof -
  assume "len \<le> 16"
  then have "32 - len = 16 + (16 - len)" by simp
  then have "(2 :: nat) ^ (32 - len) = 2 ^ 16 * 2 ^ (16 - len)" by (metis power_add)
  then have "unat a div 2 ^ (32 - len) = upper_half a div 2 ^ (16 - len)"
    by (simp add: upper_half_def div_mult2_eq)
  then show ?thesis by (simp add: in_net4_def word_unat_eq_iff unat_drop_bit)
qed

lemma in_net4_24: "in_net4 base 24 a \<longleftrightarrow>
  upper_half a = unat base div 2 ^ 16 \<and> octet4 2 a = octet4 2 base"
proof -
  have split: "n div 256 = 256 * (n div 65536) + n div 256 mod 256" for n :: nat
    using div_mult2_eq [of n 256 256] by simp
  have "m div 256 = n div 256 \<longleftrightarrow> m div 65536 = n div 65536 \<and> m div 256 mod 256 = n div 256 mod 256"
    for m n :: nat
  proof
    assume "m div 256 = n div 256"
    then show "m div 65536 = n div 65536 \<and> m div 256 mod 256 = n div 256 mod 256"
      using div_mult2_eq [of m 256 256] div_mult2_eq [of n 256 256] by simp
  next
    assume "m div 65536 = n div 65536 \<and> m div 256 mod 256 = n div 256 mod 256"
    then show "m div 256 = n div 256" using split [of m] split [of n] by simp
  qed
  then show ?thesis
    by (simp add: in_net4_def word_unat_eq_iff unat_drop_bit unat_octet4 upper_half_def)
qed

text \<open>Which networks the octet tests describe, one by one, on the upper half of the address.\<close>

lemmas net_ranges = in_net4_short in_net4_24 div_range octet4_upper_half byte_range byte_range_all

lemma octet_tests:
  "octet4 0 a = x \<longleftrightarrow> 256 * unat x \<le> upper_half a \<and> upper_half a \<le> 256 * unat x + 255"
  "x \<le> octet4 0 a \<longleftrightarrow> 256 * unat x \<le> upper_half a"
  "octet4 0 a \<le> y \<longleftrightarrow> upper_half a \<le> 256 * unat y + 255"
proof -
  have "unat a < 2 ^ 32" by (rule order.strict_trans2 [OF unsigned_less]) simp
  then have "unat (octet4 0 a) = unat a div 2 ^ 24" using unat_octet4 [of 0 a] by simp
  moreover have "unat a div 2 ^ 24 = upper_half a div 256"
    by (simp add: upper_half_def div_mult2_eq [symmetric])
  ultimately have o: "unat (octet4 0 a) = upper_half a div 256" by simp
  show "octet4 0 a = x \<longleftrightarrow> 256 * unat x \<le> upper_half a \<and> upper_half a \<le> 256 * unat x + 255"
    using div_range [of 256 "upper_half a" "unat x"] by (simp add: word_unat_eq_iff o)
  show "x \<le> octet4 0 a \<longleftrightarrow> 256 * unat x \<le> upper_half a"
    by (simp add: word_le_nat_alt o less_eq_div_iff_mult_less_eq mult.commute)
  show "octet4 0 a \<le> y \<longleftrightarrow> upper_half a \<le> 256 * unat y + 255"
    using div_less_iff_less_mult [of 256 "upper_half a" "unat y + 1"]
    by (auto simp: word_le_nat_alt o less_Suc_eq_le)
qed

lemma second_octet_tests:
  "octet4 0 a = x \<and> octet4 1 a = y \<longleftrightarrow> upper_half a = 256 * unat x + unat y"
  "octet4 0 a = x \<and> y \<le> octet4 1 a \<and> octet4 1 a \<le> z
     \<longleftrightarrow> 256 * unat x + unat y \<le> upper_half a \<and> upper_half a \<le> 256 * unat x + unat z"
proof -
  have b: "unat w < 256" for w :: u8 by (rule order.strict_trans2 [OF unsigned_less]) simp
  show "octet4 0 a = x \<and> octet4 1 a = y \<longleftrightarrow> upper_half a = 256 * unat x + unat y"
    unfolding octet4_upper_half by (rule byte_range_one [OF b])
  show "octet4 0 a = x \<and> y \<le> octet4 1 a \<and> octet4 1 a \<le> z
     \<longleftrightarrow> 256 * unat x + unat y \<le> upper_half a \<and> upper_half a \<le> 256 * unat x + unat z"
    unfolding octet4_upper_half by (rule byte_range [OF b])
qed

lemma first_octet_nets:
  "octet4 0 a = 0 \<longleftrightarrow> in_net4 0x00000000 8 a"
  "octet4 0 a = 10 \<longleftrightarrow> in_net4 0x0A000000 8 a"
  "octet4 0 a = 127 \<longleftrightarrow> in_net4 0x7F000000 8 a"
  "224 \<le> octet4 0 a \<and> octet4 0 a \<le> 239 \<longleftrightarrow> in_net4 0xE0000000 4 a"
  by (simp_all add: octet_tests in_net4_short div_range)

lemma upper_half_bound: "upper_half a \<le> 65535"
proof -
  have "unat a < 2 ^ 32" by (rule order.strict_trans2 [OF unsigned_less]) simp
  then show ?thesis by (simp add: upper_half_def)
qed

lemma top_net: "240 \<le> octet4 0 a \<longleftrightarrow> in_net4 0xF0000000 4 a"
  using upper_half_bound [of a] by (simp add: octet_tests in_net4_short div_range)

lemma second_octet_nets:
  "octet4 0 a = 100 \<and> 64 \<le> octet4 1 a \<and> octet4 1 a \<le> 127 \<longleftrightarrow> in_net4 0x64400000 10 a"
  "octet4 0 a = 169 \<and> octet4 1 a = 254 \<longleftrightarrow> in_net4 0xA9FE0000 16 a"
  "octet4 0 a = 172 \<and> 16 \<le> octet4 1 a \<and> octet4 1 a \<le> 31 \<longleftrightarrow> in_net4 0xAC100000 12 a"
  "octet4 0 a = 192 \<and> octet4 1 a = 168 \<longleftrightarrow> in_net4 0xC0A80000 16 a"
  unfolding second_octet_tests by (simp_all add: in_net4_short div_range)

lemma benchmark_net:
  "octet4 0 a = 198 \<and> (octet4 1 a = 18 \<or> octet4 1 a = 19) \<longleftrightarrow> in_net4 0xC6120000 15 a"
  unfolding conj_disj_distribL second_octet_tests by (simp add: in_net4_short div_range) linarith

lemma third_octets:
  "octet4 2 0xC0000000 = 0" "octet4 2 0xC0000200 = 2" "octet4 2 0xC6336400 = 100" "octet4 2 0xCB007100 = 113"
  by code_simp+

lemma third_octet_nets:
  "octet4 0 a = 192 \<and> octet4 1 a = 0 \<and> octet4 2 a = 0 \<longleftrightarrow> in_net4 0xC0000000 24 a"
  "octet4 0 a = 192 \<and> octet4 1 a = 0 \<and> octet4 2 a = 2 \<longleftrightarrow> in_net4 0xC0000200 24 a"
  "octet4 0 a = 198 \<and> octet4 1 a = 51 \<and> octet4 2 a = 100 \<longleftrightarrow> in_net4 0xC6336400 24 a"
  "octet4 0 a = 203 \<and> octet4 1 a = 0 \<and> octet4 2 a = 113 \<longleftrightarrow> in_net4 0xCB007100 24 a"
  unfolding conj_assoc [symmetric] second_octet_tests(1) in_net4_24 third_octets
  by simp_all

lemma end_nets: "a = 0 \<Longrightarrow> in_net4 0x00000000 8 a" "a = 0xFFFFFFFF \<Longrightarrow> in_net4 0xF0000000 4 a"
  by (simp_all add: in_net4_def)

lemmas octet_nets = first_octet_nets top_net second_octet_nets benchmark_net third_octet_nets

lemma blocked_ipv4_networks:
  "blocked_ipv4 a \<longleftrightarrow> list_ex (\<lambda>(base, len). in_net4 base len a) blocked_networks4"
  unfolding blocked_ipv4_def ipv4_is_private_def ipv4_is_link_local_def octet_nets blocked_networks4_def
  using end_nets [of a] by auto


lemma in_net6_unat: "in_net6 base len a \<longleftrightarrow> unat a div 2 ^ (128 - len) = unat base div 2 ^ (128 - len)"
  by (simp add: in_net6_def word_unat_eq_iff unat_drop_bit)

lemma unat_octet6: "unat (octet6 i a) = unat a div 2 ^ (120 - 8 * i) mod 256"
  by (simp add: octet6_def unat_low_byte unat_drop_bit)

lemma and_high_bits: "k \<le> 8 \<Longrightarrow> and b (push_bit k (mask (8 - k))) = push_bit k (drop_bit k b)" for b :: u8
  by (rule bit_word_eqI) (auto simp: bit_simps)

lemma unat_high_bits: "unat (push_bit k (drop_bit k b)) = 2 ^ k * (unat b div 2 ^ k)" for b :: u8
proof -
  have "2 ^ k * (unat b div 2 ^ k) \<le> unat b" by simp
  also have "unat b < 2 ^ 8" by (rule order.strict_trans2 [OF unsigned_less]) simp
  finally have less: "2 ^ k * (unat b div 2 ^ k) < 2 ^ 8" .
  have "unat (push_bit k (drop_bit k b)) = take_bit 8 (push_bit k (unat (drop_bit k b)))"
    by (simp only: unsigned_push_bit_eq len_num1 len_bit0) simp
  also have "push_bit k (unat (drop_bit k b)) = 2 ^ k * (unat b div 2 ^ k)"
    by (simp only: push_bit_eq_mult unat_drop_bit mult.commute)
  finally show ?thesis using less by (simp only: take_bit_nat_eq_self)
qed

lemma masked_octets:
  "and b 0xFE = 0xFC \<longleftrightarrow> unat b div 2 = 126" "and b 0xC0 = 0x80 \<longleftrightarrow> unat b div 64 = 2" for b :: u8
proof -
  have "(0xFE :: u8) = push_bit 1 (mask (8 - 1))" "(0xC0 :: u8) = push_bit 6 (mask (8 - 6))"
    by code_simp+
  then have "and b 0xFE = push_bit 1 (drop_bit 1 b)" "and b 0xC0 = push_bit 6 (drop_bit 6 b)"
    by (simp_all only: and_high_bits)
  then show "and b 0xFE = 0xFC \<longleftrightarrow> unat b div 2 = 126" "and b 0xC0 = 0x80 \<longleftrightarrow> unat b div 64 = 2"
    by (simp_all only: word_unat_eq_iff unat_high_bits) simp_all
qed

text \<open>The leading 32 bits of an address, with its octets.\<close>

definition leading :: "128 word \<Rightarrow> nat" where
  "leading a = unat a div 2 ^ 96"

lemma leading_octets:
  "leading a < 2 ^ 32"
  "unat (octet6 0 a) = leading a div 2 ^ 24" "unat (octet6 1 a) = leading a div 2 ^ 16 mod 256"
  "unat (octet6 2 a) = leading a div 2 ^ 8 mod 256" "unat (octet6 3 a) = leading a mod 256"
proof -
  have b: "unat a < 2 ^ 128" by (rule order.strict_trans2 [OF unsigned_less]) simp
  then show l: "leading a < 2 ^ 32" by (simp add: leading_def)
  have "(2 :: nat) ^ 120 = 2 ^ 96 * 2 ^ 24" "(2 :: nat) ^ 112 = 2 ^ 96 * 2 ^ 16" "(2 :: nat) ^ 104 = 2 ^ 96 * 2 ^ 8"
    by simp_all
  then have d: "unat a div 2 ^ 120 = leading a div 2 ^ 24" "unat a div 2 ^ 112 = leading a div 2 ^ 16"
    "unat a div 2 ^ 104 = leading a div 2 ^ 8"
    by (simp_all only: leading_def div_mult2_eq)
  have "leading a div 2 ^ 24 < 256" using l by simp
  then show "unat (octet6 0 a) = leading a div 2 ^ 24"
    using unat_octet6 [of 0 a] d by (simp only: mult_0_right diff_zero mod_less)
  show "unat (octet6 1 a) = leading a div 2 ^ 16 mod 256" "unat (octet6 2 a) = leading a div 2 ^ 8 mod 256"
    "unat (octet6 3 a) = leading a mod 256"
    using unat_octet6 [of 1 a] unat_octet6 [of 2 a] unat_octet6 [of 3 a] d
    by (simp_all add: leading_def)
qed

lemma in_net6_leading: "len \<le> 32 \<Longrightarrow>
  in_net6 base len a \<longleftrightarrow> leading a div 2 ^ (32 - len) = leading base div 2 ^ (32 - len)"
proof -
  assume "len \<le> 32"
  then have "128 - len = 96 + (32 - len)" by simp
  then have "(2 :: nat) ^ (128 - len) = 2 ^ 96 * 2 ^ (32 - len)" by (metis power_add)
  then show ?thesis by (simp only: in_net6_unat leading_def div_mult2_eq)
qed

lemma leading_tests:
  "octet6 0 a = 0xFF \<longleftrightarrow> in_net6 0xFF000000000000000000000000000000 8 a"
  "and (octet6 0 a) 0xFE = 0xFC \<longleftrightarrow> in_net6 0xFC000000000000000000000000000000 7 a"
  "octet6 0 a = 0xFE \<and> and (octet6 1 a) 0xC0 = 0x80 \<longleftrightarrow> in_net6 0xFE800000000000000000000000000000 10 a"
  "octet6 0 a = 0x20 \<and> octet6 1 a = 0x01 \<and> octet6 2 a = 0x0D \<and> octet6 3 a = 0xB8
     \<longleftrightarrow> in_net6 0x20010DB8000000000000000000000000 32 a"
proof -
  define l where "l = leading a"
  have base: "leading 0xFF000000000000000000000000000000 = 0xFF000000"
    "leading 0xFC000000000000000000000000000000 = 0xFC000000"
    "leading 0xFE800000000000000000000000000000 = 0xFE800000"
    "leading 0x20010DB8000000000000000000000000 = 0x20010DB8"
    by (simp_all add: leading_def)
  note simps = leading_octets(2-5) leading_octets(3) [unfolded One_nat_def] in_net6_leading base l_def [symmetric] word_unat_eq_iff
  show "octet6 0 a = 0xFF \<longleftrightarrow> in_net6 0xFF000000000000000000000000000000 8 a"
    by (simp add: simps)
  have "l div 2 ^ 24 div 2 = l div 2 ^ 25" by (simp flip: div_mult2_eq)
  then show "and (octet6 0 a) 0xFE = 0xFC \<longleftrightarrow> in_net6 0xFC000000000000000000000000000000 7 a"
    unfolding masked_octets by (simp add: simps)
  show "octet6 0 a = 0xFE \<and> and (octet6 1 a) 0xC0 = 0x80 \<longleftrightarrow> in_net6 0xFE800000000000000000000000000000 10 a"
  proof -
    define h where "h = l div 2 ^ 16"
    have h: "l div 2 ^ 24 = h div 256" "l div 2 ^ 22 = h div 64" by (simp_all add: h_def flip: div_mult2_eq)
    have "(h div 256 = 254 \<and> h mod 256 div 64 = 2) = (h div 64 = 1018)"
      using byte_range [of 191 h 254 128] div_range [of 64 "h mod 256" 2] div_range [of 64 h 1018] by simp
    then show ?thesis unfolding masked_octets by (simp add: simps h [simplified] h_def [simplified, symmetric])
  qed
  show "octet6 0 a = 0x20 \<and> octet6 1 a = 0x01 \<and> octet6 2 a = 0x0D \<and> octet6 3 a = 0xB8
     \<longleftrightarrow> in_net6 0x20010DB8000000000000000000000000 32 a"
  proof -
    define h where "h = l div 2 ^ 8"
    define g where "g = h div 256"
    have h: "l div 2 ^ 24 = g div 256" "l div 2 ^ 16 = g"
      by (simp_all add: h_def g_def flip: div_mult2_eq)
    have "g div 256 = 32 \<and> g mod 256 = 1 \<and> h mod 256 = 13 \<and> l mod 256 = 184 \<longleftrightarrow> l = 0x20010DB8"
      using byte_range_one [of 1 g 32] byte_range_one [of 13 h "0x2001"] byte_range_one [of 184 l "0x20010D"]
      by (auto simp: g_def h_def)
    then show ?thesis by (simp add: simps h [simplified] h_def [simplified, symmetric])
  qed
qed


lemma blocked_ipv6_networks:
  "to_ipv4_mapped a = None \<Longrightarrow>
   is_blocked_ip (V6 a) \<longleftrightarrow> list_ex (\<lambda>(base, len). in_net6 base len a) blocked_networks6"
proof -
  have "a = 0 \<longleftrightarrow> in_net6 0 128 a" "a = 1 \<longleftrightarrow> in_net6 1 128 a" by (simp_all add: in_net6_def)
  then show "to_ipv4_mapped a = None \<Longrightarrow> ?thesis"
    unfolding is_blocked_ip.simps leading_tests blocked_networks6_def by auto
qed

text \<open>
  C23: The octet tests of \<open>is_blocked_ip\<close> are membership in a fixed list of private, loopback,
  link-local, shared, documentation, benchmarking, multicast and reserved networks, and an
  IPv4-mapped IPv6 address is judged by the IPv4 address inside it.\<close>

theorem blocked_networks:
  "is_blocked_ip address \<longleftrightarrow> (case address of
     V4 a \<Rightarrow> list_ex (\<lambda>(base, len). in_net4 base len a) blocked_networks4
   | V6 a \<Rightarrow> (case to_ipv4_mapped a of
       Some v4 \<Rightarrow> list_ex (\<lambda>(base, len). in_net4 base len v4) blocked_networks4
     | None \<Rightarrow> list_ex (\<lambda>(base, len). in_net6 base len a) blocked_networks6))"
proof (cases address)
  case (V6 a)
  then show ?thesis
    using blocked_ipv6_networks [of a] by (cases "to_ipv4_mapped a") (simp_all add: blocked_ipv4_networks)
qed (simp add: blocked_ipv4_networks)

end
