(* ===== verification/Subscription_Fetch.thy ===== *)
theory Subscription_Fetch
  imports Subscription Address_Guard
begin

text \<open>
  Downloading and importing a subscription, \<open>src-tauri/src/lib.rs\<close>: the guarded redirect loop,
  the size cap, and the command \<open>fetch_subscription\<close>. Resolution, HTTP and URL joining are the
  record \<open>http_web\<close>; the world they act on may change between any two calls, so a name may resolve
  differently each time. The model keeps a log of the requests that were sent.
\<close>

section \<open>The web\<close>

text \<open>A request with the addresses that its connection is pinned to.\<close>

record http_request =
  get_url :: url
  get_agent :: string
  get_device :: string
  get_host :: string
  get_addresses :: "socket_addr list"

record http_reply =
  status :: nat
  resp_header :: "string \<Rightarrow> string option"
  content_length :: "nat option"
  body_chunks :: "(string + bytes) list"

record 'w http_web =
  host_str :: "url \<Rightarrow> string option"
  port_or_known_default :: "url \<Rightarrow> u16 option"
  join_url :: "url \<Rightarrow> string \<Rightarrow> string + url"
  status_text :: "nat \<Rightarrow> string"
  lookup_host :: "string \<Rightarrow> u16 \<Rightarrow> ('w, string, socket_addr list) prog"
  build_client :: "http_request \<Rightarrow> string + unit"
  send_request :: "http_request \<Rightarrow> ('w, string, http_reply) prog"

record 'w traffic =
  outside :: 'w
  requests :: "http_request list"

definition on_web :: "('w, 'e, 'a) prog \<Rightarrow> ('w traffic, 'e, 'a) prog" where
  "on_web = szoom outside (\<lambda>w t. t\<lparr>outside := w\<rparr>)"

definition send_logged :: "'w http_web \<Rightarrow> http_request \<Rightarrow> ('w traffic, string, http_reply) prog" where
  "send_logged W q = sseq (smodify (\<lambda>t. t\<lparr>requests := requests t @ [q]\<rparr>)) (on_web (send_request W q))"

section \<open>The guarded download\<close>

definition MAX_SUB_BYTES :: nat where "MAX_SUB_BYTES = 8 * 1024 * 1024"
definition MAX_REDIRECTS :: nat where "MAX_REDIRECTS = 5"

definition validate_subscription_url_shape :: "url \<Rightarrow> string + unit" where
  "validate_subscription_url_shape u =
     (if url_scheme u \<notin> {''http'', ''https''}
      then Err (''unsupported URL scheme: '' @ url_scheme u)
      else if url_username u \<noteq> [] \<or> url_password u \<noteq> None
      then Err ''subscription URLs with embedded credentials are not permitted''
      else Ok ())"

definition allowed_host :: "'w http_web \<Rightarrow> url \<Rightarrow> string + string" where
  "allowed_host W u = ok_or ''refusing to fetch a loopback/private address''
     (case host_str W u of Some host \<Rightarrow> if is_blocked_host host then None else Some host | None \<Rightarrow> None)"

definition is_redirection :: "nat \<Rightarrow> bool" where
  "is_redirection n \<longleftrightarrow> 300 \<le> n \<and> n < 400"

definition is_success :: "nat \<Rightarrow> bool" where
  "is_success n \<longleftrightarrow> 200 \<le> n \<and> n < 300"

text \<open>One turn of the loop up to the response.\<close>

definition fetch_once :: "'w http_web \<Rightarrow> string \<Rightarrow> string \<Rightarrow> url \<Rightarrow> ('w traffic, string, http_reply) prog" where
  "fetch_once W agent os u =
     sseq (slift (validate_subscription_url_shape u))
     (sbind (slift (allowed_host W u)) (\<lambda>host.
     sbind (slift (ok_or ''subscription URL has no usable port'' (port_or_known_default W u))) (\<lambda>port.
     sbind (smap_err (\<lambda>e. ''subscription host resolution failed: '' @ e)
       (on_web (lookup_host W host port))) (\<lambda>addresses.
     sseq (slift (reject_if (addresses = [] \<or> list_ex (\<lambda>a. is_blocked_ip (socket_ip a)) addresses)
       ''refusing to fetch a host that resolves to a private address''))
     (let q = \<lparr>get_url = u, get_agent = agent, get_device = os, get_host = host, get_addresses = addresses\<rparr>
      in sseq (slift (map_err (\<lambda>e. ''http client: '' @ e) (build_client W q)))
        (smap_err (\<lambda>e. ''request failed: '' @ e) (send_logged W q)))))))"

text \<open>The next URL after a redirect.\<close>

definition redirect_target :: "'w http_web \<Rightarrow> url \<Rightarrow> http_reply \<Rightarrow> string + url" where
  "redirect_target W u response =
     rbind (ok_or ''redirect response has no valid Location header'' (resp_header response ''location'')) (\<lambda>location.
     rbind (map_err (\<lambda>e. ''invalid redirect URL: '' @ e) (join_url W u location)) (\<lambda>redirected.
     if url_scheme u = ''https'' \<and> url_scheme redirected \<noteq> ''https''
     then Err ''refusing to downgrade an HTTPS subscription redirect'' else Ok redirected))"

text \<open>The loop, with the number of redirects that are still allowed.\<close>

fun fetch_from ::
  "'w http_web \<Rightarrow> string \<Rightarrow> string \<Rightarrow> nat \<Rightarrow> url \<Rightarrow> ('w traffic, string, http_reply) prog" where
  "fetch_from W agent os 0 u = sbind (fetch_once W agent os u) (\<lambda>response.
     if \<not> is_redirection (status response) then sret response else sfail ''too many redirects'')"
| "fetch_from W agent os (Suc n) u = sbind (fetch_once W agent os u) (\<lambda>response.
     if \<not> is_redirection (status response) then sret response
     else sbind (slift (redirect_target W u response)) (fetch_from W agent os n))"

definition fetch_subscription_response ::
  "'w http_web \<Rightarrow> url \<Rightarrow> string \<Rightarrow> string \<Rightarrow> ('w traffic, string, http_reply) prog" where
  "fetch_subscription_response W u agent os = fetch_from W agent os MAX_REDIRECTS u"

text \<open>The body, up to the cap.\<close>

fun read_chunks :: "bytes \<Rightarrow> (string + bytes) list \<Rightarrow> string + bytes" where
  "read_chunks buf [] = Ok buf"
| "read_chunks buf (chunk # chunks) = (case chunk of
      Inl e \<Rightarrow> Err (''read body: '' @ e)
    | Inr c \<Rightarrow> if MAX_SUB_BYTES < length (buf @ c) then Err ''subscription exceeded size limit''
        else read_chunks (buf @ c) chunks)"

section \<open>The client's name\<close>

text \<open>\<open>std::env::consts\<close>: the target that the application was built for.\<close>

record build_target =
  target_os :: string
  target_cpu :: string

definition target_platform :: "build_target \<Rightarrow> string" where
  "target_platform T =
     (if target_os T = ''android'' then ''Android'' else if target_os T = ''linux'' then ''Linux''
      else if target_os T = ''windows'' then ''Windows'' else if target_os T = ''macos'' then ''macOS''
      else target_os T)"

definition target_arch :: "build_target \<Rightarrow> string" where
  "target_arch T = (if target_cpu T = ''aarch64'' then ''arm64'' else target_cpu T)"

definition subscription_headers :: "build_target \<Rightarrow> string option \<Rightarrow> string + (string \<times> string)" where
  "subscription_headers T choice =
     (let c = unwrap_or ''varmlen'' choice in
      rbind (if c = ''varmlen'' then Ok ''Varmlen'' else if c = ''happ'' then Ok ''Happ''
        else if c = ''incy'' then Ok ''INCY'' else if c = ''v2raytun'' then Ok ''v2rayTun''
        else Err ''unsupported subscription User-Agent'') (\<lambda>brand.
      Ok (brand @ ''/'' @ target_platform T @ ''/'' @ target_arch T, ascii_lower (target_platform T))))"

section \<open>The import command\<close>

definition default_meta :: subscription_meta where
  "default_meta = \<lparr>title = None, update_interval_hours = None, upload_bytes = None,
     download_bytes = None, total_bytes = None, expires_at_unix = None, has_userinfo = False,
     support_url = None, web_page_url = None\<rparr>"

definition pasted :: "vless_server list \<Rightarrow> string option \<Rightarrow> import_result" where
  "pasted servers source = \<lparr>import_meta = default_meta, import_servers = servers,
     import_description = None, import_source_json = source\<rparr>"

definition import_pasted :: "string \<Rightarrow> vless_server list \<Rightarrow> string option \<Rightarrow> string + import_result" where
  "import_pasted message servers source =
     (if servers = [] then Err message else Ok (pasted servers source))"

text \<open>What the response means, after its status was checked.\<close>

definition import_response :: "codecs \<Rightarrow> http_reply \<Rightarrow> bytes \<Rightarrow> import_result" where
  "import_response cd response buf =
     (let body = from_utf8_lossy buf;
          trimmed_body = trim (strip_bom body);
          (inline, body_desc) = parse_body_meta cd body;
          header = (\<lambda>name. or_option (resp_header response name) (map_of inline name))
      in \<lparr>import_meta = parse_headers cd header,
          import_servers = parse_subscription cd body,
          import_description = or_option body_desc
            (nonempty (map_option (\<lambda>s. trim (decode_maybe_b64 cd s)) (header ''announce''))),
          import_source_json = (if is_ok (from_str (cd_json cd) trimmed_body) then Some trimmed_body else None)\<rparr>)"

definition download :: "'w http_web \<Rightarrow> codecs \<Rightarrow> build_target \<Rightarrow> string \<Rightarrow> string option \<Rightarrow>
    ('w traffic, string, import_result) prog" where
  "download W cd T trimmed user_agent =
     sbind (slift (map_err (\<lambda>e. ''bad URL: '' @ e) (cd_url cd trimmed))) (\<lambda>parsed.
     sbind (slift (subscription_headers T user_agent)) (\<lambda>(agent, os).
     sbind (fetch_subscription_response W parsed agent os) (\<lambda>response.
     if \<not> is_success (status response) then sfail (''HTTP '' @ status_text W (status response))
     else if (case content_length response of Some l \<Rightarrow> MAX_SUB_BYTES < l | None \<Rightarrow> False)
     then sfail ''subscription too large''
     else sbind (slift (read_chunks [] (body_chunks response))) (\<lambda>buf.
     sret (import_response cd response buf)))))"

definition fetch_subscription :: "'w http_web \<Rightarrow> codecs \<Rightarrow> build_target \<Rightarrow> string \<Rightarrow> string option \<Rightarrow>
    ('w traffic, string, import_result) prog" where
  "fetch_subscription W cd T text user_agent =
     (let trimmed = trim text;
          share_link_count = length (filter (\<lambda>line. is_supported_uri (trim line)) (str_lines trimmed))
      in if trimmed = [] then sfail ''empty URL''
         else if MAX_SUB_BYTES < length trimmed then sfail ''subscription input too large''
         else if looks_like_wireguard_config trimmed
         then slift (import_pasted ''no connectable WireGuard peers found'' (parse_subscription cd trimmed) None)
         else if starts_with ''{'' trimmed \<or> starts_with ''['' trimmed
         then slift (import_pasted ''no servers found in the JSON''
           (snd (parse_json_subscription cd trimmed)) (Some trimmed))
         else if 1 < share_link_count
         then slift (import_pasted ''no servers found'' (parse_subscription cd trimmed) None)
         else if is_unambiguous_direct_proxy_uri cd trimmed
         then slift (rbind (map_err parse_error_text (parse_proxy_uri cd trimmed)) (\<lambda>s. Ok (pasted [s] None)))
         else download W cd T trimmed user_agent)"

text \<open>The two other parsing commands.\<close>

definition parse_vless_uri :: "codecs \<Rightarrow> string \<Rightarrow> string + vless_server" where
  "parse_vless_uri cd uri = map_err parse_error_text (parse_proxy_uri cd uri)"

definition parse_subscription_body :: "codecs \<Rightarrow> string \<Rightarrow> vless_server list" where
  "parse_subscription_body cd body = parse_subscription cd body"

section \<open>What is contacted\<close>

text \<open>A request that only public addresses can answer.\<close>

definition public_request :: "'w http_web \<Rightarrow> http_request \<Rightarrow> bool" where
  "public_request W q \<longleftrightarrow>
     url_scheme (get_url q) \<in> {''http'', ''https''}
     \<and> url_username (get_url q) = [] \<and> url_password (get_url q) = None
     \<and> host_str W (get_url q) = Some (get_host q) \<and> \<not> is_blocked_host (get_host q)
     \<and> get_addresses q \<noteq> [] \<and> (\<forall>a\<in>set (get_addresses q). \<not> is_blocked_ip (socket_ip a))"

definition no_downgrade :: "http_request \<Rightarrow> http_request \<Rightarrow> bool" where
  "no_downgrade p q \<longleftrightarrow> url_scheme (get_url p) = ''https'' \<longrightarrow> url_scheme (get_url q) = ''https''"

text \<open>A run of requests: the first for a URL, each next one no downgrade of the one before.\<close>

definition guarded :: "'w http_web \<Rightarrow> url \<Rightarrow> http_request list \<Rightarrow> bool" where
  "guarded W u qs \<longleftrightarrow> (\<forall>q\<in>set qs. public_request W q) \<and> successively no_downgrade qs
     \<and> (qs \<noteq> [] \<longrightarrow> get_url (hd qs) = u)"

lemma wp_on_web [wp_simps]:
  "wp (on_web m) Q E t = wp m (\<lambda>a w. Q a (t\<lparr>outside := w\<rparr>)) (\<lambda>e w. E e (t\<lparr>outside := w\<rparr>)) (outside t)"
  by (simp add: on_web_def wp_simps)

text \<open>A turn sends at most one request, and a response only comes from a request.\<close>

lemma fetch_once_requests:
  "wp (fetch_once W agent os u)
     (\<lambda>_ t'. \<exists>q. public_request W q \<and> get_url q = u \<and> requests t' = requests t @ [q])
     (\<lambda>_ t'. requests t' = requests t \<or> (\<exists>q. public_request W q \<and> get_url q = u \<and> requests t' = requests t @ [q])) t"
proof -
  have send: "wp (send_logged W q) P F t' \<longleftrightarrow> (case send_request W q (outside t') of
      (Inl e, w) \<Rightarrow> F e (t'\<lparr>requests := requests t' @ [q], outside := w\<rparr>)
    | (Inr a, w) \<Rightarrow> P a (t'\<lparr>requests := requests t' @ [q], outside := w\<rparr>))" for q t' P F
    by (simp add: send_logged_def wp_simps wp_def [of "send_request W q"])
  show ?thesis
    unfolding fetch_once_def
    by (auto simp: wp_simps send validate_subscription_url_shape_def allowed_host_def wp_def [of "lookup_host _ _ _"]
        public_request_def list_ex_iff ok_or_def reject_if_def map_err_def Let_def
        split: prod.split sum.split option.split if_splits)
qed

text \<open>The requests that a run added to the log.\<close>

definition added :: "'w http_web \<Rightarrow> url \<Rightarrow> nat \<Rightarrow> http_request list \<Rightarrow> 'w traffic \<Rightarrow> bool" where
  "added W u n before t' \<longleftrightarrow>
     (\<exists>qs. requests t' = before @ qs \<and> guarded W u qs \<and> length qs \<le> n)"

lemma added_none: "requests t' = before \<Longrightarrow> added W u n before t'"
  by (auto simp: added_def guarded_def intro: exI [of _ "[]"])

lemma added_one:
  "public_request W q \<Longrightarrow> get_url q = u \<Longrightarrow> requests t' = before @ [q] \<Longrightarrow> 0 < n \<Longrightarrow> added W u n before t'"
  by (auto simp: added_def guarded_def intro: exI [of _ "[q]"])

lemma redirect_target_scheme:
  "redirect_target W u r = Ok v \<Longrightarrow> url_scheme u = ''https'' \<Longrightarrow> url_scheme v = ''https''"
  by (auto simp: redirect_target_def split: if_splits)

lemma added_redirect:
  assumes "public_request W q" "get_url q = u" "redirect_target W u r = Ok v"
    and "added W v n (before @ [q]) t'"
  shows "added W u (Suc n) before t'"
proof -
  from assms(4) obtain qs where qs: "requests t' = before @ q # qs" "guarded W v qs" "length qs \<le> n"
    by (auto simp: added_def)
  then have "guarded W u (q # qs)"
    using assms(1,2) redirect_target_scheme [OF assms(3)]
    by (auto simp: guarded_def successively_Cons no_downgrade_def)
  then show ?thesis using qs unfolding added_def by (intro exI [of _ "q # qs"]) simp
qed

lemma fetch_from_guarded:
  fixes W :: "'w http_web"
  shows "wp (fetch_from W agent os n u)
     (\<lambda>r t'. \<not> is_redirection (status r) \<and> added W u (Suc n) (requests t) t')
     (\<lambda>_ t'. added W u (Suc n) (requests t) t') t"
proof (induction n arbitrary: u t)
  case 0
  show ?case
    unfolding fetch_from.simps wp_sbind
    by (rule wp_mono [OF fetch_once_requests]) (auto simp: wp_simps intro: added_one added_none)
next
  case (Suc n)
  show ?case
    unfolding fetch_from.simps wp_sbind
  proof (rule wp_mono [OF fetch_once_requests])
    fix r and t' :: "'w traffic"
    assume "\<exists>q. public_request W q \<and> get_url q = u \<and> requests t' = requests t @ [q]"
    then obtain q where q: "public_request W q" "get_url q = u" "requests t' = requests t @ [q]"
      by blast
    have later: "wp (fetch_from W agent os n v)
        (\<lambda>r t'. \<not> is_redirection (status r) \<and> added W u (Suc (Suc n)) (requests t) t')
        (\<lambda>_ t'. added W u (Suc (Suc n)) (requests t) t') t'" if "redirect_target W u r = Ok v" for v
      by (rule wp_mono [OF Suc.IH]) (auto simp: q(3) intro: added_redirect [OF q(1,2) that])
    show "wp (if \<not> is_redirection (status r) then sret r
        else sbind (slift (redirect_target W u r)) (fetch_from W agent os n))
        (\<lambda>r t'. \<not> is_redirection (status r) \<and> added W u (Suc (Suc n)) (requests t) t')
        (\<lambda>_ t'. added W u (Suc (Suc n)) (requests t) t') t'"
      using later added_one [OF q, of "Suc (Suc n)"]
      by (auto simp: wp_simps split: sum.split)
  qed (auto intro: added_one added_none)
qed

lemma read_chunks_bounded: "read_chunks buf cs = Ok b \<Longrightarrow> length buf \<le> MAX_SUB_BYTES \<Longrightarrow> length b \<le> MAX_SUB_BYTES"
  by (induction buf cs rule: read_chunks.induct) (auto split: sum.splits if_splits)

text \<open>A download either sent no request, or the guarded ones for the pasted URL.\<close>

lemma download_guarded:
  "wp (download W cd T s ua)
     (\<lambda>r t'. \<exists>u response buf. cd_url cd s = Ok u \<and> added W u 6 (requests t) t'
        \<and> is_success (status response) \<and> length buf \<le> MAX_SUB_BYTES \<and> r = import_response cd response buf)
     (\<lambda>_ t'. requests t' = requests t \<or> (\<exists>u. cd_url cd s = Ok u \<and> added W u 6 (requests t) t')) t"
proof (cases "cd_url cd s")
  case (Inr u)
  have run: "wp (fetch_subscription_response W u agent os)
      (\<lambda>r t'. added W u 6 (requests t) t') (\<lambda>_ t'. added W u 6 (requests t) t') t" for agent os
    unfolding fetch_subscription_response_def MAX_REDIRECTS_def
    by (rule wp_mono [OF fetch_from_guarded]) simp_all
  have bounded: "read_chunks [] cs = Ok b \<Longrightarrow> length b \<le> MAX_SUB_BYTES" for cs b
    using read_chunks_bounded [of "[]" cs b] by simp
  show ?thesis
    unfolding download_def
    by (simp add: wp_simps Inr split: sum.split prod.split)
      (fastforce simp: wp_simps dest: bounded split: sum.split option.split intro!: wp_mono [OF run])
qed (simp add: download_def wp_simps)

lemma import_pasted_Ok: "import_pasted m servers source = Ok i \<longleftrightarrow> servers \<noteq> [] \<and> i = pasted servers source"
  by (auto simp: import_pasted_def)

text \<open>Every branch but the last answers without a request.\<close>

lemma fetch_subscription_wp:
  assumes "wp (download W cd T (trim s) ua) P E t"
    and "\<And>i. import_servers i \<noteq> [] \<Longrightarrow> P i t" and "\<And>e. E e t"
  shows "wp (fetch_subscription W cd T s ua) P E t"
  unfolding fetch_subscription_def Let_def
  using assms by (auto simp: wp_simps import_pasted_Ok pasted_def map_err_def rbind_def split: sum.split)

lemma fetch_guarded:
  "wp (fetch_subscription W cd T s ua)
     (\<lambda>i t'. requests t' = requests t \<and> import_servers i \<noteq> []
        \<or> (\<exists>u response buf. cd_url cd (trim s) = Ok u \<and> added W u 6 (requests t) t'
            \<and> is_success (status response) \<and> length buf \<le> MAX_SUB_BYTES \<and> i = import_response cd response buf))
     (\<lambda>_ t'. requests t' = requests t \<or> (\<exists>u. cd_url cd (trim s) = Ok u \<and> added W u 6 (requests t) t')) t"
  by (rule fetch_subscription_wp, rule wp_mono [OF download_guarded]) blast+

section \<open>Properties\<close>

text \<open>
  C22: Whatever names resolve to and servers answer at each moment, an import only sends
  requests for \<open>http\<close> and \<open>https\<close> URLs without credentials, pinned to addresses that all passed
  the check just before, at most six of them, the first for the pasted URL, and never one without
  TLS after one with it.\<close>

theorem fetch_contacts_public_addresses:
  assumes "fetch_subscription W cd T s ua t = (r, t')"
  shows "\<exists>qs. requests t' = requests t @ qs \<and> length qs \<le> 6 \<and> (\<forall>q\<in>set qs. public_request W q)
    \<and> successively no_downgrade qs
    \<and> (qs \<noteq> [] \<longrightarrow> cd_url cd (trim s) = Ok (get_url (hd qs)))"
proof -
  have "requests t' = requests t \<or> (\<exists>u. cd_url cd (trim s) = Ok u \<and> added W u 6 (requests t) t')"
    using assms fetch_guarded [of W cd T s ua t]
    by (cases r) (auto dest: wp_OkD wp_ErrD)
  then show ?thesis
  proof
    assume "requests t' = requests t"
    then show ?thesis by (intro exI [of _ "[]"]) simp
  qed (auto simp: added_def guarded_def)
qed


text \<open>A world for concrete runs: a redirect from one public host to a body of one link.\<close>

definition page :: "string \<Rightarrow> url" where
  "page host = \<lparr>url_scheme = ''https'', url_username = [], url_password = None,
     url_host_part = Some (Domain host), url_port = None, url_path = ''/'', url_query_pairs = [],
     url_fragment = None\<rparr>"

definition sample_site :: "nat http_web" where
  "sample_site = \<lparr>host_str = (\<lambda>u. case url_host_part u of Some (Domain h) \<Rightarrow> Some h | _ \<Rightarrow> None),
     port_or_known_default = (\<lambda>_. Some 443), join_url = (\<lambda>_ _. Ok (page ''b'')), status_text = (\<lambda>_. []),
     lookup_host = (\<lambda>_ _. sret [SocketV4 0x01010101 443]), build_client = (\<lambda>_. Ok ()),
     send_request = (\<lambda>q n. (Ok \<lparr>status = (if n = 0 then 302 else 200), resp_header = (\<lambda>_. Some ''b''),
       content_length = None, body_chunks = []\<rparr>, Suc n))\<rparr>"

definition page_codecs :: codecs where
  "page_codecs = \<lparr>cd_json = \<lparr>from_str = (\<lambda>_. Err []), to_string = (\<lambda>_. Ok []), to_string_pretty = (\<lambda>_. Ok [])\<rparr>,
     cd_number = (\<lambda>_. []), cd_url = (\<lambda>t. if t = ''https://a'' then Ok (page ''a'') else Err []),
     cd_base64 = (\<lambda>_ _. None), cd_percent = as_bytes, cd_hash_order = id\<rparr>"

definition windows_pc :: build_target where
  "windows_pc = \<lparr>target_os = ''windows'', target_cpu = ''x86_64''\<rparr>"

lemma sample_text:
  "trim ''https://a'' = ''https://a''" "str_lines ''https://a'' = [''https://a'']"
  "\<not> looks_like_wireguard_config ''https://a''" "\<not> starts_with ''{'' ''https://a''"
  "\<not> starts_with ''['' ''https://a''" "is_unambiguous_direct_proxy_uri page_codecs ''https://a'' = False"
  "subscription_headers windows_pc None = Ok (''Varmlen/Windows/x86_64'', ''windows'')"
  "\<not> is_blocked_host ''a''" "\<not> is_blocked_host ''b''" "\<not> blocked_ipv4 0x01010101"
  by code_simp+

definition sample_request_to :: "string \<Rightarrow> http_request" where
  "sample_request_to host = \<lparr>get_url = page host, get_agent = ''Varmlen/Windows/x86_64'', get_device = ''windows'',
     get_host = host, get_addresses = [SocketV4 0x01010101 443]\<rparr>"

lemma sample_fetch_run:
  "\<exists>i. fetch_subscription sample_site page_codecs windows_pc ''https://a'' None \<lparr>outside = 0, requests = []\<rparr>
     = (Ok i, \<lparr>outside = 2, requests = [sample_request_to ''a'', sample_request_to ''b'']\<rparr>)"
proof -
  have once: "fetch_once sample_site ''Varmlen/Windows/x86_64'' ''windows'' (page h) \<lparr>outside = n, requests = qs\<rparr>
      = (Ok \<lparr>status = (if n = 0 then 302 else 200), resp_header = (\<lambda>_. Some ''b''),
           content_length = None, body_chunks = []\<rparr>,
         \<lparr>outside = Suc n, requests = qs @ [sample_request_to h]\<rparr>)" if "h = ''a'' \<or> h = ''b''" for h n qs
    using that by (auto simp: fetch_once_def prog_defs validate_subscription_url_shape_def allowed_host_def page_def
      sample_site_def on_web_def send_logged_def sample_text ok_or_def reject_if_def map_err_def Let_def
      sample_request_to_def)
  have target: "redirect_target sample_site (page ''a'') r = Ok (page ''b'')" if "resp_header r = (\<lambda>_. Some ''b'')" for r
    using that by (simp add: redirect_target_def sample_site_def page_def)
  have "fetch_subscription_response sample_site (page ''a'') ''Varmlen/Windows/x86_64'' ''windows''
      \<lparr>outside = 0, requests = []\<rparr>
    = (Ok \<lparr>status = 200, resp_header = (\<lambda>_. Some ''b''), content_length = None, body_chunks = []\<rparr>,
       \<lparr>outside = 2, requests = [sample_request_to ''a'', sample_request_to ''b'']\<rparr>)"
    by (simp add: fetch_subscription_response_def MAX_REDIRECTS_def eval_nat_numeral sbind_def once
        is_redirection_def target prog_defs)
  then show ?thesis
    by (simp add: fetch_subscription_def sample_text Let_def MAX_SUB_BYTES_def download_def page_codecs_def
        [THEN arg_cong [where f = cd_url]] sbind_def prog_defs is_success_def)
qed

theorem fetch_contacts_public_addresses_witness:
  "\<exists>qs. [sample_request_to ''a'', sample_request_to ''b''] = qs \<and> length qs \<le> 6
    \<and> (\<forall>q\<in>set qs. public_request sample_site q) \<and> successively no_downgrade qs
    \<and> (qs \<noteq> [] \<longrightarrow> cd_url page_codecs ''https://a'' = Ok (get_url (hd qs)))"
proof -
  obtain i where run: "fetch_subscription sample_site page_codecs windows_pc ''https://a'' None
      \<lparr>outside = 0, requests = []\<rparr>
    = (Ok i, \<lparr>outside = 2, requests = [sample_request_to ''a'', sample_request_to ''b'']\<rparr>)"
    using sample_fetch_run by blast
  show ?thesis
    using fetch_contacts_public_addresses [OF run] by (simp add: sample_text)
qed


end
