(* ===== verification/Restart.thy ===== *)
theory Restart
  imports Pipe_Server
begin

text \<open>
  What survives the process: the journal that a command leaves behind, and what a service that is
  started again, after a crash, an update or a reboot, makes of it. The journal's contract is a
  locale over the controller's backend, interpreted on \<open>Backend\<close>.
\<close>

section \<open>The contract\<close>

text \<open>\<open>asks k b\<close>: what is stored asks for a network that is closed (\<open>k\<close>) or not.\<close>

locale journal_backend =
  fixes ops :: "'b backend_ops" and asks :: "bool \<Rightarrow> 'b \<Rightarrow> bool"
  assumes commit_asks: "wp (commit_policy ops r) (\<lambda>_. asks (killswitch r)) (\<lambda>_ _. True) b"
    and release_asks: "hoare (asks k) (release_transition_hold ops) (\<lambda>_. asks k) (\<lambda>_ _. True)"
    and clear_asks: "wp (clear_network_state ops k) (\<lambda>_. asks k) (\<lambda>_ _. True) b"
begin

lemma connect_asks: "wp (connect ops op r) (\<lambda>_ c'. asks (killswitch r) (backend c')) (\<lambda>_ _. True) c"
proof (rule wp_mono [OF connect_success_run])
  fix c' :: "'b controller"
  assume "\<exists>b1 b2. commit_policy ops r b1 = (Ok (), b2) \<and> release_transition_hold ops b2 = (Ok (), backend c')"
  then obtain b1 b2 where "commit_policy ops r b1 = (Ok (), b2)" "release_transition_hold ops b2 = (Ok (), backend c')"
    by blast
  then show "asks (killswitch r) (backend c')"
    using wp_OkD [OF commit_asks] hoare_OkD [OF release_asks] by blast
qed simp

lemma disconnect_asks: "wp (disconnect ops op k) (\<lambda>_ c'. asks k (backend c')) (\<lambda>_ _. True) c"
  unfolding disconnect_def by (auto simp: connection_wp intro!: wp_mono [OF clear_asks])

lemma audit_asks:
  assumes "phase (state c) = Connected"
  shows "wp (audit_runtime ops)
     (\<lambda>s c'. phase s \<noteq> Connected \<longrightarrow> (\<exists>k. network_blocked s = k \<and> asks k (backend c'))) (\<lambda>_ _. True) c"
  unfolding audit_runtime_def
  by (auto simp: connection_wp assms settled_state_def intro!: wp_trivial wp_mono [OF clear_asks])

end

section \<open>The journal file\<close>

definition journal_asks :: "'x system \<Rightarrow> runtime_layout \<Rightarrow> bool \<Rightarrow> 'x world \<Rightarrow> bool" where
  "journal_asks Y l k w \<longleftrightarrow>
     (\<exists>r. journal_holds (os Y) (states Y) l r w \<and> must_stay_closed (rec_phase r) = k)"

lemma journal_asks_file:
  "file_at (desired_state l) (disk v) = file_at (desired_state l) (disk w) \<Longrightarrow>
     journal_asks Y l k v = journal_asks Y l k w"
  by (simp add: journal_asks_def journal_holds_def)

text \<open>The file of the host routes is another one.\<close>

definition asks :: "'x system \<Rightarrow> bool \<Rightarrow> 'x windows_backend \<Rightarrow> bool" where
  "asks Y k b \<longleftrightarrow> (route_state_path (wb_layout b) \<noteq> desired_state (wb_layout b) \<longrightarrow>
     journal_asks Y (wb_layout b) k (machine b))"

lemma wp_persist_asks:
  assumes "must_stay_closed (rec_phase r) = k"
    and "\<And>w. journal_asks Y (wb_layout b) k w \<Longrightarrow> Q () (b\<lparr>machine := w\<rparr>)" and "\<And>e w. E e (b\<lparr>machine := w\<rparr>)"
  shows "wp (persist Y r) Q E b"
  unfolding persist_def wp_sbind wp_sgets wp_on_machine
  by (rule wp_mono [OF persist_outcome]) (use assms in \<open>auto simp: journal_asks_def\<close>)

lemma keeps_file_ext:
  "keeps (\<lambda>w. J (file_at p (disk w))) (on_ext m)"
  by (auto simp: keeps_def on_ext_def szoom_def split: prod.splits)

lemma keeps_file_disk:
  "keeps (\<lambda>s. J (file_at p s)) m \<Longrightarrow> keeps (\<lambda>w. J (file_at p (disk w))) (on_disk m)"
  by (auto simp: keeps_def on_disk_def szoom_def split: prod.splits)

lemma keeps_file_wp:
  assumes "\<And>s. wp m (\<lambda>_ t. file_at p t = file_at p s) (\<lambda>_ t. file_at p t = file_at p s) s"
  shows "keeps (\<lambda>s. J (file_at p s)) m"
proof (rule keepsI)
  fix s assume "J (file_at p s)"
  moreover have "file_at p (snd (m s)) = file_at p s"
    using assms [of s] by (auto simp: wp_def split: prod.splits sum.splits)
  ultimately show "J (file_at p (snd (m s)))" by simp
qed

lemma keeps_file_read: "keeps (\<lambda>s. J (file_at p s)) (fs_read q)"
  by (rule keeps_file_wp, rule wp_read) auto

lemma keeps_file_remove: "p \<noteq> q \<Longrightarrow> keeps (\<lambda>s. J (file_at p s)) (fs_remove_file q)"
  by (rule keeps_file_wp, rule wp_remove_file) auto

lemma keeps_file_routes:
  assumes "route_state_path l \<noteq> p"
  shows "keeps (\<lambda>w. J (file_at p (disk w))) (verify_killswitch_routes P rs l k)"
    and "keeps (\<lambda>w. J (file_at p (disk w))) (remove_killswitch_routes P rs l)"
proof -
  note rules = hoare_rules keeps_file_ext keeps_file_disk keeps_file_read keeps_file_remove assms [symmetric]
  show verify: "keeps (\<lambda>w. J (file_at p (disk w))) (verify_killswitch_routes P rs l k)" for k
    unfolding verify_killswitch_routes_def load_or_default_def load_route_state_def by (intro rules)
  show "keeps (\<lambda>w. J (file_at p (disk w))) (remove_killswitch_routes P rs l)"
    unfolding remove_killswitch_routes_def load_or_default_def load_route_state_def by (intro rules verify)
qed

text \<open>A call that does not write the journal keeps what it asks for.\<close>

lemma wp_asks_machine:
  assumes "\<And>J. route_state_path (wb_layout b) \<noteq> desired_state (wb_layout b) \<Longrightarrow>
      keeps (\<lambda>w. J (file_at (desired_state (wb_layout b)) (disk w))) m"
    and "asks Y k b"
  shows "wp (on_machine m) (\<lambda>_. asks Y k) (\<lambda>_. asks Y k) b"
proof (cases "route_state_path (wb_layout b) \<noteq> desired_state (wb_layout b)")
  case True
  define c where "c = file_at (desired_state (wb_layout b)) (disk (machine b))"
  have "asks Y k (b\<lparr>machine := w\<rparr>)" if "file_at (desired_state (wb_layout b)) (disk w) = c" for w
    using assms(2) True journal_asks_file [OF that [unfolded c_def], of Y k] by (simp add: asks_def)
  moreover have "wp m (\<lambda>_ w. file_at (desired_state (wb_layout b)) (disk w) = c)
      (\<lambda>_ w. file_at (desired_state (wb_layout b)) (disk w) = c) (machine b)"
    by (rule keeps_wp [OF assms(1) [OF True, of "\<lambda>d. d = c"]]) (simp_all add: c_def)
  ultimately show ?thesis unfolding wp_on_machine by (auto intro: wp_mono)
qed (simp add: wp_on_machine asks_def)

interpretation jr: journal_backend "windows_ops Y" "asks Y"
proof
  fix r k and b :: "'a windows_backend"
  show "wp (commit_policy (windows_ops Y) r) (\<lambda>_. asks Y (killswitch r)) (\<lambda>_ _. True) b"
    unfolding windows_ops_def backend_ops.simps wb_commit_policy_def split_def
    by (rule wp_final, rule wp_final, rule wp_final, rule wp_final, rule wp_final, rule wp_final)
       (auto simp: backend_wp asks_def record_connected_def intro!: wp_persist_asks)
  show "hoare (asks Y k) (release_transition_hold (windows_ops Y)) (\<lambda>_. asks Y k) (\<lambda>_ _. True)"
    unfolding hoare_def windows_ops_def backend_ops.simps wb_release_transition_hold_def split_def wp_sbind wp_sgets wp_if
    by (auto simp: wp_service_io intro!: wp_mono [OF wp_asks_machine] keeps_file_routes)
  show "wp (clear_network_state (windows_ops Y) k) (\<lambda>_. asks Y k) (\<lambda>_ _. True) b"
    unfolding windows_ops_def backend_ops.simps wb_clear_network_state_def split_def
    by (rule wp_final, rule wp_final, rule wp_final, rule wp_final, cases k; simp only: if_True if_False; rule wp_final)
       (auto simp: backend_wp asks_def record_blocked_def record_disconnected_def intro!: wp_persist_asks [where k = k])
qed


section \<open>Starting again\<close>

text \<open>The journal and the file of the host routes are two files of the state directory.\<close>

lemma service_layout_files:
  assumes "service_layout current_exe program_data = Ok l"
  shows "route_state_path l \<noteq> desired_state l"
proof -
  from assms obtain dir where dir: "state_dir l = dir" "desired_state l = portable_join dir ''desired-state.bin''"
    by (auto simp: service_layout_def from_service_executable_def rbind_Ok_iff)
  have "take 3 (rev (portable_join dir ''desired-state.bin'')) = ''nib''"
    by (simp add: portable_join_def path_join_def)
  moreover have "take 3 (rev (route_state_path l)) = ''nos''"
    by (simp add: route_state_path_def path_join_def ROUTE_STATE_FILE_def)
  ultimately show ?thesis unfolding dir by auto
qed

text \<open>On a disk that works, a service that opens recovers from the record in its journal.\<close>

lemma backend_open_world:
  assumes "service_layout current_exe program_data = Ok l" and "faults (disk w) = []"
    and "backend_open current_exe program_data w = (Ok b, w')"
  shows "wb_layout b = l" and "faults (disk (machine b)) = []"
    and "file_at p (disk (machine b)) = file_at p (disk w)"
proof -
  have "wb_layout b = l \<and> faults (disk (machine b)) = [] \<and> file_at p (disk (machine b)) = file_at p (disk w)"
    using assms(2,3)
    by (auto simp: backend_open_def assms(1) ensure_state_directory_def fs_create_dir_all_def fs_op_def
        on_disk_def szoom_def prog_defs add_dirs_def file_at_def split: if_splits)
  then show "wb_layout b = l" "faults (disk (machine b)) = []"
    "file_at p (disk (machine b)) = file_at p (disk w)" by simp_all
qed

lemma executor_open_recovers:
  assumes "service_layout current_exe program_data = Ok l" and "journal_holds (os Y) (states Y) l r w"
    and "state_serde_law (states Y) r" and "\<And>clear. dpapi_law (os Y) clear" and "faults (disk w) = []"
    and "executor_open Y current_exe program_data w = Ok x"
  shows "\<exists>c. controller x = recover (windows_ops Y) (Ok (Some r)) c"
proof -
  from assms(6) obtain b w1 where b: "backend_open current_exe program_data w = (Ok b, w1)"
    by (auto simp: executor_open_def split: prod.splits sum.splits)
  note world = backend_open_world [OF assms(1,5) b]
  have "journal_holds (os Y) (states Y) (wb_layout b) r (machine b)"
    using assms(2) world by (simp add: journal_holds_def)
  then obtain w2 where "load_desired_state (os Y) (states Y) (wb_layout b) (machine b) = (Ok (Some r), w2)"
    using load_working [OF _ assms(3,4) world(2)] by blast
  then show ?thesis using assms(6) b by (auto simp: executor_open_def Let_def)
qed

section \<open>Properties\<close>

text \<open>Whether a command asks for a network that stays closed without the tunnel.\<close>

fun asks_closed :: "service_command \<Rightarrow> bool" where
  "asks_closed (Connect r) = killswitch r"
| "asks_closed (Disconnect keep_blocked) = keep_blocked"
| "asks_closed _ = False"

lemma wp_executed_asks:
  assumes "\<And>c. wp m (\<lambda>_ c'. P (backend c')) (\<lambda>_ _. True) c"
  shows "wp (sbind (on_controller m) (\<lambda>s. sret (RState s))) (\<lambda>_ x. P (backend (controller x))) (\<lambda>_ _. True) x"
  unfolding on_controller_def by (simp only: wp_simps, rule wp_mono [OF assms]) simp_all

lemma executed_asks:
  assumes "asks_closed command"
  shows "wp (execute Y W op command) (\<lambda>_ x. asks Y True (backend (controller x))) (\<lambda>_ _. True) x"
proof (cases command)
  case (Connect r)
  have "wp (execute Y W op (Connect r)) (\<lambda>_ x. asks Y (killswitch r) (backend (controller x))) (\<lambda>_ _. True) x"
    unfolding execute.simps
    by (rule wp_final, rule wp_executed_asks [where P = "asks Y (killswitch r)"])
       (rule wp_mono [OF jr.connect_asks], simp_all)
  then show ?thesis using assms Connect by simp
next
  case (Disconnect k)
  have "wp (execute Y W op (Disconnect k)) (\<lambda>_ x. asks Y k (backend (controller x))) (\<lambda>_ _. True) x"
    unfolding execute.simps by (rule wp_executed_asks [where P = "asks Y k"]) (rule jr.disconnect_asks)
  then show ?thesis using assms Disconnect by simp
qed (use assms in simp_all)

text \<open>
  C4: The kill switch survives the service: after a connection with the kill switch, or a
  disconnection that keeps the network blocked, a service that is started again on the same
  disk, after a crash or a reboot that lost the routes and the core, ends connected or blocked,
  and with every split-default route on the loopback interface, unless installing them failed,
  in which case the controller is forced to \<open>Blocked\<close>.\<close>

theorem killswitch_survives_restart:
  assumes "routes_law (os Y) rt" and "\<forall>r. state_serde_law (states Y) r" and "\<forall>clear. dpapi_law (os Y) clear"
    and "execute Y W op command x = (Ok answer, x')" and "asks_closed command"
    and "service_layout current_exe program_data = Ok l" and "wb_layout (backend (controller x')) = l"
    and "faults (disk w) = []"
    and "file_at (desired_state l) (disk w) = file_at (desired_state l) (disk (machine (backend (controller x'))))"
    and "executor_open Y current_exe program_data w = Ok y"
  shows "(phase (state (controller y)) = Connected \<or> network_blocked (state (controller y)))
    \<and> (fallback_routes rt (machine (backend (controller y)))
       \<or> (\<exists>n c1 e c2. disconnect (windows_ops Y) n True c1 = (Err e, c2) \<and> controller y = force_blocked n c2))"
proof -
  have "asks Y True (backend (controller x'))"
    using wp_OkD [OF executed_asks [OF assms(5)] assms(4)] .
  then have "journal_asks Y l True (machine (backend (controller x')))"
    using service_layout_files [OF assms(6)] assms(7) by (simp add: asks_def)
  then have "journal_asks Y l True w" using journal_asks_file [OF assms(9)] by blast
  then obtain r where r: "journal_holds (os Y) (states Y) l r w" "must_stay_closed (rec_phase r)"
    by (auto simp: journal_asks_def)
  obtain c where "controller y = recover (windows_ops Y) (Ok (Some r)) c"
    using executor_open_recovers [OF assms(6) r(1) assms(2) [THEN spec] assms(3) [THEN spec] assms(8,10)] by blast
  from recovered_closed [OF assms(1) r(2) this] show ?thesis by blast
qed


text \<open>
  C5: A core that died is noticed by the next tick of the monitor: when the query says that it does
  not run, the service stops reporting a connection, and is either blocked, with the routes and
  the journal of the kill switch, exactly when the connection asked for it, or disconnected with
  an open network; the error state is left only for the case that the clean-up itself, which writes
  the journal, stops the core and closes or opens the network, reports an error.\<close>

theorem dead_core_noticed:
  assumes "routes_law (os Y) rt" and "phase (state (controller x)) = Connected"
    and "wb_active_is_running Y (backend (controller x)) = (Ok False, b)"
  shows "let y = controller (monitor_tick Y x) in
     (case phase (state y) of
        Blocked \<Rightarrow> wants_killswitch (active_request b) \<and> fallback_routes rt (machine (backend y)) \<and> asks Y True (backend y)
      | Disconnected \<Rightarrow> \<not> wants_killswitch (active_request b) \<and> no_fallback_routes rt (machine (backend y))
          \<and> asks Y False (backend y)
      | BlockedError \<Rightarrow> (\<exists>e. wb_clear_network_state Y (wants_killswitch (active_request b)) b = (Err e, backend y))
      | _ \<Rightarrow> False)"
proof -
  let ?k = "wants_killswitch (active_request b)"
  obtain r b' where run: "wb_clear_network_state Y ?k b = (r, b')"
    by (cases "wb_clear_network_state Y ?k b")
  have tick: "controller (monitor_tick Y x) =
      \<lparr>backend = b', state = (case r of Ok _ \<Rightarrow> settled_state (operation_id (state (controller x))) ?k
         | Err _ \<Rightarrow> blocked_error_state (operation_id (state (controller x))))\<rparr>"
    using assms(2,3) run
    by (auto simp: monitor_tick_def audit_runtime_def windows_ops_def wb_unexpected_failure_keep_blocked_def
        controller_defs prog_defs szoom_def split: sum.splits)
  show ?thesis
  proof (cases r)
    case (Inl e)
    then show ?thesis by (simp add: tick blocked_error_state_def run)
  next
    case (Inr u)
    then have "if ?k then backend_closed rt b' else backend_opened rt b'" "asks Y ?k b'"
      using wp_OkD [OF clear_decides [OF assms(1)]] wp_OkD [OF jr.clear_asks [of Y ?k b]] run
      by (auto simp: windows_ops_def)
    then show ?thesis using Inr
      by (auto simp: tick settled_state_def backend_closed_def backend_opened_def split: if_splits)
  qed
qed

section \<open>A concrete restart\<close>

text \<open>A serialiser that knows the two records of a disconnection that stays blocked.\<close>

definition blocked_document :: "bool \<Rightarrow> json" where
  "blocked_document b = JObj [(''format_version'', JNum (PosInt 2)), (''blocked'', JBool b)]"

definition blocking_record :: "bool \<Rightarrow> desired_state_record" where
  "blocking_record b = (if b then record_blocked 9 ''kill switch requested while disconnected''
     else record_disconnecting 9 True)"

definition blocking_serde :: state_serde where
  "blocking_serde = \<lparr>
     record_to_vec = (\<lambda>r. if r = blocking_record False then Ok [1] else if r = blocking_record True then Ok [2] else Err []),
     value_from_slice = (\<lambda>bs. if bs = [1] then Ok (blocked_document False)
        else if bs = [2] then Ok (blocked_document True) else Err ''EOF''),
     record_from_value = (\<lambda>v. if v = blocked_document False then Ok (blocking_record False)
        else if v = blocked_document True then Ok (blocking_record True) else Err []),
     legacy_from_value = (\<lambda>v. Err ''missing field'')\<rparr>"

lemma blocking_law: "state_serde_law blocking_serde r"
  by (simp add: state_serde_law_def blocking_serde_def blocked_document_def blocking_record_def
      record_blocked_def record_disconnecting_def FORMAT_VERSION_def)

definition blocking_system :: "bench system" where
  "blocking_system = demo_system\<lparr>states := blocking_serde\<rparr>"

lemma bench_dpapi: "dpapi_law (os blocking_system) clear"
  by (simp add: dpapi_law_def blocking_system_def demo_system_def bench_platform_def prog_defs)

definition installed_layout :: runtime_layout where
  "installed_layout = (case service_layout (Ok ''C:/v/s.exe'') (Some ''C:/d'') of Ok l \<Rightarrow> l | Err _ \<Rightarrow> sample_layout)"

definition installed_world :: "(string \<times> bytes) list \<Rightarrow> nat \<Rightarrow> bench \<Rightarrow> bench world" where
  "installed_world fs n x = \<lparr>disk = \<lparr>files = fs, dirs = [''C:/'', ''C:/d'', state_dir installed_layout], faults = [],
     temp_counter = of_nat n, process_id = 4\<rparr>, ext = x\<rparr>"

definition blocked_routes :: bench where
  "blocked_routes = [(''ipv6'', ''8000::/1''), (''ipv6'', ''::/1''), (''ipv4'', ''128.0.0.0/1''), (''ipv4'', ''0.0.0.0/1'')]"

definition journal_file :: "u8 \<Rightarrow> string \<times> bytes" where
  "journal_file b = (desired_state installed_layout, MAGIC @ [1, 0, 0, 0, b])"

lemma bench_run_1:
  "persist_desired_state (os blocking_system) (states blocking_system) installed_layout (record_disconnecting 9 True)
    (installed_world [] 1 []) = (Ok (), installed_world [journal_file 1] 2 [])"
  by code_simp

lemma bench_run_2:
  "install_killswitch_routes (os blocking_system) (routes blocking_system) installed_layout
    (installed_world [journal_file 1] 2 []) =
   (Ok (), installed_world [journal_file 1, (route_state_path installed_layout, [])] 3 blocked_routes)"
  by code_simp

lemma bench_run_3:
  "persist_desired_state (os blocking_system) (states blocking_system) installed_layout
    (record_blocked 9 ''kill switch requested while disconnected'')
    (installed_world [journal_file 1, (route_state_path installed_layout, [])] 3 blocked_routes) =
   (Ok (), installed_world [journal_file 2, (route_state_path installed_layout, [])] 4 blocked_routes)"
  by code_simp

lemmas bench_runs = bench_run_1 bench_run_2 bench_run_3

definition bench_backend :: "bench world \<Rightarrow> bench windows_backend" where
  "bench_backend w = demo_backend\<lparr>wb_layout := installed_layout, machine := w\<rparr>"

text \<open>The executor before and after it was asked to block, and a world that lost the routes.\<close>

definition installed_executor :: "bench runtime_executor" where
  "installed_executor = \<lparr>controller = disconnected (bench_backend (installed_world [] 1 [])),
     core_layout = installed_layout, log_path = ''C:/s/xray.log''\<rparr>"

definition blocked_executor :: "bench runtime_executor" where
  "blocked_executor = installed_executor\<lparr>controller := \<lparr>
     backend = (bench_backend (installed_world [journal_file 2, (route_state_path installed_layout, [])] 4
       blocked_routes))\<lparr>pending_operation_id := 9\<rparr>, state = settled_state 9 True\<rparr>\<rparr>"

definition rebooted_world :: "bench world" where
  "rebooted_world = installed_world [journal_file 2, (route_state_path installed_layout, [])] 4 []"

lemma blocked_run:
  "execute blocking_system sample_web 9 (Disconnect True) installed_executor
    = (Ok (RState (settled_state 9 True)), blocked_executor)"
  using bench_runs
  by (simp add: disconnect_def windows_ops_def wb_clear_network_state_def persist_def stop_process_def on_machine_def
      service_io_def prog_defs controller_defs szoom_def on_controller_def installed_executor_def blocked_executor_def
      disconnected_def bench_backend_def demo_backend_def)

lemma installed_layout: "service_layout (Ok ''C:/v/s.exe'') (Some ''C:/d'') = Ok installed_layout"
proof -
  have "is_ok (service_layout (Ok ''C:/v/s.exe'') (Some ''C:/d''))" by code_simp
  then show ?thesis
    by (cases "service_layout (Ok ''C:/v/s.exe'') (Some ''C:/d'')") (simp_all add: installed_layout_def)
qed

lemma rebooted_run:
  "\<exists>y. executor_open blocking_system (Ok ''C:/v/s.exe'') (Some ''C:/d'') rebooted_world = Ok y"
proof -
  have "is_ok (fst (on_disk (ensure_state_directory installed_layout) rebooted_world))" by code_simp
  then show ?thesis
    by (auto simp: executor_open_def backend_open_def installed_layout prog_defs Let_def split: sum.splits prod.splits)
qed

lemma killswitch_survives_restart_witness:
  "\<exists>y. executor_open blocking_system (Ok ''C:/v/s.exe'') (Some ''C:/d'') rebooted_world = Ok y
    \<and> (phase (state (controller y)) = Connected \<or> network_blocked (state (controller y)))
    \<and> (fallback_routes set (machine (backend (controller y)))
       \<or> (\<exists>n c1 e c2. disconnect (windows_ops blocking_system) n True c1 = (Err e, c2)
            \<and> controller y = force_blocked n c2))"
proof -
  from rebooted_run obtain y where
    y: "executor_open blocking_system (Ok ''C:/v/s.exe'') (Some ''C:/d'') rebooted_world = Ok y" ..
  have "routes_law (os blocking_system) set" using demo_law by (simp add: blocking_system_def)
  moreover have "\<forall>r. state_serde_law (states blocking_system) r" by (simp add: blocking_system_def blocking_law)
  moreover have "wb_layout (backend (controller blocked_executor)) = installed_layout"
    "faults (disk rebooted_world) = []" "file_at (desired_state installed_layout) (disk rebooted_world)
      = file_at (desired_state installed_layout) (disk (machine (backend (controller blocked_executor))))"
    by (simp_all add: blocked_executor_def bench_backend_def rebooted_world_def installed_world_def file_at_def)
  ultimately have "(phase (state (controller y)) = Connected \<or> network_blocked (state (controller y)))
    \<and> (fallback_routes set (machine (backend (controller y)))
       \<or> (\<exists>n c1 e c2. disconnect (windows_ops blocking_system) n True c1 = (Err e, c2)
            \<and> controller y = force_blocked n c2))"
    by (intro killswitch_survives_restart [OF _ _ _ blocked_run _ installed_layout _ _ _ y]) (simp_all add: bench_dpapi)
  with y show ?thesis by blast
qed


text \<open>A connection with the kill switch whose core is gone.\<close>

definition orphaned_executor :: "bench runtime_executor" where
  "orphaned_executor = installed_executor\<lparr>controller := connected ((bench_backend (installed_world [] 1 []))\<lparr>
     pending_operation_id := 9, active_request := Some (demo_request True)\<rparr>)\<rparr>"

lemma orphaned_tick:
  "phase (state (controller (monitor_tick blocking_system orphaned_executor))) = Blocked"
  using bench_runs
  by (simp add: monitor_tick_def audit_runtime_def windows_ops_def wb_clear_network_state_def persist_def
      stop_process_def on_machine_def service_io_def prog_defs controller_defs szoom_def orphaned_executor_def
      connected_def bench_backend_def demo_backend_def wb_active_is_running_def settled_state_def
      wb_unexpected_failure_keep_blocked_def demo_request_def)

lemma dead_core_noticed_witness:
  "phase (state (controller (monitor_tick blocking_system orphaned_executor))) = Blocked
    \<and> fallback_routes set (machine (backend (controller (monitor_tick blocking_system orphaned_executor))))
    \<and> asks blocking_system True (backend (controller (monitor_tick blocking_system orphaned_executor)))"
proof -
  have "routes_law (os blocking_system) set" using demo_law by (simp add: blocking_system_def)
  moreover have "phase (state (controller orphaned_executor)) = Connected"
    "wb_active_is_running blocking_system (backend (controller orphaned_executor))
      = (Ok False, backend (controller orphaned_executor))"
    by (simp_all add: orphaned_executor_def connected_def bench_backend_def demo_backend_def
        wb_active_is_running_def prog_defs)
  ultimately show ?thesis
    using dead_core_noticed [of blocking_system set orphaned_executor] orphaned_tick by (simp add: Let_def)
qed

end
