(* ===== verification/User_Interface.thy ===== *)
theory User_Interface
  imports Desktop
begin

text \<open>
  The window and the tray icon, \<open>src-tauri/src/tray.rs\<close> and the events of \<open>run\<close> in
  \<open>src-tauri/src/lib.rs\<close>. The framework's calls are the parameter \<open>toolkit\<close>; what the handlers do
  with them, the preference for the close button and the life of the process are the model.
\<close>

section \<open>The window and the tray\<close>

record window =
  win_shown :: bool
  win_minimized :: bool
  win_focused :: bool

datatype menu_entry = MenuItem string string | Separator

record tray_icon =
  tooltip :: string
  tray_menu :: "menu_entry list"
  menu_on_left_click :: bool
  tray_image :: "string option"

record toolkit =
  tk_show :: "window \<Rightarrow> window"
  tk_unminimize :: "window \<Rightarrow> window"
  tk_focus :: "window \<Rightarrow> window"
  tk_hide :: "window \<Rightarrow> window"
  tk_entry :: "menu_entry \<Rightarrow> string + unit"
  tk_menu :: "menu_entry list \<Rightarrow> string + unit"
  tk_tray :: "tray_icon \<Rightarrow> string + unit"
  tk_window_icon :: "string option"

text \<open>
  The state of the process; \<open>close_to_tray\<close> is the static \<open>CLOSE_TO_TRAY\<close>, \<open>emitted\<close> the events that
  the page was sent, \<open>exit_code\<close> what the process exits with once it does.
\<close>

record gui =
  main_window :: "window option"
  tray :: "tray_icon option"
  close_to_tray :: bool
  emitted :: "string list"
  exit_code :: "int option"

definition gui_start :: "window option \<Rightarrow> gui" where
  "gui_start w = \<lparr>main_window = w, tray = None, close_to_tray = True, emitted = [], exit_code = None\<rparr>"

section \<open>The handlers\<close>

definition toggle_item :: menu_entry where "toggle_item = MenuItem ''toggle'' ''Connect / Disconnect''"
definition show_item :: menu_entry where "show_item = MenuItem ''show'' ''Open Varmlen''"
definition quit_item :: menu_entry where "quit_item = MenuItem ''quit'' ''Quit''"

definition build_tray :: "toolkit \<Rightarrow> gui \<Rightarrow> string + gui" where
  "build_tray T g =
     rbind (tk_entry T toggle_item) (\<lambda>_.
     rbind (tk_entry T show_item) (\<lambda>_.
     rbind (tk_entry T quit_item) (\<lambda>_.
     rbind (tk_entry T Separator) (\<lambda>_.
     let entries = [toggle_item, Separator, show_item, quit_item] in
     rbind (tk_menu T entries) (\<lambda>_.
     let icon = \<lparr>tooltip = ''Varmlen'', tray_menu = entries, menu_on_left_click = False, tray_image = tk_window_icon T\<rparr> in
     rbind (tk_tray T icon) (\<lambda>_. Ok (g\<lparr>tray := Some icon\<rparr>)))))))"

definition show_main :: "toolkit \<Rightarrow> gui \<Rightarrow> gui" where
  "show_main T g = (case main_window g of
       None \<Rightarrow> g
     | Some w \<Rightarrow> g\<lparr>main_window := Some (tk_focus T (tk_unminimize T (tk_show T w)))\<rparr>)"

definition quit_app :: "gui \<Rightarrow> gui" where
  "quit_app g = g\<lparr>exit_code := Some 0\<rparr>"

definition on_menu_event :: "toolkit \<Rightarrow> string \<Rightarrow> gui \<Rightarrow> gui" where
  "on_menu_event T entry g =
     (if entry = ''toggle'' then g\<lparr>emitted := emitted g @ [''tray://toggle'']\<rparr>
      else if entry = ''show'' then show_main T g
      else if entry = ''quit'' then quit_app g
      else g)"

datatype mouse_button = LeftButton | RightButton | MiddleButton
datatype mouse_button_state = ButtonUp | ButtonDown
datatype tray_event = TrayClick mouse_button mouse_button_state | OtherTrayEvent

definition on_tray_icon_event :: "toolkit \<Rightarrow> tray_event \<Rightarrow> gui \<Rightarrow> gui" where
  "on_tray_icon_event T event g = (case event of TrayClick LeftButton ButtonUp \<Rightarrow> show_main T g | _ \<Rightarrow> g)"

definition launched_minimized :: "string list \<Rightarrow> bool" where
  "launched_minimized args \<longleftrightarrow> list_ex (\<lambda>a. a = ''--minimized'') args"

definition hide_main :: "toolkit \<Rightarrow> gui \<Rightarrow> gui" where
  "hide_main T g = g\<lparr>main_window := map_option (tk_hide T) (main_window g)\<rparr>"

definition set_close_to_tray :: "bool \<Rightarrow> gui \<Rightarrow> gui" where
  "set_close_to_tray enabled g = g\<lparr>close_to_tray := enabled\<rparr>"

text \<open>The dash between the name and the label is U+2014.\<close>

definition set_tray_status :: "string \<Rightarrow> gui \<Rightarrow> gui" where
  "set_tray_status label g = g\<lparr>tray := map_option
     (\<lambda>t. t\<lparr>tooltip := ''Varmlen '' @ map char_of [0xE2, 0x80, 0x94 :: nat] @ '' '' @ label\<rparr>) (tray g)\<rparr>"

text \<open>The single-instance plugin's callback in the process that is already there.\<close>

definition on_second_launch :: "toolkit \<Rightarrow> gui \<Rightarrow> gui" where
  "on_second_launch T g = show_main T g"

datatype window_event = CloseRequested | OtherWindowEvent

text \<open>Whether the framework's default is prevented, and the state after the handler.\<close>

definition on_window_event :: "toolkit \<Rightarrow> window_event \<Rightarrow> gui \<Rightarrow> bool \<times> gui" where
  "on_window_event T event g = (case event of
       CloseRequested \<Rightarrow> (True, if close_to_tray g then hide_main T g else quit_app g)
     | OtherWindowEvent \<Rightarrow> (False, g))"

definition app_setup :: "toolkit \<Rightarrow> string list \<Rightarrow> gui \<Rightarrow> string + gui" where
  "app_setup T args g =
     rbind (build_tray T g) (\<lambda>g. Ok (if launched_minimized args then hide_main T g else g))"

definition teardown_on_exit :: "'x \<Rightarrow> 'x" where "teardown_on_exit x = x"

text \<open>The commands of the page that do nothing on Windows.\<close>

definition read_clipboard :: "string + string" where
  "read_clipboard = Err ''use navigator.clipboard on Windows''"

definition set_status_bar :: "bool \<Rightarrow> string + unit" where "set_status_bar light = Ok ()"
definition notifications_enabled :: bool where "notifications_enabled = True"
definition open_notification_settings :: "string + unit" where "open_notification_settings = Ok ()"
definition read_legacy_storage :: "string \<rightharpoonup> string" where "read_legacy_storage = Map.empty"

section \<open>The process\<close>

text \<open>
  The application's process with its connection to the service. The framework destroys the window
  of a close request that the handler does not prevent. The page calls any command of the
  service at any time, here with any effect on the client.
\<close>

record 'x application =
  app_gui :: gui
  app_client :: "'x client"

definition deliver_window_event :: "toolkit \<Rightarrow> window_event \<Rightarrow> gui \<Rightarrow> gui" where
  "deliver_window_event T event g = (case on_window_event T event g of
       (prevented, g) \<Rightarrow> if event = CloseRequested \<and> \<not> prevented then g\<lparr>main_window := None\<rparr> else g)"

datatype gui_event =
    MenuEvent string
  | TrayEvent tray_event
  | WindowEvent window_event
  | SecondLaunch
  | SetCloseToTray bool
  | SetTrayStatus string

fun handle_event :: "toolkit \<Rightarrow> gui_event \<Rightarrow> gui \<Rightarrow> gui" where
  "handle_event T (MenuEvent entry) g = on_menu_event T entry g"
| "handle_event T (TrayEvent event) g = on_tray_icon_event T event g"
| "handle_event T (WindowEvent event) g = deliver_window_event T event g"
| "handle_event T SecondLaunch g = on_second_launch T g"
| "handle_event T (SetCloseToTray enabled) g = set_close_to_tray enabled g"
| "handle_event T (SetTrayStatus label) g = set_tray_status label g"

inductive app_step :: "toolkit \<Rightarrow> 'x application \<Rightarrow> 'x application \<Rightarrow> bool" for T where
  event: "exit_code (app_gui a) = None \<Longrightarrow> app_step T a (a\<lparr>app_gui := handle_event T e (app_gui a)\<rparr>)"
| command: "exit_code (app_gui a) = None \<Longrightarrow> app_step T a (a\<lparr>app_client := c\<rparr>)"
| exit: "exit_code (app_gui a) \<noteq> None \<Longrightarrow> app_step T a (a\<lparr>app_client := teardown_on_exit (app_client a)\<rparr>)"

inductive app_reachable :: "toolkit \<Rightarrow> 'x application \<Rightarrow> bool" for T where
  launched: "app_setup T args (gui_start (Some w)) = Ok g \<Longrightarrow> app_reachable T \<lparr>app_gui = g, app_client = c\<rparr>"
| stepped: "app_reachable T a \<Longrightarrow> app_step T a b \<Longrightarrow> app_reachable T b"

inductive_cases app_stepE: "app_step T a b"

section \<open>The window can always be brought back\<close>

text \<open>What the documented calls of a window do.\<close>

definition toolkit_law :: "toolkit \<Rightarrow> bool" where
  "toolkit_law T \<longleftrightarrow> (\<forall>w. win_shown (tk_show T w)
     \<and> \<not> win_minimized (tk_unminimize T w) \<and> win_shown (tk_unminimize T w) = win_shown w
     \<and> win_focused (tk_focus T w) \<and> win_shown (tk_focus T w) = win_shown w
     \<and> win_minimized (tk_focus T w) = win_minimized w)"

text \<open>The tray icon has the entries that the handler knows.\<close>

definition reachable_gui :: "gui \<Rightarrow> bool" where
  "reachable_gui g \<longleftrightarrow> main_window g \<noteq> None
     \<and> (\<exists>t. tray g = Some t \<and> tray_menu t = [toggle_item, Separator, show_item, quit_item])"

lemma reachable_gui_app_setup: "app_setup T args (gui_start (Some w)) = Ok g \<Longrightarrow> reachable_gui g"
  by (auto simp: app_setup_def build_tray_def rbind_Ok_iff Let_def gui_start_def hide_main_def reachable_gui_def
      split: if_splits)

lemma reachable_gui_event: "reachable_gui g \<Longrightarrow> reachable_gui (handle_event T e g)"
  by (cases e)
     (auto simp: reachable_gui_def on_menu_event_def on_tray_icon_event_def show_main_def quit_app_def
       deliver_window_event_def on_window_event_def hide_main_def on_second_launch_def set_close_to_tray_def
       set_tray_status_def split: tray_event.split mouse_button.split mouse_button_state.split window_event.split)

lemma app_reachable_gui: "app_reachable T a \<Longrightarrow> reachable_gui (app_gui a)"
  by (induction rule: app_reachable.induct)
     (auto simp: reachable_gui_app_setup reachable_gui_event elim!: app_stepE)

lemma show_main_shows:
  assumes "toolkit_law T" and "main_window g \<noteq> None"
  shows "\<exists>w. main_window (show_main T g) = Some w \<and> win_shown w \<and> \<not> win_minimized w \<and> win_focused w"
  using assms by (auto simp: show_main_def toolkit_law_def)

section \<open>Properties\<close>

text \<open>
  C36: The window is never lost: in every state that the running application can reach, hidden,
  minimised or not, closing never destroys the window, the tray icon is there with its four
  entries (Connect / Disconnect, a separator, Open Varmlen, Quit), a click on it, its entry \<open>show\<close> and a
  second launch each bring the window to the front, and its entry \<open>quit\<close> ends the application.\<close>

theorem window_recoverable:
  assumes "app_reachable T a" and "toolkit_law T" and "exit_code (app_gui a) = None"
    and "e \<in> {MenuEvent ''show'', TrayEvent (TrayClick LeftButton ButtonUp), SecondLaunch}"
  shows "\<exists>b w. app_step T a b \<and> app_gui b = handle_event T e (app_gui a) \<and> main_window (app_gui b) = Some w
     \<and> win_shown w \<and> \<not> win_minimized w \<and> win_focused w
     \<and> (\<exists>t. tray (app_gui a) = Some t \<and> tray_menu t = [MenuItem ''toggle'' ''Connect / Disconnect'', Separator,
         MenuItem ''show'' ''Open Varmlen'', MenuItem ''quit'' ''Quit''])
     \<and> exit_code (handle_event T (MenuEvent ''quit'') (app_gui a)) = Some 0"
proof -
  have g: "reachable_gui (app_gui a)" using assms(1) by (rule app_reachable_gui)
  have "handle_event T e (app_gui a) = show_main T (app_gui a)"
    using assms(4) by (auto simp: on_menu_event_def on_tray_icon_event_def on_second_launch_def)
  then show ?thesis
    using app_step.event [where T = T and a = a and e = e, OF assms(3)] g show_main_shows [OF assms(2), of "app_gui a"]
    by (intro exI [of _ "a\<lparr>app_gui := handle_event T e (app_gui a)\<rparr>"])
      (auto simp: reachable_gui_def toggle_item_def show_item_def quit_item_def on_menu_event_def quit_app_def)
qed

text \<open>
  The tunnel outlives the window: closing the window and every choice of the tray's menu,
  quitting included, and the exit of the process leave the service and everything it owns as
  they are; the process ends only through the entry \<open>quit\<close>, or through the close button when the
  user turned hiding off.\<close>

theorem tunnel_outlives_window:
  assumes "app_step T a b" and "app_client b \<noteq> app_client a \<or> exit_code (app_gui b) \<noteq> exit_code (app_gui a)"
  shows "exit_code (app_gui a) = None
    \<and> (app_client b \<noteq> app_client a \<longrightarrow> app_gui b = app_gui a)
    \<and> (exit_code (app_gui b) \<noteq> None \<longrightarrow> app_client b = app_client a \<and> exit_code (app_gui b) = Some 0
         \<and> (app_gui b = on_menu_event T ''quit'' (app_gui a)
            \<or> \<not> close_to_tray (app_gui a) \<and> app_gui b = deliver_window_event T CloseRequested (app_gui a)))"
  using assms(1)
proof (cases rule: app_step.cases)
  case (event e)
  then show ?thesis
    using assms(2)
    by (cases e)
       (auto simp: on_menu_event_def on_tray_icon_event_def show_main_def quit_app_def deliver_window_event_def
         on_window_event_def hide_main_def on_second_launch_def set_close_to_tray_def set_tray_status_def
         split: option.splits tray_event.splits mouse_button.splits mouse_button_state.splits window_event.splits if_splits)
next
  case (exit)
  then show ?thesis using assms(2) by (simp add: teardown_on_exit_def)
qed (use assms(2) in auto)

section \<open>A concrete session\<close>

definition plain_toolkit :: toolkit where
  "plain_toolkit = \<lparr>tk_show = win_shown_update (\<lambda>_. True), tk_unminimize = win_minimized_update (\<lambda>_. False),
     tk_focus = win_focused_update (\<lambda>_. True), tk_hide = win_shown_update (\<lambda>_. False),
     tk_entry = (\<lambda>_. Ok ()), tk_menu = (\<lambda>_. Ok ()), tk_tray = (\<lambda>_. Ok ()), tk_window_icon = None\<rparr>"

text \<open>The application after its launch, and after the user closed the window.\<close>

definition launched_gui :: gui where
  "launched_gui = (gui_start (Some \<lparr>win_shown = True, win_minimized = False, win_focused = True\<rparr>))\<lparr>tray := Some
     \<lparr>tooltip = ''Varmlen'', tray_menu = [toggle_item, Separator, show_item, quit_item],
      menu_on_left_click = False, tray_image = None\<rparr>\<rparr>"

definition closed_gui :: gui where
  "closed_gui = handle_event plain_toolkit (WindowEvent CloseRequested) launched_gui"

definition session :: "gui \<Rightarrow> nat application" where
  "session g = \<lparr>app_gui = g, app_client = \<lparr>next_operation_id = 0, service = 7\<rparr>\<rparr>"

lemma launched_setup:
  "app_setup plain_toolkit [''varmlen.exe''] (gui_start (Some \<lparr>win_shown = True, win_minimized = False, win_focused = True\<rparr>))
    = Ok launched_gui"
  by code_simp

lemma session_reachable: "app_reachable plain_toolkit (session closed_gui)"
proof -
  have "app_reachable plain_toolkit (session launched_gui)"
    unfolding session_def by (rule app_reachable.launched [OF launched_setup])
  moreover have "app_step plain_toolkit (session launched_gui) (session closed_gui)"
    using app_step.event [of "session launched_gui" plain_toolkit "WindowEvent CloseRequested"]
    by (simp add: session_def closed_gui_def launched_gui_def gui_start_def)
  ultimately show ?thesis by (rule app_reachable.stepped)
qed

theorem window_recoverable_witness:
  "win_shown (the (main_window closed_gui)) = False
   \<and> (\<exists>b w. app_step plain_toolkit (session closed_gui) b
     \<and> app_gui b = handle_event plain_toolkit (MenuEvent ''show'') (app_gui (session closed_gui))
     \<and> main_window (app_gui b) = Some w \<and> win_shown w \<and> \<not> win_minimized w \<and> win_focused w
     \<and> (\<exists>t. tray (app_gui (session closed_gui)) = Some t \<and> tray_menu t = [MenuItem ''toggle'' ''Connect / Disconnect'', Separator,
         MenuItem ''show'' ''Open Varmlen'', MenuItem ''quit'' ''Quit''])
     \<and> exit_code (handle_event plain_toolkit (MenuEvent ''quit'') (app_gui (session closed_gui))) = Some 0)"
proof (rule conjI)
  show "win_shown (the (main_window closed_gui)) = False" by code_simp
  have "exit_code closed_gui = None" by code_simp
  then show "\<exists>b w. app_step plain_toolkit (session closed_gui) b
     \<and> app_gui b = handle_event plain_toolkit (MenuEvent ''show'') (app_gui (session closed_gui))
     \<and> main_window (app_gui b) = Some w \<and> win_shown w \<and> \<not> win_minimized w \<and> win_focused w
     \<and> (\<exists>t. tray (app_gui (session closed_gui)) = Some t \<and> tray_menu t = [MenuItem ''toggle'' ''Connect / Disconnect'', Separator,
         MenuItem ''show'' ''Open Varmlen'', MenuItem ''quit'' ''Quit''])
     \<and> exit_code (handle_event plain_toolkit (MenuEvent ''quit'') (app_gui (session closed_gui))) = Some 0"
    by (intro window_recoverable [OF session_reachable]) (simp_all add: toolkit_law_def plain_toolkit_def session_def)
qed

theorem tunnel_outlives_window_witness:
  "app_client (session (quit_app closed_gui)) = app_client (session closed_gui)
   \<and> exit_code (app_gui (session (quit_app closed_gui))) = Some 0"
proof -
  have running: "exit_code closed_gui = None" by code_simp
  have "app_step plain_toolkit (session closed_gui) (session (quit_app closed_gui))"
    using app_step.event [of "session closed_gui" plain_toolkit "MenuEvent ''quit''"] running
    by (simp add: session_def on_menu_event_def)
  from tunnel_outlives_window [OF this] running show ?thesis by (simp add: session_def quit_app_def)
qed

end
