(* ===== verification/Service_Process.thy ===== *)
theory Service_Process
  imports Pipe_Server
begin

text \<open>
  The service as a process: \<open>service/src/main.rs\<close> with its three commands, and the life of the
  service under the service manager, \<open>run_service\<close> of \<open>windows_service.rs\<close> with its control handler.
\<close>

section \<open>Commands\<close>

record process_end =
  exit_status :: nat
  printed :: "string list"
  complaints :: "string list"

definition ends_well :: "string list \<Rightarrow> process_end" where
  "ends_well ls = \<lparr>exit_status = 0, printed = ls, complaints = []\<rparr>"

definition fails :: "string \<Rightarrow> process_end" where
  "fails message = \<lparr>exit_status = 1, printed = [], complaints = [message]\<rparr>"

fun debug_phase :: "connection_phase \<Rightarrow> string" where
  "debug_phase Disconnected = ''Disconnected''"
| "debug_phase Validating = ''Validating''"
| "debug_phase Holding = ''Holding''"
| "debug_phase Starting = ''Starting''"
| "debug_phase Connected = ''Connected''"
| "debug_phase Stopping = ''Stopping''"
| "debug_phase Blocked = ''Blocked''"
| "debug_phase Restoring = ''Restoring''"
| "debug_phase BlockedError = ''BlockedError''"

text \<open>What the process is given: its program's path, the environment, a runtime, the pipe, the dispatcher.\<close>

record process_input =
  argument :: "string option"
  program_path :: "io_error + string"
  program_data_dir :: "string option"
  tokio_runtime :: "io_error + unit"
  service_pipe :: service_connection
  dispatcher :: "string + unit"

definition main_command ::
  "'x system \<Rightarrow> protocol_serde \<Rightarrow> process_input \<Rightarrow> 'x world \<Rightarrow> process_end \<times> 'x world" where
  "main_command Y sd i w =
     (if argument i = Some ''--cleanup'' then
        case cleanup Y (program_path i) (program_data_dir i) w of
          (Err e, w') \<Rightarrow> (fails (''Varmlen cleanup failed: '' @ io_message e), w')
        | (Ok _, w') \<Rightarrow> (ends_well [], w')
      else if argument i = Some ''--health'' then
        (case rbind (tokio_runtime i) (\<lambda>_. service_health_check sd (service_pipe i)) of
           Ok s \<Rightarrow> ends_well [''VarmlenService v'' @ dec (unat PROTOCOL_VERSION) @ '' ready ('' @ debug_phase (phase s) @ '')'']
         | Err e \<Rightarrow> fails (''Varmlen service health check failed: '' @ io_message e), w)
      else
        (case dispatcher i of
           Err e \<Rightarrow> fails (''VarmlenService failed: '' @ e)
         | Ok _ \<Rightarrow> ends_well [], w))"

section \<open>Controls\<close>

datatype service_control = Interrogate | Stop_Control | Shutdown_Control | Other_Control

datatype handler_result = NoError | NotImplemented

text \<open>The answer to a control, and the value of the shutdown channel after it.\<close>

fun event_handler :: "service_control \<Rightarrow> bool \<Rightarrow> handler_result \<times> bool" where
  "event_handler Interrogate stop = (NoError, stop)"
| "event_handler Stop_Control stop = (NoError, True)"
| "event_handler Shutdown_Control stop = (NoError, True)"
| "event_handler Other_Control stop = (NotImplemented, stop)"

text \<open>
  The process while it serves: the host, the shutdown channel, the controls it got, and the
  result of \<open>PipeHost::run\<close> once it has returned. The host works in any order with the controls;
  it stops when the channel says so, and fails when a pipe cannot be created or connected; either
  way the clients and the monitor are aborted where they are, and the executor is left as \<open>x\<close>.
\<close>

record 'x process =
  host :: "'x host"
  stop_requested :: bool
  controls :: "service_control list"
  host_result :: "(io_error + unit) option"

definition closed_host :: "'x runtime_executor \<Rightarrow> 'x host \<Rightarrow> 'x host" where
  "closed_host x h = h\<lparr>host_clients := [], host_listening := False, host_executor := x\<rparr>"

inductive process_step ::
  "'x system \<Rightarrow> 'x web \<Rightarrow> protocol_serde \<Rightarrow> 'x process \<Rightarrow> 'x process \<Rightarrow> bool" for Y W sd where
  control: "process_step Y W sd p
     (p\<lparr>stop_requested := snd (event_handler c (stop_requested p)), controls := c # controls p\<rparr>)"
| work: "host_result p = None \<Longrightarrow> host_step Y W sd (host p) h \<Longrightarrow> host_listening h
     \<Longrightarrow> process_step Y W sd p (p\<lparr>host := h\<rparr>)"
| stop: "host_result p = None \<Longrightarrow> stop_requested p
     \<Longrightarrow> process_step Y W sd p (p\<lparr>host := closed_host x (host p), host_result := Some (Ok ())\<rparr>)"
| failure: "host_result p = None
     \<Longrightarrow> process_step Y W sd p (p\<lparr>host := closed_host x (host p), host_result := Some (Err e)\<rparr>)"

inductive_cases process_stepE: "process_step Y W sd p q"

definition started :: "'x host \<Rightarrow> 'x process" where
  "started h = \<lparr>host = h, stop_requested = False, controls = [], host_result = None\<rparr>"

inductive process_reachable ::
  "'x system \<Rightarrow> 'x web \<Rightarrow> protocol_serde \<Rightarrow> 'x process \<Rightarrow> bool" for Y W sd where
  begins: "pipe_host_open Y current_exe program_data listener w = Ok h \<Longrightarrow> process_reachable Y W sd (started h)"
| steps: "process_reachable Y W sd p \<Longrightarrow> process_step Y W sd p q \<Longrightarrow> process_reachable Y W sd q"

section \<open>Lemmas\<close>

lemma closed_host_step: "host_listening h \<Longrightarrow> host_step Y W sd h (closed_host x h)"
  unfolding closed_host_def by (rule host_step.shutdown)

lemma closed_host_simps [simp]:
  "host_clients (closed_host x h) = []" "\<not> host_listening (closed_host x h)"
  "host_executor (closed_host x h) = x"
  by (simp_all add: closed_host_def)

definition sound_process :: "'x process \<Rightarrow> bool" where
  "sound_process p \<longleftrightarrow>
     (stop_requested p \<longleftrightarrow> Stop_Control \<in> set (controls p) \<or> Shutdown_Control \<in> set (controls p))
     \<and> (host_listening (host p) \<longleftrightarrow> host_result p = None)
     \<and> (host_result p = Some (Ok ()) \<longrightarrow> stop_requested p)"

lemma process_step_sound:
  assumes "process_step Y W sd p q" and "sound_process p"
  shows "sound_process q"
  using assms
proof (cases rule: process_step.cases)
  case (control c)
  then show ?thesis using assms(2) by (cases c) (auto simp: sound_process_def)
qed (auto simp: sound_process_def)

lemma process_sound: "process_reachable Y W sd p \<Longrightarrow> sound_process p"
proof (induction rule: process_reachable.induct)
  case (begins e d l w h)
  then show ?case by (simp add: started_def sound_process_def opened_listens)
next
  case (steps p q)
  then show ?case by (blast intro: process_step_sound)
qed

lemma process_host_reachable: "process_reachable Y W sd p \<Longrightarrow> host_reachable Y W sd (host p)"
proof (induction rule: process_reachable.induct)
  case (begins e d l w h)
  then show ?case by (simp add: started_def host_reachable.opened)
next
  case (steps p q)
  from process_sound [OF steps.hyps(1)] have "host_listening (host p) \<longleftrightarrow> host_result p = None"
    by (simp add: sound_process_def)
  with steps.hyps(2) steps.IH show ?case
    by cases (auto intro: host_reachable.stepped closed_host_step)
qed

section \<open>Properties\<close>

text \<open>
  The service only ends with success when it was told to stop: in every state the process can
  reach, the host listens exactly until its result is there, and the result is a success only
  after a stop or shutdown control.
\<close>

theorem service_serves_until_told:
  assumes "process_reachable Y W sd p"
  shows "(host_listening (host p) \<longleftrightarrow> host_result p = None)
     \<and> (host_result p = Some (Ok ()) \<longrightarrow> Stop_Control \<in> set (controls p) \<or> Shutdown_Control \<in> set (controls p))"
  using process_sound [OF assms] by (auto simp: sound_process_def)

text \<open>
  Stopping the service is honoured: from every state in which the process serves, the stop
  control is answered, after it the host can end, then no client is left, and the last report to
  the service manager is a clean stop. When nothing is in flight, the executor with the journal
  and the routes can be the one before the control: the stop itself clears nothing.
\<close>

theorem stop_honoured:
  assumes "process_reachable Y W sd p" and "host_result p = None"
  shows "\<exists>q r. process_step Y W sd p q \<and> process_step Y W sd q r
     \<and> fst (event_handler Stop_Control (stop_requested p)) = NoError
     \<and> host_result r = Some (Ok ()) \<and> host_executor (host r) = host_executor (host p)
     \<and> host_clients (host r) = [] \<and> \<not> host_listening (host r)
     \<and> host_reachable Y W sd (host r)
     \<and> last (fst (run_service (\<lambda>_. Ok ()) (Ok (host p)) (\<lambda>_. the (host_result r)))) = stopped_status True"
proof -
  let ?q = "p\<lparr>stop_requested := True, controls := Stop_Control # controls p\<rparr>"
  let ?r = "?q\<lparr>host := closed_host (host_executor (host p)) (host ?q), host_result := Some (Ok ())\<rparr>"
  have q: "process_step Y W sd p ?q" using process_step.control [of Y W sd p Stop_Control] by simp
  moreover have r: "process_step Y W sd ?q ?r" by (rule process_step.stop) (simp_all add: assms(2))
  moreover have "process_reachable Y W sd ?r"
    by (rule process_reachable.steps [OF process_reachable.steps [OF assms(1) q] r])
  ultimately show ?thesis
    by (intro exI [of _ ?q] exI [of _ ?r]) (auto dest: process_host_reachable simp: run_service_def is_ok_def)
qed

text \<open>
  What the exit codes mean to the installer: \<open>--cleanup\<close> ends with 0 only when the network is open
  and the journal gone, \<open>--health\<close> only when the service has answered with its state, and
  a failure always exits with 1 and says why.
\<close>

theorem exit_codes:
  assumes "routes_law (os Y) rt" and "main_command Y sd i w = (e, w')"
  shows "(exit_status e = 0 \<longleftrightarrow> complaints e = [])
     \<and> (argument i = Some ''--cleanup'' \<and> exit_status e = 0 \<longrightarrow>
          no_fallback_routes rt w' \<and> (\<exists>l. service_layout (program_path i) (program_data_dir i) = Ok l
            \<and> file_at (desired_state l) (disk w') = None))
     \<and> (argument i = Some ''--health'' \<longrightarrow> w' = w \<and> (exit_status e = 0 \<longrightarrow>
          (\<exists>bs rest response s. read_payload (arrives (service_pipe i)) = (Ok bs, rest)
             \<and> read_response sd bs = Ok response \<and> resp_result response = Ok (RState s)
             \<and> printed e = [''VarmlenService v3 ready ('' @ debug_phase (phase s) @ '')''])))"
proof -
  have codes: "(exit_status e = 0 \<longleftrightarrow> complaints e = [])"
    using assms(2) by (auto simp: main_command_def ends_well_def fails_def split: if_splits prod.splits sum.splits)
  have cleaned: "no_fallback_routes rt w' \<and> (\<exists>l. service_layout (program_path i) (program_data_dir i) = Ok l
      \<and> file_at (desired_state l) (disk w') = None)"
    if "argument i = Some ''--cleanup''" and "exit_status e = 0"
  proof -
    have "cleanup Y (program_path i) (program_data_dir i) w = (Ok (), w')"
      using assms(2) that by (auto simp: main_command_def fails_def split: prod.splits sum.splits)
    from wp_OkD [OF cleanup_opens_network [OF assms(1)] this] show ?thesis .
  qed
  have healthy: "w' = w \<and> (exit_status e = 0 \<longrightarrow>
      (\<exists>bs rest response s. read_payload (arrives (service_pipe i)) = (Ok bs, rest)
         \<and> read_response sd bs = Ok response \<and> resp_result response = Ok (RState s)
         \<and> printed e = [''VarmlenService v3 ready ('' @ debug_phase (phase s) @ '')'']))"
    if "argument i = Some ''--health''"
  proof (cases "rbind (tokio_runtime i) (\<lambda>_. service_health_check sd (service_pipe i))")
    case (Inl a)
    then show ?thesis using assms(2) that by (auto simp: main_command_def fails_def)
  next
    case (Inr s)
    have "dec (unat PROTOCOL_VERSION) = ''3''" by code_simp
    with assms(2) that Inr
    have "w' = w" and line: "printed e = [''VarmlenService v3 ready ('' @ debug_phase (phase s) @ '')'']"
      by (auto simp: main_command_def ends_well_def)
    moreover from Inr have "service_health_check sd (service_pipe i) = Ok s" by (auto simp: rbind_Ok_iff)
    from health_check_sound [OF this] line have "\<exists>bs rest response s. read_payload (arrives (service_pipe i)) = (Ok bs, rest)
         \<and> read_response sd bs = Ok response \<and> resp_result response = Ok (RState s)
         \<and> printed e = [''VarmlenService v3 ready ('' @ debug_phase (phase s) @ '')'']" by blast
    ultimately show ?thesis by blast
  qed
  show ?thesis using codes cleaned healthy by blast
qed

end
