(* ===== verification/Spec2Isabelle.thy ===== *)
theory Spec2Isabelle
  imports Installed_Apps Subscription_Fetch Restart User_Interface Service_Process
begin

text \<open>
  Varmlen Client for Windows, a VPN client around the Xray core.

  The program has two processes. The desktop application (\<open>src-tauri/src\<close>, unprivileged) imports
  locations, builds Xray configurations and sends commands. The service (\<open>service/src\<close>, under
  \<open>LocalSystem\<close>) owns the core, the tunnel, the kill-switch routes and an encrypted journal of the
  desired state. They talk over a named pipe in frames of at most 1 MiB, with the messages of
  \<open>crates/varmlen-protocol\<close>; \<open>crates/varmlen-service-core\<close> has what does not depend on Windows: the
  frames, the request handler, the connection controller and the checks of a configuration.
  All paths below are relative to \<open>src/\<close>. A successful connection runs through the whole
  development: \<open>vpn_connect\<close> (\<open>Desktop\<close>) checks the location and builds two configurations
  (\<open>Xray_Config\<close>), \<open>call_service\<close> (\<open>Service_Client\<close>) writes a frame (\<open>Framing\<close>), \<open>serve_client\<close>
  (\<open>Pipe_Server\<close>) checks who asks (\<open>Pipe_Policy\<close>) and the request (\<open>Protocol\<close>), \<open>execute\<close>
  (\<open>Executor\<close>) runs the controller (\<open>Controller\<close>) on the backend (\<open>Backend\<close>), which checks the
  configurations (\<open>Runtime\<close>), starts the core (\<open>Windows_Process\<close>), keeps the journal
  (\<open>Windows_State\<close>) and the routes (\<open>Routes\<close>).

  Conventions. \<open>Prelude\<close> defines Rust's \<open>Result\<close> as a sum (\<open>Ok\<close> is the right side, \<open>Err\<close> the left)
  and effectful code as \<open>('s, 'e, 'a) prog\<close>, a function from a state to a result and the next
  state; the state survives an error, as it does in the source. \<open>sbind\<close>, \<open>scatch\<close>, \<open>sattempt\<close>,
  \<open>sfinally\<close> and \<open>sfor_each\<close> are \<open>?\<close>, an error branch, a result that is inspected, a guard dropped
  at the end and a loop. \<open>wp m Q E s\<close> says that a run of \<open>m\<close> from \<open>s\<close> ends with \<open>Q\<close> when it
  succeeds and with \<open>E\<close> when it fails; every program of the development is total, so this includes
  that it ends. Strings are lists of UTF-8 bytes as characters (\<open>Rust_Strings\<close> has the part of
  \<open>str\<close> that the sources use), machine integers are words, JSON is \<open>serde_json::Value\<close> as a
  datatype (\<open>Json\<close>), files are an association list of paths (\<open>File_System\<close>).

  The theories and the code they model:

  \<^item> \<open>Protocol\<close>: \<open>crates/varmlen-protocol/src/lib.rs\<close>. Messages and bounds; \<open>validate_request\<close> accepts
    exactly the requests within them.
  \<^item> \<open>Framing\<close>: \<open>crates/varmlen-service-core/src/framing.rs\<close>, \<open>handler.rs\<close>. Round trip of a frame;
    what reaches the executor. The locale \<open>tunnel_executor\<close> is the contract that the application
    relies on; \<open>Executor\<close> interprets it, \<open>Service_Client\<close> proves the client's side in it.
  \<^item> \<open>Controller\<close>: \<open>crates/varmlen-service-core/src/controller.rs\<close>. The trait \<open>Backend\<close> is the record
    \<open>backend_ops\<close>; \<open>connect\<close>, \<open>disconnect\<close>, \<open>audit_runtime\<close> as steps (\<open>ctl_step\<close>), their results, the
    order of their effects, and the locale \<open>kill_switch_backend\<close>: what a backend must promise for
    the kill switch to hold, which \<open>Backend\<close> interprets.
  \<^item> \<open>Runtime\<close>: \<open>crates/varmlen-service-core/src/runtime.rs\<close>. What the service accepts as a
    configuration, equal to a readable description of the accepted trees, and the rewriting of
    the outbounds' interface.
  \<^item> \<open>Pipe_Policy\<close>, \<open>Process_Plan\<close>, \<open>State_Record\<close>, \<open>Log_Store\<close>, \<open>Core_Manager\<close>: the files of \<open>service/src\<close>
    of the same names.
  \<^item> \<open>Socket_Address\<close>, \<open>Windows_Platform\<close>, \<open>Adapter\<close>, \<open>Windows_State\<close>, \<open>Routes\<close>, \<open>Windows_Process\<close>, \<open>Backend\<close>: the operating
    system as the record \<open>platform\<close>, and \<open>service/src/windows_adapter.rs\<close>, \<open>windows_state.rs\<close>,
    \<open>windows_routes.rs\<close>, \<open>windows_process.rs\<close>, \<open>windows_backend.rs\<close>. The law of \<open>netsh\<close> is
    \<open>netsh_law\<close>; under it the locale \<open>route_killswitch\<close> gives that installing closes the network.
    Socket addresses are the bytes that Windows reads and writes; under \<open>job_law\<close> every core that is
    started dies with the service.
  \<^item> \<open>Executor\<close>, \<open>Pipe_Server\<close>: \<open>service/src/pipe.rs\<close> and the reports of \<open>windows_service.rs\<close>.
    Recovery after a restart, the commands, one client's exchange, and the accept loop with the
    monitor as the relation \<open>host_step\<close>, whose reachable states keep the controller consistent.
  \<^item> \<open>Service_Process\<close>: \<open>service/src/main.rs\<close> and the control handler of \<open>windows_service.rs\<close>. The exit
    codes of the three commands, and the host with the shutdown channel as the relation
    \<open>process_step\<close>: the service serves until it is told to stop, and then leaves the network as it is.
  \<^item> \<open>Restart\<close>: what the parts of the service promise over time. The locale \<open>journal_backend\<close> states what
    a backend's journal asks for once a policy is committed, a hold released or the network cleared;
    with \<open>Backend\<close> as its interpretation, a kill switch survives any restart, and the monitor notices
    a core that died.
  \<^item> \<open>Vless_Server\<close>, \<open>Xray_Config\<close>, \<open>Xray_Safety\<close>, \<open>Xray_Routing\<close>: \<open>src-tauri/src/xray.rs\<close>, \<open>split.rs\<close> and
    the location of \<open>subscription.rs\<close>. What is generated is accepted by the service, verifies TLS,
    names existing targets and routes as the split selection says.
  \<^item> \<open>Net_Text\<close>, \<open>Share_Links\<close>, \<open>Json_Locations\<close>, \<open>Subscription\<close>, \<open>Location_Properties\<close>:
    \<open>src-tauri/src/subscription.rs\<close>. Which locations the parsers give and that reading a generated
    outbound gives the location back.
  \<^item> \<open>Address_Guard\<close>, \<open>Subscription_Fetch\<close>: the guarded download of \<open>src-tauri/src/lib.rs\<close>.
  \<^item> \<open>Service_Client\<close>, \<open>Desktop\<close>, \<open>Installed_Apps\<close>: \<open>src-tauri/src/service_client.rs\<close> and \<open>core.rs\<close>,
    \<open>vpn.rs\<close>, \<open>apps.rs\<close> with the autostart of \<open>tray.rs\<close>.
  \<^item> \<open>Version_Resource\<close>: the names that \<open>apps.rs\<close> reads from version resources, with UTF-16 in both
    directions; the Win32 calls are the record \<open>version_api\<close>.
  \<^item> \<open>User_Interface\<close>: \<open>src-tauri/src/tray.rs\<close>, \<open>storage.rs\<close> and the window and tray events of \<open>lib.rs\<close>. The
    framework is the record \<open>toolkit\<close>; a hidden window can always be brought back.

  The interfaces are locales with an interpretation on the program's own definitions: between the
  application and the service (\<open>tunnel_executor\<close>), the controller and its backend
  (\<open>kill_switch_backend\<close>), the backend and the routes (\<open>route_killswitch\<close>), and the controller
  and its journal (\<open>journal_backend\<close>).

  Below, the two commands of the button are followed from the application to the routes.

  Bounds and fuel. A redirect is followed at most five times, a document is searched to depth
  six and a game directory to four levels and 512 files, as in the sources, so these are plain
  recursions. Waiting loops are bounded by their deadline or attempt count. Two loops of the
  source have no bound of their own, the adapter table that keeps growing and ports that are
  reserved twice; they take the platform's \<open>loop_fuel\<close>, and \<open>adapter_table_fuel\<close> says that more of it
  changes nothing once the loop has ended. The wait for the proxy is bounded by a clock: it has 101
  rounds, which are enough when the clock advances by the time that was slept (\<open>socks_loop_fuel\<close>,
  \<open>route_wait_terminates\<close>); the branch without rounds left is the clock that stands still.

  Parameters, because their code is not in the repository: Windows (\<open>platform\<close>), \<open>netsh\<close>, the Xray
  core, serde's generated readers and writers (\<open>protocol_serde\<close>, \<open>state_serde\<close>, \<open>json_text\<close>), the
  crates url, base64, percent-encoding, sha2, zip and reqwest (\<open>codecs\<close> and the two records of the
  web), the shell and the registry of the application. What a theorem needs of them is a named
  hypothesis, with a concrete instance in its witness.

  Not modelled, because nothing of it is the program's own logic: the list of plugins and the
  registration of commands with the Tauri framework, the file dialog and the reader of icons
  (Win32 calls whose result is shown as it is), the wrappers around security descriptors and SIDs
  in \<open>pipe.rs\<close> and around DPAPI's buffers in \<open>windows_state.rs\<close> (\<open>platform\<close> has the calls), the stubs
  for other systems, serde's derives, Unicode case tables outside ASCII, and the Svelte front end.
\<close>

section \<open>The commands of the application, end to end\<close>


text \<open>
  C13: Disconnecting, end to end: when \<open>vpn_disconnect\<close> of the application reports success, the
  service is disconnected, the user interface shows it, and every split-default route that the
  kill switch had put on the loopback interface is gone.\<close>

theorem vpn_disconnect_end_to_end:
  assumes "routes_law (os Y) rt" and "authorized_token token user"
    and "\<forall>v. serde_law (write_request sd) (read_request sd) v"
    and "\<forall>v. serde_law (write_response sd) (read_response sd) v"
  shows "wp (vpn_disconnect sd (service_peer sd (execute Y W) user token))
    (\<lambda>shown c'. hr_state shown = ''disconnected'' \<and> shown = response (state (controller (service c')))
       \<and> phase (state (controller (service c'))) = Disconnected
       \<and> no_fallback_routes rt (machine (backend (controller (service c'))))) (\<lambda>_ _. True) c"
  unfolding vpn_disconnect_def wp_sbind wp_sret
  by (rule wp_mono [OF ex.client_disconnects [OF assms(1,2) assms(3) [THEN spec] assms(4) [THEN spec]]])
     (auto simp: response_def)

section \<open>Concrete runs\<close>

text \<open>A serialiser for two requests and their answers; nothing else can be written.\<close>

definition two_message_serde ::
  "request_envelope \<Rightarrow> request_envelope \<Rightarrow> response_envelope \<Rightarrow> response_envelope \<Rightarrow> protocol_serde" where
  "two_message_serde q1 q2 a1 a2 = \<lparr>
     read_request = (\<lambda>b. if b = [1] then Ok q1 else if b = [2] then Ok q2 else Err []),
     write_request = (\<lambda>q. if q = q1 then Ok [1] else if q = q2 then Ok [2] else Err []),
     read_response = (\<lambda>b. if b = [1] then Ok a1 else if b = [2] then Ok a2 else Err []),
     write_response = (\<lambda>a. if a = a1 then Ok [1] else if a = a2 then Ok [2] else Err [])\<rparr>"

lemma two_message_law:
  "serde_law (write_request (two_message_serde q1 q2 a1 a2)) (read_request (two_message_serde q1 q2 a1 a2)) q"
  "serde_law (write_response (two_message_serde q1 q2 a1 a2)) (read_response (two_message_serde q1 q2 a1 a2)) a"
  by (simp_all add: two_message_serde_def serde_law_def)

text \<open>The messages of a connection and those of a disconnection.\<close>

definition connecting_serde :: protocol_serde where
  "connecting_serde = two_message_serde
     \<lparr>req_version = PROTOCOL_VERSION, req_operation_id = 0, req_command = Core Active\<rparr>
     \<lparr>req_version = PROTOCOL_VERSION, req_operation_id = 1, req_command = Connect (demo_request True)\<rparr>
     \<lparr>resp_version = PROTOCOL_VERSION, resp_operation_id = 0, resp_result = Ok (RCoreActive ''26.3.27'')\<rparr>
     \<lparr>resp_version = PROTOCOL_VERSION, resp_operation_id = 1,
       resp_result = Ok (RState (connected_state 1 (demo_request True)))\<rparr>"

definition leaving_serde :: protocol_serde where
  "leaving_serde = two_message_serde
     \<lparr>req_version = PROTOCOL_VERSION, req_operation_id = 0, req_command = Status\<rparr>
     \<lparr>req_version = PROTOCOL_VERSION, req_operation_id = 0, req_command = Disconnect False\<rparr>
     \<lparr>resp_version = PROTOCOL_VERSION, resp_operation_id = 0, resp_result = Ok (RState disconnected_state)\<rparr>
     \<lparr>resp_version = PROTOCOL_VERSION, resp_operation_id = 0, resp_result = Ok (RState (settled_state 0 False))\<rparr>"

definition demo_peer :: "protocol_serde \<Rightarrow> bench runtime_executor peer" where
  "demo_peer sd = service_peer sd (execute demo_system sample_web) (InstalledUserSid ''S-1-5-21-8'') (Ok ''S-1-5-18'')"

definition demo_client :: "bench runtime_executor client" where
  "demo_client = \<lparr>next_operation_id = 0, service = demo_executor\<rparr>"


theorem vpn_disconnect_end_to_end_witness:
  "wp (vpn_disconnect leaving_serde (demo_peer leaving_serde))
    (\<lambda>shown c'. hr_state shown = ''disconnected'' \<and> shown = response (state (controller (service c')))
       \<and> phase (state (controller (service c'))) = Disconnected
       \<and> no_fallback_routes set (machine (backend (controller (service c'))))) (\<lambda>_ _. True) demo_client"
  unfolding demo_peer_def
  by (rule vpn_disconnect_end_to_end [OF demo_law system_token])
     (simp_all add: leaving_serde_def two_message_law)

end
